(* ===== verification/Prelude.thy ===== *)
theory Prelude
  imports Main "HOL-Library.Word" "HOL-Library.Multiset" "HOL-Library.List_Lexorder"
begin

text \<open>
  The vocabulary every component shares.

  \<^item> Text. A Python \<open>str\<close> is a sequence of code points, so \<open>pystr\<close> is a list of
    natural numbers; \<open>lit\<close> turns an ASCII literal of the source into one. Python
    \<open>bytes\<close> are lists of \<open>8 word\<close>. The \<open>str\<close> methods the source calls
    (\<open>startswith\<close>, \<open>strip\<close>, \<open>partition\<close>, \<open>join\<close>, ...) are defined
    here on lists.
  \<^item> Errors. A call that may raise returns \<open>'e + 'a\<close>, \<open>Inl\<close> for the exception;
    \<open>rbind\<close> sequences two such calls and \<open>map_res\<close> runs one over a list, stopping at
    the first exception as a Python loop or comprehension does.
  \<^item> Effects. A call that talks to the network returns \<open>('e + 'a) \<times> 's\<close> from a state
    \<open>'s\<close> (\<open>eff\<close>); \<open>ebind\<close> sequences, \<open>try_except\<close> is the handler.

  The collections \<open>res_simps\<close> and \<open>eff_simps\<close> unfold the two sequencing operators.
\<close>

named_theorems res_simps "equations of the exception-passing combinators"
named_theorems eff_simps "equations of the effect combinators"

section \<open>Text and bytes\<close>

type_synonym byte = "8 word"
type_synonym bytes = "byte list"
type_synonym pystr = "nat list"

definition lit :: "string \<Rightarrow> pystr" where
  "lit s = map of_char s"

lemma lit_inject [simp]: "lit s = lit t \<longleftrightarrow> s = t"
  unfolding lit_def by (rule inj_map_eq_map) (rule inj_of_char)

lemma lit_eq_Nil [simp]: "lit s = [] \<longleftrightarrow> s = []" "[] = lit s \<longleftrightarrow> s = []"
  by (auto simp: lit_def)

lemma length_lit [simp]: "length (lit s) = length s"
  by (simp add: lit_def)

lemma lit_append: "lit (s @ t) = lit s @ lit t"
  by (simp add: lit_def)

lemma lit_less_256: "c \<in> set (lit s) \<Longrightarrow> c < 256"
  by (auto simp: lit_def)

definition startswith :: "pystr \<Rightarrow> pystr \<Rightarrow> bool" where
  "startswith p s \<longleftrightarrow> take (length p) s = p"

definition endswith :: "pystr \<Rightarrow> pystr \<Rightarrow> bool" where
  "endswith p s \<longleftrightarrow> startswith (rev p) (rev s)"

definition removeprefix :: "pystr \<Rightarrow> pystr \<Rightarrow> pystr" where
  "removeprefix p s = (if startswith p s then drop (length p) s else s)"

lemma startswith_append [simp]: "startswith p (p @ s)"
  by (simp add: startswith_def)

lemma startswith_iff: "startswith p s \<longleftrightarrow> (\<exists>t. s = p @ t)"
  unfolding startswith_def by (metis append_take_drop_id append_eq_conv_conj)

lemma endswith_iff: "endswith p s \<longleftrightarrow> (\<exists>t. s = t @ p)"
  unfolding endswith_def startswith_iff by (metis rev_append rev_rev_ident)

lemma endswith_append [simp]: "endswith p (s @ p)"
  by (auto simp: endswith_iff)

lemma removeprefix_append [simp]: "removeprefix p (p @ s) = s"
  by (simp add: removeprefix_def)

subsection \<open>Stripping\<close>

text \<open>\<open>str.lstrip\<close>, \<open>str.rstrip\<close> and \<open>str.strip\<close>, by a predicate on the characters to drop.\<close>

definition lstrip :: "(nat \<Rightarrow> bool) \<Rightarrow> pystr \<Rightarrow> pystr" where
  "lstrip P s = dropWhile P s"

definition rstrip :: "(nat \<Rightarrow> bool) \<Rightarrow> pystr \<Rightarrow> pystr" where
  "rstrip P s = rev (dropWhile P (rev s))"

definition strip :: "(nat \<Rightarrow> bool) \<Rightarrow> pystr \<Rightarrow> pystr" where
  "strip P s = rstrip P (lstrip P s)"

lemma lstrip_all: "list_all P s \<Longrightarrow> lstrip P s = []"
  by (simp add: lstrip_def list_all_iff)

lemma lstrip_append: "list_all P a \<Longrightarrow> lstrip P (a @ s) = lstrip P s"
  by (simp add: lstrip_def list_all_iff dropWhile_append2)

lemma rstrip_append: "list_all P b \<Longrightarrow> rstrip P (s @ b) = rstrip P s"
  by (auto simp: rstrip_def list_all_iff intro!: dropWhile_append2)

lemma lstrip_append_nonall: "\<not> list_all P s \<Longrightarrow> lstrip P (s @ b) = lstrip P s @ b"
  by (auto simp: lstrip_def list_all_iff dropWhile_append1)

lemma strip_pad: "list_all P a \<Longrightarrow> list_all P b \<Longrightarrow> strip P (a @ s @ b) = strip P s"
proof -
  assume ab: "list_all P a" "list_all P b"
  show ?thesis
  proof (cases "list_all P s")
    case True
    with ab have "list_all P (a @ s @ b)" by simp
    with True show ?thesis by (simp add: strip_def lstrip_all)
  next
    case False
    with ab show ?thesis
      by (simp add: strip_def lstrip_append lstrip_append_nonall rstrip_append)
  qed
qed

lemma strip_id:
  assumes "s \<noteq> [] \<Longrightarrow> \<not> P (hd s)" "s \<noteq> [] \<Longrightarrow> \<not> P (last s)"
  shows "strip P s = s"
proof (cases s)
  case Nil
  then show ?thesis by (simp add: strip_def lstrip_def rstrip_def)
next
  case (Cons c cs)
  with assms(1) have l: "lstrip P s = s" by (simp add: lstrip_def)
  from Cons assms(2) have "rev s \<noteq> []" "\<not> P (hd (rev s))"
    by (simp_all only: hd_rev rev_is_Nil_conv) simp_all
  then have "dropWhile P (rev s) = rev s" by (cases "rev s") auto
  then show ?thesis by (simp add: strip_def l rstrip_def)
qed

lemma set_strip: "set (strip P s) \<subseteq> set s"
  by (auto simp: strip_def lstrip_def rstrip_def dest!: set_dropWhileD)

lemma strip_hd: "strip P s \<noteq> [] \<Longrightarrow> \<not> P (hd (strip P s))"
proof -
  assume ne: "strip P s \<noteq> []"
  let ?l = "lstrip P s"
  have l: "?l \<noteq> [] \<Longrightarrow> \<not> P (hd ?l)" by (simp add: lstrip_def hd_dropWhile)
  have "?l = strip P s @ rev (takeWhile P (rev ?l))"
    unfolding strip_def rstrip_def
    by (metis rev_append rev_rev_ident takeWhile_dropWhile_id)
  with ne l show ?thesis by (metis hd_append2 append_is_Nil_conv)
qed

lemma strip_last: "strip P s \<noteq> [] \<Longrightarrow> \<not> P (last (strip P s))"
  unfolding strip_def rstrip_def by (simp add: last_rev hd_dropWhile)

lemma strip_idem [simp]: "strip P (strip P s) = strip P s"
  by (rule strip_id) (simp_all add: strip_hd strip_last)

subsection \<open>Splitting, replacing and joining\<close>

text \<open>
  \<open>str.partition\<close> and \<open>str.rpartition\<close> at a one-character separator: the part before, whether
  the separator was found, the part after. Without the separator \<open>partition\<close> puts the whole
  text first and \<open>rpartition\<close> puts it last.
\<close>

fun partition_at :: "nat \<Rightarrow> pystr \<Rightarrow> pystr \<times> bool \<times> pystr" where
  "partition_at c [] = ([], False, [])"
| "partition_at c (x # xs) =
     (if x = c then ([], True, xs)
      else (case partition_at c xs of (a, f, b) \<Rightarrow> (x # a, f, b)))"

definition rpartition_at :: "nat \<Rightarrow> pystr \<Rightarrow> pystr \<times> bool \<times> pystr" where
  "rpartition_at c s =
     (case partition_at c (rev s) of
        (a, f, b) \<Rightarrow> if f then (rev b, True, rev a) else ([], False, s))"

lemma partition_at_append: "c \<notin> set a \<Longrightarrow> partition_at c (a @ c # b) = (a, True, b)"
  by (induction a) auto

lemma partition_at_none: "c \<notin> set s \<Longrightarrow> partition_at c s = (s, False, [])"
  by (induction s) auto

lemma partition_at_True: "partition_at c s = (a, True, b) \<longleftrightarrow> s = a @ c # b \<and> c \<notin> set a"
proof
  show "partition_at c s = (a, True, b) \<Longrightarrow> s = a @ c # b \<and> c \<notin> set a"
    by (induction s arbitrary: a) (auto split: prod.splits if_splits)
qed (auto simp: partition_at_append)

lemma partition_at_False: "partition_at c s = (a, False, b) \<Longrightarrow> c \<notin> set s \<and> a = s \<and> b = []"
  by (induction s arbitrary: a) (auto split: prod.splits if_splits)

lemma rpartition_at_True: "rpartition_at c s = (a, True, b) \<longleftrightarrow> s = a @ c # b \<and> c \<notin> set b"
proof -
  have "rpartition_at c s = (a, True, b) \<longleftrightarrow> partition_at c (rev s) = (rev b, True, rev a)"
    unfolding rpartition_at_def by (auto split: prod.splits)
  also have "\<dots> \<longleftrightarrow> rev s = rev b @ c # rev a \<and> c \<notin> set b"
    by (simp add: partition_at_True)
  also have "rev s = rev b @ c # rev a \<longleftrightarrow> s = a @ c # b"
  proof -
    have "rev b @ c # rev a = rev (a @ c # b)" by simp
    then show ?thesis by (metis rev_is_rev_conv)
  qed
  finally show ?thesis .
qed

function replace_str :: "pystr \<Rightarrow> pystr \<Rightarrow> pystr \<Rightarrow> pystr" where
  "replace_str old new [] = []"
| "replace_str old new (x # xs) =
     (if old \<noteq> [] \<and> startswith old (x # xs)
      then new @ replace_str old new (drop (length old) (x # xs))
      else x # replace_str old new xs)"
  by pat_completeness auto
termination
  by (relation "measure (\<lambda>(old, new, s). length s)") (auto simp: less_Suc_eq_le neq_Nil_conv)

fun join_with :: "pystr \<Rightarrow> pystr list \<Rightarrow> pystr" where
  "join_with sep [] = []"
| "join_with sep [s] = s"
| "join_with sep (s # t # ss) = s @ sep @ join_with sep (t # ss)"

lemma append_Cons_inject:
  fixes c :: nat
  assumes "c \<notin> set a" "c \<notin> set b"
  shows "a @ c # r = b @ c # t \<longleftrightarrow> a = b \<and> r = t"
proof
  assume "a @ c # r = b @ c # t"
  then have "partition_at c (a @ c # r) = partition_at c (b @ c # t)" by (rule arg_cong)
  then show "a = b \<and> r = t" by (simp add: partition_at_append assms)
qed simp

lemma join_with_single_inject:
  assumes "xs \<noteq> []" "ys \<noteq> []" "\<forall>x \<in> set xs \<union> set ys. c \<notin> set x"
  shows "join_with [c] xs = join_with [c] ys \<longleftrightarrow> xs = ys"
  using assms
proof (induction xs arbitrary: ys rule: induct_list012)
  case (2 x)
  then show ?case by (cases ys; cases "tl ys") auto
next
  case (3 x x' xs)
  from 3(4) obtain y ys' where ys: "ys = y # ys'" by (cases ys) auto
  show ?case
  proof (cases ys')
    case Nil
    with 3 ys show ?thesis by auto
  next
    case (Cons y' ys'')
    with 3 ys show ?thesis by (simp add: append_Cons_inject)
  qed
qed simp

lemma list_all_join_with:
  "list_all P sep \<Longrightarrow> (\<And>x. x \<in> set xs \<Longrightarrow> list_all P x) \<Longrightarrow> list_all P (join_with sep xs)"
  by (induction sep xs rule: join_with.induct) auto

lemma sort_key_permute:
  assumes "mset xs = mset ys" "inj_on f (set xs)"
  shows "sort_key f xs = sort_key f ys"
  by (rule sort_key_inj_key_eq) (use assms in simp_all)

lemma image_mset_inj_on_eqD:
  assumes "image_mset f A = image_mset f B" "inj_on f (set_mset A \<union> set_mset B)"
  shows "A = B"
  using image_mset_eq_image_mset_plusD [of f A B "{#}"] assms by auto

section \<open>Calls that may raise\<close>

definition rbind :: "'e + 'a \<Rightarrow> ('a \<Rightarrow> 'e + 'b) \<Rightarrow> 'e + 'b" where
  "rbind r f = (case r of Inl e \<Rightarrow> Inl e | Inr x \<Rightarrow> f x)"

definition ensure :: "bool \<Rightarrow> 'e \<Rightarrow> 'e + unit" where
  "ensure b e = (if b then Inr () else Inl e)"

definition of_option :: "'e \<Rightarrow> 'a option \<Rightarrow> 'e + 'a" where
  "of_option e m = (case m of None \<Rightarrow> Inl e | Some x \<Rightarrow> Inr x)"

fun map_res :: "('a \<Rightarrow> 'e + 'b) \<Rightarrow> 'a list \<Rightarrow> 'e + 'b list" where
  "map_res f [] = Inr []"
| "map_res f (x # xs) = rbind (f x) (\<lambda>y. rbind (map_res f xs) (\<lambda>ys. Inr (y # ys)))"

lemma rbind_simps [simp, res_simps]:
  "rbind (Inl e) f = Inl e" "rbind (Inr x) f = f x"
  by (simp_all add: rbind_def)

lemma ensure_simps [simp, res_simps]:
  "ensure True e = Inr ()" "ensure False e = Inl e"
  by (simp_all add: ensure_def)

lemma of_option_simps [simp, res_simps]:
  "of_option e None = Inl e" "of_option e (Some x) = Inr x"
  by (simp_all add: of_option_def)

lemma rbind_Inr_iff: "rbind r f = Inr y \<longleftrightarrow> (\<exists>x. r = Inr x \<and> f x = Inr y)"
  by (cases r) auto

lemma rbind_Inl_iff: "rbind r f = Inl e \<longleftrightarrow> r = Inl e \<or> (\<exists>x. r = Inr x \<and> f x = Inl e)"
  by (cases r) auto

lemma ensure_Inr_iff [simp]: "ensure b e = Inr u \<longleftrightarrow> b"
  by (cases b) auto

lemma ensure_Inl_iff [simp]: "ensure b e = Inl e' \<longleftrightarrow> \<not> b \<and> e' = e"
  by (cases b) auto

lemma of_option_Inr_iff [simp]: "of_option e m = Inr x \<longleftrightarrow> m = Some x"
  by (cases m) auto

lemma of_option_Inl_iff [simp]: "of_option e m = Inl e' \<longleftrightarrow> m = None \<and> e' = e"
  by (cases m) auto

lemma rbind_assoc: "rbind (rbind r f) g = rbind r (\<lambda>x. rbind (f x) g)"
  by (cases r) auto

lemma map_res_Inr_length: "map_res f xs = Inr ys \<Longrightarrow> length ys = length xs"
  by (induction xs arbitrary: ys) (auto simp: rbind_Inr_iff)

lemma map_res_Inr_iff: "map_res f xs = Inr ys \<longleftrightarrow> list_all2 (\<lambda>x y. f x = Inr y) xs ys"
  by (induction xs arbitrary: ys) (auto simp: rbind_Inr_iff list_all2_Cons1)

lemma map_res_Inl_ex: "map_res f xs = Inl e \<Longrightarrow> \<exists>x \<in> set xs. f x = Inl e"
  by (induction xs) (auto simp: rbind_Inl_iff)

text \<open>
  A handler \<open>except (A, B): raise e\<close> around a pure call, and the case of a handler that
  turns the exceptions it names into a value.
\<close>

definition except_raise :: "('e \<Rightarrow> bool) \<Rightarrow> 'e \<Rightarrow> 'e + 'a \<Rightarrow> 'e + 'a" where
  "except_raise P e r = (case r of Inl x \<Rightarrow> Inl (if P x then e else x) | Inr y \<Rightarrow> Inr y)"

definition except_value :: "('e \<Rightarrow> bool) \<Rightarrow> 'a \<Rightarrow> 'e + 'a \<Rightarrow> 'e + 'a" where
  "except_value P v r = (case r of Inl x \<Rightarrow> (if P x then Inr v else Inl x) | Inr y \<Rightarrow> Inr y)"

lemma except_raise_simps [simp, res_simps]:
  "except_raise P e (Inr y) = Inr y"
  "except_raise P e (Inl x) = Inl (if P x then e else x)"
  by (simp_all add: except_raise_def)

lemma except_value_simps [simp, res_simps]:
  "except_value P v (Inr y) = Inr y"
  "except_value P v (Inl x) = (if P x then Inr v else Inl x)"
  by (simp_all add: except_value_def)

lemma except_raise_Inr_iff [simp]: "except_raise P e r = Inr y \<longleftrightarrow> r = Inr y"
  by (cases r) auto

subsection \<open>What a call may raise\<close>

text \<open>
  \<open>raises_only E r\<close>: the exceptions of \<open>r\<close> satisfy \<open>E\<close>. The collection
  \<open>raises_intros\<close> has one rule per combinator, so that the exceptions of a function are
  collected along its definition by \<open>(intro raises_intros)\<close>.
\<close>

named_theorems raises_intros "rules that collect the exceptions of a call"

definition raises_only :: "('e \<Rightarrow> bool) \<Rightarrow> 'e + 'a \<Rightarrow> bool" where
  "raises_only E r \<longleftrightarrow> (\<forall>e. r = Inl e \<longrightarrow> E e)"

lemma raises_onlyI: "(\<And>e. r = Inl e \<Longrightarrow> E e) \<Longrightarrow> raises_only E r"
  by (simp add: raises_only_def)

lemma raises_onlyD: "raises_only E r \<Longrightarrow> r = Inl e \<Longrightarrow> E e"
  by (simp add: raises_only_def)

lemma raises_only_mono: "raises_only E r \<Longrightarrow> (\<And>e. E e \<Longrightarrow> E' e) \<Longrightarrow> raises_only E' r"
  by (simp add: raises_only_def)

lemma raises_only_simps [simp]:
  "raises_only E (Inr x)" "raises_only E (Inl e) \<longleftrightarrow> E e"
  by (simp_all add: raises_only_def)

lemma raises_only_rbind [raises_intros]:
  "raises_only E r \<Longrightarrow> (\<And>x. r = Inr x \<Longrightarrow> raises_only E (f x)) \<Longrightarrow> raises_only E (rbind r f)"
  by (cases r) simp_all

lemma raises_only_basic [raises_intros]:
  "raises_only E (Inr x)"
  "E e \<Longrightarrow> raises_only E (Inl e)"
  "E e \<Longrightarrow> raises_only E (of_option e m)"
  "E e \<Longrightarrow> raises_only E (ensure b e)"
  by (simp_all add: raises_only_def)

lemma raises_only_except_raise [raises_intros]:
  "raises_only (\<lambda>x. P x \<or> E x) r \<Longrightarrow> E e \<Longrightarrow> raises_only E (except_raise P e r)"
  by (auto simp: raises_only_def except_raise_def split: sum.splits)

lemma raises_only_except_value [raises_intros]:
  "raises_only (\<lambda>x. P x \<or> E x) r \<Longrightarrow> raises_only E (except_value P v r)"
  by (auto simp: raises_only_def except_value_def split: sum.splits if_splits)

lemma except_value_total: "raises_only P r \<Longrightarrow> \<exists>x. except_value P v r = Inr x"
  by (cases r) simp_all

lemma raises_only_map_res [raises_intros]:
  "(\<And>x. x \<in> set xs \<Longrightarrow> raises_only E (f x)) \<Longrightarrow> raises_only E (map_res f xs)"
  by (induction xs) (auto intro!: raises_only_rbind)

lemma raises_only_if [raises_intros]:
  "(b \<Longrightarrow> raises_only E r) \<Longrightarrow> (\<not> b \<Longrightarrow> raises_only E s) \<Longrightarrow> raises_only E (if b then r else s)"
  by simp

lemma raises_only_case_option [raises_intros]:
  "(m = None \<Longrightarrow> raises_only E r) \<Longrightarrow> (\<And>x. m = Some x \<Longrightarrow> raises_only E (f x)) \<Longrightarrow>
    raises_only E (case m of None \<Rightarrow> r | Some x \<Rightarrow> f x)"
  by (cases m) simp_all

lemma raises_only_case_list [raises_intros]:
  "(xs = [] \<Longrightarrow> raises_only E r) \<Longrightarrow> (\<And>y ys. xs = y # ys \<Longrightarrow> raises_only E (f y ys)) \<Longrightarrow>
    raises_only E (case xs of [] \<Rightarrow> r | y # ys \<Rightarrow> f y ys)"
  by (cases xs) simp_all

lemma raises_only_case_prod [raises_intros]:
  "(\<And>x y. p = (x, y) \<Longrightarrow> raises_only E (f x y)) \<Longrightarrow> raises_only E (case p of (x, y) \<Rightarrow> f x y)"
  by (cases p) simp

section \<open>Calls with effects\<close>

type_synonym ('e, 's, 'a) eff = "'s \<Rightarrow> ('e + 'a) \<times> 's"

definition ret :: "'a \<Rightarrow> ('e, 's, 'a) eff" where
  "ret x s = (Inr x, s)"

definition lift :: "'e + 'a \<Rightarrow> ('e, 's, 'a) eff" where
  "lift r s = (r, s)"

definition ebind :: "('e, 's, 'a) eff \<Rightarrow> ('a \<Rightarrow> ('e, 's, 'b) eff) \<Rightarrow> ('e, 's, 'b) eff" where
  "ebind m f s = (case m s of (Inl e, s') \<Rightarrow> (Inl e, s') | (Inr x, s') \<Rightarrow> f x s')"

definition try_except ::
  "('e, 's, 'a) eff \<Rightarrow> ('e \<Rightarrow> bool) \<Rightarrow> ('e \<Rightarrow> ('e, 's, 'a) eff) \<Rightarrow> ('e, 's, 'a) eff" where
  "try_except m P h s =
     (case m s of (Inl e, s') \<Rightarrow> (if P e then h e s' else (Inl e, s')) | (Inr x, s') \<Rightarrow> (Inr x, s'))"

lemma ret_apply [eff_simps]: "ret x s = (Inr x, s)"
  by (simp add: ret_def)

lemma lift_apply [eff_simps]: "lift r s = (r, s)"
  by (simp add: lift_def)

lemma ebind_lift [eff_simps]:
  "ebind (lift (Inl e)) f s = (Inl e, s)" "ebind (lift (Inr x)) f s = f x s"
  by (simp_all add: ebind_def lift_def)

lemma ebind_ret [eff_simps]: "ebind (ret x) f s = f x s"
  by (simp add: ebind_def ret_def)

lemma ebind_step:
  "m s = (Inl e, s') \<Longrightarrow> ebind m f s = (Inl e, s')"
  "m s = (Inr x, s') \<Longrightarrow> ebind m f s = f x s'"
  by (simp_all add: ebind_def)

lemma ebind_assoc: "ebind (ebind m f) g s = ebind m (\<lambda>x. ebind (f x) g) s"
  by (auto simp: ebind_def split: prod.splits sum.splits)

lemma ebind_Inr:
  assumes "ebind m f s = (Inr y, s2)"
  obtains x s1 where "m s = (Inr x, s1)" "f x s1 = (Inr y, s2)"
  using assms by (auto simp: ebind_def split: prod.splits sum.splits)

lemma ebind_Inl:
  assumes "ebind m f s = (Inl e, s2)"
  obtains "m s = (Inl e, s2)" | x s1 where "m s = (Inr x, s1)" "f x s1 = (Inl e, s2)"
  using assms by (auto simp: ebind_def split: prod.splits sum.splits)

end
