(* ===== verification/Py_Text.thy ===== *)
theory Py_Text
  imports Prelude
begin

text \<open>
  The text and byte codecs of the Python standard library the source calls, in the behaviour of
  CPython 3.11: \<open>str.isspace\<close>, \<open>lower\<close>, \<open>upper\<close>; \<open>str.encode\<close> to
  ASCII and UTF-8 and UTF-8 decoding; \<open>bytes.hex\<close>; \<open>base64.b64encode\<close> and
  \<open>base64.b64decode(..., validate=True)\<close>; \<open>int(text)\<close> and \<open>str(int)\<close>;
  \<open>uuid.UUID(text)\<close> and \<open>str(uuid)\<close>. A call that raises returns \<open>None\<close>; the
  callers turn it into the exception class the source sees.

  The lemmas are the round trips (UTF-8, base64, decimal, UUID) and the injectivity facts the
  components rest on. The interpreter's configurable limits (4300 decimal digits, recursion
  depth) are not modelled.
\<close>

section \<open>Characters\<close>

definition py_isspace :: "nat \<Rightarrow> bool" where
  "py_isspace c \<longleftrightarrow>
     c \<in> {9, 10, 11, 12, 13, 28, 29, 30, 31, 32, 133, 160, 5760, 8232, 8233, 8239, 8287, 12288}
     \<or> (8192 \<le> c \<and> c \<le> 8202)"

definition ascii_isspace :: "nat \<Rightarrow> bool" where
  "ascii_isspace c \<longleftrightarrow> c = 32 \<or> (9 \<le> c \<and> c \<le> 13)"

definition ascii_isalnum :: "nat \<Rightarrow> bool" where
  "ascii_isalnum c \<longleftrightarrow> (48 \<le> c \<and> c \<le> 57) \<or> (65 \<le> c \<and> c \<le> 90) \<or> (97 \<le> c \<and> c \<le> 122)"

text \<open>
  \<open>str.lower\<close> and \<open>str.upper\<close>. Beyond ASCII the only characters whose lower case is
  ASCII is U+212A, and those whose upper case is ASCII are the ones listed; every other character
  beyond ASCII maps to text that is not ASCII, which is all a comparison with an ASCII literal
  can see, and is left as it is here.
\<close>

definition lower_char :: "nat \<Rightarrow> nat" where
  "lower_char c = (if 65 \<le> c \<and> c \<le> 90 then c + 32 else if c = 8490 then 107 else c)"

definition py_lower :: "pystr \<Rightarrow> pystr" where
  "py_lower s = map lower_char s"

definition upper_char :: "nat \<Rightarrow> pystr" where
  "upper_char c =
     (if 97 \<le> c \<and> c \<le> 122 then [c - 32]
      else if c = 223 then lit ''SS''
      else if c = 305 then lit ''I''
      else if c = 383 then lit ''S''
      else if c = 64256 then lit ''FF''
      else if c = 64257 then lit ''FI''
      else if c = 64258 then lit ''FL''
      else if c = 64259 then lit ''FFI''
      else if c = 64260 then lit ''FFL''
      else if c = 64261 \<or> c = 64262 then lit ''ST''
      else [c])"

definition py_upper :: "pystr \<Rightarrow> pystr" where
  "py_upper s = concat (map upper_char s)"

lemma py_lower_idem [simp]: "py_lower (py_lower s) = py_lower s"
  by (simp add: py_lower_def lower_char_def)

section \<open>Encoding text\<close>

definition ascii_encode :: "pystr \<Rightarrow> bytes option" where
  "ascii_encode s = (if list_all (\<lambda>c. c < 128) s then Some (map word_of_nat s) else None)"

definition surrogate :: "nat \<Rightarrow> bool" where
  "surrogate c \<longleftrightarrow> 55296 \<le> c \<and> c \<le> 57343"

definition encodable :: "nat \<Rightarrow> bool" where
  "encodable c \<longleftrightarrow> c \<le> 1114111 \<and> \<not> surrogate c"

definition utf8_cp :: "nat \<Rightarrow> nat list" where
  "utf8_cp c =
     (if c < 128 then [c]
      else if c < 2048 then [192 + c div 64, 128 + c mod 64]
      else if c < 65536 then [224 + c div 4096, 128 + c div 64 mod 64, 128 + c mod 64]
      else [240 + c div 262144, 128 + c div 4096 mod 64, 128 + c div 64 mod 64, 128 + c mod 64])"

definition utf8_encode :: "pystr \<Rightarrow> bytes option" where
  "utf8_encode s =
     (if list_all encodable s then Some (map word_of_nat (concat (map utf8_cp s))) else None)"

definition is_cont :: "nat \<Rightarrow> bool" where
  "is_cont b \<longleftrightarrow> 128 \<le> b \<and> b < 192"

text \<open>
  \<open>bytes.decode('utf-8')\<close>; the flag is the error handler \<open>surrogatepass\<close>, which lets the
  three-byte form of a surrogate through. Overlong forms and values past U+10FFFF are errors.
\<close>

fun utf8_decode_nats :: "bool \<Rightarrow> nat list \<Rightarrow> pystr option" where
  "utf8_decode_nats sp [] = Some []"
| "utf8_decode_nats sp (b # bs) =
     (if b < 128 then map_option (Cons b) (utf8_decode_nats sp bs)
      else if 194 \<le> b \<and> b < 224 then
        (case bs of
           c1 # r \<Rightarrow>
             if is_cont c1
             then map_option (Cons ((b - 192) * 64 + (c1 - 128))) (utf8_decode_nats sp r)
             else None
         | _ \<Rightarrow> None)
      else if 224 \<le> b \<and> b < 240 then
        (case bs of
           c1 # c2 # r \<Rightarrow>
             let v = (b - 224) * 4096 + (c1 - 128) * 64 + (c2 - 128) in
             if is_cont c1 \<and> is_cont c2 \<and> 2048 \<le> v \<and> (sp \<or> \<not> surrogate v)
             then map_option (Cons v) (utf8_decode_nats sp r)
             else None
         | _ \<Rightarrow> None)
      else if 240 \<le> b \<and> b < 245 then
        (case bs of
           c1 # c2 # c3 # r \<Rightarrow>
             let v = (b - 240) * 262144 + (c1 - 128) * 4096 + (c2 - 128) * 64 + (c3 - 128) in
             if is_cont c1 \<and> is_cont c2 \<and> is_cont c3 \<and> 65536 \<le> v \<and> v \<le> 1114111
             then map_option (Cons v) (utf8_decode_nats sp r)
             else None
         | _ \<Rightarrow> None)
      else None)"

definition utf8_decode :: "bool \<Rightarrow> bytes \<Rightarrow> pystr option" where
  "utf8_decode sp bs = utf8_decode_nats sp (map unat bs)"

lemma utf8_cp_bound: "c \<le> 1114111 \<Longrightarrow> b \<in> set (utf8_cp c) \<Longrightarrow> b < 256"
  by (auto simp: utf8_cp_def split: if_splits)

lemma sextets3: "(c :: nat) div 4096 * 4096 + c div 64 mod 64 * 64 + c mod 64 = c"
proof -
  have "c div 4096 = c div 64 div 64" by (simp add: div_mult2_eq [symmetric])
  with div_mult_mod_eq [of "c div 64" 64] div_mult_mod_eq [of c 64] show ?thesis by linarith
qed

lemma sextets4:
  "(c :: nat) div 262144 * 262144 + c div 4096 mod 64 * 4096 + c div 64 mod 64 * 64 + c mod 64 = c"
proof -
  have "c div 262144 = c div 4096 div 64" by (simp add: div_mult2_eq [symmetric])
  with div_mult_mod_eq [of "c div 4096" 64] sextets3 [of c] show ?thesis by linarith
qed

lemma utf8_decode_cp:
  assumes "encodable c"
  shows "utf8_decode_nats sp (utf8_cp c @ r) = map_option (Cons c) (utf8_decode_nats sp r)"
proof -
  have c: "c \<le> 1114111" "\<not> surrogate c" using assms by (auto simp: encodable_def)
  consider "c < 128" | "128 \<le> c" "c < 2048" | "2048 \<le> c" "c < 65536" | "65536 \<le> c"
    by linarith
  then show ?thesis
  proof cases
    case 1
    then show ?thesis by (simp add: utf8_cp_def)
  next
    case 2
    have "c div 64 * 64 + c mod 64 = c" by simp
    moreover have "2 \<le> c div 64" "c div 64 < 32" using 2 by (auto simp: less_mult_imp_div_less)
    ultimately show ?thesis using 2 by (simp add: utf8_cp_def is_cont_def)
  next
    case 3
    note sextets3 [of c]
    moreover have "c div 4096 < 16" using 3 by (auto simp: less_mult_imp_div_less)
    ultimately show ?thesis using 3 c by (simp add: utf8_cp_def is_cont_def Let_def)
  next
    case 4
    note sextets4 [of c]
    moreover have "c div 262144 < 5" using c by (auto simp: less_mult_imp_div_less)
    ultimately show ?thesis using 4 c by (simp add: utf8_cp_def is_cont_def Let_def)
  qed
qed

lemma utf8_decode_concat:
  "list_all encodable s \<Longrightarrow> utf8_decode_nats sp (concat (map utf8_cp s)) = Some s"
  by (induction s) (auto simp: utf8_decode_cp)

lemma map_unat_word_of_nat:
  "(\<And>b. b \<in> set xs \<Longrightarrow> b < 256) \<Longrightarrow> map unat (map (word_of_nat :: nat \<Rightarrow> byte) xs) = xs"
  by (induction xs) (auto simp: unat_of_nat)

lemma utf8_round_trip: "utf8_encode s = Some bs \<Longrightarrow> utf8_decode sp bs = Some s"
proof -
  assume e: "utf8_encode s = Some bs"
  then have s: "list_all encodable s" by (simp add: utf8_encode_def split: if_splits)
  with e have bs: "bs = map word_of_nat (concat (map utf8_cp s))" by (simp add: utf8_encode_def)
  have "\<And>b. b \<in> set (concat (map utf8_cp s)) \<Longrightarrow> b < 256"
    using s by (auto simp: list_all_iff encodable_def dest: utf8_cp_bound)
  then show ?thesis
    unfolding utf8_decode_def bs by (simp only: map_unat_word_of_nat utf8_decode_concat s)
qed

lemma utf8_encode_inj: "utf8_encode s = Some bs \<Longrightarrow> utf8_encode t = Some bs \<Longrightarrow> s = t"
  using utf8_round_trip by (metis option.inject)

lemma utf8_encode_append:
  "utf8_encode (s @ t) =
     (case (utf8_encode s, utf8_encode t) of (Some a, Some b) \<Rightarrow> Some (a @ b) | _ \<Rightarrow> None)"
  by (simp add: utf8_encode_def)

lemma utf8_encode_eq_None: "utf8_encode s = None \<longleftrightarrow> \<not> list_all encodable s"
  by (simp add: utf8_encode_def)

lemma ascii_utf8: "ascii_encode s = Some bs \<Longrightarrow> utf8_encode s = Some bs"
proof -
  assume a: "ascii_encode s = Some bs"
  then have s: "\<forall>c \<in> set s. c < 128" and bs: "bs = map word_of_nat s"
    by (auto simp: ascii_encode_def list_all_iff split: if_splits)
  from s have "concat (map utf8_cp s) = s" by (induction s) (auto simp: utf8_cp_def)
  with s bs show ?thesis
    by (auto simp: utf8_encode_def list_all_iff encodable_def surrogate_def)
qed

lemma ascii_encode_inj: "ascii_encode s = Some bs \<Longrightarrow> ascii_encode t = Some bs \<Longrightarrow> s = t"
  using ascii_utf8 utf8_encode_inj by blast

section \<open>Hexadecimal\<close>

lemma unat_byte_less [simp]: "unat (x :: byte) < 256"
proof -
  have "unat x < 2 ^ LENGTH(8)" by (rule unsigned_less)
  then show ?thesis by simp
qed

definition hexdigit :: "nat \<Rightarrow> nat" where
  "hexdigit v = (if v < 10 then 48 + v else 87 + v)"

definition is_lower_hex :: "nat \<Rightarrow> bool" where
  "is_lower_hex c \<longleftrightarrow> (48 \<le> c \<and> c \<le> 57) \<or> (97 \<le> c \<and> c \<le> 102)"

definition hex_of_bytes :: "bytes \<Rightarrow> pystr" where
  "hex_of_bytes bs = concat (map (\<lambda>b. [hexdigit (unat b div 16), hexdigit (unat b mod 16)]) bs)"

lemma length_hex_of_bytes [simp]: "length (hex_of_bytes bs) = 2 * length bs"
  by (induction bs) (auto simp: hex_of_bytes_def)

lemma hexdigit_lower_hex: "v < 16 \<Longrightarrow> is_lower_hex (hexdigit v)"
  by (auto simp: hexdigit_def is_lower_hex_def)

lemma hex_of_bytes_lower_hex: "list_all is_lower_hex (hex_of_bytes bs)"
proof (induction bs)
  case Nil
  then show ?case by (simp add: hex_of_bytes_def)
next
  case (Cons b bs)
  have "unat b div 16 < 16" using unat_byte_less [of b] by (simp add: less_mult_imp_div_less)
  with Cons show ?case by (simp add: hex_of_bytes_def hexdigit_lower_hex)
qed

lemma hexdigit_inj: "a < 16 \<Longrightarrow> b < 16 \<Longrightarrow> hexdigit a = hexdigit b \<Longrightarrow> a = b"
  by (auto simp: hexdigit_def split: if_splits)

lemma hex_of_bytes_inj: "hex_of_bytes a = hex_of_bytes b \<Longrightarrow> a = b"
proof (induction a arbitrary: b)
  case Nil
  then show ?case by (cases b) (auto simp: hex_of_bytes_def)
next
  case (Cons x xs)
  then obtain y ys where b: "b = y # ys" by (cases b) (auto simp: hex_of_bytes_def)
  have "unat x div 16 < 16" "unat y div 16 < 16"
    using unat_byte_less [of x] unat_byte_less [of y] by (auto simp: less_mult_imp_div_less)
  with Cons.prems b have "unat x div 16 = unat y div 16" "unat x mod 16 = unat y mod 16"
    and tl: "hex_of_bytes xs = hex_of_bytes ys"
    by (auto simp: hex_of_bytes_def intro: hexdigit_inj)
  then have "unat x = unat y" by (metis div_mult_mod_eq)
  with tl Cons.IH b show ?case by (simp add: word_unat_eq_iff)
qed

section \<open>Base64\<close>

definition b64_char :: "nat \<Rightarrow> nat" where
  "b64_char v =
     (if v < 26 then 65 + v else if v < 52 then 71 + v else if v < 62 then v - 4
      else if v = 62 then 43 else 47)"

definition b64_value :: "nat \<Rightarrow> nat option" where
  "b64_value c =
     (if 65 \<le> c \<and> c \<le> 90 then Some (c - 65)
      else if 97 \<le> c \<and> c \<le> 122 then Some (c - 71)
      else if 48 \<le> c \<and> c \<le> 57 then Some (c + 4)
      else if c = 43 then Some 62
      else if c = 47 then Some 63
      else None)"

fun b64encode :: "bytes \<Rightarrow> pystr" where
  "b64encode [] = []"
| "b64encode [x] = [b64_char (unat x div 4), b64_char (unat x mod 4 * 16), 61, 61]"
| "b64encode [x, y] =
     [b64_char (unat x div 4), b64_char (unat x mod 4 * 16 + unat y div 16),
      b64_char (unat y mod 16 * 4), 61]"
| "b64encode (x # y # z # r) =
     b64_char (unat x div 4) # b64_char (unat x mod 4 * 16 + unat y div 16) #
     b64_char (unat y mod 16 * 4 + unat z div 64) # b64_char (unat z mod 64) # b64encode r"

text \<open>
  \<open>binascii.a2b_base64(s, strict_mode=True)\<close>: \<open>q\<close> characters of the current quadruple
  have been read, \<open>l\<close> holds their bits not yet emitted, \<open>p\<close> pad characters were counted
  after them, and \<open>st\<close> says whether padding has started. The bits a padded quadruple leaves
  over are dropped, whatever they are.
\<close>

fun a2b :: "nat \<Rightarrow> nat \<Rightarrow> nat \<Rightarrow> bool \<Rightarrow> pystr \<Rightarrow> bytes option" where
  "a2b q l p st [] = (if q = 0 then Some [] else None)"
| "a2b q l p st (c # cs) =
     (if c = 61 then
        (if 2 \<le> q \<and> 4 \<le> q + p + 1 then (if cs = [] then Some [] else None)
         else a2b q l (if 2 \<le> q then p + 1 else p) True cs)
      else
        (case b64_value c of
           None \<Rightarrow> None
         | Some v \<Rightarrow>
             if st then None
             else if q = 0 then a2b 1 v 0 st cs
             else if q = 1 then
               map_option (Cons (word_of_nat (l * 4 + v div 16))) (a2b 2 (v mod 16) 0 st cs)
             else if q = 2 then
               map_option (Cons (word_of_nat (l * 16 + v div 4))) (a2b 3 (v mod 4) 0 st cs)
             else map_option (Cons (word_of_nat (l * 64 + v))) (a2b 0 0 0 st cs)))"

definition b64decode :: "pystr \<Rightarrow> bytes option" where
  "b64decode s = (if s \<noteq> [] \<and> hd s = 61 then None else a2b 0 0 0 False s)"

lemma b64_value_char [simp]: "v < 64 \<Longrightarrow> b64_value (b64_char v) = Some v"
  by (auto simp: b64_value_def b64_char_def)

lemma b64_char_not_pad [simp]: "v < 64 \<Longrightarrow> b64_char v \<noteq> 61"
  by (auto simp: b64_char_def)

lemma unat_byte_div [simp]:
  "unat (x :: byte) div 4 < 64" "unat x div 16 < 16" "unat x div 64 < 4"
  using unat_byte_less [of x] by (simp_all add: less_mult_imp_div_less)

lemma b64_sextets [simp]:
  "a < 4 \<Longrightarrow> b < 16 \<Longrightarrow> a * 16 + b < (64 :: nat)"
  "b < 16 \<Longrightarrow> a < 4 \<Longrightarrow> b * 4 + a < (64 :: nat)"
  "a < 4 \<Longrightarrow> a * 16 < (64 :: nat)"
  "b < 16 \<Longrightarrow> b * 4 < (64 :: nat)"
  by auto

lemma word_of_nat_eq: "n = unat (x :: byte) \<Longrightarrow> word_of_nat n = x"
  by simp

lemma a2b_encode: "a2b 0 0 0 False (b64encode bs) = Some bs"
proof (induction bs rule: b64encode.induct)
  case 1
  then show ?case by simp
next
  case (2 x)
  have "unat x div 4 * 4 + unat x mod 4 * 16 div 16 = unat x" by simp
  from word_of_nat_eq [OF this] show ?case by simp
next
  case (3 x y)
  have "unat x div 4 * 4 + (unat x mod 4 * 16 + unat y div 16) div 16 = unat x"
    "(unat x mod 4 * 16 + unat y div 16) mod 16 * 16 + unat y mod 16 * 4 div 4 = unat y"
    by simp_all
  from word_of_nat_eq [OF this(1)] word_of_nat_eq [OF this(2)] show ?case by simp
next
  case (4 x y z r)
  have "unat x div 4 * 4 + (unat x mod 4 * 16 + unat y div 16) div 16 = unat x"
    "(unat x mod 4 * 16 + unat y div 16) mod 16 * 16 + (unat y mod 16 * 4 + unat z div 64) div 4
       = unat y"
    "(unat y mod 16 * 4 + unat z div 64) mod 4 * 64 + unat z mod 64 = unat z"
    by simp_all
  from word_of_nat_eq [OF this(1)] word_of_nat_eq [OF this(2)] word_of_nat_eq [OF this(3)] 4
  show ?case by simp
qed

lemma b64decode_encode [simp]: "b64decode (b64encode bs) = Some bs"
proof -
  have "b64encode bs = [] \<or> hd (b64encode bs) \<noteq> 61"
    by (cases bs rule: b64encode.cases) auto
  then show ?thesis by (auto simp: b64decode_def a2b_encode)
qed

text \<open>
  \<open>base64.b64decode(s)\<close> without \<open>validate\<close>: \<open>a2b_base64(s, strict_mode=False)\<close> skips what is
  not in the alphabet and stops at the padding that completes a quadruple.
\<close>

fun a2b_lax :: "nat \<Rightarrow> nat \<Rightarrow> nat \<Rightarrow> pystr \<Rightarrow> bytes option" where
  "a2b_lax q l p [] = (if q = 0 then Some [] else None)"
| "a2b_lax q l p (c # cs) =
     (if c = 61 then
        (if 2 \<le> q \<and> 4 \<le> q + p + 1 then Some []
         else a2b_lax q l (if 2 \<le> q then p + 1 else p) cs)
      else
        (case b64_value c of
           None \<Rightarrow> a2b_lax q l p cs
         | Some v \<Rightarrow>
             if q = 0 then a2b_lax 1 v 0 cs
             else if q = 1 then
               map_option (Cons (word_of_nat (l * 4 + v div 16))) (a2b_lax 2 (v mod 16) 0 cs)
             else if q = 2 then
               map_option (Cons (word_of_nat (l * 16 + v div 4))) (a2b_lax 3 (v mod 4) 0 cs)
             else map_option (Cons (word_of_nat (l * 64 + v))) (a2b_lax 0 0 0 cs)))"

lemma a2b_lax_of_strict: "a2b q l p st s = Some bs \<Longrightarrow> a2b_lax q l p s = Some bs"
proof (induction q l p st s arbitrary: bs rule: a2b.induct)
  case (2 q l p st c cs)
  then show ?case by (auto split: if_splits option.splits)
qed simp

lemma a2b_lax_decode: "b64decode s = Some bs \<Longrightarrow> a2b_lax 0 0 0 s = Some bs"
  by (auto simp: b64decode_def split: if_splits dest: a2b_lax_of_strict)

lemma b64encode_inj: "b64encode a = b64encode b \<Longrightarrow> a = b"
  by (metis b64decode_encode option.inject)

lemma a2b_alphabet: "a2b q l p st s = Some bs \<Longrightarrow> c \<in> set s \<Longrightarrow> c = 61 \<or> b64_value c \<noteq> None"
proof (induction q l p st s arbitrary: bs rule: a2b.induct)
  case (2 q l p st x cs)
  then show ?case by (auto split: if_splits option.splits)
qed simp

lemma b64decode_alphabet: "b64decode s = Some bs \<Longrightarrow> c \<in> set s \<Longrightarrow> c = 61 \<or> b64_value c \<noteq> None"
  by (auto simp: b64decode_def split: if_splits dest: a2b_alphabet)

lemma b64_value_ascii: "b64_value c \<noteq> None \<Longrightarrow> c < 128"
  by (auto simp: b64_value_def split: if_splits)

lemma b64encode_ascii: "list_all (\<lambda>c. c < 128 \<and> \<not> py_isspace c) (b64encode bs)"
proof -
  have "c < 128 \<and> \<not> py_isspace c" if "c \<in> set (b64encode bs)" for c
    using b64decode_alphabet [OF b64decode_encode that]
    by (auto simp: b64_value_def py_isspace_def split: if_splits)
  then show ?thesis by (auto simp: list_all_iff)
qed

section \<open>Integers as text\<close>

text \<open>The Unicode decimal digits (CPython 3.11, Unicode 14), by the code point of each zero.\<close>

definition decimal_zeros :: "nat list" where
  "decimal_zeros =
     [1632, 1776, 1984, 2406, 2534, 2662, 2790, 2918, 3046, 3174, 3302, 3430, 3558, 3664, 3792,
      3872, 4160, 4240, 6112, 6160, 6470, 6608, 6784, 6800, 6992, 7088, 7232, 7248, 42528, 43216,
      43264, 43472, 43504, 43600, 44016, 65296, 66720, 68912, 69734, 69872, 69942, 70096, 70384,
      70736, 70864, 71248, 71360, 71472, 71904, 72016, 72784, 73040, 73120, 92768, 92864, 93008,
      120782, 120792, 120802, 120812, 120822, 123200, 123632, 125264, 130032]"

definition to_ascii_char :: "nat \<Rightarrow> nat" where
  "to_ascii_char c =
     (if c < 127 then c
      else if py_isspace c then 32
      else (case find (\<lambda>z. z \<le> c \<and> c \<le> z + 9) decimal_zeros of
              None \<Rightarrow> 63 | Some z \<Rightarrow> 48 + (c - z)))"

definition digit_value :: "nat \<Rightarrow> nat option" where
  "digit_value c =
     (if 48 \<le> c \<and> c \<le> 57 then Some (c - 48)
      else if 97 \<le> c \<and> c \<le> 122 then Some (c - 87)
      else if 65 \<le> c \<and> c \<le> 90 then Some (c - 55)
      else None)"

text \<open>
  Digits of \<open>base\<close> with single underscores between them; the flag says whether the previous
  character was a digit, which an underscore and the end both need.
\<close>

fun digits_value :: "nat \<Rightarrow> bool \<Rightarrow> nat \<Rightarrow> pystr \<Rightarrow> nat option" where
  "digits_value base d acc [] = (if d then Some acc else None)"
| "digits_value base d acc (c # cs) =
     (if c = 95 then (if d then digits_value base False acc cs else None)
      else (case digit_value c of
              None \<Rightarrow> None
            | Some v \<Rightarrow> if v < base then digits_value base True (acc * base + v) cs else None))"

definition unsigned_of_str :: "nat \<Rightarrow> pystr \<Rightarrow> nat option" where
  "unsigned_of_str base s =
     (if base = 16 \<and> (startswith (lit ''0x'') s \<or> startswith (lit ''0X'') s)
      then (let r = drop 2 s in digits_value base False 0 (if r \<noteq> [] \<and> hd r = 95 then tl r else r))
      else digits_value base False 0 s)"

definition int_of_str :: "nat \<Rightarrow> pystr \<Rightarrow> int option" where
  "int_of_str base s =
     (let t = strip ascii_isspace (map to_ascii_char s) in
      if t \<noteq> [] \<and> hd t = 43 then map_option int (unsigned_of_str base (tl t))
      else if t \<noteq> [] \<and> hd t = 45 then map_option (\<lambda>n. - int n) (unsigned_of_str base (tl t))
      else map_option int (unsigned_of_str base t))"

fun dec_of_nat :: "nat \<Rightarrow> pystr" where
  "dec_of_nat n = (if n < 10 then [48 + n] else dec_of_nat (n div 10) @ [48 + n mod 10])"

declare dec_of_nat.simps [simp del]

definition dec_of_int :: "int \<Rightarrow> pystr" where
  "dec_of_int i = (if i < 0 then 45 # dec_of_nat (nat (- i)) else dec_of_nat (nat i))"

lemma dec_of_nat_nonempty [simp]: "dec_of_nat n \<noteq> []"
  by (subst dec_of_nat.simps) simp

lemma dec_of_nat_digits: "c \<in> set (dec_of_nat n) \<Longrightarrow> 48 \<le> c \<and> c \<le> 57"
proof (induction n rule: dec_of_nat.induct)
  case (1 n)
  then show ?case
    by (subst (asm) dec_of_nat.simps) (auto split: if_splits)
qed

lemma digits_value_append:
  assumes "list_all (\<lambda>c. 48 \<le> c \<and> c \<le> 57) a" "a \<noteq> []"
  shows "digits_value 10 d acc (a @ b) = digits_value 10 True (foldl (\<lambda>n c. n * 10 + (c - 48)) acc a) b"
  using assms
proof (induction a arbitrary: acc d)
  case (Cons c cs)
  then show ?case by (cases "cs = []") (auto simp: digit_value_def)
qed simp

lemma foldl_dec_of_nat: "foldl (\<lambda>n c. n * 10 + (c - 48)) 0 (dec_of_nat n) = n"
proof (induction n rule: dec_of_nat.induct)
  case (1 n)
  then show ?case
    by (cases "n < 10") (simp_all add: dec_of_nat.simps [of n])
qed

lemma digits_value_dec_of_nat: "digits_value 10 False 0 (dec_of_nat n) = Some n"
proof -
  have "list_all (\<lambda>c. 48 \<le> c \<and> c \<le> 57) (dec_of_nat n)"
    by (auto simp: list_all_iff dest: dec_of_nat_digits)
  from digits_value_append [OF this dec_of_nat_nonempty, of False 0 "[]"]
  show ?thesis by (simp add: foldl_dec_of_nat)
qed

lemma int_of_str_plain:
  assumes "s \<noteq> []" "list_all (\<lambda>c. c < 127 \<and> \<not> ascii_isspace c) s" "hd s \<noteq> 43" "hd s \<noteq> 45"
  shows "int_of_str base s = map_option int (unsigned_of_str base s)"
proof -
  have m: "map to_ascii_char s = s"
    using assms(2) by (auto simp: list_all_iff to_ascii_char_def intro: map_idI)
  have "strip ascii_isspace s = s"
    using assms(1,2) by (intro strip_id) (auto simp: list_all_iff)
  with m assms show ?thesis by (simp add: int_of_str_def Let_def)
qed

lemma not_startswith_0x:
  assumes "120 \<notin> set s" "88 \<notin> set s"
  shows "\<not> startswith (lit ''0x'') s \<and> \<not> startswith (lit ''0X'') s"
  using assms by (auto simp: startswith_iff lit_def)

lemma int_of_str_dec_of_nat: "int_of_str 10 (dec_of_nat n) = Some (int n)"
proof -
  have d: "c \<in> set (dec_of_nat n) \<Longrightarrow> 48 \<le> c \<and> c \<le> 57" for c by (rule dec_of_nat_digits)
  then have "hd (dec_of_nat n) \<noteq> 43" "hd (dec_of_nat n) \<noteq> 45"
    using hd_in_set [OF dec_of_nat_nonempty, of n] by fastforce+
  then show ?thesis
    using d int_of_str_plain [OF dec_of_nat_nonempty]
    by (force simp: list_all_iff ascii_isspace_def unsigned_of_str_def digits_value_dec_of_nat)
qed

lemma dec_of_nat_inj: "dec_of_nat m = dec_of_nat n \<Longrightarrow> m = n"
  by (metis int_of_str_dec_of_nat option.inject of_nat_eq_iff)

lemma dec_of_int_inj: "dec_of_int i = dec_of_int j \<Longrightarrow> i = j"
proof -
  have "hd (dec_of_nat n) \<noteq> 45" for n
    using dec_of_nat_digits [OF hd_in_set [OF dec_of_nat_nonempty], of n] by auto
  then have "dec_of_nat n \<noteq> 45 # t" for n t by (metis list.sel(1))
  then show "dec_of_int i = dec_of_int j \<Longrightarrow> i = j"
    by (auto simp: dec_of_int_def split: if_splits dest!: dec_of_nat_inj) (metis)+
qed

section \<open>UUIDs\<close>

text \<open>
  A \<open>uuid.UUID\<close> is its 128-bit integer. The constructor from text drops \<open>urn:\<close> and
  \<open>uuid:\<close>, strips braces, drops hyphens, wants 32 characters left and reads them with
  \<open>int(hex, 16)\<close>.
\<close>

type_synonym uuid = nat

definition uuid_of_str :: "pystr \<Rightarrow> uuid option" where
  "uuid_of_str s =
     (let a = replace_str (lit ''uuid:'') [] (replace_str (lit ''urn:'') [] s);
          h = replace_str (lit ''-'') [] (strip (\<lambda>c. c = 123 \<or> c = 125) a)
      in if length h \<noteq> 32 then None
         else (case int_of_str 16 h of
                 None \<Rightarrow> None
               | Some i \<Rightarrow> if 0 \<le> i \<and> i < 2 ^ 128 then Some (nat i) else None))"

fun hex_pad :: "nat \<Rightarrow> nat \<Rightarrow> pystr" where
  "hex_pad 0 v = []"
| "hex_pad (Suc k) v = hex_pad k (v div 16) @ [hexdigit (v mod 16)]"

definition str_of_uuid :: "uuid \<Rightarrow> pystr" where
  "str_of_uuid u =
     (let h = hex_pad 32 u in
      take 8 h @ [45] @ take 4 (drop 8 h) @ [45] @ take 4 (drop 12 h) @ [45] @
      take 4 (drop 16 h) @ [45] @ drop 20 h)"

lemma length_hex_pad [simp]: "length (hex_pad k v) = k"
  by (induction k arbitrary: v) auto

lemma hex_pad_lower_hex: "c \<in> set (hex_pad k v) \<Longrightarrow> is_lower_hex c"
  by (induction k arbitrary: v) (auto intro: hexdigit_lower_hex)

lemma digit_value_hexdigit [simp]: "v < 16 \<Longrightarrow> digit_value (hexdigit v) = Some v"
  by (auto simp: digit_value_def hexdigit_def)

lemma hexdigit_not_underscore [simp]: "v < 16 \<Longrightarrow> hexdigit v \<noteq> 95"
  by (auto simp: hexdigit_def)

lemma digits_value_hex_pad:
  "digits_value 16 d acc (hex_pad k v @ b)
     = digits_value 16 (d \<or> 0 < k) (acc * 16 ^ k + v mod 16 ^ k) b"
proof (induction k arbitrary: v b)
  case (Suc k)
  have "v mod 16 ^ Suc k = v div 16 mod 16 ^ k * 16 + v mod 16"
    by (simp add: mod_mult2_eq [of v 16 "16 ^ k"] add.commute mult.commute)
  then have e: "(acc * 16 ^ k + v div 16 mod 16 ^ k) * 16 + v mod 16
      = acc * 16 ^ Suc k + v mod 16 ^ Suc k"
    by (simp add: algebra_simps)
  have "digits_value 16 d acc (hex_pad (Suc k) v @ b)
      = digits_value 16 True ((acc * 16 ^ k + v div 16 mod 16 ^ k) * 16 + v mod 16) b"
    using Suc.IH [of "v div 16" "hexdigit (v mod 16) # b"] by simp
  then show ?case by (simp only: e) simp
qed simp

lemma replace_str_absent:
  "old = o0 # os \<Longrightarrow> o0 \<notin> set s \<Longrightarrow> replace_str old new s = s"
  by (induction s) (auto simp: startswith_def)

lemma replace_str_remove_char: "replace_str [c] [] s = filter (\<lambda>x. x \<noteq> c) s"
  by (induction s) (auto simp: startswith_def)

lemma filter_hex: "(\<And>c. c \<in> set h \<Longrightarrow> is_lower_hex c) \<Longrightarrow> filter (\<lambda>x. x \<noteq> 45) h = h"
  by (rule filter_True) (force simp: is_lower_hex_def)

lemma str_of_uuid_chars: "c \<in> set (str_of_uuid u) \<Longrightarrow> is_lower_hex c \<or> c = 45"
  by (auto simp: str_of_uuid_def Let_def dest!: in_set_takeD in_set_dropD dest: hex_pad_lower_hex)

lemma filter_str_of_uuid: "filter (\<lambda>x. x \<noteq> 45) (str_of_uuid u) = hex_pad 32 u"
proof -
  let ?h = "hex_pad 32 u"
  have f: "filter (\<lambda>x. x \<noteq> 45) (take n (drop m ?h)) = take n (drop m ?h)" for n m
    by (rule filter_hex) (auto dest!: in_set_takeD in_set_dropD dest: hex_pad_lower_hex)
  have g: "filter (\<lambda>x. x \<noteq> 45) (drop m ?h) = drop m ?h" for m
    by (rule filter_hex) (auto dest!: in_set_dropD dest: hex_pad_lower_hex)
  have "take 8 ?h @ take 4 (drop 8 ?h) @ take 4 (drop 12 ?h) @ take 4 (drop 16 ?h) @ drop 20 ?h = ?h"
    using append_take_drop_id [of 8 ?h] append_take_drop_id [of 4 "drop 8 ?h"]
      append_take_drop_id [of 4 "drop 12 ?h"] append_take_drop_id [of 4 "drop 16 ?h"]
    by simp
  then show ?thesis
    using f [of 8 0] f [of 4 8] f [of 4 12] f [of 4 16] g [of 20]
    by (simp add: str_of_uuid_def Let_def)
qed

lemma str_of_uuid_ends:
  "str_of_uuid u \<noteq> []" "is_lower_hex (hd (str_of_uuid u))" "is_lower_hex (last (str_of_uuid u))"
proof -
  let ?h = "hex_pad 32 u"
  have l: "take 8 ?h \<noteq> []" "drop 20 ?h \<noteq> []" by (simp_all add: drop_eq_Nil flip: length_0_conv)
  then show "str_of_uuid u \<noteq> []" by (simp add: str_of_uuid_def Let_def)
  have "hd (str_of_uuid u) = hd (take 8 ?h)" "last (str_of_uuid u) = last (drop 20 ?h)"
    using l by (simp_all add: str_of_uuid_def Let_def)
  then show "is_lower_hex (hd (str_of_uuid u))" "is_lower_hex (last (str_of_uuid u))"
    using hd_in_set [OF l(1)] last_in_set [OF l(2)]
    by (auto dest!: in_set_takeD in_set_dropD dest: hex_pad_lower_hex)
qed

lemma int_of_str_hex_pad: "int_of_str 16 (hex_pad 32 u) = Some (int (u mod 2 ^ 128))"
proof -
  let ?h = "hex_pad 32 u"
  have ne: "?h \<noteq> []" by (simp flip: length_0_conv)
  have c: "c \<in> set ?h \<Longrightarrow> is_lower_hex c" for c by (rule hex_pad_lower_hex)
  then have "list_all (\<lambda>c. c < 127 \<and> \<not> ascii_isspace c) ?h"
    by (force simp: list_all_iff is_lower_hex_def ascii_isspace_def)
  moreover have "hd ?h \<noteq> 43" "hd ?h \<noteq> 45"
    using c [OF hd_in_set [OF ne]] by (auto simp: is_lower_hex_def)
  ultimately have "int_of_str 16 ?h = map_option int (unsigned_of_str 16 ?h)"
    by (intro int_of_str_plain ne)
  moreover have "unsigned_of_str 16 ?h = digits_value 16 False 0 ?h"
    using not_startswith_0x [of ?h] c by (force simp: unsigned_of_str_def is_lower_hex_def)
  moreover have "digits_value 16 False 0 ?h = Some (u mod 2 ^ 128)"
    using digits_value_hex_pad [of False 0 32 u "[]"] by simp
  ultimately show ?thesis by simp
qed

lemma uuid_of_str_of_uuid:
  assumes "u < 2 ^ 128"
  shows "uuid_of_str (str_of_uuid u) = Some u"
proof -
  let ?s = "str_of_uuid u"
  have "c \<in> set ?s \<Longrightarrow> c \<noteq> 117" for c
    by (drule str_of_uuid_chars) (auto simp: is_lower_hex_def)
  then have "replace_str (lit ''uuid:'') [] (replace_str (lit ''urn:'') [] ?s) = ?s"
    by (subst replace_str_absent [where os = "lit ''rn:''" and ?o0.0 = 117])
       (auto simp: lit_def intro!: replace_str_absent)
  moreover have "strip (\<lambda>c. c = 123 \<or> c = 125) ?s = ?s"
    using str_of_uuid_ends [of u] by (intro strip_id) (auto simp: is_lower_hex_def)
  moreover have "replace_str (lit ''-'') [] ?s = hex_pad 32 u"
    using filter_str_of_uuid replace_str_remove_char [of 45 ?s] by (simp add: lit_def)
  ultimately show ?thesis
    using assms by (simp add: uuid_of_str_def int_of_str_hex_pad)
qed

lemma str_of_uuid_inj:
  "u < 2 ^ 128 \<Longrightarrow> v < 2 ^ 128 \<Longrightarrow> str_of_uuid u = str_of_uuid v \<Longrightarrow> u = v"
  by (metis uuid_of_str_of_uuid option.inject)

lemma uuid_of_str_bound: "uuid_of_str s = Some u \<Longrightarrow> u < 2 ^ 128"
  by (auto simp: uuid_of_str_def Let_def split: if_splits option.splits)

end
