(* ===== verification/Values.thy ===== *)
theory Values
  imports Py_Text
begin

text \<open>
  The values the SDK moves around: what \<open>json.loads\<close> returns, floats, timestamps, and the
  record \<open>runtime\<close> of the interpreter facilities whose definition is data outside the source
  (the Unicode database, the decimal conversion of floats, the ISO 8601 reader).

  A float is its IEEE 754 bit pattern. A Python \<open>dict\<close> with text keys is the list of its
  items in insertion order; \<open>wf_json\<close> says every such list has distinct keys, which holds of
  every dict, and \<open>dict_set\<close> is item assignment.
\<close>

section \<open>Floats\<close>

type_synonym pyfloat = "64 word"

definition float_exponent :: "pyfloat \<Rightarrow> nat" where
  "float_exponent f = unat f div 2 ^ 52 mod 2048"

definition float_fraction :: "pyfloat \<Rightarrow> nat" where
  "float_fraction f = unat f mod 2 ^ 52"

definition float_negative :: "pyfloat \<Rightarrow> bool" where
  "float_negative f \<longleftrightarrow> 2 ^ 63 \<le> unat f"

definition float_is_nan :: "pyfloat \<Rightarrow> bool" where
  "float_is_nan f \<longleftrightarrow> float_exponent f = 2047 \<and> float_fraction f \<noteq> 0"

definition float_is_inf :: "pyfloat \<Rightarrow> bool" where
  "float_is_inf f \<longleftrightarrow> float_exponent f = 2047 \<and> float_fraction f = 0"

definition float_is_zero :: "pyfloat \<Rightarrow> bool" where
  "float_is_zero f \<longleftrightarrow> float_exponent f = 0 \<and> float_fraction f = 0"

definition float_inf :: pyfloat where "float_inf = 0x7ff0000000000000"
definition float_neg_inf :: pyfloat where "float_neg_inf = 0xfff0000000000000"
definition float_nan :: pyfloat where "float_nan = 0x7ff8000000000000"

text \<open>
  The magnitude of a finite float rounded towards zero: \<open>m * 2 ^ (e - 1075)\<close> with the hidden
  bit in \<open>m\<close> unless the number is subnormal, and those are all below 1.
\<close>

definition float_trunc :: "pyfloat \<Rightarrow> int" where
  "float_trunc f =
     (let e = float_exponent f;
          m = (if e = 0 then 0 else 2 ^ 52 + float_fraction f);
          n = (if 1075 \<le> e then m * 2 ^ (e - 1075) else m div 2 ^ (1075 - e))
      in if float_negative f then - int n else int n)"

section \<open>JSON values\<close>

datatype json =
    JNull
  | JBool bool
  | JInt int
  | JFloat pyfloat
  | JStr pystr
  | JArr "json list"
  | JObj "(pystr \<times> json) list"

type_synonym pydict = "(pystr \<times> json) list"

fun dict_set :: "('k \<times> 'v) list \<Rightarrow> 'k \<Rightarrow> 'v \<Rightarrow> ('k \<times> 'v) list" where
  "dict_set [] k v = [(k, v)]"
| "dict_set ((k', v') # d) k v = (if k' = k then (k, v) # d else (k', v') # dict_set d k v)"

fun wf_json :: "json \<Rightarrow> bool" where
  "wf_json (JArr xs) \<longleftrightarrow> (\<forall>x \<in> set xs. wf_json x)"
| "wf_json (JObj d) \<longleftrightarrow> distinct (map fst d) \<and> (\<forall>kv \<in> set d. wf_json (snd kv))"
| "wf_json _ \<longleftrightarrow> True"

definition py_truthy :: "json \<Rightarrow> bool" where
  "py_truthy v =
     (case v of JNull \<Rightarrow> False | JBool b \<Rightarrow> b | JInt i \<Rightarrow> i \<noteq> 0 | JFloat f \<Rightarrow> \<not> float_is_zero f
      | JStr s \<Rightarrow> s \<noteq> [] | JArr xs \<Rightarrow> xs \<noteq> [] | JObj d \<Rightarrow> d \<noteq> [])"

definition is_dict :: "json \<Rightarrow> bool" where
  "is_dict v \<longleftrightarrow> (case v of JObj _ \<Rightarrow> True | _ \<Rightarrow> False)"

definition is_str :: "json \<Rightarrow> bool" where
  "is_str v \<longleftrightarrow> (case v of JStr _ \<Rightarrow> True | _ \<Rightarrow> False)"

lemma is_dict_simps [simp]:
  "is_dict (JObj d)" "\<not> is_dict JNull" "\<not> is_dict (JBool b)" "\<not> is_dict (JInt i)"
  "\<not> is_dict (JFloat f)" "\<not> is_dict (JStr s)" "\<not> is_dict (JArr xs)"
  by (simp_all add: is_dict_def)

lemma is_str_simps [simp]:
  "is_str (JStr s)" "\<not> is_str JNull" "\<not> is_str (JBool b)" "\<not> is_str (JInt i)"
  "\<not> is_str (JFloat f)" "\<not> is_str (JObj d)" "\<not> is_str (JArr xs)"
  by (simp_all add: is_str_def)

lemma is_dict_iff: "is_dict v \<longleftrightarrow> (\<exists>d. v = JObj d)"
  by (cases v) auto

lemma is_str_iff: "is_str v \<longleftrightarrow> (\<exists>s. v = JStr s)"
  by (cases v) auto

lemma map_of_dict_set [simp]: "map_of (dict_set d k v) = (map_of d)(k \<mapsto> v)"
  by (induction d k v rule: dict_set.induct) (auto simp: fun_eq_iff)

lemma set_keys_dict_set: "fst ` set (dict_set d k v) = insert k (fst ` set d)"
  by (induction d k v rule: dict_set.induct) (simp_all, blast)

lemma distinct_dict_set: "distinct (map fst d) \<Longrightarrow> distinct (map fst (dict_set d k v))"
proof (induction d k v rule: dict_set.induct)
  case (2 k' v' d k v)
  then show ?case
    by (auto simp: set_keys_dict_set)
qed simp

lemma dict_set_new: "k \<notin> fst ` set d \<Longrightarrow> dict_set d k v = d @ [(k, v)]"
  by (induction d k v rule: dict_set.induct) auto

lemma raises_only_case_json [raises_intros]:
  assumes "raises_only E n" "\<And>b. raises_only E (fb b)" "\<And>i. raises_only E (fi i)"
    "\<And>f. raises_only E (ff f)" "\<And>s. v = JStr s \<Longrightarrow> raises_only E (fs s)"
    "\<And>xs. v = JArr xs \<Longrightarrow> raises_only E (fa xs)" "\<And>d. v = JObj d \<Longrightarrow> raises_only E (fo d)"
  shows "raises_only E
    (case v of JNull \<Rightarrow> n | JBool b \<Rightarrow> fb b | JInt i \<Rightarrow> fi i | JFloat f \<Rightarrow> ff f | JStr s \<Rightarrow> fs s
     | JArr xs \<Rightarrow> fa xs | JObj d \<Rightarrow> fo d)"
  by (cases v) (simp_all add: assms)

section \<open>Timestamps and the interpreter's facilities\<close>

text \<open>A \<open>datetime\<close>: whether it carries a UTC offset, and its microseconds since the epoch (read as UTC if it carries none).\<close>

record datetime =
  dt_aware :: bool
  dt_micros :: int

record runtime =
  uc_isalnum :: "nat \<Rightarrow> bool"  \<comment> \<open>\<open>str.isalnum\<close> beyond ASCII\<close>
  strtod :: "pystr \<Rightarrow> pyfloat"  \<comment> \<open>\<open>float\<close> of a JSON number literal\<close>
  float_repr :: "pyfloat \<Rightarrow> pystr"
  container_repr :: "json \<Rightarrow> pystr"  \<comment> \<open>\<open>str\<close> of a list or a dict\<close>
  fromisoformat :: "pystr \<Rightarrow> datetime option"

definition py_isalnum :: "runtime \<Rightarrow> nat \<Rightarrow> bool" where
  "py_isalnum R c = (if c < 128 then ascii_isalnum c else uc_isalnum R c)"

text \<open>\<open>str(value)\<close>.\<close>

definition py_str :: "runtime \<Rightarrow> json \<Rightarrow> pystr" where
  "py_str R v =
     (case v of
        JNull \<Rightarrow> lit ''None''
      | JBool b \<Rightarrow> (if b then lit ''True'' else lit ''False'')
      | JInt i \<Rightarrow> dec_of_int i
      | JFloat f \<Rightarrow> float_repr R f
      | JStr s \<Rightarrow> s
      | JArr _ \<Rightarrow> container_repr R v
      | JObj _ \<Rightarrow> container_repr R v)"

lemma py_str_JStr [simp]: "py_str R (JStr s) = s"
  by (simp add: py_str_def)

text \<open>
  A concrete interpreter for the instances that the library evaluates: it knows ASCII, one
  timestamp and no other float or container text than the ones below.
\<close>

definition sample_runtime :: runtime where
  "sample_runtime =
     \<lparr>uc_isalnum = (\<lambda>_. False), strtod = (\<lambda>_. 0), float_repr = (\<lambda>_. lit ''0.0''),
      container_repr = (\<lambda>_. lit ''[]''),
      fromisoformat = (\<lambda>s. if s = lit ''2030-01-01T00:00:00+00:00''
                            then Some \<lparr>dt_aware = True, dt_micros = 1893456000000000\<rparr> else None)\<rparr>"

end
