(* ===== verification/Enums.thy ===== *)
theory Enums
  imports Values
begin

text \<open>
  The string enumerations of \<open>src/src/tamga/models\<close>: \<open>validation.py\<close>,
  \<open>policy.py\<close> and \<open>machine.py\<close>. Each is a datatype with its members in the
  source's order and its wire values. \<open>enum_of\<close> is the constructor call \<open>E(raw)\<close>:
  \<open>None\<close> where it raises \<open>ValueError\<close>. \<open>ValidationCode\<close> and
  \<open>CheckInInterval\<close> override \<open>_missing_\<close> and have constructors of their own.

  The locale \<open>closed_enum\<close> is the contract of all seven: the member list is complete and the
  wire values are distinct. Its lemmas give the round trip and the exact domain of the constructor.
  \<open>lenient_enum\<close> extends it with a reader that falls back to a default.
\<close>

definition enum_of :: "'a list \<Rightarrow> ('a \<Rightarrow> pystr) \<Rightarrow> json \<Rightarrow> 'a option" where
  "enum_of members val raw =
     (case raw of JStr s \<Rightarrow> find (\<lambda>m. val m = s) members | _ \<Rightarrow> None)"

locale closed_enum =
  fixes members :: "'a list" and val :: "'a \<Rightarrow> pystr"
  assumes complete: "m \<in> set members"
    and distinct_values: "distinct (map val members)"
begin

lemma val_inj: "val m = val n \<Longrightarrow> m = n"
  using distinct_values complete by (auto simp: distinct_map dest: inj_onD)

lemma of_value: "enum_of members val (JStr (val m)) = Some m"
proof -
  have "find (\<lambda>n. val n = val m) ms = (if m \<in> set ms then Some m else None)" for ms
    by (induction ms) (auto dest: val_inj)
  then show ?thesis by (simp add: enum_of_def complete)
qed

lemma of_iff: "enum_of members val raw = Some m \<longleftrightarrow> raw = JStr (val m)"
proof
  assume "enum_of members val raw = Some m"
  then show "raw = JStr (val m)"
    by (auto simp: enum_of_def find_Some_iff split: json.splits)
qed (simp add: of_value)

lemma of_none_iff: "enum_of members val raw = None \<longleftrightarrow> (\<forall>m. raw \<noteq> JStr (val m))"
  by (metis not_Some_eq of_iff)

end

text \<open>
  An enumeration with a reader that never refuses: whatever is no member's wire value is read as the
  default. \<open>ValidationCode\<close>, \<open>HeartbeatStatus\<close> in a machine file, and the overage and resurrection
  strategies of a policy are read so.
\<close>

locale lenient_enum = closed_enum members val
  for members :: "'a list" and val :: "'a \<Rightarrow> pystr" +
  fixes d :: 'a and read :: "json \<Rightarrow> 'e + 'a"
  assumes read_eq: "read raw = Inr (case enum_of members val raw of None \<Rightarrow> d | Some m \<Rightarrow> m)"
begin

lemma read_iff: "read raw = Inr m \<longleftrightarrow> raw = JStr (val m) \<or> m = d \<and> (\<nexists>j. raw = JStr (val j))"
proof (cases "enum_of members val raw")
  case None
  then show ?thesis using of_none_iff [of raw] by (auto simp: read_eq)
next
  case (Some j)
  then have "raw = JStr (val j)" by (simp add: of_iff)
  with Some show ?thesis using val_inj by (auto simp: read_eq)
qed

lemma read_value: "read (JStr (val m)) = Inr m"
  by (simp add: read_iff)

lemma read_unknown: "(\<And>j. raw \<noteq> JStr (val j)) \<Longrightarrow> read raw = Inr d"
  by (simp add: read_iff)

end

section \<open>models/validation.py\<close>

datatype validation_code =
    VALID | SUSPENDED | EXPIRED | OVERDUE | PRODUCT_SCOPE_MISMATCH | POLICY_SCOPE_MISMATCH
  | USER_SCOPE_MISMATCH | ENVIRONMENT_SCOPE_MISMATCH | TOO_MANY_MACHINES | TOO_MANY_CORES
  | TOO_MUCH_MEMORY | TOO_MUCH_DISK | TOO_MANY_PROCESSES | NOT_FOUND | BANNED
  | ENTITLEMENTS_MISSING | TOO_MANY_USERS | HEARTBEAT_DEAD | HEARTBEAT_NOT_STARTED
  | FINGERPRINT_SCOPE_MISMATCH | COMPONENTS_SCOPE_MISMATCH | CHECKSUM_SCOPE_MISMATCH
  | VERSION_SCOPE_MISMATCH | UNKNOWN

definition validation_codes :: "validation_code list" where
  "validation_codes =
     [VALID, SUSPENDED, EXPIRED, OVERDUE, PRODUCT_SCOPE_MISMATCH, POLICY_SCOPE_MISMATCH,
      USER_SCOPE_MISMATCH, ENVIRONMENT_SCOPE_MISMATCH, TOO_MANY_MACHINES, TOO_MANY_CORES,
      TOO_MUCH_MEMORY, TOO_MUCH_DISK, TOO_MANY_PROCESSES, NOT_FOUND, BANNED,
      ENTITLEMENTS_MISSING, TOO_MANY_USERS, HEARTBEAT_DEAD, HEARTBEAT_NOT_STARTED,
      FINGERPRINT_SCOPE_MISMATCH, COMPONENTS_SCOPE_MISMATCH, CHECKSUM_SCOPE_MISMATCH,
      VERSION_SCOPE_MISMATCH, UNKNOWN]"

fun validation_code_value :: "validation_code \<Rightarrow> pystr" where
  "validation_code_value VALID = lit ''VALID''"
| "validation_code_value SUSPENDED = lit ''SUSPENDED''"
| "validation_code_value EXPIRED = lit ''EXPIRED''"
| "validation_code_value OVERDUE = lit ''OVERDUE''"
| "validation_code_value PRODUCT_SCOPE_MISMATCH = lit ''PRODUCT_SCOPE_MISMATCH''"
| "validation_code_value POLICY_SCOPE_MISMATCH = lit ''POLICY_SCOPE_MISMATCH''"
| "validation_code_value USER_SCOPE_MISMATCH = lit ''USER_SCOPE_MISMATCH''"
| "validation_code_value ENVIRONMENT_SCOPE_MISMATCH = lit ''ENVIRONMENT_SCOPE_MISMATCH''"
| "validation_code_value TOO_MANY_MACHINES = lit ''TOO_MANY_MACHINES''"
| "validation_code_value TOO_MANY_CORES = lit ''TOO_MANY_CORES''"
| "validation_code_value TOO_MUCH_MEMORY = lit ''TOO_MUCH_MEMORY''"
| "validation_code_value TOO_MUCH_DISK = lit ''TOO_MUCH_DISK''"
| "validation_code_value TOO_MANY_PROCESSES = lit ''TOO_MANY_PROCESSES''"
| "validation_code_value NOT_FOUND = lit ''NOT_FOUND''"
| "validation_code_value BANNED = lit ''BANNED''"
| "validation_code_value ENTITLEMENTS_MISSING = lit ''ENTITLEMENTS_MISSING''"
| "validation_code_value TOO_MANY_USERS = lit ''TOO_MANY_USERS''"
| "validation_code_value HEARTBEAT_DEAD = lit ''HEARTBEAT_DEAD''"
| "validation_code_value HEARTBEAT_NOT_STARTED = lit ''HEARTBEAT_NOT_STARTED''"
| "validation_code_value FINGERPRINT_SCOPE_MISMATCH = lit ''FINGERPRINT_SCOPE_MISMATCH''"
| "validation_code_value COMPONENTS_SCOPE_MISMATCH = lit ''COMPONENTS_SCOPE_MISMATCH''"
| "validation_code_value CHECKSUM_SCOPE_MISMATCH = lit ''CHECKSUM_SCOPE_MISMATCH''"
| "validation_code_value VERSION_SCOPE_MISMATCH = lit ''VERSION_SCOPE_MISMATCH''"
| "validation_code_value UNKNOWN = lit ''UNKNOWN''"

text \<open>\<open>ValidationCode(raw)\<close>: \<open>_missing_\<close> answers \<open>UNKNOWN\<close> for anything else.\<close>

definition validation_code_of :: "json \<Rightarrow> validation_code" where
  "validation_code_of raw =
     (case enum_of validation_codes validation_code_value raw of None \<Rightarrow> UNKNOWN | Some c \<Rightarrow> c)"

interpretation validation_enum: lenient_enum validation_codes validation_code_value UNKNOWN
  "\<lambda>raw. Inr (validation_code_of raw) :: unit + validation_code"
proof
  show "m \<in> set validation_codes" for m by (cases m) (simp_all add: validation_codes_def)
qed (simp_all add: validation_codes_def validation_code_of_def)

lemma validation_code_of_value [simp]: "validation_code_of (JStr (validation_code_value c)) = c"
  using validation_enum.read_value [of c] by simp

lemma validation_code_of_unknown:
  "(\<And>c. raw \<noteq> JStr (validation_code_value c)) \<Longrightarrow> validation_code_of raw = UNKNOWN"
  using validation_enum.read_unknown [of raw] by simp

section \<open>models/policy.py\<close>

datatype overage_strategy =
    NO_OVERAGE | ALLOW_1_25X_OVERAGE | ALLOW_1_5X_OVERAGE | ALLOW_2X_OVERAGE | ALWAYS_ALLOW_OVERAGE

definition overage_strategies :: "overage_strategy list" where
  "overage_strategies =
     [NO_OVERAGE, ALLOW_1_25X_OVERAGE, ALLOW_1_5X_OVERAGE, ALLOW_2X_OVERAGE, ALWAYS_ALLOW_OVERAGE]"

fun overage_strategy_value :: "overage_strategy \<Rightarrow> pystr" where
  "overage_strategy_value NO_OVERAGE = lit ''NO_OVERAGE''"
| "overage_strategy_value ALLOW_1_25X_OVERAGE = lit ''ALLOW_1_25X_OVERAGE''"
| "overage_strategy_value ALLOW_1_5X_OVERAGE = lit ''ALLOW_1_5X_OVERAGE''"
| "overage_strategy_value ALLOW_2X_OVERAGE = lit ''ALLOW_2X_OVERAGE''"
| "overage_strategy_value ALWAYS_ALLOW_OVERAGE = lit ''ALWAYS_ALLOW_OVERAGE''"

interpretation overage_enum: closed_enum overage_strategies overage_strategy_value
proof
  show "m \<in> set overage_strategies" for m by (cases m) (simp_all add: overage_strategies_def)
qed (simp add: overage_strategies_def)

datatype license_scheme =
    ED25519_SIGN | RSA_2048_PKCS1_SIGN | RSA_2048_PKCS1_PSS_SIGN | ECDSA_P256_SIGN
  | RSA_2048_JWT_RS256

definition license_schemes :: "license_scheme list" where
  "license_schemes =
     [ED25519_SIGN, RSA_2048_PKCS1_SIGN, RSA_2048_PKCS1_PSS_SIGN, ECDSA_P256_SIGN,
      RSA_2048_JWT_RS256]"

fun license_scheme_value :: "license_scheme \<Rightarrow> pystr" where
  "license_scheme_value ED25519_SIGN = lit ''ED25519_SIGN''"
| "license_scheme_value RSA_2048_PKCS1_SIGN = lit ''RSA_2048_PKCS1_SIGN''"
| "license_scheme_value RSA_2048_PKCS1_PSS_SIGN = lit ''RSA_2048_PKCS1_PSS_SIGN''"
| "license_scheme_value ECDSA_P256_SIGN = lit ''ECDSA_P256_SIGN''"
| "license_scheme_value RSA_2048_JWT_RS256 = lit ''RSA_2048_JWT_RS256''"

interpretation scheme_enum: closed_enum license_schemes license_scheme_value
proof
  show "m \<in> set license_schemes" for m by (cases m) (simp_all add: license_schemes_def)
qed (simp add: license_schemes_def)

datatype heartbeat_cull_strategy = DEACTIVATE_DEAD | KEEP_DEAD

definition cull_strategies :: "heartbeat_cull_strategy list" where
  "cull_strategies = [DEACTIVATE_DEAD, KEEP_DEAD]"

fun cull_strategy_value :: "heartbeat_cull_strategy \<Rightarrow> pystr" where
  "cull_strategy_value DEACTIVATE_DEAD = lit ''DEACTIVATE_DEAD''"
| "cull_strategy_value KEEP_DEAD = lit ''KEEP_DEAD''"

interpretation cull_enum: closed_enum cull_strategies cull_strategy_value
proof
  show "m \<in> set cull_strategies" for m by (cases m) (simp_all add: cull_strategies_def)
qed (simp add: cull_strategies_def)

datatype heartbeat_resurrection_strategy =
    NO_REVIVE | ONE_MINUTE_REVIVE | TWO_MINUTE_REVIVE | FIVE_MINUTE_REVIVE | TEN_MINUTE_REVIVE
  | FIFTEEN_MINUTE_REVIVE | ALWAYS_REVIVE

definition resurrection_strategies :: "heartbeat_resurrection_strategy list" where
  "resurrection_strategies =
     [NO_REVIVE, ONE_MINUTE_REVIVE, TWO_MINUTE_REVIVE, FIVE_MINUTE_REVIVE, TEN_MINUTE_REVIVE,
      FIFTEEN_MINUTE_REVIVE, ALWAYS_REVIVE]"

fun resurrection_strategy_value :: "heartbeat_resurrection_strategy \<Rightarrow> pystr" where
  "resurrection_strategy_value NO_REVIVE = lit ''NO_REVIVE''"
| "resurrection_strategy_value ONE_MINUTE_REVIVE = lit ''1_MINUTE_REVIVE''"
| "resurrection_strategy_value TWO_MINUTE_REVIVE = lit ''2_MINUTE_REVIVE''"
| "resurrection_strategy_value FIVE_MINUTE_REVIVE = lit ''5_MINUTE_REVIVE''"
| "resurrection_strategy_value TEN_MINUTE_REVIVE = lit ''10_MINUTE_REVIVE''"
| "resurrection_strategy_value FIFTEEN_MINUTE_REVIVE = lit ''15_MINUTE_REVIVE''"
| "resurrection_strategy_value ALWAYS_REVIVE = lit ''ALWAYS_REVIVE''"

interpretation resurrection_enum: closed_enum resurrection_strategies resurrection_strategy_value
proof
  show "m \<in> set resurrection_strategies" for m by (cases m) (simp_all add: resurrection_strategies_def)
qed (simp add: resurrection_strategies_def)

text \<open>
  \<open>CheckInInterval\<close>: the noun names \<open>DAY\<close>, \<open>WEEK\<close>, ... are aliases of the four members,
  so the datatype has four. The constructor tries the exact value, then \<open>_missing_\<close>: text is
  stripped and lowered, a noun is replaced by its adverb, and the members are scanned.
\<close>

datatype check_in_interval = DAILY | WEEKLY | MONTHLY | YEARLY

definition check_in_intervals :: "check_in_interval list" where
  "check_in_intervals = [DAILY, WEEKLY, MONTHLY, YEARLY]"

fun check_in_interval_value :: "check_in_interval \<Rightarrow> pystr" where
  "check_in_interval_value DAILY = lit ''daily''"
| "check_in_interval_value WEEKLY = lit ''weekly''"
| "check_in_interval_value MONTHLY = lit ''monthly''"
| "check_in_interval_value YEARLY = lit ''yearly''"

definition legacy_check_in_intervals :: "(pystr \<times> pystr) list" where
  "legacy_check_in_intervals =
     [(lit ''day'', lit ''daily''), (lit ''week'', lit ''weekly''),
      (lit ''month'', lit ''monthly''), (lit ''year'', lit ''yearly'')]"

definition check_in_missing :: "json \<Rightarrow> check_in_interval option" where
  "check_in_missing raw =
     (case raw of
        JStr s \<Rightarrow>
          (let normalized = py_lower (strip py_isspace s);
               normalized = (case map_of legacy_check_in_intervals normalized of
                               None \<Rightarrow> normalized | Some v \<Rightarrow> v)
           in find (\<lambda>m. check_in_interval_value m = normalized) check_in_intervals)
      | _ \<Rightarrow> None)"

definition check_in_interval_of :: "json \<Rightarrow> check_in_interval option" where
  "check_in_interval_of raw =
     (case enum_of check_in_intervals check_in_interval_value raw of
        None \<Rightarrow> check_in_missing raw | Some m \<Rightarrow> Some m)"

interpretation check_in_enum: closed_enum check_in_intervals check_in_interval_value
proof
  show "m \<in> set check_in_intervals" for m by (cases m) (simp_all add: check_in_intervals_def)
qed (simp add: check_in_intervals_def)

section \<open>models/machine.py\<close>

datatype heartbeat_status = NOT_STARTED | ALIVE | DEAD | RESURRECTED

definition heartbeat_statuses :: "heartbeat_status list" where
  "heartbeat_statuses = [NOT_STARTED, ALIVE, DEAD, RESURRECTED]"

fun heartbeat_status_value :: "heartbeat_status \<Rightarrow> pystr" where
  "heartbeat_status_value NOT_STARTED = lit ''NOT_STARTED''"
| "heartbeat_status_value ALIVE = lit ''ALIVE''"
| "heartbeat_status_value DEAD = lit ''DEAD''"
| "heartbeat_status_value RESURRECTED = lit ''RESURRECTED''"

interpretation heartbeat_enum: closed_enum heartbeat_statuses heartbeat_status_value
proof
  show "m \<in> set heartbeat_statuses" for m by (cases m) (simp_all add: heartbeat_statuses_def)
qed (simp add: heartbeat_statuses_def)

section \<open>Check-in intervals, resolved\<close>

definition check_in_spellings :: "check_in_interval \<Rightarrow> pystr list" where
  "check_in_spellings m =
     (case m of DAILY \<Rightarrow> [lit ''daily'', lit ''day''] | WEEKLY \<Rightarrow> [lit ''weekly'', lit ''week'']
      | MONTHLY \<Rightarrow> [lit ''monthly'', lit ''month''] | YEARLY \<Rightarrow> [lit ''yearly'', lit ''year''])"

lemma normalized_value: "py_lower (strip py_isspace (check_in_interval_value m)) = check_in_interval_value m"
  by (cases m) (simp_all add: lit_def strip_def lstrip_def rstrip_def py_isspace_def py_lower_def lower_char_def)

lemma check_in_scan:
  "find (\<lambda>m. check_in_interval_value m
       = (case map_of legacy_check_in_intervals n of None \<Rightarrow> n | Some v \<Rightarrow> v)) check_in_intervals
     = Some m \<longleftrightarrow> n \<in> set (check_in_spellings m)"
  by (cases m)
    (auto simp: legacy_check_in_intervals_def check_in_intervals_def check_in_spellings_def)

lemma check_in_interval_of_iff:
  "check_in_interval_of (JStr s) = Some m
     \<longleftrightarrow> py_lower (strip py_isspace s) \<in> set (check_in_spellings m)"
proof -
  let ?n = "py_lower (strip py_isspace s)"
  have miss: "check_in_missing (JStr s) = Some m \<longleftrightarrow> ?n \<in> set (check_in_spellings m)" for m
    by (simp add: check_in_missing_def Let_def check_in_scan)
  show ?thesis
  proof (cases "enum_of check_in_intervals check_in_interval_value (JStr s)")
    case None
    then show ?thesis by (simp add: check_in_interval_of_def miss)
  next
    case (Some k)
    then have s: "s = check_in_interval_value k" by (simp add: check_in_enum.of_iff)
    then have "?n = check_in_interval_value k" by (simp add: normalized_value)
    then have "?n \<in> set (check_in_spellings m) \<longleftrightarrow> k = m"
      by (cases k; cases m) (simp_all add: check_in_spellings_def)
    with Some show ?thesis by (simp add: check_in_interval_of_def)
  qed
qed

end
