(* ===== verification/Errors.thy ===== *)
theory Errors
  imports Enums
begin

text \<open>
  The exceptions of the SDK: \<open>src/src/tamga/errors.py\<close>, the offline errors of
  \<open>checkout/key_set.py\<close>, \<open>checkout/license_file.py\<close>,
  \<open>checkout/machine_file.py\<close> and \<open>fingerprint.py\<close>, and the built-in and library
  exceptions their callers can see. Message texts are not modelled; the attributes the classes
  define are.

  \<open>is_ValueError\<close> and its siblings are \<open>isinstance\<close> tests along the class hierarchy, the
  way an \<open>except\<close> clause sees an exception. \<open>MachineOverLimitError\<close> is both a
  \<open>TamgaError\<close> and a \<open>ValueError\<close>.
\<close>

section \<open>The TamgaError hierarchy\<close>

datatype tamga_class =
    RateLimitedError | NotFoundError | UnauthorizedError | ForbiddenError |
    InternalServerError | KeyTakenError | FingerprintTakenError | PidTakenError |
    CheckInNotRequiredError | TtlInvalidError | PresignTtlInvalidError |
    StorageUnavailableError | LicenseNotEncryptedError | LicenseKeyMissingError |
    SchemeNotSupportedError | SigningKeyMissingError | SecretKeyMissingError |
    DatasetInvalidError | MachineLimitExceededError | CoreLimitExceededError |
    MemoryLimitExceededError | DiskLimitExceededError | TooManyProcessesError |
    MeterLimitExceededError | LicenseSuspendedError | LicenseExpiredError |
    LicenseNotAllowedError | ArtifactDownloadError | MachineOverLimitError | UnknownTamgaError

text \<open>
  The attributes of a \<open>TamgaError\<close>. \<open>code\<close>, \<open>detail\<close> and \<open>pointer\<close> hold
  whatever JSON value the server sent. \<open>retry_after\<close> is \<open>RateLimitedError\<close>'s; the last two
  are \<open>MachineOverLimitError\<close>'s.
\<close>

record tamga_error =
  te_class :: tamga_class
  te_status :: int
  te_code :: json
  te_detail :: json
  te_pointer :: json
  te_meta :: "pydict option"
  te_retry_after :: "int option"
  te_validation_code :: "validation_code option"
  te_rolled_back :: "bool option"

definition tamga_error_of ::
  "tamga_class \<Rightarrow> int \<Rightarrow> json \<Rightarrow> json \<Rightarrow> json \<Rightarrow> pydict option \<Rightarrow> tamga_error" where
  "tamga_error_of c status code detail pointer meta =
     \<lparr>te_class = c, te_status = status, te_code = code, te_detail = detail, te_pointer = pointer,
      te_meta = meta, te_retry_after = None, te_validation_code = None, te_rolled_back = None\<rparr>"

lemma tamga_error_of_sel [simp]:
  "te_class (tamga_error_of c st co d p m) = c" "te_status (tamga_error_of c st co d p m) = st"
  "te_code (tamga_error_of c st co d p m) = co" "te_detail (tamga_error_of c st co d p m) = d"
  "te_pointer (tamga_error_of c st co d p m) = p" "te_meta (tamga_error_of c st co d p m) = m"
  "te_retry_after (tamga_error_of c st co d p m) = None"
  "te_validation_code (tamga_error_of c st co d p m) = None"
  "te_rolled_back (tamga_error_of c st co d p m) = None"
  by (simp_all add: tamga_error_of_def)

text \<open>\<open>FingerprintTakenError.existing_machine_id\<close> and \<open>MeterLimitExceededError.entitlement_id\<close>.\<close>

definition meta_uuid :: "pystr \<Rightarrow> pydict option \<Rightarrow> uuid option" where
  "meta_uuid key meta =
     (case map_of (case meta of None \<Rightarrow> [] | Some d \<Rightarrow> d) key of
        Some (JStr raw) \<Rightarrow> uuid_of_str raw
      | _ \<Rightarrow> None)"

definition existing_machine_id :: "tamga_error \<Rightarrow> uuid option" where
  "existing_machine_id e = meta_uuid (lit ''machineId'') (te_meta e)"

definition entitlement_id :: "tamga_error \<Rightarrow> uuid option" where
  "entitlement_id e = meta_uuid (lit ''entitlement_id'') (te_meta e)"

lemma meta_uuid_str:
  "u < 2 ^ 128 \<Longrightarrow> map_of d key = Some (JStr (str_of_uuid u)) \<Longrightarrow> meta_uuid key (Some d) = Some u"
  by (simp add: meta_uuid_def uuid_of_str_of_uuid)

lemma meta_uuid_absent [simp]: "meta_uuid key None = None"
  by (simp add: meta_uuid_def)

definition code_to_exception :: "(pystr \<times> tamga_class) list" where
  "code_to_exception =
     [(lit ''NOT_FOUND'', NotFoundError),
      (lit ''UNAUTHORIZED'', UnauthorizedError),
      (lit ''FORBIDDEN'', ForbiddenError),
      (lit ''INTERNAL_SERVER_ERROR'', InternalServerError),
      (lit ''KEY_TAKEN'', KeyTakenError),
      (lit ''FINGERPRINT_TAKEN'', FingerprintTakenError),
      (lit ''PID_TAKEN'', PidTakenError),
      (lit ''CHECK_IN_NOT_REQUIRED'', CheckInNotRequiredError),
      (lit ''TTL_INVALID'', TtlInvalidError),
      (lit ''PRESIGN_TTL_INVALID'', PresignTtlInvalidError),
      (lit ''STORAGE_UNAVAILABLE'', StorageUnavailableError),
      (lit ''LICENSE_NOT_ENCRYPTED'', LicenseNotEncryptedError),
      (lit ''LICENSE_KEY_MISSING'', LicenseKeyMissingError),
      (lit ''SCHEME_NOT_SUPPORTED'', SchemeNotSupportedError),
      (lit ''SIGNING_KEY_MISSING'', SigningKeyMissingError),
      (lit ''SECRET_KEY_MISSING'', SecretKeyMissingError),
      (lit ''DATASET_INVALID'', DatasetInvalidError),
      (lit ''MACHINE_LIMIT_EXCEEDED'', MachineLimitExceededError),
      (lit ''CORE_LIMIT_EXCEEDED'', CoreLimitExceededError),
      (lit ''MEMORY_LIMIT_EXCEEDED'', MemoryLimitExceededError),
      (lit ''DISK_LIMIT_EXCEEDED'', DiskLimitExceededError),
      (lit ''TOO_MANY_PROCESSES'', TooManyProcessesError),
      (lit ''METER_LIMIT_EXCEEDED'', MeterLimitExceededError),
      (lit ''LICENSE_SUSPENDED'', LicenseSuspendedError),
      (lit ''LICENSE_EXPIRED'', LicenseExpiredError),
      (lit ''LICENSE_NOT_ALLOWED'', LicenseNotAllowedError)]"

lemma distinct_codes: "distinct (map fst code_to_exception)"
  by (simp add: code_to_exception_def)

section \<open>All exceptions\<close>

datatype exc =
    ValueError | UnicodeEncodeError | UnicodeDecodeError | JSONDecodeError | BinasciiError
  | OverflowError | TypeError | KeyError | IndexError | AttributeError | RuntimeError | AssertionError
  | InvalidSignature | InvalidTag | UnsupportedAlgorithm | HttpxError
  | FingerprintComponentError
  | LicenseFileExpired int | MachineFileExpired int
  | NoUsableSigningKeyError "pystr list"
  | UnknownSigningKeyError pystr "pystr list"
  | SigningKeyNotPublishedError pystr "pystr list"
  | SigningKeyNotApplicableError pystr
  | TamgaError tamga_error

fun is_SigningKeyError :: "exc \<Rightarrow> bool" where
  "is_SigningKeyError (NoUsableSigningKeyError _) = True"
| "is_SigningKeyError (UnknownSigningKeyError _ _) = True"
| "is_SigningKeyError (SigningKeyNotPublishedError _ _) = True"
| "is_SigningKeyError (SigningKeyNotApplicableError _) = True"
| "is_SigningKeyError _ = False"

fun is_UnknownSigningKeyError :: "exc \<Rightarrow> bool" where
  "is_UnknownSigningKeyError (UnknownSigningKeyError _ _) = True"
| "is_UnknownSigningKeyError (SigningKeyNotPublishedError _ _) = True"
| "is_UnknownSigningKeyError _ = False"

fun is_LicenseFileExpired :: "exc \<Rightarrow> bool" where
  "is_LicenseFileExpired (LicenseFileExpired _) = True"
| "is_LicenseFileExpired (MachineFileExpired _) = True"
| "is_LicenseFileExpired _ = False"

fun is_TamgaError :: "exc \<Rightarrow> bool" where
  "is_TamgaError (TamgaError _) = True"
| "is_TamgaError _ = False"

definition is_tamga :: "tamga_class \<Rightarrow> exc \<Rightarrow> bool" where
  "is_tamga c e \<longleftrightarrow> (case e of TamgaError t \<Rightarrow> te_class t = c | _ \<Rightarrow> False)"

fun is_ValueError :: "exc \<Rightarrow> bool" where
  "is_ValueError (TamgaError e) = (te_class e = MachineOverLimitError)"
| "is_ValueError ValueError = True"
| "is_ValueError UnicodeEncodeError = True"
| "is_ValueError UnicodeDecodeError = True"
| "is_ValueError JSONDecodeError = True"
| "is_ValueError BinasciiError = True"
| "is_ValueError FingerprintComponentError = True"
| "is_ValueError (LicenseFileExpired _) = True"
| "is_ValueError (MachineFileExpired _) = True"
| "is_ValueError (NoUsableSigningKeyError _) = True"
| "is_ValueError (UnknownSigningKeyError _ _) = True"
| "is_ValueError (SigningKeyNotPublishedError _ _) = True"
| "is_ValueError (SigningKeyNotApplicableError _) = True"
| "is_ValueError _ = False"

lemma hierarchy:
  "is_UnknownSigningKeyError e \<Longrightarrow> is_SigningKeyError e"
  "is_SigningKeyError e \<Longrightarrow> is_ValueError e"
  "is_LicenseFileExpired e \<Longrightarrow> is_ValueError e"
  by (cases e; simp)+

lemma is_tamga_simps [simp]:
  "is_tamga c (TamgaError t) \<longleftrightarrow> te_class t = c"
  by (simp add: is_tamga_def)

end
