(* ===== verification/Sha256.thy ===== *)
theory Sha256
  imports Py_Text
begin

text \<open>
  \<open>hashlib.sha256\<close> of the Python standard library, following FIPS 180-4 on 32-bit words:
  the padded message is cut into 16-word blocks and each block updates the eight-word state by 64
  rounds. The model is executable, so the constants the source states as digests
  (\<open>UNBACKFILLED_ACCOUNT_KEY_ID\<close>, the documented fingerprint) are checked by evaluation.
  \<open>length_sha256\<close> is the digest size every caller relies on.
\<close>

unbundle bit_operations_syntax

type_synonym u32 = "32 word"

definition rotr32 :: "nat \<Rightarrow> u32 \<Rightarrow> u32" where
  "rotr32 n x = drop_bit n x OR push_bit (32 - n) x"

definition sha_ch :: "u32 \<Rightarrow> u32 \<Rightarrow> u32 \<Rightarrow> u32" where
  "sha_ch x y z = (x AND y) XOR (NOT x AND z)"

definition sha_maj :: "u32 \<Rightarrow> u32 \<Rightarrow> u32 \<Rightarrow> u32" where
  "sha_maj x y z = (x AND y) XOR (x AND z) XOR (y AND z)"

definition sha_big0 :: "u32 \<Rightarrow> u32" where
  "sha_big0 x = rotr32 2 x XOR rotr32 13 x XOR rotr32 22 x"

definition sha_big1 :: "u32 \<Rightarrow> u32" where
  "sha_big1 x = rotr32 6 x XOR rotr32 11 x XOR rotr32 25 x"

definition sha_small0 :: "u32 \<Rightarrow> u32" where
  "sha_small0 x = rotr32 7 x XOR rotr32 18 x XOR drop_bit 3 x"

definition sha_small1 :: "u32 \<Rightarrow> u32" where
  "sha_small1 x = rotr32 17 x XOR rotr32 19 x XOR drop_bit 10 x"

definition sha_k :: "u32 list" where
  "sha_k =
     [1116352408, 1899447441, 3049323471, 3921009573, 961987163, 1508970993,
      2453635748, 2870763221, 3624381080, 310598401, 607225278, 1426881987,
      1925078388, 2162078206, 2614888103, 3248222580, 3835390401, 4022224774,
      264347078, 604807628, 770255983, 1249150122, 1555081692, 1996064986,
      2554220882, 2821834349, 2952996808, 3210313671, 3336571891, 3584528711,
      113926993, 338241895, 666307205, 773529912, 1294757372, 1396182291,
      1695183700, 1986661051, 2177026350, 2456956037, 2730485921, 2820302411,
      3259730800, 3345764771, 3516065817, 3600352804, 4094571909, 275423344,
      430227734, 506948616, 659060556, 883997877, 958139571, 1322822218,
      1537002063, 1747873779, 1955562222, 2024104815, 2227730452, 2361852424,
      2428436474, 2756734187, 3204031479, 3329325298]"

definition sha_init :: "u32 list" where
  "sha_init = [1779033703, 3144134277, 1013904242, 2773480762,
     1359893119, 2600822924, 528734635, 1541459225]"

text \<open>The message schedule, from the window of the last sixteen words.\<close>

fun sha_schedule :: "nat \<Rightarrow> u32 list \<Rightarrow> u32 list" where
  "sha_schedule 0 w = []"
| "sha_schedule (Suc n) w =
     w ! 0 # sha_schedule n
       (tl w @ [sha_small1 (w ! 14) + w ! 9 + sha_small0 (w ! 1) + w ! 0])"

definition sha_mix :: "u32 list \<Rightarrow> u32 \<Rightarrow> u32 \<Rightarrow> u32 list" where
  "sha_mix s t1 t2 = [t1 + t2, s ! 0, s ! 1, s ! 2, s ! 3 + t1, s ! 4, s ! 5, s ! 6]"

definition sha_round :: "u32 list \<Rightarrow> u32 \<times> u32 \<Rightarrow> u32 list" where
  "sha_round s kw =
     sha_mix s (s ! 7 + sha_big1 (s ! 4) + sha_ch (s ! 4) (s ! 5) (s ! 6) + fst kw + snd kw)
       (sha_big0 (s ! 0) + sha_maj (s ! 0) (s ! 1) (s ! 2))"

definition sha_compress :: "u32 list \<Rightarrow> u32 list \<Rightarrow> u32 list" where
  "sha_compress st block =
     map2 (+) st (foldl sha_round st (zip sha_k (sha_schedule 64 block)))"

text \<open>Padding: the bit 1, zeros, and the length in bits as a 64-bit big-endian number.\<close>

fun be_bytes :: "nat \<Rightarrow> nat \<Rightarrow> bytes" where
  "be_bytes 0 v = []"
| "be_bytes (Suc k) v = be_bytes k (v div 256) @ [word_of_nat v]"

definition sha_pad :: "bytes \<Rightarrow> bytes" where
  "sha_pad m = m @ [128] @ replicate ((119 - length m mod 64) mod 64) 0 @ be_bytes 8 (8 * length m)"

fun sha_words :: "bytes \<Rightarrow> u32 list" where
  "sha_words (a # b # c # d # r) =
     word_of_nat (unat a * 16777216 + unat b * 65536 + unat c * 256 + unat d) # sha_words r"
| "sha_words r = []"

function sha_blocks :: "u32 list \<Rightarrow> u32 list \<Rightarrow> u32 list" where
  "sha_blocks st ws = (if length ws < 16 then st else sha_blocks (sha_compress st (take 16 ws)) (drop 16 ws))"
  by pat_completeness auto
termination
  by (relation "measure (\<lambda>(st, ws). length ws)") auto

declare sha_blocks.simps [simp del]

definition sha256 :: "bytes \<Rightarrow> bytes" where
  "sha256 m = concat (map (\<lambda>w. be_bytes 4 (unat w)) (sha_blocks sha_init (sha_words (sha_pad m))))"

lemma length_be_bytes [simp]: "length (be_bytes k v) = k"
  by (induction k arbitrary: v) auto

lemma length_sha_pad: "length (sha_pad m) mod 64 = 0"
proof -
  define q r where "q = length m div 64" and "r = length m mod 64"
  have n: "length m = 64 * q + r" and r: "r < 64" by (simp_all add: q_def r_def)
  have p: "(119 - r) mod 64 = (if r \<le> 55 then 55 - r else 119 - r)"
    using r by (simp add: le_mod_geq)
  have "length (sha_pad m) = length m + 1 + (119 - r) mod 64 + 8"
    by (simp add: sha_pad_def r_def)
  also have "\<dots> = 64 * (if r \<le> 55 then q + 1 else q + 2)"
    using r by (simp add: n p)
  finally show ?thesis by simp
qed

lemma length_sha_schedule [simp]: "length (sha_schedule n w) = n"
  by (induction n arbitrary: w) auto

lemma length_sha_round [simp]: "length (sha_round s kw) = 8"
  by (simp add: sha_round_def sha_mix_def)

lemma length_foldl_sha_round: "length s = 8 \<Longrightarrow> length (foldl sha_round s kws) = 8"
  by (induction kws arbitrary: s) auto

lemma length_sha_compress [simp]: "length st = 8 \<Longrightarrow> length (sha_compress st b) = 8"
  by (simp add: sha_compress_def length_foldl_sha_round)

lemma length_sha_blocks: "length st = 8 \<Longrightarrow> length (sha_blocks st ws) = 8"
proof (induction st ws rule: sha_blocks.induct)
  case (1 st ws)
  then show ?case by (subst sha_blocks.simps) simp
qed

lemma length_sha256 [simp]: "length (sha256 m) = 32"
proof -
  have "length (sha_blocks sha_init w) = 8" for w
    by (rule length_sha_blocks) (simp add: sha_init_def)
  then show ?thesis by (simp add: sha256_def length_concat comp_def sum_list_triv)
qed

text \<open>Evaluation: numeral arguments unfold without leaving binary.\<close>

lemma sha_schedule_numeral:
  "sha_schedule (numeral k) w =
     w ! 0 # sha_schedule (pred_numeral k)
       (tl w @ [sha_small1 (w ! 14) + w ! 9 + sha_small0 (w ! 1) + w ! 0])"
  by (simp only: numeral_eq_Suc [of k] sha_schedule.simps be_bytes.simps replicate_Suc)

lemma be_bytes_numeral:
  "be_bytes (numeral k) v = be_bytes (pred_numeral k) (v div 256) @ [word_of_nat v]"
  by (simp only: numeral_eq_Suc [of k] sha_schedule.simps be_bytes.simps replicate_Suc)

lemma replicate_numeral_Cons: "replicate (numeral k) x = x # replicate (pred_numeral k) x"
  by (simp only: numeral_eq_Suc [of k] sha_schedule.simps be_bytes.simps replicate_Suc)

text \<open>
  Sums of word literals are not reduced by the simplifier, so a round that is to be evaluated marks
  its sums with \<open>reduced\<close>, which brings a literal below the word size.
\<close>

definition reduced :: "u32 \<Rightarrow> u32" where
  "reduced w = w"

lemma reduced_simps:
  "reduced 0 = 0" "reduced 1 = 1" "reduced (numeral k) = word_of_nat (numeral k mod 4294967296)"
proof -
  have "word_of_nat (n mod 4294967296) = (word_of_nat n :: u32)" for n
    by (rule word_unat_eq_iff [THEN iffD2]) (simp add: unat_of_nat)
  from this [of "numeral k"] show "reduced (numeral k) = word_of_nat (numeral k mod 4294967296)"
    by (simp only: reduced_def of_nat_numeral)
qed (simp_all add: reduced_def)

lemma sha_round_literal:
  "sha_round [a, b, c, d, e, f, g, h] (k, w) =
     sha_mix [a, b, c, d, e, f, g, h]
       (reduced (h + sha_big1 e + sha_ch e f g + k + w)) (reduced (sha_big0 a + sha_maj a b c))"
  by (simp add: sha_round_def reduced_def)

lemma sha_mix_literal:
  "sha_mix [a, b, c, d, e, f, g, h] t1 t2 = [reduced (t1 + t2), a, b, c, reduced (d + t1), e, f, g]"
  by (simp add: sha_mix_def reduced_def)

lemma sha_schedule_literal:
  "sha_schedule (numeral k) (w0 # w1 # w) =
     w0 # sha_schedule (pred_numeral k)
       (w1 # w @ [reduced (sha_small1 (w ! 12) + w ! 7 + sha_small0 w1 + w0)])"
  by (simp add: sha_schedule_numeral reduced_def)

lemmas sha_eval =
  sha256_def sha_pad_def be_bytes_numeral replicate_numeral_Cons sha_blocks.simps sha_compress_def
  sha_init_def sha_k_def sha_schedule_literal sha_round_literal sha_mix_literal reduced_simps
  sha_big0_def sha_big1_def sha_ch_def sha_maj_def sha_small0_def sha_small1_def rotr32_def

end
