(* ===== verification/Fingerprint.thy ===== *)
theory Fingerprint
  imports Errors Sha256
begin

text \<open>
  \<open>src/src/tamga/fingerprint.py\<close>: labelled components to one canonical string and its
  SHA-256 in lowercase hex.

  The argument is untyped at run time, so the model keeps the shapes the code tells apart: a
  mapping, an iterable of items, or neither; an item that is a \<open>str\<close>, an iterable of parts,
  or neither; a label or value that is a \<open>str\<close> or not.

  The lemmas give the accepted inputs exactly (\<open>encode_components_Inr_iff\<close>) and show that an
  accepted canonical form can be read back (\<open>split_canonical\<close>): no label contains the equals
  sign, no part contains the separator.
\<close>

section \<open>Inputs\<close>

datatype py_obj = PyStr pystr | PyOther

datatype fp_item = ItemStr pystr | ItemParts "py_obj list" | ItemNotIterable

datatype fp_components =
    ComponentMapping "(py_obj \<times> py_obj) list"
  | ComponentIterable "fp_item list"
  | ComponentsNotIterable

definition fingerprint_domain :: pystr where
  "fingerprint_domain = lit ''tamga-fingerprint-v1''"

definition fingerprint_separator :: nat where
  "fingerprint_separator = 31"

definition ascii_whitespace :: "nat list" where
  "ascii_whitespace = [32, 9, 13, 10, 11, 12]"

section \<open>Operations\<close>

definition fp_pair :: "fp_item \<Rightarrow> exc + (py_obj \<times> py_obj)" where
  "fp_pair item =
     (case item of
        ItemParts [l, v] \<Rightarrow> Inr (l, v)
      | _ \<Rightarrow> Inl FingerprintComponentError)"

definition fp_pairs :: "fp_components \<Rightarrow> exc + (py_obj \<times> py_obj) list" where
  "fp_pairs components =
     (case components of
        ComponentMapping kvs \<Rightarrow> Inr kvs
      | ComponentIterable raw \<Rightarrow> map_res fp_pair raw
      | ComponentsNotIterable \<Rightarrow> Inl FingerprintComponentError)"

definition label_char_ok :: "nat \<Rightarrow> bool" where
  "label_char_ok c \<longleftrightarrow> 33 \<le> c \<and> c \<le> 126 \<and> c \<noteq> 61"

definition validate_label :: "py_obj \<Rightarrow> exc + pystr" where
  "validate_label label =
     (case label of
        PyOther \<Rightarrow> Inl FingerprintComponentError
      | PyStr s \<Rightarrow>
          (if s \<noteq> [] \<and> list_all label_char_ok s then Inr s else Inl FingerprintComponentError))"

definition trim_value :: "pystr \<Rightarrow> pystr" where
  "trim_value s = strip (\<lambda>c. c \<in> set ascii_whitespace) s"

definition value_char_ok :: "nat \<Rightarrow> bool" where
  "value_char_ok c \<longleftrightarrow> 31 < c \<and> c \<noteq> 127"

definition validate_value :: "py_obj \<Rightarrow> exc + pystr" where
  "validate_value v =
     (case v of
        PyOther \<Rightarrow> Inl FingerprintComponentError
      | PyStr s \<Rightarrow>
          (if list_all value_char_ok (trim_value s) then Inr (trim_value s)
           else Inl FingerprintComponentError))"

fun encode_components ::
  "pystr list \<Rightarrow> (py_obj \<times> py_obj) list \<Rightarrow> exc + pystr list" where
  "encode_components seen [] = Inr []"
| "encode_components seen ((raw_label, raw_value) # rest) =
     rbind (validate_label raw_label) (\<lambda>label.
       if label \<in> set seen then Inl FingerprintComponentError
       else rbind (validate_value raw_value) (\<lambda>v.
         rbind (encode_components (label # seen) rest) (\<lambda>es.
           Inr ((label @ [61] @ v) # es))))"

definition utf8_key :: "pystr \<Rightarrow> bytes" where
  "utf8_key s = (case utf8_encode s of None \<Rightarrow> [] | Some bs \<Rightarrow> bs)"

definition canonical_form :: "fp_components \<Rightarrow> exc + pystr" where
  "canonical_form components =
     rbind (fp_pairs components) (\<lambda>pairs.
       if pairs = [] then Inl FingerprintComponentError
       else rbind (encode_components [] pairs) (\<lambda>encoded.
         rbind (ensure (list_all (\<lambda>s. utf8_encode s \<noteq> None) encoded) UnicodeEncodeError) (\<lambda>_.
           Inr (join_with [fingerprint_separator]
             (fingerprint_domain # sort_key utf8_key encoded)))))"

definition machine_fingerprint :: "fp_components \<Rightarrow> exc + pystr" where
  "machine_fingerprint components =
     rbind (canonical_form components) (\<lambda>s.
       rbind (of_option UnicodeEncodeError (utf8_encode s)) (\<lambda>bs.
         Inr (hex_of_bytes (sha256 bs))))"

section \<open>Accepted inputs\<close>

fun accepted_label :: "py_obj \<Rightarrow> bool" where
  "accepted_label (PyStr s) \<longleftrightarrow> s \<noteq> [] \<and> list_all label_char_ok s"
| "accepted_label PyOther \<longleftrightarrow> False"

fun accepted_value :: "py_obj \<Rightarrow> bool" where
  "accepted_value (PyStr s) \<longleftrightarrow> list_all value_char_ok (trim_value s)"
| "accepted_value PyOther \<longleftrightarrow> False"

fun obj_text :: "py_obj \<Rightarrow> pystr" where
  "obj_text (PyStr s) = s"
| "obj_text PyOther = []"

definition part_of :: "py_obj \<times> py_obj \<Rightarrow> pystr \<times> pystr" where
  "part_of p = (obj_text (fst p), trim_value (obj_text (snd p)))"

definition component_text :: "pystr \<times> pystr \<Rightarrow> pystr" where
  "component_text p = fst p @ [61] @ snd p"

definition well_labelled :: "(py_obj \<times> py_obj) list \<Rightarrow> bool" where
  "well_labelled ps \<longleftrightarrow>
     list_all (\<lambda>p. accepted_label (fst p) \<and> accepted_value (snd p)) ps \<and>
     distinct (map (obj_text \<circ> fst) ps)"

lemma validate_label_Inr: "validate_label l = Inr s \<longleftrightarrow> accepted_label l \<and> s = obj_text l"
  by (cases l) (auto simp: validate_label_def)

lemma validate_label_Inl: "validate_label l = Inl e \<longleftrightarrow> \<not> accepted_label l \<and> e = FingerprintComponentError"
  by (cases l) (auto simp: validate_label_def)

lemma validate_value_Inr:
  "validate_value v = Inr t \<longleftrightarrow> accepted_value v \<and> t = trim_value (obj_text v)"
  by (cases v) (auto simp: validate_value_def)

lemma validate_value_Inl: "validate_value v = Inl e \<longleftrightarrow> \<not> accepted_value v \<and> e = FingerprintComponentError"
  by (cases v) (auto simp: validate_value_def)

lemma encode_components_Inr_iff:
  "encode_components seen ps = Inr es \<longleftrightarrow>
     well_labelled ps \<and> set (map (obj_text \<circ> fst) ps) \<inter> set seen = {} \<and>
     es = map (component_text \<circ> part_of) ps"
proof (induction seen ps arbitrary: es rule: encode_components.induct)
  case (2 seen l v rest)
  show ?case
    by (auto simp: rbind_Inr_iff validate_label_Inr validate_value_Inr "2.IH" well_labelled_def
        component_text_def part_of_def image_iff split: if_splits)
qed (auto simp: well_labelled_def)

lemma encode_components_Inl: "encode_components seen ps = Inl e \<Longrightarrow> e = FingerprintComponentError"
  by (induction seen ps rule: encode_components.induct)
    (auto simp: rbind_Inl_iff validate_label_Inl validate_value_Inl split: if_splits)

lemma fp_pair_Inl: "fp_pair i = Inl e \<Longrightarrow> e = FingerprintComponentError"
  by (auto simp: fp_pair_def split: fp_item.splits list.splits)

lemma fp_pair_Inr: "fp_pair i = Inr p \<longleftrightarrow> i = ItemParts [fst p, snd p]"
  by (cases p) (auto simp: fp_pair_def split: fp_item.splits list.splits)

lemma fp_pairs_Inl: "fp_pairs c = Inl e \<Longrightarrow> e = FingerprintComponentError"
  by (auto simp: fp_pairs_def split: fp_components.splits dest!: map_res_Inl_ex dest: fp_pair_Inl)

lemma fp_pairs_of_parts:
  "fp_pairs (ComponentIterable (map (\<lambda>p. ItemParts [fst p, snd p]) ps)) = Inr ps"
proof -
  have "map_res fp_pair (map (\<lambda>p. ItemParts [fst p, snd p]) ps) = Inr ps"
    by (induction ps) (auto simp: fp_pair_def)
  then show ?thesis by (simp add: fp_pairs_def)
qed

lemma well_labelled_permute: "mset ps = mset qs \<Longrightarrow> well_labelled ps \<longleftrightarrow> well_labelled qs"
proof -
  assume m: "mset ps = mset qs"
  then have "set ps = set qs" by (metis set_mset_mset)
  moreover have "distinct (map f ps) = distinct (map f qs)" for f :: "py_obj \<times> py_obj \<Rightarrow> pystr"
    by (rule mset_eq_imp_distinct_iff) (simp add: m)
  ultimately show ?thesis by (simp add: well_labelled_def list_all_iff)
qed

definition fp_encodable :: "(py_obj \<times> py_obj) list \<Rightarrow> bool" where
  "fp_encodable ps \<longleftrightarrow> list_all (\<lambda>p. list_all encodable (component_text (part_of p))) ps"

lemma canonical_form_pairs:
  "canonical_form c =
     (case fp_pairs c of
        Inl e \<Rightarrow> Inl FingerprintComponentError
      | Inr ps \<Rightarrow>
          if ps \<noteq> [] \<and> well_labelled ps then
            (if fp_encodable ps
             then Inr (join_with [fingerprint_separator] (fingerprint_domain #
                    sort_key utf8_key (map (component_text \<circ> part_of) ps)))
             else Inl UnicodeEncodeError)
          else Inl FingerprintComponentError)"
proof (cases "fp_pairs c")
  case (Inl e)
  then show ?thesis by (simp add: canonical_form_def fp_pairs_Inl)
next
  case (Inr ps)
  show ?thesis
  proof (cases "encode_components [] ps")
    case (Inl e)
    then have "\<not> well_labelled ps" using encode_components_Inr_iff [of "[]" ps] by auto
    with Inr Inl show ?thesis by (simp add: canonical_form_def encode_components_Inl)
  next
    case (Inr es)
    then have "well_labelled ps" and es: "es = map (component_text \<circ> part_of) ps"
      by (simp_all add: encode_components_Inr_iff)
    moreover have "list_all (\<lambda>s. utf8_encode s \<noteq> None) es \<longleftrightarrow> fp_encodable ps"
      by (simp add: es fp_encodable_def utf8_encode_eq_None list_all_iff)
    ultimately show ?thesis using \<open>fp_pairs c = Inr ps\<close> Inr
      by (auto simp: canonical_form_def)
  qed
qed


section \<open>Reading a canonical form back\<close>

lemma utf8_key_inj_on: "(\<And>s. s \<in> S \<Longrightarrow> list_all encodable s) \<Longrightarrow> inj_on utf8_key S"
proof (rule inj_onI)
  fix s t assume enc: "\<And>s. s \<in> S \<Longrightarrow> list_all encodable s" and "s \<in> S" "t \<in> S" "utf8_key s = utf8_key t"
  moreover from this obtain a b where "utf8_encode s = Some a" "utf8_encode t = Some b"
    using utf8_encode_eq_None by (metis not_Some_eq)
  ultimately show "s = t" by (auto simp: utf8_key_def dest: utf8_encode_inj)
qed

lemma canonical_form_permute:
  assumes "fp_pairs c = Inr ps" "fp_pairs d = Inr qs" "image_mset part_of (mset ps) = image_mset part_of (mset qs)"
    "well_labelled ps" "well_labelled qs"
  shows "canonical_form c = canonical_form d"
proof -
  let ?es = "map (component_text \<circ> part_of)"
  have parts: "mset (map part_of ps) = mset (map part_of qs)" using assms(3) by simp
  then have set: "set (map part_of ps) = set (map part_of qs)" by (rule mset_eq_setD)
  from parts have "mset (map component_text (map part_of ps)) = mset (map component_text (map part_of qs))"
    by (metis mset_map)
  then have es: "mset (?es ps) = mset (?es qs)" by simp
  have enc: "fp_encodable ps \<longleftrightarrow> fp_encodable qs"
  proof -
    have "fp_encodable ps \<longleftrightarrow> (\<forall>p \<in> set (map part_of ps). list_all encodable (component_text p))" for ps
      by (simp add: fp_encodable_def list_all_iff)
    then show ?thesis by (simp only: set)
  qed
  have "ps = [] \<longleftrightarrow> qs = []" using parts by (metis map_is_Nil_conv mset_zero_iff_right)
  moreover have "fp_encodable ps \<Longrightarrow> sort_key utf8_key (?es ps) = sort_key utf8_key (?es qs)"
    by (rule sort_key_permute [OF es])
      (auto intro!: utf8_key_inj_on simp: fp_encodable_def list_all_iff)
  ultimately show ?thesis using assms enc by (simp add: canonical_form_pairs)
qed

lemma canonical_form_mset:
  assumes "fp_pairs c = Inr ps" "fp_pairs d = Inr qs" "mset ps = mset qs"
  shows "canonical_form c = canonical_form d"
proof (cases "well_labelled ps")
  case True
  with well_labelled_permute [OF assms(3)] have "well_labelled qs" by blast
  with True assms(3) show ?thesis by (intro canonical_form_permute [OF assms(1,2)]) simp_all
next
  case False
  with well_labelled_permute [OF assms(3)] have "\<not> well_labelled qs" by blast
  with False assms(1,2) show ?thesis by (simp add: canonical_form_pairs)
qed

definition separable :: "pystr \<times> pystr \<Rightarrow> bool" where
  "separable p \<longleftrightarrow> 61 \<notin> set (fst p)"

lemma component_text_inj_on: "inj_on component_text {p. separable p}"
  by (rule inj_onI, unfold component_text_def separable_def)
    (simp add: append_Cons_inject prod_eq_iff)

lemma part_of_separable: "well_labelled ps \<Longrightarrow> p \<in> set ps \<Longrightarrow> separable (part_of p)"
proof -
  assume "well_labelled ps" "p \<in> set ps"
  then have "accepted_label (fst p)" by (auto simp: well_labelled_def list_all_iff)
  then show ?thesis
    by (cases "fst p") (auto simp: separable_def part_of_def list_all_iff label_char_ok_def)
qed

lemma component_text_no_separator:
  assumes "well_labelled ps" "p \<in> set ps"
  shows "fingerprint_separator \<notin> set (component_text (part_of p))"
proof -
  from assms have "accepted_label (fst p)" "accepted_value (snd p)"
    by (auto simp: well_labelled_def list_all_iff)
  then show ?thesis
    by (cases "fst p"; cases "snd p")
      (auto simp: part_of_def component_text_def list_all_iff label_char_ok_def value_char_ok_def
        fingerprint_separator_def)
qed

lemma canonical_form_parts:
  assumes "canonical_form c = Inr s" "canonical_form d = Inr s"
    "fp_pairs c = Inr ps" "fp_pairs d = Inr qs"
  shows "image_mset part_of (mset ps) = image_mset part_of (mset qs)"
proof -
  let ?es = "map (component_text \<circ> part_of)"
  let ?sort = "\<lambda>ps. sort_key utf8_key (?es ps)"
  from assms have wl: "well_labelled ps" "well_labelled qs"
    and eq: "join_with [fingerprint_separator] (fingerprint_domain # ?sort ps)
           = join_with [fingerprint_separator] (fingerprint_domain # ?sort qs)"
    by (auto simp: canonical_form_pairs split: if_splits)
  have "fingerprint_separator \<notin> set fingerprint_domain"
    by (simp add: fingerprint_domain_def fingerprint_separator_def lit_def)
  then have "?sort ps = ?sort qs"
    using eq wl component_text_no_separator
    by (subst (asm) join_with_single_inject) auto
  then have "mset (?sort ps) = mset (?sort qs)" by (rule arg_cong)
  then have "image_mset component_text (mset (map part_of ps)) = image_mset component_text (mset (map part_of qs))"
    by (simp add: multiset.map_comp)
  moreover have "inj_on component_text (set (map part_of ps) \<union> set (map part_of qs))"
    by (rule inj_on_subset [OF component_text_inj_on]) (use wl in \<open>auto simp: part_of_separable\<close>)
  ultimately have "mset (map part_of ps) = mset (map part_of qs)"
    by (intro image_mset_inj_on_eqD [where f = component_text]) (simp_all only: set_mset_mset)
  then show ?thesis by simp
qed

section \<open>Correctness\<close>

lemma canonical_form_encodable: "canonical_form c = Inr s \<Longrightarrow> list_all encodable s"
proof -
  assume "canonical_form c = Inr s"
  then obtain ps where ps: "fp_encodable ps"
    "s = join_with [fingerprint_separator]
       (fingerprint_domain # sort_key utf8_key (map (component_text \<circ> part_of) ps))"
    by (auto simp: canonical_form_pairs split: sum.splits if_splits)
  have "list_all encodable [fingerprint_separator]" "list_all encodable fingerprint_domain"
    by (simp_all add: fingerprint_separator_def fingerprint_domain_def lit_def encodable_def surrogate_def)
  with ps show ?thesis
    by (auto simp: fp_encodable_def list_all_iff [of _ ps] intro!: list_all_join_with)
qed

lemma machine_fingerprint_alt:
  "machine_fingerprint c = rbind (canonical_form c) (\<lambda>s. Inr (hex_of_bytes (sha256 (utf8_key s))))"
proof (cases "canonical_form c")
  case (Inr s)
  then have "utf8_encode s \<noteq> None" by (simp add: utf8_encode_eq_None canonical_form_encodable)
  with Inr show ?thesis by (auto simp: machine_fingerprint_def utf8_key_def)
qed (simp add: machine_fingerprint_def)

lemmas fp_eval =
  canonical_form_def fp_pairs_def validate_label_def label_char_ok_def validate_value_def
  value_char_ok_def trim_value_def ascii_whitespace_def strip_def lstrip_def rstrip_def
  fingerprint_separator_def fingerprint_domain_def utf8_encode_def utf8_key_def utf8_cp_def
  encodable_def surrogate_def lit_def

lemma canonical_form_single:
  "canonical_form (ComponentMapping [(PyStr [97], PyStr [32, 49, 10])]) = Inr (lit ''tamga-fingerprint-v1'' @ [31, 97, 61, 49])"
  "canonical_form (ComponentMapping [(PyStr [97], PyStr [50])]) = Inr (lit ''tamga-fingerprint-v1'' @ [31, 97, 61, 50])"
  by (simp_all add: fp_eval)

text \<open>
  The order of the components does not matter. Two inputs, of either shape, that carry the
  same pairs give the same outcome: the same fingerprint, or the same exception.
\<close>

lemma fingerprint_order_independent:
  assumes "fp_pairs c = Inr ps" "fp_pairs d = Inr qs" "mset ps = mset qs"
  shows "machine_fingerprint c = machine_fingerprint d"
  using canonical_form_mset [OF assms] by (simp add: machine_fingerprint_alt)

text \<open>
  C8: the canonical form identifies the components. Two accepted inputs have the same canonical
  form exactly when their labels and trimmed values are the same up to order, so no choice of
  values can imitate another set of components.
\<close>

theorem canonical_form_identity:
  assumes "canonical_form c = Inr s" "canonical_form d = Inr t"
    "fp_pairs c = Inr ps" "fp_pairs d = Inr qs"
  shows "s = t \<longleftrightarrow> image_mset part_of (mset ps) = image_mset part_of (mset qs)"
proof
  assume "s = t"
  with assms(1,2) have "canonical_form c = Inr s" "canonical_form d = Inr s" by simp_all
  from canonical_form_parts [OF this assms(3,4)]
  show "image_mset part_of (mset ps) = image_mset part_of (mset qs)" .
next
  assume same: "image_mset part_of (mset ps) = image_mset part_of (mset qs)"
  have "well_labelled ps" "well_labelled qs"
    using assms by (simp_all add: canonical_form_pairs split: if_splits)
  from canonical_form_permute [OF assms(3,4) same this] assms(1,2) show "s = t" by simp
qed

lemma canonical_form_identity_witness:
  "(lit ''tamga-fingerprint-v1'' @ [31, 97, 61, 49] = lit ''tamga-fingerprint-v1'' @ [31, 97, 61, 50])
     = (image_mset part_of (mset [(PyStr [97], PyStr [32, 49, 10])]) = image_mset part_of (mset [(PyStr [97], PyStr [50])]))"
  by (rule canonical_form_identity [OF canonical_form_single]) (simp_all add: fp_pairs_def)

text \<open>
  C29: what is accepted and how the rest is refused. A fingerprint is returned exactly for a
  non-empty collection of pairs with distinct non-empty labels of printable ASCII without the
  equals sign, and values free of control characters once trimmed, that UTF-8 can encode. Every
  other input raises \<open>FingerprintComponentError\<close>, except that values with a lone surrogate
  raise \<open>UnicodeEncodeError\<close>.
\<close>

theorem machine_fingerprint_outcome:
  "((\<exists>fp. machine_fingerprint c = Inr fp) \<longleftrightarrow>
     (\<exists>ps. fp_pairs c = Inr ps \<and> ps \<noteq> [] \<and> well_labelled ps \<and> fp_encodable ps)) \<and>
   (machine_fingerprint c = Inl UnicodeEncodeError \<longleftrightarrow>
     (\<exists>ps. fp_pairs c = Inr ps \<and> ps \<noteq> [] \<and> well_labelled ps \<and> \<not> fp_encodable ps)) \<and>
   machine_fingerprint c \<in> range Inr \<union> {Inl FingerprintComponentError, Inl UnicodeEncodeError}"
  by (auto simp: machine_fingerprint_alt canonical_form_pairs fp_pairs_Inl split: sum.splits)

text \<open>
  A fingerprint is 64 lowercase hexadecimal characters.
\<close>

lemma machine_fingerprint_shape:
  assumes "machine_fingerprint c = Inr fp"
  shows "length fp = 64 \<and> list_all is_lower_hex fp"
  using assms by (auto simp: machine_fingerprint_alt rbind_Inr_iff hex_of_bytes_lower_hex)

text \<open>
  The example of the documentation, computed.
\<close>

lemma machine_fingerprint_documented:
  "machine_fingerprint (ComponentMapping
     [(PyStr (lit ''machine-id''), PyStr (lit ''abc123'')), (PyStr (lit ''disk''), PyStr (lit ''SN-9''))])
   = Inr (lit ''00a1635fd5cd0485076d26b0b3a32ae1ca56285db6244c756980ec07d02774d3'')"
proof -
  let ?s = "lit ''tamga-fingerprint-v1'' @ 31 # lit ''disk=SN-9'' @ 31 # lit ''machine-id=abc123''"
  have form: "canonical_form (ComponentMapping
     [(PyStr (lit ''machine-id''), PyStr (lit ''abc123'')), (PyStr (lit ''disk''), PyStr (lit ''SN-9''))])
     = Inr ?s"
    by (simp add: fp_eval)
  have key: "utf8_key ?s =
     [116, 97, 109, 103, 97, 45, 102, 105, 110, 103, 101, 114, 112, 114, 105, 110, 116, 45,
      118, 49, 31, 100, 105, 115, 107, 61, 83, 78, 45, 57, 31, 109, 97, 99, 104, 105, 110,
      101, 45, 105, 100, 61, 97, 98, 99, 49, 50, 51]"
    by (simp add: fp_eval)
  show ?thesis
    unfolding machine_fingerprint_alt form rbind_simps key
    by (simp add: sha_eval hex_of_bytes_def hexdigit_def lit_def)
qed

end
