(* ===== verification/Json.thy ===== *)
theory Json
  imports Errors
begin

text \<open>
  How the SDK reads and writes JSON.

  \<^item> Attribute and item access on a decoded value whose shape is not known: \<open>py_get\<close> is
    \<open>x.get(k, default)\<close>, \<open>py_item\<close> is \<open>x[k]\<close>, \<open>py_int\<close> is \<open>int(x)\<close>,
    \<open>py_or\<close> is \<open>x or default\<close>, \<open>py_iter\<close> is iteration. Each raises what Python raises
    on a value of the wrong shape.
  \<^item> \<open>dumps\<close>: \<open>json.dumps(v, sort_keys=True, separators=(",", ":"), ensure_ascii=False)\<close>.
  \<^item> \<open>json_loads\<close>: \<open>json.loads\<close> of bytes, with the encoding detection, the C scanner's
    grammar (including \<open>NaN\<close> and the infinities) and last-duplicate-wins objects. The
    parser's fuel is twice the length of the text plus two, which \<open>Json_Round_Trip\<close> shows to be
    enough.
\<close>

section \<open>Reading a decoded value\<close>

definition py_get :: "json \<Rightarrow> pystr \<Rightarrow> json \<Rightarrow> exc + json" where
  "py_get v k d =
     (case v of
        JObj m \<Rightarrow> Inr (case map_of m k of None \<Rightarrow> d | Some x \<Rightarrow> x)
      | _ \<Rightarrow> Inl AttributeError)"

definition py_item :: "json \<Rightarrow> pystr \<Rightarrow> exc + json" where
  "py_item v k =
     (case v of
        JObj m \<Rightarrow> of_option KeyError (map_of m k)
      | _ \<Rightarrow> Inl TypeError)"

definition py_int :: "json \<Rightarrow> exc + int" where
  "py_int v =
     (case v of
        JBool b \<Rightarrow> Inr (if b then 1 else 0)
      | JInt i \<Rightarrow> Inr i
      | JFloat f \<Rightarrow>
          (if float_is_nan f then Inl ValueError
           else if float_is_inf f then Inl OverflowError
           else Inr (float_trunc f))
      | JStr s \<Rightarrow> of_option ValueError (int_of_str 10 s)
      | _ \<Rightarrow> Inl TypeError)"

definition py_or :: "json \<Rightarrow> json \<Rightarrow> json" where
  "py_or v d = (if py_truthy v then v else d)"

definition py_iter :: "json \<Rightarrow> exc + json list" where
  "py_iter v =
     (case v of
        JArr xs \<Rightarrow> Inr xs
      | JObj m \<Rightarrow> Inr (map (\<lambda>kv. JStr (fst kv)) m)
      | JStr s \<Rightarrow> Inr (map (\<lambda>c. JStr [c]) s)
      | _ \<Rightarrow> Inl TypeError)"

definition dict_get :: "pydict \<Rightarrow> pystr \<Rightarrow> json \<Rightarrow> json" where
  "dict_get m k d = (case map_of m k of None \<Rightarrow> d | Some x \<Rightarrow> x)"

lemma py_get_JObj [simp]: "py_get (JObj m) k d = Inr (dict_get m k d)"
  by (simp add: py_get_def dict_get_def)

lemma dict_get_simps [simp]:
  "dict_get [] k d = d" "dict_get ((k', v) # m) k d = (if k' = k then v else dict_get m k d)"
  by (simp_all add: dict_get_def)

lemma py_item_JObj [simp]: "py_item (JObj m) k = of_option KeyError (map_of m k)"
  by (simp add: py_item_def)

lemma py_get_Inl: "py_get v k d = Inl e \<longleftrightarrow> \<not> is_dict v \<and> e = AttributeError"
  by (cases v) (auto simp: py_get_def)

lemma py_item_Inl: "py_item v k = Inl e \<Longrightarrow> e = KeyError \<or> e = TypeError"
  by (cases v) (auto simp: py_item_def)

lemma py_item_Inr: "py_item v k = Inr x \<longleftrightarrow> (\<exists>m. v = JObj m \<and> map_of m k = Some x)"
  by (cases v) (auto simp: py_item_def)

lemma py_int_Inl:
  "py_int v = Inl e \<Longrightarrow> e = ValueError \<or> e = OverflowError \<or> e = TypeError"
  by (cases v) (auto simp: py_int_def split: if_splits)

lemma py_int_simps [simp]: "py_int (JInt i) = Inr i" "py_int (JBool b) = Inr (of_bool b)"
  by (simp_all add: py_int_def)

lemma raises_only_py_get [raises_intros]: "E AttributeError \<Longrightarrow> raises_only E (py_get v k d)"
  by (cases v) (simp_all add: py_get_def)

lemma raises_only_py_item [raises_intros]:
  "E KeyError \<Longrightarrow> E TypeError \<Longrightarrow> raises_only E (py_item v k)"
  by (auto simp: raises_only_def dest: py_item_Inl)

lemma raises_only_py_int [raises_intros]:
  "E ValueError \<Longrightarrow> E OverflowError \<Longrightarrow> E TypeError \<Longrightarrow> raises_only E (py_int v)"
  by (auto simp: raises_only_def dest: py_int_Inl)

lemma raises_only_py_iter [raises_intros]: "E TypeError \<Longrightarrow> raises_only E (py_iter v)"
  by (cases v) (simp_all add: py_iter_def)

section \<open>Writing\<close>

definition escape_char :: "nat \<Rightarrow> pystr" where
  "escape_char c =
     (if c = 34 then [92, 34]
      else if c = 92 then [92, 92]
      else if c = 10 then [92, 110]
      else if c = 13 then [92, 114]
      else if c = 9 then [92, 116]
      else if c = 12 then [92, 102]
      else if c = 8 then [92, 98]
      else if c < 32 then [92, 117, 48, 48, hexdigit (c div 16), hexdigit (c mod 16)]
      else [c])"

definition dumps_str :: "pystr \<Rightarrow> pystr" where
  "dumps_str s = 34 # concat (map escape_char s) @ [34]"

definition dumps_float :: "runtime \<Rightarrow> pyfloat \<Rightarrow> pystr" where
  "dumps_float R f =
     (if float_is_nan f then lit ''NaN''
      else if float_is_inf f then (if float_negative f then lit ''-Infinity'' else lit ''Infinity'')
      else float_repr R f)"

fun dumps :: "runtime \<Rightarrow> json \<Rightarrow> pystr" where
  "dumps R JNull = lit ''null''"
| "dumps R (JBool b) = (if b then lit ''true'' else lit ''false'')"
| "dumps R (JInt i) = dec_of_int i"
| "dumps R (JFloat f) = dumps_float R f"
| "dumps R (JStr s) = dumps_str s"
| "dumps R (JArr xs) = 91 # join_with [44] (map (dumps R) xs) @ [93]"
| "dumps R (JObj d) =
     123 # join_with [44]
       (map (\<lambda>kt. dumps_str (fst kt) @ 58 # snd kt)
         (sort_key fst (map (\<lambda>kv. (fst kv, dumps R (snd kv))) d))) @ [125]"

section \<open>Parsing\<close>

definition json_ws :: "nat \<Rightarrow> bool" where
  "json_ws c \<longleftrightarrow> c = 32 \<or> c = 9 \<or> c = 10 \<or> c = 13"

definition skip_ws :: "pystr \<Rightarrow> pystr" where
  "skip_ws s = dropWhile json_ws s"

definition is_digit :: "nat \<Rightarrow> bool" where
  "is_digit c \<longleftrightarrow> 48 \<le> c \<and> c \<le> 57"

definition hex4 :: "pystr \<Rightarrow> nat option" where
  "hex4 s =
     (if length s = 4 \<and> list_all (\<lambda>c. \<exists>v \<in> set_option (digit_value c). v < 16) s
      then Some (foldl (\<lambda>n c. n * 16 + the (digit_value c)) 0 s) else None)"

definition simple_escape :: "nat \<Rightarrow> nat option" where
  "simple_escape e =
     (if e = 34 then Some 34 else if e = 92 then Some 92 else if e = 47 then Some 47
      else if e = 98 then Some 8 else if e = 102 then Some 12 else if e = 110 then Some 10
      else if e = 114 then Some 13 else if e = 116 then Some 9 else None)"

text \<open>
  A \<open>\u\<close> escape with its four digits: the value and how many characters of the rest were read.
  A high surrogate followed by the escape of a low one is read as the one character they encode.
\<close>

definition scan_unicode :: "pystr \<Rightarrow> (nat \<times> nat) option" where
  "scan_unicode r =
     (case hex4 (take 4 r) of
        None \<Rightarrow> None
      | Some v \<Rightarrow>
          (if 55296 \<le> v \<and> v \<le> 56319 \<and> take 2 (drop 4 r) = [92, 117] then
             (case hex4 (take 4 (drop 6 r)) of
                None \<Rightarrow> None
              | Some w \<Rightarrow>
                  (if 56320 \<le> w \<and> w \<le> 57343
                   then Some (65536 + (v - 55296) * 1024 + (w - 56320), 10)
                   else Some (v, 4)))
           else Some (v, 4)))"

text \<open>The rest of a string literal, after the opening quote.\<close>

function scan_string :: "pystr \<Rightarrow> (pystr \<times> pystr) option" where
  "scan_string [] = None"
| "scan_string (c # cs) =
     (if c = 34 then Some ([], cs)
      else if c = 92 then
        (case cs of
           [] \<Rightarrow> None
         | e # r \<Rightarrow>
             (if e = 117 then
                (case scan_unicode r of
                   None \<Rightarrow> None
                 | Some (v, n) \<Rightarrow> map_option (\<lambda>(t, u). (v # t, u)) (scan_string (drop n r)))
              else
                (case simple_escape e of
                   None \<Rightarrow> None
                 | Some v \<Rightarrow> map_option (\<lambda>(t, u). (v # t, u)) (scan_string r))))
      else if c < 32 then None
      else map_option (\<lambda>(t, u). (c # t, u)) (scan_string cs))"
  by pat_completeness auto
termination
  by (relation "measure length") (auto simp: less_Suc_eq_le)

text \<open>
  A number: sign, integer part, optional fraction, optional exponent. Without the last two it is
  an \<open>int\<close>, otherwise the literal goes to \<open>float\<close>.
\<close>

definition scan_frac :: "pystr \<Rightarrow> pystr" where
  "scan_frac s =
     (case s of
        p # d # _ \<Rightarrow> if p = 46 \<and> is_digit d then 46 # takeWhile is_digit (tl s) else []
      | _ \<Rightarrow> [])"

definition scan_exp :: "pystr \<Rightarrow> pystr" where
  "scan_exp s =
     (case s of
        e # r \<Rightarrow>
          (if e = 101 \<or> e = 69 then
             (let sg = (case r of x # _ \<Rightarrow> if x = 43 \<or> x = 45 then [x] else [] | [] \<Rightarrow> []);
                  ds = takeWhile is_digit (drop (length sg) r)
              in if ds = [] then [] else e # sg @ ds)
           else [])
      | [] \<Rightarrow> [])"

definition scan_number :: "runtime \<Rightarrow> pystr \<Rightarrow> (json \<times> pystr) option" where
  "scan_number R s =
     (let sg = (case s of c # _ \<Rightarrow> if c = 45 then [c] else [] | [] \<Rightarrow> []);
          r0 = drop (length sg) s;
          ip = (case r0 of [] \<Rightarrow> []
                | c # _ \<Rightarrow> if c = 48 then [c] else takeWhile is_digit r0);
          r1 = drop (length ip) r0;
          fr = scan_frac r1;
          r2 = drop (length fr) r1;
          ex = scan_exp r2;
          r3 = drop (length ex) r2
      in if ip = [] then None
         else if fr = [] \<and> ex = [] then
           map_option (\<lambda>n. (JInt (if sg = [] then int n else - int n), r3)) (digits_value 10 False 0 ip)
         else Some (JFloat (strtod R (sg @ ip @ fr @ ex)), r3))"

definition scan_word :: "pystr \<Rightarrow> json \<Rightarrow> pystr \<Rightarrow> (json \<times> pystr) option" where
  "scan_word w v s = (if startswith w s then Some (v, drop (length w) s) else None)"

definition scan_atom :: "runtime \<Rightarrow> pystr \<Rightarrow> (json \<times> pystr) option" where
  "scan_atom R s =
     (if startswith (lit ''null'') s then scan_word (lit ''null'') JNull s
      else if startswith (lit ''true'') s then scan_word (lit ''true'') (JBool True) s
      else if startswith (lit ''false'') s then scan_word (lit ''false'') (JBool False) s
      else if startswith (lit ''NaN'') s then scan_word (lit ''NaN'') (JFloat float_nan) s
      else if startswith (lit ''Infinity'') s then scan_word (lit ''Infinity'') (JFloat float_inf) s
      else if startswith (lit ''-Infinity'') s
        then scan_word (lit ''-Infinity'') (JFloat float_neg_inf) s
      else scan_number R s)"

fun parse_value :: "runtime \<Rightarrow> nat \<Rightarrow> pystr \<Rightarrow> (json \<times> pystr) option"
  and parse_items :: "runtime \<Rightarrow> nat \<Rightarrow> pystr \<Rightarrow> (json list \<times> pystr) option"
  and parse_members :: "runtime \<Rightarrow> nat \<Rightarrow> pystr \<Rightarrow> (pydict \<times> pystr) option"
  and parse_member :: "runtime \<Rightarrow> nat \<Rightarrow> pystr \<Rightarrow> ((pystr \<times> json) \<times> pystr) option" where
  "parse_value R 0 s = None"
| "parse_value R (Suc n) s =
     (case s of
        [] \<Rightarrow> None
      | c # r \<Rightarrow>
          (if c = 34 then map_option (\<lambda>(t, u). (JStr t, u)) (scan_string r)
           else if c = 91 then
             (if skip_ws r \<noteq> [] \<and> hd (skip_ws r) = 93 then Some (JArr [], tl (skip_ws r))
              else map_option (\<lambda>(xs, u). (JArr xs, u)) (parse_items R n (skip_ws r)))
           else if c = 123 then
             (if skip_ws r \<noteq> [] \<and> hd (skip_ws r) = 125 then Some (JObj [], tl (skip_ws r))
              else map_option (\<lambda>(d, u). (JObj (foldl (\<lambda>m kv. dict_set m (fst kv) (snd kv)) [] d), u))
                (parse_members R n (skip_ws r)))
           else scan_atom R s))"
| "parse_items R 0 s = None"
| "parse_items R (Suc n) s =
     (case parse_value R n s of
        None \<Rightarrow> None
      | Some (v, u) \<Rightarrow>
          (case skip_ws u of
             [] \<Rightarrow> None
           | c # r \<Rightarrow>
               (if c = 93 then Some ([v], r)
                else if c = 44 then map_option (\<lambda>(vs, w). (v # vs, w)) (parse_items R n (skip_ws r))
                else None)))"
| "parse_members R 0 s = None"
| "parse_members R (Suc n) s =
     (case parse_member R n s of
        None \<Rightarrow> None
      | Some (kv, u) \<Rightarrow>
          (case skip_ws u of
             [] \<Rightarrow> None
           | c # r \<Rightarrow>
               (if c = 125 then Some ([kv], r)
                else if c = 44
                  then map_option (\<lambda>(kvs, w). (kv # kvs, w)) (parse_members R n (skip_ws r))
                else None)))"
| "parse_member R 0 s = None"
| "parse_member R (Suc n) s =
     (case s of
        [] \<Rightarrow> None
      | q # r \<Rightarrow>
          (if q \<noteq> 34 then None
           else
             (case scan_string r of
                None \<Rightarrow> None
              | Some (k, u) \<Rightarrow>
                  (case skip_ws u of
                     [] \<Rightarrow> None
                   | c # w \<Rightarrow>
                       (if c \<noteq> 58 then None
                        else map_option (\<lambda>(v, z). ((k, v), z)) (parse_value R n (skip_ws w)))))))"

definition loads_text :: "runtime \<Rightarrow> pystr \<Rightarrow> json option" where
  "loads_text R s =
     (case parse_value R (2 * length s + 2) (skip_ws s) of
        None \<Rightarrow> None
      | Some (v, r) \<Rightarrow> if skip_ws r = [] then Some v else None)"

section \<open>Bytes to text\<close>

fun utf16_units :: "bool \<Rightarrow> nat list \<Rightarrow> nat list option" where
  "utf16_units be [] = Some []"
| "utf16_units be [x] = None"
| "utf16_units be (x # y # r) =
     map_option (Cons (if be then x * 256 + y else y * 256 + x)) (utf16_units be r)"

fun utf16_join :: "nat list \<Rightarrow> pystr" where
  "utf16_join (h # l # r) =
     (if 55296 \<le> h \<and> h \<le> 56319 \<and> 56320 \<le> l \<and> l \<le> 57343
      then (65536 + (h - 55296) * 1024 + (l - 56320)) # utf16_join r
      else h # utf16_join (l # r))"
| "utf16_join r = r"

fun utf32_decode :: "bool \<Rightarrow> nat list \<Rightarrow> pystr option" where
  "utf32_decode be [] = Some []"
| "utf32_decode be (a # b # c # d # r) =
     (let v = (if be then ((a * 256 + b) * 256 + c) * 256 + d
               else ((d * 256 + c) * 256 + b) * 256 + a)
      in if v \<le> 1114111 then map_option (Cons v) (utf32_decode be r) else None)"
| "utf32_decode be r = None"

definition utf16_decode :: "bool \<Rightarrow> nat list \<Rightarrow> pystr option" where
  "utf16_decode be bs = map_option utf16_join (utf16_units be bs)"

text \<open>\<open>json.detect_encoding\<close> and the decoding with \<open>surrogatepass\<close> that follows it.\<close>

definition json_decode :: "bytes \<Rightarrow> pystr option" where
  "json_decode bytes =
     (let b = map unat bytes in
      if take 4 b = [0, 0, 254, 255] then utf32_decode True (drop 4 b)
      else if take 4 b = [255, 254, 0, 0] then utf32_decode False (drop 4 b)
      else if take 2 b = [254, 255] then utf16_decode True (drop 2 b)
      else if take 2 b = [255, 254] then utf16_decode False (drop 2 b)
      else if take 3 b = [239, 187, 191] then utf8_decode_nats True (drop 3 b)
      else if 4 \<le> length b \<and> b ! 0 = 0 then
        (if b ! 1 = 0 then utf32_decode True b else utf16_decode True b)
      else if 4 \<le> length b \<and> b ! 1 = 0 then
        (if b ! 2 = 0 \<and> b ! 3 = 0 then utf32_decode False b else utf16_decode False b)
      else if length b = 2 \<and> b ! 0 = 0 then utf16_decode True b
      else if length b = 2 \<and> b ! 1 = 0 then utf16_decode False b
      else utf8_decode_nats True b)"

definition json_loads :: "runtime \<Rightarrow> bytes \<Rightarrow> exc + json" where
  "json_loads R bytes =
     (case json_decode bytes of
        None \<Rightarrow> Inl UnicodeDecodeError
      | Some s \<Rightarrow> of_option JSONDecodeError (loads_text R s))"

lemma json_loads_Inl: "json_loads R b = Inl e \<Longrightarrow> e = UnicodeDecodeError \<or> e = JSONDecodeError"
  by (auto simp: json_loads_def split: option.splits)

lemma raises_only_json_loads [raises_intros]:
  "E UnicodeDecodeError \<Longrightarrow> E JSONDecodeError \<Longrightarrow> raises_only E (json_loads R b)"
  by (auto simp: raises_only_def dest: json_loads_Inl)

end
