(* ===== verification/Error_Parsing.thy ===== *)
theory Error_Parsing
  imports Json
begin

text \<open>
  \<open>errors.parse_error_envelope\<close>: from a status and a body to the exception a failed request
  raises. The function returns its exception, so its model returns \<open>exc + tamga_error\<close> with
  \<open>Inl\<close> for what escapes from the parsing itself.

  \<open>envelope_shape_ok\<close> is the shape of a decoded body that the parser reads without raising;
  \<open>parse_error_envelope_Inr_iff\<close> shows it is exactly that.
\<close>

definition py_index0 :: "json \<Rightarrow> exc + json" where
  "py_index0 v =
     (case v of
        JArr (x # _) \<Rightarrow> Inr x
      | JArr [] \<Rightarrow> Inl IndexError
      | JStr (c # _) \<Rightarrow> Inr (JStr [c])
      | JStr [] \<Rightarrow> Inl IndexError
      | JObj _ \<Rightarrow> Inl KeyError
      | _ \<Rightarrow> Inl TypeError)"

definition first_error :: "runtime \<Rightarrow> bytes \<Rightarrow> exc + json" where
  "first_error R body =
     except_value (\<lambda>e. e = JSONDecodeError \<or> e = AttributeError \<or> e = IndexError) (JObj [])
       (rbind (json_loads R body) (\<lambda>parsed.
        rbind (py_get parsed (lit ''errors'') JNull) (\<lambda>errors.
          if py_truthy errors then py_index0 errors else Inr (JObj []))))"

definition hashable :: "json \<Rightarrow> bool" where
  "hashable v \<longleftrightarrow> (case v of JArr _ \<Rightarrow> False | JObj _ \<Rightarrow> False | _ \<Rightarrow> True)"

definition exception_class :: "json \<Rightarrow> tamga_class" where
  "exception_class code =
     (case code of
        JStr s \<Rightarrow> (case map_of code_to_exception s of Some c \<Rightarrow> c | None \<Rightarrow> UnknownTamgaError)
      | _ \<Rightarrow> UnknownTamgaError)"

definition parse_error_envelope ::
  "runtime \<Rightarrow> int \<Rightarrow> bytes \<Rightarrow> int option \<Rightarrow> exc + tamga_error" where
  "parse_error_envelope R status body retry_after =
     rbind (first_error R body) (\<lambda>first.
     rbind (py_get first (lit ''code'') (JStr (lit ''UNKNOWN''))) (\<lambda>code.
     rbind (py_get first (lit ''detail'') (JStr [])) (\<lambda>detail.
     rbind (py_get first (lit ''source'') JNull) (\<lambda>source.
     rbind (py_get (py_or source (JObj [])) (lit ''pointer'') JNull) (\<lambda>pointer.
     rbind (py_get first (lit ''meta'') JNull) (\<lambda>raw_meta.
       let meta = (case raw_meta of JObj d \<Rightarrow> Some d | _ \<Rightarrow> None) in
       if status = 429 then
         Inr ((tamga_error_of RateLimitedError status code detail pointer meta)
                \<lparr>te_retry_after := retry_after\<rparr>)
       else if \<not> hashable code then Inl TypeError
       else Inr (tamga_error_of (exception_class code) status code detail pointer meta)))))))"

section \<open>What the parser accepts\<close>

definition first_shape_ok :: "int \<Rightarrow> json \<Rightarrow> bool" where
  "first_shape_ok status v \<longleftrightarrow>
     (case v of
        JObj d \<Rightarrow>
          (is_dict (dict_get d (lit ''source'') JNull) \<or> \<not> py_truthy (dict_get d (lit ''source'') JNull)) \<and>
          (status = 429 \<or> hashable (dict_get d (lit ''code'') JNull))
      | _ \<Rightarrow> False)"

definition envelope_shape_ok :: "int \<Rightarrow> json \<Rightarrow> bool" where
  "envelope_shape_ok status v \<longleftrightarrow>
     (case v of
        JObj d \<Rightarrow>
          (let errors = dict_get d (lit ''errors'') JNull in
           \<not> py_truthy errors \<or> (\<exists>x xs. errors = JArr (x # xs) \<and> first_shape_ok status x))
      | _ \<Rightarrow> True)"

lemma py_index0_Inr_dict: "py_index0 v = Inr (JObj d) \<longleftrightarrow> (\<exists>xs. v = JArr (JObj d # xs))"
  by (auto simp: py_index0_def split: json.splits list.splits)

lemma rest_of_envelope:
  "(\<exists>e. rbind (Inr first) (\<lambda>first.
     rbind (py_get first (lit ''code'') (JStr (lit ''UNKNOWN''))) (\<lambda>code.
     rbind (py_get first (lit ''detail'') (JStr [])) (\<lambda>detail.
     rbind (py_get first (lit ''source'') JNull) (\<lambda>source.
     rbind (py_get (py_or source (JObj [])) (lit ''pointer'') JNull) (\<lambda>pointer.
     rbind (py_get first (lit ''meta'') JNull) (\<lambda>raw_meta.
       let meta = (case raw_meta of JObj d \<Rightarrow> Some d | _ \<Rightarrow> None) in
       if status = 429 then
         Inr ((tamga_error_of RateLimitedError status code detail pointer meta)
                \<lparr>te_retry_after := retry_after\<rparr>)
       else if \<not> hashable code then Inl TypeError
       else Inr (tamga_error_of (exception_class code) status code detail pointer meta))))))) = Inr e)
   \<longleftrightarrow> first_shape_ok status first"
proof (cases first)
  case (JObj d)
  let ?src = "dict_get d (lit ''source'') JNull"
  have code: "hashable (dict_get d (lit ''code'') (JStr (lit ''UNKNOWN''))) \<longleftrightarrow> hashable (dict_get d (lit ''code'') JNull)"
    by (simp add: dict_get_def hashable_def split: option.splits)
  show ?thesis
  proof (cases "is_dict ?src \<or> \<not> py_truthy ?src")
    case True
    then have "is_dict (py_or ?src (JObj []))" by (auto simp: py_or_def)
    then obtain s where "py_or ?src (JObj []) = JObj s" by (auto simp: is_dict_iff)
    with True show ?thesis by (auto simp: JObj first_shape_ok_def code Let_def)
  next
    case False
    then have "\<not> is_dict (py_or ?src (JObj []))" by (auto simp: py_or_def)
    then have "py_get (py_or ?src (JObj [])) (lit ''pointer'') JNull = Inl AttributeError"
      by (simp add: py_get_Inl)
    with False show ?thesis by (simp add: JObj first_shape_ok_def)
  qed
qed (simp_all add: py_get_def first_shape_ok_def)

lemma first_error_cases:
  "first_error R body =
     (case json_loads R body of
        Inl e \<Rightarrow> if e = JSONDecodeError then Inr (JObj []) else Inl e
      | Inr v \<Rightarrow>
          (case v of
             JObj d \<Rightarrow>
               (let errors = dict_get d (lit ''errors'') JNull in
                if py_truthy errors then py_index0 errors else Inr (JObj []))
           | _ \<Rightarrow> Inr (JObj [])))"
proof (cases "json_loads R body")
  case (Inl e)
  then show ?thesis by (auto simp: first_error_def dest: json_loads_Inl)
next
  case (Inr v)
  have idx: "py_truthy w \<Longrightarrow> except_value (\<lambda>e. e = JSONDecodeError \<or> e = AttributeError \<or> e = IndexError)
      (JObj []) (py_index0 w) = py_index0 w" for w
    by (auto simp: py_index0_def py_truthy_def split: json.splits list.splits)
  show ?thesis
    by (cases v) (auto simp: Inr first_error_def idx Let_def py_get_def [of "JArr _"]
        py_get_def [of "JStr _"] py_get_def [of "JNull"] py_get_def [of "JBool _"]
        py_get_def [of "JInt _"] py_get_def [of "JFloat _"])
qed

lemma parse_error_envelope_ok:
  "(\<exists>e. parse_error_envelope R status body retry_after = Inr e) \<longleftrightarrow>
     (\<exists>first. first_error R body = Inr first \<and> first_shape_ok status first)"
  using rest_of_envelope [of _ status retry_after]
  by (cases "first_error R body") (simp_all add: parse_error_envelope_def)

lemma first_shape_empty [simp]: "first_shape_ok status (JObj [])"
  by (simp add: first_shape_ok_def dict_get_def hashable_def py_truthy_def)

lemma first_error_shape:
  "(\<exists>first. first_error R body = Inr first \<and> first_shape_ok status first) \<longleftrightarrow>
     (case json_loads R body of Inl e \<Rightarrow> e = JSONDecodeError | Inr v \<Rightarrow> envelope_shape_ok status v)"
proof (cases "json_loads R body")
  case (Inr v)
  have "(\<exists>first. py_index0 w = Inr first \<and> first_shape_ok status first) \<longleftrightarrow>
      (\<exists>x xs. w = JArr (x # xs) \<and> first_shape_ok status x)" for w
    by (auto simp: py_index0_def first_shape_ok_def [of _ "JStr _"] split: json.splits list.splits)
  with Inr show ?thesis
    by (cases v) (auto simp: first_error_cases envelope_shape_ok_def Let_def)
qed (auto simp: first_error_cases)

text \<open>
  C37: which responses become a \<open>TamgaError\<close>. The parser returns one exactly when the body
  is text that is not JSON, or JSON that is not an object, or an object without errors, or one whose
  first error is an object with an object (or nothing) as its source and, off status 429, a code
  that is not a container. On every other body it raises something else.
\<close>

theorem parse_error_envelope_Inr_iff:
  "(\<exists>e. parse_error_envelope R status body retry_after = Inr e) \<longleftrightarrow>
     (case json_loads R body of Inl e \<Rightarrow> e = JSONDecodeError | Inr v \<Rightarrow> envelope_shape_ok status v)"
  unfolding parse_error_envelope_ok first_error_shape ..

text \<open>
  C36: the dispatch. For an envelope whose first error is an object, the error carries that object's
  code, detail and metadata and the status. At 429 its class is \<open>RateLimitedError\<close> and it holds the
  header's delay, whatever the code; otherwise the class is the one the table gives the code,
  \<open>UnknownTamgaError\<close> for a code the table lacks, and it has no delay.
\<close>

theorem parse_error_envelope_dispatch:
  assumes "json_loads R body = Inr (JObj env)"
    and "map_of env (lit ''errors'') = Some (JArr (JObj d # rest))"
    and "first_shape_ok status (JObj d)"
  shows "\<exists>e. parse_error_envelope R status body retry_after = Inr e \<and>
    te_status e = status \<and>
    te_code e = dict_get d (lit ''code'') (JStr (lit ''UNKNOWN'')) \<and>
    te_detail e = dict_get d (lit ''detail'') (JStr []) \<and>
    te_meta e = (case map_of d (lit ''meta'') of Some (JObj m) \<Rightarrow> Some m | _ \<Rightarrow> None) \<and>
    te_class e = (if status = 429 then RateLimitedError
      else case te_code e of
        JStr c \<Rightarrow> (case map_of code_to_exception c of Some k \<Rightarrow> k | None \<Rightarrow> UnknownTamgaError)
      | _ \<Rightarrow> UnknownTamgaError) \<and>
    te_retry_after e = (if status = 429 then retry_after else None)"
proof -
  have fe: "first_error R body = Inr (JObj d)"
    using assms(1,2) by (simp add: first_error_cases dict_get_def py_truthy_def py_index0_def)
  with assms(3) obtain e where e: "parse_error_envelope R status body retry_after = Inr e"
    using parse_error_envelope_ok by blast
  have meta: "(case dict_get d (lit ''meta'') JNull of JObj m \<Rightarrow> Some m | _ \<Rightarrow> None)
      = (case map_of d (lit ''meta'') of Some (JObj m) \<Rightarrow> Some m | _ \<Rightarrow> None)"
    by (auto simp: dict_get_def split: option.splits json.splits)
  from e show ?thesis
    by (cases "status = 429")
      (auto simp: parse_error_envelope_def fe rbind_Inr_iff Let_def meta exception_class_def split: if_splits)
qed

definition error_body :: pystr where
  "error_body = lit ''{\"errors\":[{\"code\":\"KEY_TAKEN\",\"detail\":\"x\"}]}''"

lemma error_body_loads:
  "json_loads R (map word_of_nat error_body) =
     Inr (JObj [(lit ''errors'', JArr [JObj [(lit ''code'', JStr (lit ''KEY_TAKEN'')), (lit ''detail'', JStr (lit ''x''))]])])"
  by code_simp

lemma parse_error_envelope_dispatch_witness:
  "\<exists>e. parse_error_envelope sample_runtime 422 (map word_of_nat error_body) None = Inr e \<and> te_class e = KeyTakenError"
  using parse_error_envelope_dispatch [OF error_body_loads [of sample_runtime], where status = 422 and retry_after = None]
  by (auto simp: first_shape_ok_def hashable_def py_truthy_def code_to_exception_def)

end
