(* ===== verification/Crypto.thy ===== *)
theory Crypto
  imports Errors Sha256
begin

text \<open>
  \<open>src/src/tamga/crypto\<close>. The primitives of the \<open>cryptography\<close> package are the fields of the
  record \<open>crypto\<close>, typed by the outcomes its documentation gives each call: a loader that raises
  only \<open>ValueError\<close> is an option, the PEM and DER loaders may also raise
  \<open>UnsupportedAlgorithm\<close>, a signature check either returns or raises \<open>InvalidSignature\<close> and
  is a Boolean, AES-GCM opening raises \<open>InvalidTag\<close> and is an option. What the SDK adds around
  them is defined: the key loading order, the size and curve checks, the exception handling, the key
  derivations and the key id.

  The locale \<open>never_raising\<close> is the contract a verifier gives its callers, that it answers and
  never raises; it is interpreted on the Ed25519 verifier. The PEM-based verifiers meet it except
  for \<open>UnsupportedAlgorithm\<close> (\<open>verify_rsa_outcome\<close>, \<open>verify_p256_outcome\<close>).
\<close>

section \<open>The cryptography package\<close>

datatype pub_key = RsaKey nat bytes | EcKey pystr bytes | OtherKey

datatype key_load = KeyLoaded pub_key | KeyMalformed | KeyUnsupported

record crypto =
  ed25519_load :: "bytes \<Rightarrow> bytes option"
  ed25519_check :: "bytes \<Rightarrow> bytes \<Rightarrow> bytes \<Rightarrow> bool"  \<comment> \<open>key, signature, message\<close>
  pem_load :: "bytes \<Rightarrow> key_load"
  der_load :: "bytes \<Rightarrow> key_load"
  p256_point :: "bytes \<Rightarrow> bytes option"
  pkcs1v15_check :: "bytes \<Rightarrow> bytes \<Rightarrow> bytes \<Rightarrow> bool"
  pss_check :: "bytes \<Rightarrow> bytes \<Rightarrow> bytes \<Rightarrow> bool"
  ecdsa_check :: "bytes \<Rightarrow> bytes \<Rightarrow> bytes \<Rightarrow> bool"
  hkdf_sha256 :: "nat \<Rightarrow> bytes \<Rightarrow> bytes \<Rightarrow> bytes \<Rightarrow> bytes"  \<comment> \<open>length, salt, info, key material\<close>
  aesgcm_open :: "bytes \<Rightarrow> bytes \<Rightarrow> bytes \<Rightarrow> bytes option"  \<comment> \<open>key, nonce, ciphertext and tag\<close>

text \<open>
  A concrete instance for the evaluated examples: a signature is the first key byte followed by the
  message, and an opened ciphertext ends in the first sixteen bytes of the key.
\<close>

definition sample_crypto :: crypto where
  "sample_crypto =
     \<lparr>ed25519_load = (\<lambda>b. if length b = 32 then Some b else None),
      ed25519_check = (\<lambda>k s m. s = take 1 k @ m),
      pem_load = (\<lambda>_. KeyMalformed),
      der_load = (\<lambda>b. KeyLoaded (RsaKey 2048 b)),
      p256_point = (\<lambda>b. Some b),
      pkcs1v15_check = (\<lambda>k s m. s = take 1 k @ m),
      pss_check = (\<lambda>k s m. s = take 1 k @ m @ m),
      ecdsa_check = (\<lambda>k s m. s = m @ take 1 k),
      hkdf_sha256 = (\<lambda>n salt info ikm. take n (ikm @ info @ salt @ replicate n 0)),
      aesgcm_open = (\<lambda>k nonce ct. if drop (length ct - 16) ct = take 16 k
                                    then Some (take (length ct - 16) ct) else None)\<rparr>"

section \<open>crypto/ed25519.py\<close>

definition ed25519_verify :: "crypto \<Rightarrow> bytes \<Rightarrow> bytes \<Rightarrow> bytes \<Rightarrow> bool" where
  "ed25519_verify P public_key message signature =
     (case ed25519_load P public_key of
        None \<Rightarrow> False
      | Some key \<Rightarrow> ed25519_check P key signature message)"

definition unbackfilled_account_key_id :: pystr where
  "unbackfilled_account_key_id = lit ''e3b0c44298fc1c14''"

definition key_id :: "pystr \<Rightarrow> exc + pystr" where
  "key_id public_key_base64 =
     rbind (of_option UnicodeEncodeError (utf8_encode public_key_base64)) (\<lambda>bs.
       Inr (hex_of_bytes (take 8 (sha256 bs))))"

section \<open>crypto/rsa.py\<close>

definition load_either :: "crypto \<Rightarrow> bytes \<Rightarrow> exc + pub_key" where
  "load_either P raw =
     (case pem_load P raw of
        KeyLoaded k \<Rightarrow> Inr k
      | KeyUnsupported \<Rightarrow> Inl UnsupportedAlgorithm
      | KeyMalformed \<Rightarrow>
          (case der_load P raw of
             KeyLoaded k \<Rightarrow> Inr k
           | KeyUnsupported \<Rightarrow> Inl UnsupportedAlgorithm
           | KeyMalformed \<Rightarrow> Inl ValueError))"

definition load_rsa_public_key :: "crypto \<Rightarrow> bytes \<Rightarrow> exc + bytes" where
  "load_rsa_public_key P raw =
     rbind (load_either P raw) (\<lambda>key.
       case key of
         RsaKey bits k \<Rightarrow> (if 2048 \<le> bits \<and> bits \<le> 8192 then Inr k else Inl ValueError)
       | _ \<Rightarrow> Inl ValueError)"

definition check_result :: "bool \<Rightarrow> exc + bool" where
  "check_result b = (if b then Inr True else Inl InvalidSignature)"

definition as_verdict :: "exc + bool \<Rightarrow> exc + bool" where
  "as_verdict r = except_value (\<lambda>e. e = InvalidSignature \<or> is_ValueError e) False r"

definition verify_pkcs1v15 :: "crypto \<Rightarrow> bytes \<Rightarrow> bytes \<Rightarrow> bytes \<Rightarrow> exc + bool" where
  "verify_pkcs1v15 P public_key message signature =
     as_verdict (rbind (load_rsa_public_key P public_key) (\<lambda>k.
       check_result (pkcs1v15_check P k signature message)))"

definition verify_pss :: "crypto \<Rightarrow> bytes \<Rightarrow> bytes \<Rightarrow> bytes \<Rightarrow> exc + bool" where
  "verify_pss P public_key message signature =
     as_verdict (rbind (load_rsa_public_key P public_key) (\<lambda>k.
       check_result (pss_check P k signature message)))"

section \<open>crypto/ecdsa.py\<close>

definition load_ec_public_key :: "crypto \<Rightarrow> bytes \<Rightarrow> exc + bytes" where
  "load_ec_public_key P raw =
     (if length raw = 65 \<and> raw ! 0 = 4 then of_option ValueError (p256_point P raw)
      else rbind (load_either P raw) (\<lambda>key.
        case key of
          EcKey curve k \<Rightarrow> (if curve = lit ''secp256r1'' then Inr k else Inl ValueError)
        | _ \<Rightarrow> Inl ValueError))"

definition verify_p256 :: "crypto \<Rightarrow> bytes \<Rightarrow> bytes \<Rightarrow> bytes \<Rightarrow> exc + bool" where
  "verify_p256 P public_key message signature =
     as_verdict (rbind (load_ec_public_key P public_key) (\<lambda>k.
       check_result (ecdsa_check P k signature message)))"

section \<open>crypto/hkdf.py and crypto/aes\_gcm.py\<close>

definition ascii_bytes :: "string \<Rightarrow> bytes" where
  "ascii_bytes s = map (word_of_nat \<circ> of_char) s"

definition machine_file_key_salt :: bytes where
  "machine_file_key_salt = ascii_bytes ''tamga:machine-file-key-v1''"

definition license_file_key_salt :: bytes where
  "license_file_key_salt = ascii_bytes ''tamga:license-file-key-v1''"

definition license_file_key_info :: bytes where
  "license_file_key_info = ascii_bytes ''license-file''"

definition derive_machine_file_key :: "crypto \<Rightarrow> pystr \<Rightarrow> pystr \<Rightarrow> exc + bytes" where
  "derive_machine_file_key P license_key fingerprint =
     rbind (of_option UnicodeEncodeError (utf8_encode fingerprint)) (\<lambda>info.
     rbind (of_option UnicodeEncodeError (utf8_encode license_key)) (\<lambda>ikm.
       Inr (hkdf_sha256 P 32 machine_file_key_salt info ikm)))"

definition derive_license_file_key :: "crypto \<Rightarrow> pystr \<Rightarrow> exc + bytes" where
  "derive_license_file_key P license_key =
     rbind (of_option UnicodeEncodeError (utf8_encode license_key)) (\<lambda>ikm.
       Inr (hkdf_sha256 P 32 license_file_key_salt license_file_key_info ikm))"

definition aes_gcm_decrypt :: "crypto \<Rightarrow> bytes \<Rightarrow> bytes \<Rightarrow> bytes \<Rightarrow> exc + bytes" where
  "aes_gcm_decrypt P key nonce ciphertext_and_tag =
     of_option InvalidTag (aesgcm_open P key nonce ciphertext_and_tag)"

section \<open>Verdicts\<close>

locale never_raising =
  fixes verifier :: "crypto \<Rightarrow> bytes \<Rightarrow> bytes \<Rightarrow> bytes \<Rightarrow> exc + bool"
  assumes answers: "\<exists>b. verifier P k m s = Inr b"
begin

lemma not_Inl: "verifier P k m s \<noteq> Inl e"
  using answers [of P k m s] by auto

lemma refused_iff: "verifier P k m s \<noteq> Inr True \<longleftrightarrow> verifier P k m s = Inr False"
  using answers [of P k m s] by auto

end

interpretation ed25519: never_raising "\<lambda>P k m s. Inr (ed25519_verify P k m s)"
  by unfold_locales simp

lemma check_result_verdict [simp]: "as_verdict (check_result b) = Inr b"
  by (simp add: check_result_def as_verdict_def)

lemma as_verdict_simps [simp]:
  "as_verdict (Inr b) = Inr b"
  "as_verdict (Inl ValueError) = Inr False"
  "as_verdict (Inl UnsupportedAlgorithm) = Inl UnsupportedAlgorithm"
  by (simp_all add: as_verdict_def)

lemma load_rsa_Inl:
  "load_rsa_public_key P raw = Inl e \<Longrightarrow> e = ValueError \<or> e = UnsupportedAlgorithm"
  by (auto simp: load_rsa_public_key_def load_either_def rbind_Inl_iff
      split: key_load.splits pub_key.splits if_splits)

lemma load_ec_Inl:
  "load_ec_public_key P raw = Inl e \<Longrightarrow> e = ValueError \<or> e = UnsupportedAlgorithm"
  by (auto simp: load_ec_public_key_def load_either_def rbind_Inl_iff
      split: key_load.splits pub_key.splits if_splits)

lemma load_rsa_Inr:
  "load_rsa_public_key P raw = Inr k \<longleftrightarrow>
     (\<exists>bits. 2048 \<le> bits \<and> bits \<le> 8192 \<and> load_either P raw = Inr (RsaKey bits k))"
proof (cases "load_either P raw")
  case (Inr key)
  then show ?thesis by (cases key) (auto simp: load_rsa_public_key_def)
qed (simp add: load_rsa_public_key_def)

lemma load_ec_Inr:
  "load_ec_public_key P raw = Inr k \<longleftrightarrow>
     (if length raw = 65 \<and> raw ! 0 = 4 then p256_point P raw = Some k
      else load_either P raw = Inr (EcKey (lit ''secp256r1'') k))"
proof (cases "load_either P raw")
  case (Inr key)
  then show ?thesis by (cases key) (auto simp: load_ec_public_key_def)
qed (simp add: load_ec_public_key_def)

lemma as_verdict_rbind:
  assumes "\<And>e. load = Inl e \<Longrightarrow> e = ValueError \<or> e = UnsupportedAlgorithm"
  shows "as_verdict (rbind load (\<lambda>k. check_result (check k))) =
     (case load of
        Inr k \<Rightarrow> Inr (check k)
      | Inl e \<Rightarrow> if e = UnsupportedAlgorithm then Inl e else Inr False)"
  using assms by (cases load) fastforce+

lemma verify_rsa_outcome:
  "verify_pkcs1v15 P raw m s =
     (case load_rsa_public_key P raw of
        Inr k \<Rightarrow> Inr (pkcs1v15_check P k s m)
      | Inl e \<Rightarrow> if e = UnsupportedAlgorithm then Inl e else Inr False)"
  "verify_pss P raw m s =
     (case load_rsa_public_key P raw of
        Inr k \<Rightarrow> Inr (pss_check P k s m)
      | Inl e \<Rightarrow> if e = UnsupportedAlgorithm then Inl e else Inr False)"
  unfolding verify_pkcs1v15_def verify_pss_def
  by (rule as_verdict_rbind, rule load_rsa_Inl, assumption)+

lemma verify_p256_outcome:
  "verify_p256 P raw m s =
     (case load_ec_public_key P raw of
        Inr k \<Rightarrow> Inr (ecdsa_check P k s m)
      | Inl e \<Rightarrow> if e = UnsupportedAlgorithm then Inl e else Inr False)"
  unfolding verify_p256_def by (rule as_verdict_rbind) (rule load_ec_Inl)

section \<open>Key ids\<close>

lemma key_id_Inr: "key_id s = Inr k \<longleftrightarrow> (\<exists>bs. utf8_encode s = Some bs \<and> k = hex_of_bytes (take 8 (sha256 bs)))"
  by (auto simp: key_id_def rbind_Inr_iff)

lemma key_id_Inl: "key_id s = Inl e \<longleftrightarrow> utf8_encode s = None \<and> e = UnicodeEncodeError"
  by (auto simp: key_id_def rbind_Inl_iff)

lemma key_id_length: "key_id s = Inr k \<Longrightarrow> length k = 16"
  by (auto simp: key_id_Inr)

lemma key_id_ascii: "list_all (\<lambda>c. c < 128) s \<Longrightarrow> \<exists>k. key_id s = Inr k"
proof -
  assume "list_all (\<lambda>c. c < 128) s"
  then have "list_all encodable s" by (auto simp: list_all_iff encodable_def surrogate_def)
  then have "utf8_encode s \<noteq> None" by (simp add: utf8_encode_eq_None)
  then show ?thesis by (auto simp: key_id_def)
qed

text \<open>
  Key ids are sixteen lowercase hexadecimal characters, and the id of the empty key is the
  constant that marks an account without a published key.
\<close>

lemma key_id_shape:
  "(\<forall>k. key_id s = Inr k \<longrightarrow> length k = 16 \<and> list_all is_lower_hex k) \<and>
   key_id [] = Inr unbackfilled_account_key_id"
proof
  show "\<forall>k. key_id s = Inr k \<longrightarrow> length k = 16 \<and> list_all is_lower_hex k"
    by (auto simp: key_id_Inr hex_of_bytes_lower_hex)
  have "sha256 [] = [227, 176, 196, 66, 152, 252, 28, 20, 154, 251, 244, 200, 153, 111, 185, 36,
      39, 174, 65, 228, 100, 155, 147, 76, 164, 149, 153, 27, 120, 82, 184, 85]"
    by (simp add: sha_eval)
  then show "key_id [] = Inr unbackfilled_account_key_id"
    by (simp add: key_id_def utf8_encode_def unbackfilled_account_key_id_def hex_of_bytes_def
        hexdigit_def lit_def)
qed

text \<open>
  C34: the RSA and ECDSA verifiers accept only what the check accepts under a key of the right
  kind: an RSA key of 2048 to 8192 bits, or a P-256 key given as an uncompressed point, PEM or DER.
\<close>

theorem weak_keys_refused:
  "(verify_pkcs1v15 P raw m s = Inr True \<longleftrightarrow>
     (\<exists>bits k. 2048 \<le> bits \<and> bits \<le> 8192 \<and> load_either P raw = Inr (RsaKey bits k) \<and> pkcs1v15_check P k s m)) \<and>
   (verify_pss P raw m s = Inr True \<longleftrightarrow>
     (\<exists>bits k. 2048 \<le> bits \<and> bits \<le> 8192 \<and> load_either P raw = Inr (RsaKey bits k) \<and> pss_check P k s m)) \<and>
   (verify_p256 P raw m s = Inr True \<longleftrightarrow>
     (\<exists>k. (if length raw = 65 \<and> raw ! 0 = 4 then p256_point P raw = Some k
           else load_either P raw = Inr (EcKey (lit ''secp256r1'') k)) \<and> ecdsa_check P k s m))"
proof (intro conjI)
  have rsa: "(case load_rsa_public_key P raw of Inr k \<Rightarrow> Inr (check k)
      | Inl e \<Rightarrow> if e = UnsupportedAlgorithm then Inl e else Inr False) = (Inr True :: exc + bool)
    \<longleftrightarrow> (\<exists>bits k. 2048 \<le> bits \<and> bits \<le> 8192 \<and> load_either P raw = Inr (RsaKey bits k) \<and> check k)"
    (is "?l \<longleftrightarrow> ?r") for check
  proof -
    have "?l \<longleftrightarrow> (\<exists>k. load_rsa_public_key P raw = Inr k \<and> check k)"
      by (cases "load_rsa_public_key P raw") auto
    also have "\<dots> \<longleftrightarrow> ?r" unfolding load_rsa_Inr by blast
    finally show ?thesis .
  qed
  show "verify_pkcs1v15 P raw m s = Inr True \<longleftrightarrow>
     (\<exists>bits k. 2048 \<le> bits \<and> bits \<le> 8192 \<and> load_either P raw = Inr (RsaKey bits k) \<and> pkcs1v15_check P k s m)"
    unfolding verify_rsa_outcome rsa ..
  show "verify_pss P raw m s = Inr True \<longleftrightarrow>
     (\<exists>bits k. 2048 \<le> bits \<and> bits \<le> 8192 \<and> load_either P raw = Inr (RsaKey bits k) \<and> pss_check P k s m)"
    unfolding verify_rsa_outcome rsa ..
  show "verify_p256 P raw m s = Inr True \<longleftrightarrow>
     (\<exists>k. (if length raw = 65 \<and> raw ! 0 = 4 then p256_point P raw = Some k
           else load_either P raw = Inr (EcKey (lit ''secp256r1'') k)) \<and> ecdsa_check P k s m)"
    unfolding verify_p256_outcome load_ec_Inr [symmetric]
    by (cases "load_ec_public_key P raw") auto
qed

end
