(* ===== verification/Signing_Keys.thy ===== *)
theory Signing_Keys
  imports Crypto
begin

text \<open>
  \<open>src/src/tamga/models/signing_key.py\<close> and \<open>src/src/tamga/checkout/key_set.py\<close>: the keys an
  account has held, and the choice of the one a file was signed with.

  \<open>resolve_signing_key\<close> tries every usable key against the signature and reads the file's own
  \<open>kid\<close> only when all have failed; \<open>resolve_cases\<close> gives its five outcomes.

  The locale \<open>key_set_file\<close> is what the two kinds of offline file have in common: a signature
  check per key, a verification that accepts no file failing the check, and a
  \<open>verify_with_key_set\<close> built from them by \<open>resolve_signing_key\<close>. Its lemmas are proved once
  and interpreted for license files and for machine files.
\<close>

section \<open>SigningKey\<close>

record signing_key =
  sk_kid :: pystr
  sk_public_key :: pystr
  sk_algorithm :: pystr
  sk_status :: pystr
  sk_created :: "datetime option"
  sk_retired :: "datetime option"

definition ed25519_algorithm :: pystr where "ed25519_algorithm = lit ''ed25519''"
definition active_status :: pystr where "active_status = lit ''active''"
definition retired_status :: pystr where "retired_status = lit ''retired''"
definition ed25519_public_key_length :: nat where "ed25519_public_key_length = 32"

definition signing_key_ed25519 :: "pystr \<Rightarrow> pystr \<Rightarrow> exc + signing_key" where
  "signing_key_ed25519 public_key status =
     rbind (key_id public_key) (\<lambda>kid.
       Inr \<lparr>sk_kid = kid, sk_public_key = public_key, sk_algorithm = ed25519_algorithm,
            sk_status = status, sk_created = None, sk_retired = None\<rparr>)"

definition computed_kid :: "signing_key \<Rightarrow> exc + pystr" where
  "computed_kid k = key_id (sk_public_key k)"

definition kid_is_self_consistent :: "signing_key \<Rightarrow> exc + bool" where
  "kid_is_self_consistent k = rbind (computed_kid k) (\<lambda>c. Inr (c = sk_kid k))"

definition public_key_bytes :: "signing_key \<Rightarrow> bytes option" where
  "public_key_bytes k =
     (case b64decode (sk_public_key k) of
        None \<Rightarrow> None
      | Some decoded \<Rightarrow> if length decoded \<noteq> ed25519_public_key_length then None else Some decoded)"

definition is_ed25519 :: "signing_key \<Rightarrow> bool" where
  "is_ed25519 k \<longleftrightarrow> py_lower (sk_algorithm k) = ed25519_algorithm"

definition is_retired :: "signing_key \<Rightarrow> bool" where
  "is_retired k \<longleftrightarrow> py_lower (sk_status k) = retired_status"

section \<open>SigningKeySet\<close>

text \<open>A key set is the tuple of its keys in the order given.\<close>

type_synonym key_set = "signing_key list"

definition pinned_key :: "pystr \<Rightarrow> exc + signing_key" where
  "pinned_key public_key =
     rbind (signing_key_ed25519 public_key active_status) (\<lambda>key.
       if public_key_bytes key = None then Inl ValueError else Inr key)"

definition from_public_keys :: "pystr list \<Rightarrow> exc + key_set" where
  "from_public_keys public_keys = map_res pinned_key public_keys"

definition kids :: "key_set \<Rightarrow> pystr list" where
  "kids ks = map sk_kid ks"

definition usable :: "signing_key \<Rightarrow> bool" where
  "usable k \<longleftrightarrow> is_ed25519 k \<and> public_key_bytes k \<noteq> None"

definition usable_keys :: "key_set \<Rightarrow> signing_key list" where
  "usable_keys ks = filter usable ks"

fun inconsistent_keys :: "key_set \<Rightarrow> exc + signing_key list" where
  "inconsistent_keys [] = Inr []"
| "inconsistent_keys (k # ks) =
     rbind (kid_is_self_consistent k) (\<lambda>c.
     rbind (inconsistent_keys ks) (\<lambda>r. Inr (if c then r else k # r)))"

fun find_key :: "key_set \<Rightarrow> pystr \<Rightarrow> exc + signing_key option" where
  "find_key [] kid = Inr None"
| "find_key (k # ks) kid =
     rbind (computed_kid k) (\<lambda>c.
       if kid = sk_kid k \<or> kid = c then Inr (Some k) else find_key ks kid)"

fun try_keys :: "(bytes \<Rightarrow> bool) \<Rightarrow> signing_key list \<Rightarrow> (signing_key \<times> bytes) option" where
  "try_keys verify [] = None"
| "try_keys verify (k # ks) =
     (case public_key_bytes k of
        Some b \<Rightarrow> if verify b then Some (k, b) else try_keys verify ks
      | None \<Rightarrow> try_keys verify ks)"

text \<open>What is raised once every candidate has failed, from the file's unverified \<open>kid\<close>.\<close>

definition rejection :: "key_set \<Rightarrow> pystr option \<Rightarrow> exc + (signing_key \<times> bytes)" where
  "rejection ks claimed =
     (let available = map sk_kid (usable_keys ks) in
      case claimed of
        None \<Rightarrow> Inl InvalidSignature
      | Some kid \<Rightarrow>
          rbind (find_key ks kid) (\<lambda>found.
            if found \<noteq> None then Inl InvalidSignature
            else if kid = unbackfilled_account_key_id
              then Inl (SigningKeyNotPublishedError kid available)
            else Inl (UnknownSigningKeyError kid available)))"

definition resolve_signing_key ::
  "key_set \<Rightarrow> (bytes \<Rightarrow> bool) \<Rightarrow> exc + pystr option \<Rightarrow> exc + (signing_key \<times> bytes)" where
  "resolve_signing_key ks verify unverified_kid =
     (let candidates = usable_keys ks in
      if candidates = [] then Inl (NoUsableSigningKeyError (kids ks))
      else
        (case try_keys verify candidates of
           Some r \<Rightarrow> Inr r
         | None \<Rightarrow> rbind unverified_kid (rejection ks)))"

section \<open>Key lemmas\<close>

lemma public_key_bytes_Some:
  "public_key_bytes k = Some b \<longleftrightarrow> b64decode (sk_public_key k) = Some b \<and> length b = 32"
  by (auto simp: public_key_bytes_def ed25519_public_key_length_def split: option.splits if_splits)

lemma usable_iff: "usable k \<longleftrightarrow> is_ed25519 k \<and> (\<exists>b. public_key_bytes k = Some b)"
  by (auto simp: usable_def)

lemma b64decode_ascii: "b64decode s = Some b \<Longrightarrow> list_all (\<lambda>c. c < 128) s"
  using b64_value_ascii by (fastforce simp: list_all_iff dest: b64decode_alphabet)

lemma usable_computed_kid: "usable k \<Longrightarrow> \<exists>c. computed_kid k = Inr c"
  unfolding usable_iff public_key_bytes_Some computed_kid_def
  by (metis b64decode_ascii key_id_ascii)

lemma usable_encode [simp]:
  "public_key_bytes \<lparr>sk_kid = kid, sk_public_key = b64encode b, sk_algorithm = a, sk_status = s,
     sk_created = c, sk_retired = r\<rparr> = (if length b = 32 then Some b else None)"
  by (simp add: public_key_bytes_def ed25519_public_key_length_def)

lemma find_key_Inr_Some:
  "find_key ks kid = Inr (Some k) \<Longrightarrow> k \<in> set ks \<and> (kid = sk_kid k \<or> computed_kid k = Inr kid)"
  by (induction ks kid rule: find_key.induct) (auto simp: rbind_Inr_iff split: if_splits)

lemma find_key_Inr_None:
  "find_key ks kid = Inr None \<Longrightarrow> k \<in> set ks \<Longrightarrow> kid \<noteq> sk_kid k \<and> computed_kid k \<noteq> Inr kid"
  by (induction ks kid rule: find_key.induct) (auto simp: rbind_Inr_iff split: if_splits)

lemma find_key_total:
  "\<forall>k \<in> set ks. \<exists>c. computed_kid k = Inr c \<Longrightarrow>
    \<exists>r. find_key ks kid = Inr r \<and> (r = None \<longleftrightarrow> (\<forall>k \<in> set ks. kid \<noteq> sk_kid k \<and> computed_kid k \<noteq> Inr kid))"
  by (induction ks kid rule: find_key.induct) auto

lemma try_keys_Some:
  "try_keys verify ks = Some (k, b) \<longleftrightarrow>
     (\<exists>pre post. ks = pre @ k # post \<and> public_key_bytes k = Some b \<and> verify b \<and>
        (\<forall>j \<in> set pre. \<forall>c. public_key_bytes j = Some c \<longrightarrow> \<not> verify c))"
proof (induction ks)
  case (Cons a ks)
  let ?fails = "\<lambda>j. \<forall>c. public_key_bytes j = Some c \<longrightarrow> \<not> verify c"
  have split: "(\<exists>pre post. a # ks = pre @ k # post \<and> Q pre) \<longleftrightarrow>
      a = k \<and> Q [] \<or> (\<exists>pre post. ks = pre @ k # post \<and> Q (a # pre))" for Q
    by (auto simp: Cons_eq_append_conv)
  show ?case
  proof (cases "?fails a")
    case True
    then have "try_keys verify (a # ks) = try_keys verify ks"
      by (auto split: option.splits)
    with Cons True split [of "\<lambda>pre. public_key_bytes k = Some b \<and> verify b \<and> (\<forall>j \<in> set pre. ?fails j)"]
    show ?thesis by auto
  next
    case False
    then obtain c where "public_key_bytes a = Some c" "verify c" by blast
    with False split [of "\<lambda>pre. public_key_bytes k = Some b \<and> verify b \<and> (\<forall>j \<in> set pre. ?fails j)"]
    show ?thesis by auto
  qed
qed simp

lemma try_keys_None:
  "try_keys verify ks = None \<longleftrightarrow> (\<forall>k \<in> set ks. \<forall>b. public_key_bytes k = Some b \<longrightarrow> \<not> verify b)"
  by (induction ks) (auto split: option.splits)

definition signed_by :: "(bytes \<Rightarrow> bool) \<Rightarrow> key_set \<Rightarrow> bool" where
  "signed_by verify ks \<longleftrightarrow> (\<exists>k \<in> set ks. is_ed25519 k \<and> (\<exists>b. public_key_bytes k = Some b \<and> verify b))"

lemma signed_by_try: "signed_by verify ks \<longleftrightarrow> (\<exists>k b. try_keys verify (usable_keys ks) = Some (k, b))"
  using try_keys_None [of verify "usable_keys ks"]
  by (cases "try_keys verify (usable_keys ks)")
    (auto simp: signed_by_def usable_keys_def usable_iff)

lemma try_usable_Some:
  "try_keys verify (usable_keys ks) = Some (k, b) \<Longrightarrow>
    k \<in> set ks \<and> is_ed25519 k \<and> public_key_bytes k = Some b \<and> verify b"
proof -
  assume "try_keys verify (usable_keys ks) = Some (k, b)"
  then have "k \<in> set (usable_keys ks)" "public_key_bytes k = Some b" "verify b"
    by (auto simp: try_keys_Some)
  then show ?thesis by (simp add: usable_keys_def usable_iff)
qed

lemma rejection_Inr [simp]: "rejection ks claimed \<noteq> Inr r"
  by (auto simp: rejection_def Let_def rbind_Inr_iff split: option.splits if_splits)

lemma resolve_none: "usable_keys ks = [] \<Longrightarrow> resolve_signing_key ks v u = Inl (NoUsableSigningKeyError (kids ks))"
  by (simp add: resolve_signing_key_def)

lemma resolve_found:
  assumes "try_keys v (usable_keys ks) = Some r"
  shows "resolve_signing_key ks v u = Inr r"
proof -
  from assms have "usable_keys ks \<noteq> []" by auto
  with assms show ?thesis by (simp add: resolve_signing_key_def)
qed

lemma resolve_rejected:
  assumes "usable_keys ks \<noteq> []" "\<not> signed_by v ks"
  shows "resolve_signing_key ks v u = rbind u (rejection ks)"
proof -
  from assms(2) have "try_keys v (usable_keys ks) = None"
    using signed_by_try [of v ks] by (cases "try_keys v (usable_keys ks)") auto
  with assms(1) show ?thesis by (simp add: resolve_signing_key_def)
qed

lemma resolve_Inr:
  "resolve_signing_key ks v u = Inr (k, b) \<longleftrightarrow> try_keys v (usable_keys ks) = Some (k, b)"
proof (cases "try_keys v (usable_keys ks)")
  case None
  then show ?thesis by (auto simp: resolve_signing_key_def Let_def rbind_Inr_iff)
qed (auto simp: resolve_found)

lemma rejection_cases:
  "rejection ks None = Inl InvalidSignature"
  "find_key ks kid = Inr (Some k) \<Longrightarrow> rejection ks (Some kid) = Inl InvalidSignature"
  "find_key ks kid = Inr None \<Longrightarrow> kid = unbackfilled_account_key_id \<Longrightarrow>
     rejection ks (Some kid) = Inl (SigningKeyNotPublishedError kid (map sk_kid (usable_keys ks)))"
  "find_key ks kid = Inr None \<Longrightarrow> kid \<noteq> unbackfilled_account_key_id \<Longrightarrow>
     rejection ks (Some kid) = Inl (UnknownSigningKeyError kid (map sk_kid (usable_keys ks)))"
  by (simp_all add: rejection_def)

text \<open>
  The verdict on a file that no key verifies, as a specification: forged when the file names a key of
  the set or none at all, unknown otherwise.
\<close>

definition names_key :: "key_set \<Rightarrow> pystr \<Rightarrow> bool" where
  "names_key ks kid \<longleftrightarrow> (\<exists>k \<in> set ks. sk_kid k = kid \<or> computed_kid k = Inr kid)"

definition rejection_error :: "key_set \<Rightarrow> pystr option \<Rightarrow> exc" where
  "rejection_error ks claimed =
     (case claimed of
        None \<Rightarrow> InvalidSignature
      | Some kid \<Rightarrow>
          (if names_key ks kid then InvalidSignature
           else if kid = unbackfilled_account_key_id
             then SigningKeyNotPublishedError kid (map sk_kid (usable_keys ks))
           else UnknownSigningKeyError kid (map sk_kid (usable_keys ks))))"

definition hashable_keys :: "key_set \<Rightarrow> bool" where
  "hashable_keys ks \<longleftrightarrow> list_all (\<lambda>k. list_all encodable (sk_public_key k)) ks"

lemma rejection_spec:
  assumes "hashable_keys ks"
  shows "rejection ks claimed = Inl (rejection_error ks claimed)"
proof (cases claimed)
  case (Some kid)
  have "\<exists>c. computed_kid k = Inr c" if "k \<in> set ks" for k
  proof -
    from that assms have "utf8_encode (sk_public_key k) \<noteq> None"
      by (simp add: hashable_keys_def list_all_iff utf8_encode_eq_None)
    then show ?thesis by (auto simp: computed_kid_def key_id_def)
  qed
  then obtain r where r: "find_key ks kid = Inr r" "r = None \<longleftrightarrow> \<not> names_key ks kid"
    using find_key_total [of ks kid] unfolding names_key_def by metis
  with Some show ?thesis
    by (cases "names_key ks kid") (auto simp: rejection_def rejection_error_def Let_def)
qed (simp add: rejection_def rejection_error_def)

section \<open>The contract of an offline file\<close>

locale key_set_file =
  fixes message_ok :: "'f \<Rightarrow> bool"
    and check :: "'f \<Rightarrow> bytes \<Rightarrow> bool"
    and verify :: "'f \<Rightarrow> bytes \<Rightarrow> 'c \<Rightarrow> exc + 'r"
    and unverified_kid :: "'f \<Rightarrow> 'c \<Rightarrow> exc + pystr option"
    and verify_set :: "'f \<Rightarrow> key_set \<Rightarrow> 'c \<Rightarrow> exc + ('r \<times> signing_key)"
  assumes verify_checks: "verify f k c = Inr r \<Longrightarrow> message_ok f \<and> check f k"
    and verify_set_def: "verify_set f ks c =
      rbind (ensure (message_ok f) UnicodeEncodeError) (\<lambda>_.
      rbind (resolve_signing_key ks (check f) (unverified_kid f c)) (\<lambda>kb.
      rbind (verify f (snd kb) c) (\<lambda>r. Inr (r, fst kb))))"
    and verify_key: "check f a \<Longrightarrow> check f b \<Longrightarrow> verify f a c = verify f b c"
begin

lemma verify_set_Inr:
  "verify_set f ks c = Inr (r, k) \<longleftrightarrow>
     message_ok f \<and> (\<exists>b. try_keys (check f) (usable_keys ks) = Some (k, b) \<and> verify f b c = Inr r)"
  by (auto simp: verify_set_def rbind_Inr_iff resolve_Inr)

lemma verify_set_sound:
  assumes "verify_set f ks c = Inr (r, k)"
  shows "k \<in> set ks \<and> is_ed25519 k \<and>
    (\<exists>b. public_key_bytes k = Some b \<and> check f b \<and> verify f b c = Inr r)"
  using assms try_usable_Some unfolding verify_set_Inr by blast

text \<open>
  The specification of a key set: a file is accepted exactly when some usable key of the set, wherever
  it stands and whatever surrounds it, makes \<open>verify\<close> accept it, and with the same result.
\<close>

lemma verify_set_accepts_iff:
  "(\<exists>k. verify_set f ks c = Inr (r, k)) \<longleftrightarrow>
     (\<exists>k b. k \<in> set ks \<and> is_ed25519 k \<and> public_key_bytes k = Some b \<and> verify f b c = Inr r)"
proof
  assume "\<exists>k. verify_set f ks c = Inr (r, k)"
  then show "\<exists>k b. k \<in> set ks \<and> is_ed25519 k \<and> public_key_bytes k = Some b \<and> verify f b c = Inr r"
    using verify_set_sound by blast
next
  assume "\<exists>k b. k \<in> set ks \<and> is_ed25519 k \<and> public_key_bytes k = Some b \<and> verify f b c = Inr r"
  then obtain k b where k: "k \<in> set ks" "is_ed25519 k" "public_key_bytes k = Some b"
    and v: "verify f b c = Inr r" by blast
  have b: "message_ok f" "check f b" using verify_checks [OF v] by simp_all
  with k have "signed_by (check f) ks" unfolding signed_by_def by blast
  then obtain k' b' where t: "try_keys (check f) (usable_keys ks) = Some (k', b')"
    unfolding signed_by_try by blast
  then have "check f b'" using try_usable_Some by blast
  then have "verify f b' c = Inr r" using verify_key b v by metis
  with b t show "\<exists>k. verify_set f ks c = Inr (r, k)" by (auto simp: verify_set_Inr)
qed

text \<open>When a key verifies, the result is that of the first such key and the \<open>kid\<close> plays no part.\<close>

lemma verify_set_signed:
  assumes "message_ok f" "signed_by (check f) ks"
  obtains pre k post b where "usable_keys ks = pre @ k # post" "public_key_bytes k = Some b" "check f b"
    "\<forall>j \<in> set pre. \<forall>d. public_key_bytes j = Some d \<longrightarrow> \<not> check f d"
    "verify_set f ks c = rbind (verify f b c) (\<lambda>r. Inr (r, k))"
proof -
  from assms(2) obtain k b where t: "try_keys (check f) (usable_keys ks) = Some (k, b)"
    unfolding signed_by_try by blast
  then obtain pre post where "usable_keys ks = pre @ k # post" "public_key_bytes k = Some b" "check f b"
    "\<forall>j \<in> set pre. \<forall>d. public_key_bytes j = Some d \<longrightarrow> \<not> check f d"
    unfolding try_keys_Some by blast
  then show thesis by (rule that) (simp add: verify_set_def assms(1) resolve_found [OF t])
qed

lemma verify_set_unsigned:
  assumes "message_ok f" "\<not> signed_by (check f) ks" "usable_keys ks \<noteq> []"
  shows "unverified_kid f c = Inl e \<Longrightarrow> verify_set f ks c = Inl e"
    and "unverified_kid f c = Inr claimed \<Longrightarrow> rejection ks claimed = Inl e \<Longrightarrow> verify_set f ks c = Inl e"
  using assms by (simp_all add: verify_set_def resolve_rejected)

lemma verify_set_no_usable:
  "message_ok f \<Longrightarrow> usable_keys ks = [] \<Longrightarrow> verify_set f ks c = Inl (NoUsableSigningKeyError (kids ks))"
  by (simp add: verify_set_def resolve_none)

text \<open>Adding keys never turns an accepted file into one reported as forged or unknown.\<close>

lemma verify_set_extend:
  assumes "verify_set f ks c = Inr (r, k)"
  shows "verify_set f (ks @ extra) c = Inr (r, k)"
proof -
  from assms obtain b where b: "message_ok f" "try_keys (check f) (usable_keys ks) = Some (k, b)"
    "verify f b c = Inr r" by (auto simp: verify_set_Inr)
  then obtain pre post where "usable_keys ks = pre @ k # post" "public_key_bytes k = Some b" "check f b"
    "\<forall>j \<in> set pre. \<forall>d. public_key_bytes j = Some d \<longrightarrow> \<not> check f d"
    unfolding try_keys_Some by blast
  then have "try_keys (check f) (usable_keys (ks @ extra)) = Some (k, b)"
    unfolding try_keys_Some by (intro exI [of _ pre] exI [of _ "post @ usable_keys extra"]) (simp add: usable_keys_def)
  with b show ?thesis by (auto simp: verify_set_Inr)
qed

end

end
