(* ===== verification/Json_Round_Trip.thy ===== *)
theory Json_Round_Trip
  imports Json
begin

text \<open>
  What the SDK serialises it can read back: the parser inverts \<open>dumps\<close> on every value without
  floats, up to the order of object keys, which \<open>dumps\<close> sorts (\<open>canon\<close>). The fuel that
  \<open>loads_text\<close> gives the parser is therefore enough for every serialised value.

  \<open>json_loads_dumps\<close> is the statement on bytes, through the encoding detection, and
  \<open>dumps_inject\<close> says that equal texts come from values equal up to key order.
\<close>

fun float_free :: "json \<Rightarrow> bool" where
  "float_free (JFloat f) \<longleftrightarrow> False"
| "float_free (JArr xs) \<longleftrightarrow> (\<forall>x \<in> set xs. float_free x)"
| "float_free (JObj d) \<longleftrightarrow> (\<forall>kv \<in> set d. float_free (snd kv))"
| "float_free _ \<longleftrightarrow> True"

fun canon :: "json \<Rightarrow> json" where
  "canon (JArr xs) = JArr (map canon xs)"
| "canon (JObj d) = JObj (sort_key fst (map (\<lambda>kv. (fst kv, canon (snd kv))) d))"
| "canon v = v"

lemma insort_key_map: "insort_key g (h x) (map h xs) = map h (insort_key (\<lambda>y. g (h y)) x xs)"
  by (induction xs) auto

lemma sort_key_map: "sort_key g (map h xs) = map h (sort_key (\<lambda>y. g (h y)) xs)"
  by (induction xs) (simp_all add: insort_key_map)

section \<open>Strings\<close>

lemma scan_unicode_control:
  assumes "c < 32"
  shows "scan_unicode (48 # 48 # hexdigit (c div 16) # hexdigit (c mod 16) # r) = Some (c, 4)"
proof -
  have "c div 16 < 16" "c mod 16 < 16" using assms by auto
  then have "hex4 [48, 48, hexdigit (c div 16), hexdigit (c mod 16)] = Some (c div 16 * 16 + c mod 16)"
    by (simp add: hex4_def digit_value_def [of 48] to_ascii_char_def)
  then show ?thesis using assms by (simp add: scan_unicode_def)
qed

lemma scan_string_escape:
  "scan_string (escape_char c @ r) = map_option (\<lambda>(t, u). (c # t, u)) (scan_string r)"
proof (cases "c < 32 \<and> c \<notin> {8, 9, 10, 12, 13}")
  case True
  then show ?thesis by (auto simp: escape_char_def scan_unicode_control simp del: hexdigit_def)
next
  case False
  then show ?thesis by (auto simp: escape_char_def simple_escape_def)
qed

lemma scan_string_dumps: "scan_string (concat (map escape_char s) @ 34 # u) = Some (s, u)"
  by (induction s) (simp_all add: scan_string_escape)

section \<open>Numbers\<close>

definition stop :: "pystr \<Rightarrow> bool" where
  "stop u \<longleftrightarrow> u = [] \<or> hd u \<in> {44, 93, 125}"

lemma hd_dec_of_nat: "hd (dec_of_nat n) = 48 \<longleftrightarrow> n = 0"
proof (induction n rule: dec_of_nat.induct)
  case (1 n)
  show ?case
  proof (cases "n < 10")
    case False
    then have "n div 10 \<noteq> 0" by auto
    with False 1 show ?thesis by (subst dec_of_nat.simps) simp
  qed (simp add: dec_of_nat.simps [of n])
qed

lemma dec_of_nat_is_digit: "c \<in> set (dec_of_nat n) \<Longrightarrow> is_digit c"
  using dec_of_nat_digits by (auto simp: is_digit_def)

lemma takeWhile_digits:
  "stop u \<Longrightarrow> takeWhile is_digit (dec_of_nat n @ u) = dec_of_nat n"
proof -
  assume "stop u"
  then have "takeWhile is_digit u = []" by (cases u) (auto simp: stop_def is_digit_def)
  then show ?thesis by (simp add: takeWhile_append2 dec_of_nat_is_digit)
qed

lemma scan_tail_stop: "stop u \<Longrightarrow> scan_frac u = [] \<and> scan_exp u = []"
  by (auto simp: stop_def scan_frac_def scan_exp_def split: list.splits)

lemma hd_is_digit: "is_digit (hd (dec_of_nat n))"
  by (rule dec_of_nat_is_digit [of _ n]) simp

lemma scan_number_parts:
  assumes "sg = [] \<or> sg = [45]" "ds \<noteq> []" "hd ds \<noteq> 45"
    and ip: "(case ds @ u of [] \<Rightarrow> [] | c # _ \<Rightarrow> if c = 48 then [c] else takeWhile is_digit (ds @ u)) = ds"
    and n: "digits_value 10 False 0 ds = Some n" and "stop u"
  shows "scan_number R (sg @ ds @ u) = Some (JInt (if sg = [] then int n else - int n), u)"
proof -
  have sg: "(case sg @ ds @ u of c # _ \<Rightarrow> if c = 45 then [c] else [] | [] \<Rightarrow> []) = sg"
    using assms(1-3) by (cases ds) auto
  have r0: "drop (length sg) (sg @ ds @ u) = ds @ u" by simp
  show ?thesis
    unfolding scan_number_def Let_def sg r0 ip
    using assms(2) n scan_tail_stop [OF \<open>stop u\<close>] by simp
qed

lemma dec_of_int_split:
  obtains sg n where "dec_of_int i = sg @ dec_of_nat n" "sg = [] \<or> sg = [45]"
    "i = (if sg = [] then int n else - int n)"
proof (cases "i < 0")
  case True
  then show ?thesis by (intro that [of "[45]" "nat (- i)"]) (simp_all add: dec_of_int_def)
next
  case False
  then show ?thesis by (intro that [of "[]" "nat i"]) (simp_all add: dec_of_int_def)
qed

lemma scan_number_dumps:
  assumes "stop u"
  shows "scan_number R (dec_of_int i @ u) = Some (JInt i, u)"
proof -
  obtain sg n where i: "dec_of_int i = sg @ dec_of_nat n" "sg = [] \<or> sg = [45]"
    "i = (if sg = [] then int n else - int n)"
    by (rule dec_of_int_split)
  have "hd (dec_of_nat n) \<noteq> 45" using hd_is_digit [of n] by (auto simp: is_digit_def)
  moreover have "(case dec_of_nat n @ u of [] \<Rightarrow> []
      | c # _ \<Rightarrow> if c = 48 then [c] else takeWhile is_digit (dec_of_nat n @ u)) = dec_of_nat n"
  proof (cases "dec_of_nat n")
    case (Cons c cs)
    have "c = 48 \<Longrightarrow> cs = []"
      using hd_dec_of_nat [of n] Cons by (auto simp: dec_of_nat.simps)
    then show ?thesis using Cons takeWhile_digits [OF assms, of n] by (cases "c = 48") auto
  qed (use dec_of_nat_nonempty in blast)
  ultimately show ?thesis
    using scan_number_parts [OF i(2) dec_of_nat_nonempty [of n] _ _ digits_value_dec_of_nat assms] i(1,3)
    by simp
qed

section \<open>Values\<close>

lemma skip_ws_id: "s \<noteq> [] \<Longrightarrow> \<not> json_ws (hd s) \<Longrightarrow> skip_ws s = s"
  by (cases s) (simp_all add: skip_ws_def)

lemma skip_ws_Cons: "\<not> json_ws c \<Longrightarrow> skip_ws (c # s) = c # s"
  by (simp add: skip_ws_def)

lemma json_ws_delims [simp]:
  "\<not> json_ws 34" "\<not> json_ws 44" "\<not> json_ws 58" "\<not> json_ws 91" "\<not> json_ws 93" "\<not> json_ws 123"
  "\<not> json_ws 125"
  by (simp_all add: json_ws_def)

lemma hd_dec_of_int: "hd (dec_of_int i) = 45 \<or> 48 \<le> hd (dec_of_int i) \<and> hd (dec_of_int i) \<le> 57"
  using hd_is_digit by (auto simp: dec_of_int_def is_digit_def)

lemma dec_of_int_nonempty [simp]: "dec_of_int i \<noteq> []"
  by (simp add: dec_of_int_def)

definition value_start :: "nat \<Rightarrow> bool" where
  "value_start c \<longleftrightarrow> \<not> json_ws c \<and> c \<noteq> 93 \<and> 0 < c \<and> c < 128"

lemma dumps_start: "float_free v \<Longrightarrow> dumps R v \<noteq> [] \<and> value_start (hd (dumps R v))"
proof (cases v)
  case (JInt i)
  then show ?thesis
    using hd_dec_of_int [of i] by (auto simp: value_start_def json_ws_def)
qed (auto simp: value_start_def dumps_str_def lit_def json_ws_def)

lemma not_startswith_hd: "s \<noteq> [] \<Longrightarrow> p \<noteq> [] \<Longrightarrow> hd p \<noteq> hd s \<Longrightarrow> \<not> startswith p s"
  by (cases p; cases s) (auto simp: startswith_def)

lemma scan_atom_number:
  assumes "stop u"
  shows "scan_atom R (dec_of_int i @ u) = Some (JInt i, u)"
proof -
  obtain sg n where i: "dec_of_int i = sg @ dec_of_nat n" "sg = [] \<or> sg = [45]"
    by (rule dec_of_int_split)
  obtain c cs where n: "dec_of_nat n = c # cs" "48 \<le> c" "c \<le> 57"
    using hd_is_digit [of n] by (cases "dec_of_nat n") (auto simp: is_digit_def)
  have "\<not> startswith (lit w) (dec_of_int i @ u)"
    if "w \<in> {''null'', ''true'', ''false'', ''NaN'', ''Infinity'', ''-Infinity''}" for w
    using that i n by (auto simp: startswith_def lit_def)
  then show ?thesis by (simp add: scan_atom_def scan_number_dumps assms)
qed

lemma scan_atom_words:
  "scan_atom R (lit ''null'' @ u) = Some (JNull, u)"
  "scan_atom R (lit ''true'' @ u) = Some (JBool True, u)"
  "scan_atom R (lit ''false'' @ u) = Some (JBool False, u)"
  by (simp_all add: scan_atom_def scan_word_def startswith_def lit_def)

lemma parse_value_atom:
  "s \<noteq> [] \<Longrightarrow> hd s \<noteq> 34 \<Longrightarrow> hd s \<noteq> 91 \<Longrightarrow> hd s \<noteq> 123 \<Longrightarrow> parse_value R (Suc n) s = scan_atom R s"
  by (cases s) auto

section \<open>Containers\<close>

text \<open>The parser reads \<open>dumps R v\<close> back when it has fuel twice its length.\<close>

definition reads_back :: "runtime \<Rightarrow> json \<Rightarrow> bool" where
  "reads_back R v \<longleftrightarrow>
     (\<forall>n u. 2 * length (dumps R v) \<le> n \<longrightarrow> stop u \<longrightarrow> parse_value R n (dumps R v @ u) = Some (canon v, u))"

lemma join_with_Cons: "ss \<noteq> [] \<Longrightarrow> join_with sep (s # ss) = s @ sep @ join_with sep ss"
  by (cases ss) auto

lemma parse_items_join:
  assumes "xs \<noteq> []" "\<forall>x \<in> set xs. float_free x \<and> reads_back R x"
    and "2 * length (join_with [44] (map (dumps R) xs)) + 1 \<le> n"
  shows "parse_items R n (join_with [44] (map (dumps R) xs) @ 93 # u) = Some (map canon xs, u)"
  using assms
proof (induction xs arbitrary: n)
  case (Cons x xs)
  then obtain m where n: "n = Suc m" by (cases n) auto
  show ?case
  proof (cases "xs = []")
    case True
    have "parse_value R m (dumps R x @ 93 # u) = Some (canon x, 93 # u)"
      using Cons.prems True by (auto simp: reads_back_def n stop_def)
    then show ?thesis by (simp add: True n skip_ws_Cons)
  next
    case False
    let ?rest = "join_with [44] (map (dumps R) xs) @ 93 # u"
    have join: "join_with [44] (map (dumps R) (x # xs)) = dumps R x @ 44 # join_with [44] (map (dumps R) xs)"
      using False by (simp add: join_with_Cons)
    have len: "2 * length (dumps R x) + 2 * length (join_with [44] (map (dumps R) xs)) + 2 \<le> m"
      using Cons.prems(3) unfolding join n by simp
    have "reads_back R x" using Cons.prems(2) by simp
    with len have v: "parse_value R m (dumps R x @ 44 # ?rest) = Some (canon x, 44 # ?rest)"
      by (simp add: reads_back_def stop_def)
    have items: "parse_items R m ?rest = Some (map canon xs, u)"
      using Cons.prems(2) False len by (intro Cons.IH) auto
    obtain y ys where xs: "xs = y # ys" using False by (cases xs) auto
    have "?rest \<noteq> [] \<and> \<not> json_ws (hd ?rest)"
      using dumps_start [of y R] Cons.prems(2) by (cases ys) (auto simp: xs value_start_def)
    then have "skip_ws ?rest = ?rest" by (simp add: skip_ws_id)
    with v items show ?thesis unfolding join by (simp add: n skip_ws_Cons)
  qed
qed simp

definition member_text :: "runtime \<Rightarrow> pystr \<times> json \<Rightarrow> pystr" where
  "member_text R kv = dumps_str (fst kv) @ 58 # dumps R (snd kv)"

lemma parse_member_text:
  assumes "float_free (snd kv)" "reads_back R (snd kv)" "2 * length (member_text R kv) \<le> n" "stop u"
  shows "parse_member R n (member_text R kv @ u) = Some ((fst kv, canon (snd kv)), u)"
proof -
  obtain m where n: "n = Suc m" using assms(3) by (cases n) (auto simp: member_text_def)
  have v: "parse_value R m (dumps R (snd kv) @ u) = Some (canon (snd kv), u)"
    using assms by (simp add: reads_back_def n member_text_def)
  have "dumps R (snd kv) @ u \<noteq> [] \<and> \<not> json_ws (hd (dumps R (snd kv) @ u))"
    using dumps_start [OF assms(1)] by (simp add: value_start_def)
  then have "skip_ws (dumps R (snd kv) @ u) = dumps R (snd kv) @ u" by (simp add: skip_ws_id)
  with v show ?thesis
    by (simp add: n member_text_def dumps_str_def scan_string_dumps skip_ws_Cons)
qed

lemma parse_members_join:
  assumes "d \<noteq> []" "\<forall>kv \<in> set d. float_free (snd kv) \<and> reads_back R (snd kv)"
    and "2 * length (join_with [44] (map (member_text R) d)) + 1 \<le> n"
  shows "parse_members R n (join_with [44] (map (member_text R) d) @ 125 # u)
      = Some (map (\<lambda>kv. (fst kv, canon (snd kv))) d, u)"
  using assms
proof (induction d arbitrary: n)
  case (Cons x xs)
  then obtain m where n: "n = Suc m" by (cases n) auto
  show ?case
  proof (cases "xs = []")
    case True
    have "parse_member R m (member_text R x @ 125 # u) = Some ((fst x, canon (snd x)), 125 # u)"
      using Cons.prems True by (intro parse_member_text) (auto simp: n stop_def)
    then show ?thesis by (simp add: True n skip_ws_Cons)
  next
    case False
    let ?rest = "join_with [44] (map (member_text R) xs) @ 125 # u"
    have join: "join_with [44] (map (member_text R) (x # xs)) = member_text R x @ 44 # join_with [44] (map (member_text R) xs)"
      using False by (simp add: join_with_Cons)
    have len: "2 * length (member_text R x) + 2 * length (join_with [44] (map (member_text R) xs)) + 2 \<le> m"
      using Cons.prems(3) unfolding join n by simp
    have v: "parse_member R m (member_text R x @ 44 # ?rest) = Some ((fst x, canon (snd x)), 44 # ?rest)"
      using Cons.prems(2) len by (intro parse_member_text) (auto simp: stop_def)
    have items: "parse_members R m ?rest = Some (map (\<lambda>kv. (fst kv, canon (snd kv))) xs, u)"
      using Cons.prems(2) False len by (intro Cons.IH) auto
    obtain y ys where xs: "xs = y # ys" using False by (cases xs) auto
    have "?rest \<noteq> [] \<and> \<not> json_ws (hd ?rest)"
      by (cases ys) (auto simp: xs member_text_def dumps_str_def)
    then have "skip_ws ?rest = ?rest" by (simp add: skip_ws_id)
    with v items show ?thesis unfolding join by (simp add: n skip_ws_Cons)
  qed
qed simp

lemma dict_of_distinct:
  "distinct (map fst (a @ d)) \<Longrightarrow> foldl (\<lambda>m kv. dict_set m (fst kv) (snd kv)) a d = a @ d"
proof (induction d arbitrary: a)
  case (Cons kv d)
  then have "fst kv \<notin> fst ` set a" by (force simp: image_iff)
  then have "dict_set a (fst kv) (snd kv) = a @ [kv]" by (simp add: dict_set_new)
  with Cons show ?case by simp
qed simp

lemma dumps_JObj:
  "dumps R (JObj d) = 123 # join_with [44] (map (member_text R) (sort_key fst d)) @ [125]"
  by (simp add: sort_key_map comp_def member_text_def [abs_def])

lemma reads_back_atom:
  assumes "dumps R v \<noteq> []" "hd (dumps R v) \<notin> {34, 91, 123}"
    and "\<And>u. stop u \<Longrightarrow> scan_atom R (dumps R v @ u) = Some (canon v, u)"
  shows "reads_back R v"
  unfolding reads_back_def
proof (intro allI impI)
  fix n u assume "2 * length (dumps R v) \<le> n" "stop u"
  moreover from this(1) assms(1) obtain m where "n = Suc m" by (cases n) auto
  ultimately show "parse_value R n (dumps R v @ u) = Some (canon v, u)"
    using assms by (simp add: parse_value_atom del: parse_value.simps)
qed

lemma reads_back_array:
  assumes "\<forall>x \<in> set xs. float_free x \<and> reads_back R x"
  shows "reads_back R (JArr xs)"
  unfolding reads_back_def
proof (intro allI impI)
  fix n u assume n: "2 * length (dumps R (JArr xs)) \<le> n" and "stop u"
  then obtain m where m: "n = Suc m" by (cases n) auto
  show "parse_value R n (dumps R (JArr xs) @ u) = Some (canon (JArr xs), u)"
  proof (cases "xs = []")
    case False
    let ?s = "join_with [44] (map (dumps R) xs) @ 93 # u"
    have items: "parse_items R m ?s = Some (map canon xs, u)"
      using n False assms by (intro parse_items_join) (auto simp: m)
    obtain y ys where xs: "xs = y # ys" using False by (cases xs) auto
    have "?s \<noteq> [] \<and> \<not> json_ws (hd ?s) \<and> hd ?s \<noteq> 93"
      using dumps_start [of y R] assms by (cases ys) (auto simp: xs value_start_def)
    with items show ?thesis by (simp add: m skip_ws_id)
  qed (simp add: m skip_ws_Cons)
qed

lemma reads_back_object:
  assumes "\<forall>kv \<in> set d. float_free (snd kv) \<and> reads_back R (snd kv)" "distinct (map fst d)"
  shows "reads_back R (JObj d)"
  unfolding reads_back_def
proof (intro allI impI)
  fix n u assume n: "2 * length (dumps R (JObj d)) \<le> n" and "stop u"
  then obtain m where m: "n = Suc m" by (cases n) auto
  let ?d = "sort_key fst d"
  show "parse_value R n (dumps R (JObj d) @ u) = Some (canon (JObj d), u)"
  proof (cases "d = []")
    case False
    let ?s = "join_with [44] (map (member_text R) ?d) @ 125 # u"
    have ne: "?d \<noteq> []" using False by (metis length_0_conv length_sort)
    have members: "parse_members R m ?s = Some (map (\<lambda>kv. (fst kv, canon (snd kv))) ?d, u)"
    proof (rule parse_members_join [OF ne])
      show "2 * length (join_with [44] (map (member_text R) ?d)) + 1 \<le> m"
        using n unfolding dumps_JObj m by simp
    qed (use assms in auto)
    have "distinct (map fst ?d)" using assms(2) by (simp add: distinct_map)
    then have "foldl (\<lambda>m kv. dict_set m (fst kv) (snd kv)) [] (map (\<lambda>kv. (fst kv, canon (snd kv))) ?d)
        = map (\<lambda>kv. (fst kv, canon (snd kv))) ?d"
      using dict_of_distinct [of "[]" "map (\<lambda>kv. (fst kv, canon (snd kv))) ?d"] by (simp add: comp_def)
    moreover have "canon (JObj d) = JObj (map (\<lambda>kv. (fst kv, canon (snd kv))) ?d)"
      by (simp add: sort_key_map)
    moreover obtain y ys where "?d = y # ys" using ne by (cases ?d) auto
    then have "?s \<noteq> [] \<and> hd ?s = 34" by (cases ys) (auto simp: member_text_def dumps_str_def)
    ultimately show ?thesis using members unfolding dumps_JObj m by (simp add: skip_ws_id)
  qed (simp add: m skip_ws_Cons)
qed

lemma reads_back_all: "float_free v \<Longrightarrow> wf_json v \<Longrightarrow> reads_back R v"
proof (induction v)
  case (JInt i)
  show ?case
    using hd_dec_of_int [of i] by (intro reads_back_atom) (auto simp: scan_atom_number)
next
  case (JStr s)
  show ?case
    unfolding reads_back_def
  proof (intro allI impI)
    fix n u assume "2 * length (dumps R (JStr s)) \<le> n"
    then obtain m where "n = Suc m" by (cases n) (auto simp: dumps_str_def)
    then show "parse_value R n (dumps R (JStr s) @ u) = Some (canon (JStr s), u)"
      by (simp add: dumps_str_def scan_string_dumps)
  qed
next
  case (JArr xs)
  then show ?case by (intro reads_back_array) auto
next
  case (JObj d)
  then show ?case by (intro reads_back_object) (auto simp: prod_set_defs)
next
  case (JBool b)
  show ?case by (cases b; intro reads_back_atom) (auto simp: scan_atom_words, auto simp: lit_def)
qed (auto intro!: reads_back_atom simp: scan_atom_words, simp_all add: lit_def)

section \<open>Texts and bytes\<close>

lemma loads_dumps:
  assumes "float_free v" "wf_json v"
  shows "loads_text R (dumps R v) = Some (canon v)"
proof -
  have "parse_value R (2 * length (dumps R v) + 2) (dumps R v @ []) = Some (canon v, [])"
    using reads_back_all [OF assms, of R] unfolding reads_back_def stop_def by (simp del: parse_value.simps)
  moreover have "skip_ws (dumps R v) = dumps R v"
    using dumps_start [OF assms(1)] by (simp add: skip_ws_id value_start_def)
  ultimately show ?thesis by (simp add: loads_text_def skip_ws_def del: parse_value.simps)
qed

lemma dumps_inject:
  assumes "float_free v" "wf_json v" "float_free w" "wf_json w" "dumps R v = dumps R w"
  shows "canon v = canon w"
  using loads_dumps [OF assms(1,2), of R] loads_dumps [OF assms(3,4), of R] assms(5) by simp

lemma dumps_str_no_nul: "list_all (\<lambda>c. 0 < c) (dumps_str s)"
proof -
  have "list_all (\<lambda>c. 0 < c) (escape_char c)" for c
    by (auto simp: escape_char_def hexdigit_def)
  then show ?thesis by (auto simp: dumps_str_def list_all_iff)
qed

lemma dec_of_int_no_nul: "list_all (\<lambda>c. 0 < c) (dec_of_int i)"
  by (auto simp: dec_of_int_def list_all_iff dest!: dec_of_nat_is_digit simp: is_digit_def)

lemma dumps_no_nul: "float_free v \<Longrightarrow> list_all (\<lambda>c. 0 < c) (dumps R v)"
proof (induction v)
  case (JObj d)
  then have "list_all (\<lambda>c. 0 < c) (member_text R kv)" if "kv \<in> set d" for kv
    using that by (cases kv) (force simp: member_text_def dumps_str_no_nul)
  then show ?case
    unfolding dumps_JObj by (auto intro!: list_all_join_with)
next
  case (JArr xs)
  then show ?case by (auto intro!: list_all_join_with)
qed (auto simp: dumps_str_no_nul dec_of_int_no_nul lit_def)

lemma utf8_cp_no_nul: "0 < c \<Longrightarrow> c \<le> 1114111 \<Longrightarrow> b \<in> set (utf8_cp c) \<Longrightarrow> 0 < b"
  by (auto simp: utf8_cp_def split: if_splits)

lemma json_decode_utf8:
  assumes enc: "utf8_encode s = Some bs" and "list_all (\<lambda>c. 0 < c) s" "s \<noteq> []" "hd s < 128"
  shows "json_decode bs = Some s"
proof -
  let ?b = "map unat bs"
  from assms(1) have all: "list_all encodable s" and bs: "bs = map word_of_nat (concat (map utf8_cp s))"
    by (auto simp: utf8_encode_def split: if_splits)
  have b: "?b = concat (map utf8_cp s)"
    unfolding bs using all
    by (intro map_unat_word_of_nat) (auto simp: list_all_iff encodable_def dest: utf8_cp_bound)
  obtain c cs where s: "s = c # cs" using assms(3) by (cases s) auto
  with assms(2,4) have c: "0 < c" "c < 128" by auto
  then have b0: "?b = c # concat (map utf8_cp cs)" unfolding b s by (simp add: utf8_cp_def)
  have nz: "0 < x" if "x \<in> set ?b" for x
    using that assms(2) all unfolding b by (auto simp: list_all_iff encodable_def dest: utf8_cp_no_nul)
  have "?b ! 1 \<noteq> 0" if "2 \<le> length ?b"
    using nz [of "?b ! 1"] that by (metis nth_mem Suc_1 Suc_le_lessD less_numeral_extra(3) One_nat_def)
  moreover have "utf8_decode_nats True ?b = Some s"
    using utf8_round_trip [OF enc, of True] by (simp add: utf8_decode_def)
  ultimately show ?thesis
    using c b0 by (auto simp: json_decode_def Let_def)
qed

theorem json_loads_dumps:
  assumes "float_free v" "wf_json v" "utf8_encode (dumps R v) = Some bs"
  shows "json_loads R bs = Inr (canon v)"
proof -
  have "json_decode bs = Some (dumps R v)"
    using dumps_start [OF assms(1), of R]
    by (intro json_decode_utf8 assms(3) dumps_no_nul assms(1)) (auto simp: value_start_def)
  then show ?thesis by (simp add: json_loads_def loads_dumps assms)
qed

section \<open>Writable values\<close>

text \<open>\<open>writable\<close>: no floats, distinct keys, and only text that UTF-8 encodes.\<close>

fun writable :: "json \<Rightarrow> bool" where
  "writable (JFloat f) \<longleftrightarrow> False"
| "writable (JStr s) \<longleftrightarrow> list_all encodable s"
| "writable (JArr xs) \<longleftrightarrow> (\<forall>x \<in> set xs. writable x)"
| "writable (JObj d) \<longleftrightarrow> distinct (map fst d) \<and> (\<forall>kv \<in> set d. list_all encodable (fst kv) \<and> writable (snd kv))"
| "writable _ \<longleftrightarrow> True"

definition json_bytes :: "runtime \<Rightarrow> json \<Rightarrow> bytes" where
  "json_bytes R v = (case utf8_encode (dumps R v) of None \<Rightarrow> [] | Some bs \<Rightarrow> bs)"

lemma writable_wf: "writable v \<Longrightarrow> float_free v \<and> wf_json v"
  by (induction v) (auto simp: prod_set_defs)

lemma ascii_encodable: "c < 128 \<Longrightarrow> encodable c"
  by (simp add: encodable_def surrogate_def)

lemma str_of_uuid_encodable: "list_all encodable (str_of_uuid u)"
  by (auto simp: list_all_iff is_lower_hex_def intro!: ascii_encodable dest!: str_of_uuid_chars)

lemma dumps_str_encodable: "list_all encodable s \<Longrightarrow> list_all encodable (dumps_str s)"
proof -
  assume "list_all encodable s"
  moreover have "encodable c \<Longrightarrow> list_all encodable (escape_char c)" for c
    by (auto simp: escape_char_def encodable_def surrogate_def hexdigit_def)
  ultimately show ?thesis
    by (auto simp: dumps_str_def list_all_iff ascii_encodable)
qed

lemma dumps_encodable: "writable v \<Longrightarrow> list_all encodable (dumps R v)"
proof (induction v)
  case (JObj d)
  then have "list_all encodable (member_text R kv)" if "kv \<in> set d" for kv
    using that by (cases kv) (force simp: member_text_def dumps_str_encodable ascii_encodable)
  then show ?case
    unfolding dumps_JObj by (auto intro!: list_all_join_with simp: ascii_encodable)
next
  case (JArr xs)
  then show ?case by (auto intro!: list_all_join_with simp: ascii_encodable)
next
  case (JInt i)
  show ?case
    by (auto simp: dec_of_int_def list_all_iff is_digit_def ascii_encodable dest!: dec_of_nat_is_digit)
qed (auto simp: dumps_str_encodable ascii_encodable lit_def)

lemma utf8_json_bytes: "writable v \<Longrightarrow> utf8_encode (dumps R v) = Some (json_bytes R v)"
  using dumps_encodable [of v R] utf8_encode_eq_None [of "dumps R v"]
  by (auto simp: json_bytes_def)

theorem json_loads_json_bytes: "writable v \<Longrightarrow> json_loads R (json_bytes R v) = Inr (canon v)"
  using writable_wf utf8_json_bytes json_loads_dumps by blast

end
