(* ===== verification/Envelope.thy ===== *)
theory Envelope
  imports Json_Round_Trip
begin

text \<open>
  \<open>src/src/tamga/checkout/_envelope.py\<close>: the text around a signed file, from which the
  payload string, the raw signature and the algorithm name are read.

  The locale \<open>certificate_format\<close> is what a pair of markers must satisfy for the format to be
  readable: neither marker is empty, begins or ends with white space. Inside it,
  \<open>parse_certificate_text\<close> shows that a certificate written around any payload, signature and
  algorithm is read back exactly, with white space around it.
\<close>

definition max_certificate_length :: nat where
  "max_certificate_length = 1024 * 1024"

definition b64decode_json :: "json \<Rightarrow> exc + bytes" where
  "b64decode_json v =
     (case v of
        JStr s \<Rightarrow> of_option ValueError (b64decode s)
      | _ \<Rightarrow> Inl TypeError)"

definition parse_certificate_envelope ::
  "runtime \<Rightarrow> pystr \<Rightarrow> pystr \<Rightarrow> pystr \<Rightarrow> exc + (pystr \<times> bytes \<times> pystr)" where
  "parse_certificate_envelope R certificate header footer =
     (let stripped = strip py_isspace certificate;
          body = strip py_isspace
            (take (length stripped - length footer - length header) (drop (length header) stripped)) in
      rbind (ensure (length stripped \<le> max_certificate_length) ValueError) (\<lambda>_.
      rbind (ensure (startswith header stripped \<and> endswith footer stripped) ValueError) (\<lambda>_.
      rbind (ensure (length header + length footer \<le> length stripped) ValueError) (\<lambda>_.
      rbind (of_option ValueError (b64decode body)) (\<lambda>cert_json_bytes.
      rbind (except_raise (\<lambda>e. e = JSONDecodeError) ValueError (json_loads R cert_json_bytes)) (\<lambda>cert.
      case cert of
        JObj d \<Rightarrow>
          (case (map_of d (lit ''enc''), map_of d (lit ''sig''), map_of d (lit ''alg'')) of
             (Some (JStr enc), Some sig, Some (JStr alg)) \<Rightarrow>
               rbind (except_raise (\<lambda>e. is_ValueError e \<or> e = TypeError) ValueError (b64decode_json sig))
                 (\<lambda>sig_bytes. Inr (enc, sig_bytes, alg))
           | _ \<Rightarrow> Inl ValueError)
      | _ \<Rightarrow> Inl ValueError))))))"

definition b64decode_strict :: "pystr \<Rightarrow> exc + bytes" where
  "b64decode_strict value =
     of_option ValueError (b64decode (value @ replicate ((4 - length value mod 4) mod 4) 61))"

lemma length_b64encode: "length (b64encode bs) mod 4 = 0"
  by (induction bs rule: b64encode.induct) auto

lemma b64decode_strict_encode [simp]: "b64decode_strict (b64encode bs) = Inr bs"
  by (simp add: b64decode_strict_def length_b64encode)

lemma raises_only_b64decode_json [raises_intros]:
  "E ValueError \<Longrightarrow> E TypeError \<Longrightarrow> raises_only E (b64decode_json v)"
  by (cases v) (auto simp: b64decode_json_def raises_only_def)

lemma raises_only_b64decode_strict [raises_intros]: "E ValueError \<Longrightarrow> raises_only E (b64decode_strict v)"
  unfolding b64decode_strict_def by (intro raises_intros)

lemma raises_only_parse_envelope [raises_intros]:
  "E ValueError \<Longrightarrow> E UnicodeDecodeError \<Longrightarrow> raises_only E (parse_certificate_envelope R c h f)"
  unfolding parse_certificate_envelope_def Let_def by (intro raises_intros) simp_all

section \<open>Writing a certificate\<close>

definition certificate_json :: "pystr \<Rightarrow> bytes \<Rightarrow> pystr \<Rightarrow> json" where
  "certificate_json enc sig alg =
     JObj [(lit ''enc'', JStr enc), (lit ''sig'', JStr (b64encode sig)), (lit ''alg'', JStr alg)]"

definition certificate_text ::
  "runtime \<Rightarrow> pystr \<Rightarrow> pystr \<Rightarrow> pystr \<Rightarrow> bytes \<Rightarrow> pystr \<Rightarrow> pystr" where
  "certificate_text R header footer enc sig alg =
     header @ [10] @ b64encode (json_bytes R (certificate_json enc sig alg)) @ [10] @ footer"

lemma canon_certificate_json:
  "canon (certificate_json enc sig alg) =
     JObj [(lit ''alg'', JStr alg), (lit ''enc'', JStr enc), (lit ''sig'', JStr (b64encode sig))]"
  by (simp add: certificate_json_def lit_def)

lemma certificate_json_writable:
  assumes "list_all encodable enc" "list_all encodable alg"
  shows "writable (certificate_json enc sig alg)"
proof -
  have "list_all encodable (b64encode sig)"
    using b64encode_ascii [of sig] by (auto simp: list_all_iff ascii_encodable)
  with assms show ?thesis by (simp add: certificate_json_def) (simp add: lit_def ascii_encodable)
qed

text \<open>A bound on the length of a certificate, from the lengths of its parts.\<close>

lemma length_b64encode_eq: "length (b64encode bs) = 4 * ((length bs + 2) div 3)"
proof (induction bs rule: b64encode.induct)
  case (4 a b c r)
  have "(5 + length r) div 3 = (2 + length r) div 3 + 1" by presburger
  with 4 show ?case by simp
qed auto

lemma length_json_bytes: "length (json_bytes R v) \<le> 4 * length (dumps R v)"
proof -
  have "length (utf8_cp c) \<le> 4" for c by (simp add: utf8_cp_def)
  then have "length (concat (map utf8_cp s)) \<le> 4 * length s" for s
    by (induction s) (auto simp: le_trans add_mono)
  then show ?thesis by (simp add: json_bytes_def utf8_encode_def)
qed

lemma length_dumps_str: "length (dumps_str s) \<le> 6 * length s + 2"
proof -
  have "length (escape_char c) \<le> 6" for c by (simp add: escape_char_def)
  then have "length (concat (map escape_char s)) \<le> 6 * length s"
    by (induction s) (auto intro: add_mono)
  then show ?thesis by (simp add: dumps_str_def)
qed

lemma length_dumps_certificate:
  "length (dumps R (certificate_json enc sig alg)) \<le>
     28 + 6 * (length enc + length (b64encode sig) + length alg)"
proof -
  have keys: "length (dumps_str (lit k)) = 5" if "k \<in> {''alg'', ''enc'', ''sig''}" for k
    using that by (auto simp: dumps_str_def lit_def escape_char_def)
  have "length (dumps R (certificate_json enc sig alg)) =
      22 + length (dumps_str enc) + length (dumps_str (b64encode sig)) + length (dumps_str alg)"
  proof -
    have sort: "sort_key fst [(lit ''enc'', JStr enc), (lit ''sig'', JStr (b64encode sig)), (lit ''alg'', JStr alg)]
        = [(lit ''alg'', JStr alg), (lit ''enc'', JStr enc), (lit ''sig'', JStr (b64encode sig))]"
      by (simp add: lit_def)
    show ?thesis
      unfolding certificate_json_def dumps_JObj sort by (simp add: member_text_def keys)
  qed
  then show ?thesis
    using length_dumps_str [of enc] length_dumps_str [of "b64encode sig"] length_dumps_str [of alg]
    by simp
qed

lemma length_certificate_text:
  "length (certificate_text R header footer enc sig alg) \<le>
     length header + length footer + 10 + 32 * (6 + length enc + length (b64encode sig) + length alg)"
proof -
  have "length (json_bytes R (certificate_json enc sig alg)) \<le>
      4 * (28 + 6 * (length enc + length (b64encode sig) + length alg))"
    by (rule order_trans [OF length_json_bytes mult_le_mono2 [OF length_dumps_certificate]])
  then show ?thesis by (simp add: certificate_text_def length_b64encode_eq [of "json_bytes _ _"])
qed

locale certificate_format =
  fixes header footer :: pystr
  assumes markers: "header \<noteq> []" "footer \<noteq> []"
    and no_space: "\<not> py_isspace (hd header)" "\<not> py_isspace (last footer)"
begin

lemma parse_certificate_text:
  assumes "list_all encodable enc" "list_all encodable alg"
    and "list_all py_isspace before" "list_all py_isspace after"
    and "length (certificate_text R header footer enc sig alg) \<le> max_certificate_length"
  shows "parse_certificate_envelope R (before @ certificate_text R header footer enc sig alg @ after)
      header footer = Inr (enc, sig, alg)"
proof -
  let ?bs = "json_bytes R (certificate_json enc sig alg)"
  let ?t = "header @ 10 # b64encode ?bs @ 10 # footer"
  have t: "certificate_text R header footer enc sig alg = ?t"
    by (simp add: certificate_text_def)
  have strip: "strip py_isspace (before @ ?t @ after) = ?t"
    using strip_pad [OF assms(3,4), of ?t] strip_id [of ?t py_isspace] markers no_space by simp
  have "strip py_isspace (b64encode ?bs) = b64encode ?bs"
    using b64encode_ascii [of ?bs] by (intro strip_id) (auto simp: list_all_iff)
  then have body: "strip py_isspace (10 # b64encode ?bs @ [10]) = b64encode ?bs"
    using strip_pad [of py_isspace "[10]" "[10]" "b64encode ?bs"] by (simp add: py_isspace_def)
  have loads: "json_loads R ?bs = Inr (canon (certificate_json enc sig alg))"
    by (rule json_loads_json_bytes [OF certificate_json_writable [OF assms(1,2)]])
  have "endswith footer ?t" using endswith_append [of footer "header @ 10 # b64encode ?bs @ [10]"] by simp
  with assms(5) show ?thesis
    unfolding parse_certificate_envelope_def t strip Let_def
    by (simp add: body loads canon_certificate_json b64decode_json_def)
qed

end

end
