(* ===== verification/License_File.thy ===== *)
theory License_File
  imports Signing_Keys Envelope
begin

text \<open>
  \<open>src/src/tamga/checkout/license_file.py\<close>: parsing and verifying a \<open>.lic\<close> file. The claims
  and their checks are shared with machine files, as in the source.

  The system clock is an argument (\<open>clock\<close>, in seconds) that counts only when the caller gives
  no time. \<open>license_verify\<close> is \<open>LicenseFile._verify\<close>, the pipeline behind \<open>verify\<close> and
  \<open>verify_with_claims\<close> (\<open>Offline_Files\<close>).
\<close>

section \<open>Data\<close>

record 'i license_resource =
  lr_id :: 'i
  lr_type :: json
  lr_attributes :: pydict
  lr_relationships :: pydict

record file_claims =
  fc_iat :: int
  fc_jti :: pystr
  fc_kid :: pystr
  fc_exp :: "int option"

record license_file =
  lf_enc :: pystr
  lf_sig :: bytes
  lf_alg :: pystr
  lf_expiry :: "pystr option"

definition lic_header :: pystr where "lic_header = lit ''-----BEGIN LICENSE FILE-----''"
definition lic_footer :: pystr where "lic_footer = lit ''-----END LICENSE FILE-----''"
definition alg_plain :: pystr where "alg_plain = lit ''base64+ed25519+v2''"
definition alg_encrypted :: pystr where "alg_encrypted = lit ''aes-256-gcm+ed25519+v2''"

definition lic_valid_algorithms :: "pystr list" where
  "lic_valid_algorithms = [alg_plain, alg_encrypted]"

definition nonce_length :: nat where "nonce_length = 12"
definition gcm_tag_length :: nat where "gcm_tag_length = 16"
definition clock_skew_tolerance_seconds :: int where "clock_skew_tolerance_seconds = 60"

section \<open>Claims\<close>

definition member_or :: "json \<Rightarrow> pystr \<Rightarrow> json" where
  "member_or v k = (case v of JObj d \<Rightarrow> dict_get d k JNull | _ \<Rightarrow> JNull)"

definition parse_claims :: "runtime \<Rightarrow> json \<Rightarrow> exc + file_claims" where
  "parse_claims R parsed =
     (case parsed of
        JObj d \<Rightarrow>
          (case dict_get d (lit ''meta'') JNull of
             JObj m \<Rightarrow>
               except_raise (\<lambda>e. e = KeyError \<or> e = TypeError \<or> is_ValueError e \<or> e = OverflowError) ValueError
                 (rbind (rbind (py_item (JObj m) (lit ''iat'')) py_int) (\<lambda>iat.
                  rbind (py_item (JObj m) (lit ''jti'')) (\<lambda>jti.
                  rbind (py_item (JObj m) (lit ''kid'')) (\<lambda>kid.
                  rbind (if dict_get m (lit ''exp'') JNull = JNull then Inr None
                         else rbind (rbind (py_item (JObj m) (lit ''exp'')) py_int) (\<lambda>i. Inr (Some i)))
                    (\<lambda>exp. Inr \<lparr>fc_iat = iat, fc_jti = py_str R jti, fc_kid = py_str R kid, fc_exp = exp\<rparr>)))))
           | _ \<Rightarrow> Inl ValueError)
      | _ \<Rightarrow> Inl ValueError)"

definition reference_time :: "int option \<Rightarrow> int \<Rightarrow> int" where
  "reference_time now clock = (case now of None \<Rightarrow> clock | Some t \<Rightarrow> t)"

definition enforce_expiry :: "(int \<Rightarrow> exc) \<Rightarrow> file_claims \<Rightarrow> int option \<Rightarrow> int \<Rightarrow> exc + unit" where
  "enforce_expiry expired_error claims now clock =
     (case fc_exp claims of
        None \<Rightarrow> Inr ()
      | Some exp \<Rightarrow>
          (if reference_time now clock - clock_skew_tolerance_seconds > exp
           then Inl (expired_error exp) else Inr ()))"

section \<open>LicenseFile\<close>

definition license_file_parse :: "runtime \<Rightarrow> pystr \<Rightarrow> exc + license_file" where
  "license_file_parse R certificate =
     rbind (parse_certificate_envelope R certificate lic_header lic_footer) (\<lambda>(enc, sig_bytes, alg).
       if alg \<notin> set lic_valid_algorithms then Inl ValueError
       else Inr \<lparr>lf_enc = enc, lf_sig = sig_bytes, lf_alg = alg, lf_expiry = None\<rparr>)"

definition dict_member :: "pydict \<Rightarrow> pystr \<Rightarrow> exc + pydict" where
  "dict_member d k =
     (case dict_get d k JNull of
        JNull \<Rightarrow> Inr []
      | JObj m \<Rightarrow> Inr m
      | _ \<Rightarrow> Inl ValueError)"

definition license_resource_from :: "json \<Rightarrow> exc + json license_resource" where
  "license_resource_from data =
     (case data of
        JObj d \<Rightarrow>
          (case (map_of d (lit ''id''), map_of d (lit ''type'')) of
             (Some i, Some t) \<Rightarrow>
               rbind (dict_member d (lit ''attributes'')) (\<lambda>attributes.
               rbind (dict_member d (lit ''relationships'')) (\<lambda>relationships.
                 Inr \<lparr>lr_id = i, lr_type = t, lr_attributes = attributes,
                      lr_relationships = relationships\<rparr>))
           | _ \<Rightarrow> Inl ValueError)
      | _ \<Rightarrow> Inl ValueError)"

definition license_decode_payload :: "crypto \<Rightarrow> license_file \<Rightarrow> pystr option \<Rightarrow> exc + bytes" where
  "license_decode_payload P f license_key =
     rbind (b64decode_strict (lf_enc f)) (\<lambda>payload_bytes.
       if lf_alg f \<noteq> alg_encrypted then Inr payload_bytes
       else
         (case license_key of
            None \<Rightarrow> Inl ValueError
          | Some lk \<Rightarrow>
              rbind (ensure (nonce_length + gcm_tag_length \<le> length payload_bytes) ValueError) (\<lambda>_.
              rbind (derive_license_file_key P lk) (\<lambda>key.
                aes_gcm_decrypt P key (take nonce_length payload_bytes) (drop nonce_length payload_bytes)))))"

definition license_unverified_kid ::
  "crypto \<Rightarrow> runtime \<Rightarrow> license_file \<Rightarrow> pystr option \<Rightarrow> exc + pystr option" where
  "license_unverified_kid P R f license_key =
     except_value (\<lambda>e. is_ValueError e \<or> e = InvalidTag) None
       (rbind (license_decode_payload P f license_key) (\<lambda>payload.
        rbind (json_loads R payload) (\<lambda>parsed.
        rbind (parse_claims R parsed) (\<lambda>claims. Inr (Some (fc_kid claims))))))"

definition payload_data :: "json \<Rightarrow> exc + json" where
  "payload_data parsed =
     except_raise (\<lambda>e. e = KeyError \<or> e = TypeError) ValueError (py_item parsed (lit ''data''))"

definition license_signed :: "crypto \<Rightarrow> license_file \<Rightarrow> bytes \<Rightarrow> bool" where
  "license_signed P f public_key =
     (case ascii_encode (lf_enc f) of
        None \<Rightarrow> False
      | Some message \<Rightarrow> ed25519_verify P public_key message (lf_sig f))"

definition license_verify ::
  "crypto \<Rightarrow> runtime \<Rightarrow> license_file \<Rightarrow> bytes \<Rightarrow> pystr option \<Rightarrow> int option \<Rightarrow> int
    \<Rightarrow> exc + (json license_resource \<times> file_claims)" where
  "license_verify P R f public_key license_key now clock =
     rbind (of_option UnicodeEncodeError (ascii_encode (lf_enc f))) (\<lambda>message.
     rbind (ensure (ed25519_verify P public_key message (lf_sig f)) InvalidSignature) (\<lambda>_.
     rbind (license_decode_payload P f license_key) (\<lambda>plaintext.
     rbind (except_raise (\<lambda>e. e = JSONDecodeError) ValueError (json_loads R plaintext)) (\<lambda>parsed.
     rbind (payload_data parsed) (\<lambda>data.
     rbind (parse_claims R parsed) (\<lambda>claims.
     rbind (enforce_expiry LicenseFileExpired claims now clock) (\<lambda>_.
     rbind (license_resource_from data) (\<lambda>l. Inr (l, claims)))))))))"

definition license_verify_with_key_set ::
  "crypto \<Rightarrow> runtime \<Rightarrow> license_file \<Rightarrow> key_set \<Rightarrow> pystr option \<Rightarrow> int option \<Rightarrow> int
    \<Rightarrow> exc + ((json license_resource \<times> file_claims) \<times> signing_key)" where
  "license_verify_with_key_set P R f ks license_key now clock =
     rbind (of_option UnicodeEncodeError (ascii_encode (lf_enc f))) (\<lambda>message.
     rbind (resolve_signing_key ks (\<lambda>pk. ed25519_verify P pk message (lf_sig f))
              (license_unverified_kid P R f license_key)) (\<lambda>(key, public_key).
     rbind (license_verify P R f public_key license_key now clock) (\<lambda>r. Inr (r, key))))"

text \<open>\<open>is_expired\<close> reads the unsigned expiry; \<open>now_utc\<close> is the clock it defaults to.\<close>

definition license_is_expired ::
  "runtime \<Rightarrow> license_file \<Rightarrow> datetime option \<Rightarrow> datetime \<Rightarrow> exc + bool" where
  "license_is_expired R f as_of now_utc =
     (case lf_expiry f of
        None \<Rightarrow> Inr False
      | Some expiry \<Rightarrow>
          (let reference = (case as_of of None \<Rightarrow> now_utc | Some t \<Rightarrow> t) in
           rbind (of_option ValueError (fromisoformat R (replace_str (lit ''Z'') (lit ''+00:00'') expiry)))
             (\<lambda>expiry_dt.
               if \<not> dt_aware expiry_dt then Inl TypeError
               else Inr (dt_micros expiry_dt < dt_micros reference))))"

section \<open>What is raised\<close>

definition documented_error :: "exc \<Rightarrow> bool" where
  "documented_error e \<longleftrightarrow> e = InvalidSignature \<or> e = InvalidTag \<or> is_ValueError e"

lemma documented_error_simps [simp]:
  "documented_error InvalidSignature" "documented_error InvalidTag" "documented_error ValueError"
  "documented_error UnicodeEncodeError" "documented_error UnicodeDecodeError"
  "documented_error (LicenseFileExpired n)" "documented_error (MachineFileExpired n)"
  "documented_error (NoUsableSigningKeyError ks)" "documented_error (UnknownSigningKeyError k ks)"
  "documented_error (SigningKeyNotPublishedError k ks)" "documented_error (SigningKeyNotApplicableError k)"
  by (simp_all add: documented_error_def)

lemma raises_only_parse_claims [raises_intros]: "E ValueError \<Longrightarrow> raises_only E (parse_claims R parsed)"
  unfolding parse_claims_def by (intro raises_intros) simp_all

lemma raises_only_payload_data [raises_intros]: "E ValueError \<Longrightarrow> raises_only E (payload_data parsed)"
  unfolding payload_data_def by (intro raises_intros) simp_all

lemma raises_only_enforce_expiry [raises_intros]:
  "(\<And>n. E (mk n)) \<Longrightarrow> raises_only E (enforce_expiry mk claims now clock)"
  unfolding enforce_expiry_def by (intro raises_intros)

lemma raises_only_dict_member [raises_intros]: "E ValueError \<Longrightarrow> raises_only E (dict_member d k)"
  unfolding dict_member_def by (intro raises_intros)

lemma raises_only_license_resource_from [raises_intros]:
  "E ValueError \<Longrightarrow> raises_only E (license_resource_from data)"
  unfolding license_resource_from_def by (intro raises_intros)

lemma raises_only_keys [raises_intros]:
  "E UnicodeEncodeError \<Longrightarrow> raises_only E (derive_license_file_key P lk)"
  "E UnicodeEncodeError \<Longrightarrow> raises_only E (derive_machine_file_key P lk fp)"
  "E InvalidTag \<Longrightarrow> raises_only E (aes_gcm_decrypt P key nonce ct)"
  "E UnicodeEncodeError \<Longrightarrow> raises_only E (key_id s)"
  unfolding derive_license_file_key_def derive_machine_file_key_def aes_gcm_decrypt_def key_id_def
  by (intro raises_intros; assumption)+

lemma raises_only_license_decode [raises_intros]:
  "E ValueError \<Longrightarrow> E UnicodeEncodeError \<Longrightarrow> E InvalidTag \<Longrightarrow>
    raises_only E (license_decode_payload P f lk)"
  unfolding license_decode_payload_def by (intro raises_intros)

lemma raises_only_license_verify [raises_intros]:
  "raises_only documented_error (license_verify P R f pk lk now clock)"
  unfolding license_verify_def by (intro raises_intros) (simp_all (no_asm))

lemma license_unverified_kid_Inr: "\<exists>k. license_unverified_kid P R f lk = Inr k"
  unfolding license_unverified_kid_def
  by (rule except_value_total, intro raises_intros) (simp_all (no_asm))

section \<open>The key-set contract\<close>

lemma ascii_message:
  "license_verify P R f pk lk now clock = Inr r \<Longrightarrow> ascii_encode (lf_enc f) \<noteq> None \<and> license_signed P f pk"
  by (auto simp: license_verify_def rbind_Inr_iff license_signed_def)

interpretation license_set: key_set_file
  "\<lambda>f. ascii_encode (lf_enc f) \<noteq> None"
  "license_signed P"
  "\<lambda>f pk (lk, now, clock). license_verify P R f pk lk now clock"
  "\<lambda>f (lk, now, clock). license_unverified_kid P R f lk"
  "\<lambda>f ks (lk, now, clock). license_verify_with_key_set P R f ks lk now clock"
  for P R
proof
  show "(case c of (lk, now, clock) \<Rightarrow> license_verify P R f pk lk now clock) = Inr r \<Longrightarrow>
      ascii_encode (lf_enc f) \<noteq> None \<and> license_signed P f pk" for f pk c r
    by (cases c) (simp add: ascii_message)
  show "(case c of (lk, now, clock) \<Rightarrow> license_verify_with_key_set P R f ks lk now clock) =
     rbind (ensure (ascii_encode (lf_enc f) \<noteq> None) UnicodeEncodeError) (\<lambda>_.
     rbind (resolve_signing_key ks (license_signed P f)
        (case c of (lk, now, clock) \<Rightarrow> license_unverified_kid P R f lk)) (\<lambda>kb.
     rbind (case c of (lk, now, clock) \<Rightarrow> license_verify P R f (snd kb) lk now clock)
       (\<lambda>r. Inr (r, fst kb))))" for f ks c
    by (cases c; cases "ascii_encode (lf_enc f)")
      (simp_all add: license_verify_with_key_set_def license_signed_def [abs_def] split_def)
  show "license_signed P f a \<Longrightarrow> license_signed P f b \<Longrightarrow>
      (case c of (lk, now, clock) \<Rightarrow> license_verify P R f a lk now clock) =
      (case c of (lk, now, clock) \<Rightarrow> license_verify P R f b lk now clock)" for f a b c
    by (cases c) (auto simp: license_verify_def license_signed_def split: option.splits)
qed

section \<open>Correctness\<close>

lemma license_verify_Inr:
  "license_verify P R f pk lk now clock = Inr (l, claims) \<longleftrightarrow>
     (\<exists>message payload parsed data.
        ascii_encode (lf_enc f) = Some message \<and> ed25519_verify P pk message (lf_sig f) \<and>
        license_decode_payload P f lk = Inr payload \<and> json_loads R payload = Inr parsed \<and>
        parse_claims R parsed = Inr claims \<and> payload_data parsed = Inr data \<and>
        license_resource_from data = Inr l \<and>
        (case fc_exp claims of None \<Rightarrow> True | Some exp \<Rightarrow> reference_time now clock \<le> exp + 60))"
  by (auto simp: license_verify_def rbind_Inr_iff enforce_expiry_def clock_skew_tolerance_seconds_def
      split: option.splits if_splits)

text \<open>
  C3: a license file is accepted exactly when its signature is valid over the ASCII bytes of the
  base64 payload text itself, the payload decodes to JSON with well-formed claims and data, and the
  signed expiry, if there is one, lies no more than sixty seconds in the past.
\<close>

theorem license_verify_accepts_iff:
  "license_verify P R f pk lk now clock = Inr (l, claims) \<longleftrightarrow>
     (\<exists>message payload parsed data.
        ascii_encode (lf_enc f) = Some message \<and> ed25519_verify P pk message (lf_sig f) \<and>
        license_decode_payload P f lk = Inr payload \<and> json_loads R payload = Inr parsed \<and>
        parse_claims R parsed = Inr claims \<and> payload_data parsed = Inr data \<and>
        license_resource_from data = Inr l \<and>
        (case fc_exp claims of None \<Rightarrow> True | Some exp \<Rightarrow> reference_time now clock \<le> exp + 60))"
  by (rule license_verify_Inr)

lemma enforce_expiry_Inl:
  "enforce_expiry mk claims now clock = Inl e \<longleftrightarrow>
     (\<exists>exp. fc_exp claims = Some exp \<and> reference_time now clock - 60 > exp \<and> e = mk exp)"
  by (auto simp: enforce_expiry_def clock_skew_tolerance_seconds_def split: option.splits)

lemma never_expired:
  "raises_only (\<lambda>e. \<not> is_LicenseFileExpired e) (license_decode_payload P f lk)"
  "raises_only (\<lambda>e. \<not> is_LicenseFileExpired e) (json_loads R b)"
  "raises_only (\<lambda>e. \<not> is_LicenseFileExpired e) (except_raise Q ValueError (json_loads R b))"
  "raises_only (\<lambda>e. \<not> is_LicenseFileExpired e) (payload_data parsed)"
  "raises_only (\<lambda>e. \<not> is_LicenseFileExpired e) (parse_claims R parsed)"
  "raises_only (\<lambda>e. \<not> is_LicenseFileExpired e) (license_resource_from data)"
  by (intro raises_intros; simp)+

lemma never_expired_Inl:
  "raises_only (\<lambda>e. \<not> is_LicenseFileExpired e) r \<Longrightarrow> r \<noteq> Inl (LicenseFileExpired n)"
  "raises_only (\<lambda>e. \<not> is_LicenseFileExpired e) r \<Longrightarrow> r \<noteq> Inl (MachineFileExpired n)"
  by (auto simp: raises_only_def)

text \<open>
  C23: expired is told apart from forged. \<open>LicenseFileExpired\<close> carries the signed expiry and is
  raised exactly for a file whose signature is valid and whose well-formed claims expired more than
  sixty seconds ago.
\<close>

theorem license_expired_iff:
  "license_verify P R f pk lk now clock = Inl (LicenseFileExpired exp) \<longleftrightarrow>
     (\<exists>message payload parsed claims data.
        ascii_encode (lf_enc f) = Some message \<and> ed25519_verify P pk message (lf_sig f) \<and>
        license_decode_payload P f lk = Inr payload \<and> json_loads R payload = Inr parsed \<and>
        payload_data parsed = Inr data \<and> parse_claims R parsed = Inr claims \<and>
        fc_exp claims = Some exp \<and> reference_time now clock - 60 > exp)"
  by (auto simp: license_verify_def rbind_Inl_iff enforce_expiry_Inl
      never_expired [THEN never_expired_Inl(1)])

lemma raises_only_license_parse [raises_intros]:
  "raises_only is_ValueError (license_file_parse R certificate)"
  unfolding license_file_parse_def by (intro raises_intros) (simp_all (no_asm))

lemma raises_only_resolve [raises_intros]:
  assumes "raises_only documented_error u"
  shows "raises_only documented_error (resolve_signing_key ks v u)"
proof -
  have "raises_only documented_error (find_key ks kid)" for kid
    by (induction ks kid rule: find_key.induct) (auto intro!: raises_intros simp: computed_kid_def)
  then have "raises_only documented_error (rejection ks claimed)" for claimed
    unfolding rejection_def Let_def by (intro raises_intros) (simp_all (no_asm))
  with assms show ?thesis unfolding resolve_signing_key_def Let_def by (intro raises_intros) simp_all
qed

lemma raises_only_license_key_set [raises_intros]:
  "raises_only documented_error (license_verify_with_key_set P R f ks lk now clock)"
proof -
  have "raises_only documented_error (license_unverified_kid P R f lk)"
    using license_unverified_kid_Inr [of P R f lk] by auto
  then show ?thesis
    unfolding license_verify_with_key_set_def by (intro raises_intros) (simp_all (no_asm))
qed

section \<open>Key sets\<close>

text \<open>
  C6: which files a key set accepts. A license file is accepted against a key set, with a given
  license and claims, exactly when some Ed25519 key of the set with readable bytes makes \<open>verify\<close>
  accept it with them: neither the order of the keys, nor further, mislabelled, duplicate or
  unusable ones, nor the \<open>kid\<close> of the file make a difference, and the key reported is such a key.
\<close>

theorem license_key_set_accepts_iff:
  "(\<exists>k. license_verify_with_key_set P R f ks lk now clock = Inr (r, k)) =
     (\<exists>k b. k \<in> set ks \<and> is_ed25519 k \<and> public_key_bytes k = Some b \<and>
        license_verify P R f b lk now clock = Inr r) \<and>
   {k. license_verify_with_key_set P R f ks lk now clock = Inr (r, k)} \<subseteq>
     {k. k \<in> set ks \<and> is_ed25519 k \<and> (\<exists>b. public_key_bytes k = Some b \<and> license_signed P f b)}"
  using license_set.verify_set_accepts_iff [of P R f ks "(lk, now, clock)" r]
    license_set.verify_set_sound [of P R f ks "(lk, now, clock)" r] by auto

text \<open>
  C14: a set that holds the signing key, current or retired, always finds it. If some usable key
  verifies the signature, the outcome is exactly that of verifying under the first one that does; no
  signing-key error is possible and the file's own \<open>kid\<close> is not consulted.
\<close>

theorem license_key_set_complete:
  assumes "ascii_encode (lf_enc f) = Some message"
    and "k \<in> set ks" "is_ed25519 k" "public_key_bytes k = Some b" "ed25519_verify P b message (lf_sig f)"
  shows "\<exists>j c. j \<in> set ks \<and> is_ed25519 j \<and> public_key_bytes j = Some c \<and>
    ed25519_verify P c message (lf_sig f) \<and>
    license_verify_with_key_set P R f ks lk now clock =
      rbind (license_verify P R f c lk now clock) (\<lambda>r. Inr (r, j))"
proof -
  have signed: "signed_by (license_signed P f) ks"
    using assms by (auto simp: signed_by_def license_signed_def)
  show ?thesis
  proof (rule license_set.verify_set_signed [where f = f and P = P and R = R and ks = ks and c = "(lk, now, clock)"])
    fix pre j post c
    assume split: "usable_keys ks = pre @ j # post" and c: "public_key_bytes j = Some c" "license_signed P f c"
      and eq: "(case (lk, now, clock) of (lk, now, clock) \<Rightarrow> license_verify_with_key_set P R f ks lk now clock) =
        rbind (case (lk, now, clock) of (lk, now, clock) \<Rightarrow> license_verify P R f c lk now clock) (\<lambda>r. Inr (r, j))"
    from split have "j \<in> set (usable_keys ks)" by simp
    then have "j \<in> set ks" "is_ed25519 j" by (simp_all add: usable_keys_def usable_iff)
    with c eq assms(1) show ?thesis by (auto simp: license_signed_def)
  qed (simp_all add: assms(1) signed)
qed

text \<open>
  C24: stale keys are told apart from forgery. When the set has usable keys and none verifies, the
  error depends only on the \<open>kid\<close> the file names: \<open>InvalidSignature\<close> if it names a key of the
  set or cannot be read, \<open>SigningKeyNotPublishedError\<close> for the id of the empty key,
  \<open>UnknownSigningKeyError\<close> otherwise.
\<close>

theorem license_key_set_rejection:
  assumes "ascii_encode (lf_enc f) \<noteq> None" "usable_keys ks \<noteq> []" "hashable_keys ks"
    and "\<not> signed_by (license_signed P f) ks"
    and "license_unverified_kid P R f lk = Inr claimed"
  shows "license_verify_with_key_set P R f ks lk now clock = Inl
    (case claimed of
       None \<Rightarrow> InvalidSignature
     | Some kid \<Rightarrow>
         if \<exists>k \<in> set ks. sk_kid k = kid \<or> computed_kid k = Inr kid then InvalidSignature
         else if kid = unbackfilled_account_key_id
           then SigningKeyNotPublishedError kid (map sk_kid (usable_keys ks))
         else UnknownSigningKeyError kid (map sk_kid (usable_keys ks)))"
  using license_set.verify_set_unsigned(2)
    [where f = f and P = P and R = R and ks = ks and c = "(lk, now, clock)" and claimed = claimed] assms
  by (simp add: rejection_spec) (simp only: rejection_error_def names_key_def)

section \<open>Round trip\<close>

definition claims_json :: "file_claims \<Rightarrow> json" where
  "claims_json c =
     JObj [(lit ''iat'', JInt (fc_iat c)),
           (lit ''exp'', case fc_exp c of None \<Rightarrow> JNull | Some e \<Rightarrow> JInt e),
           (lit ''jti'', JStr (fc_jti c)), (lit ''kid'', JStr (fc_kid c))]"

definition license_payload_json :: "pystr \<Rightarrow> pydict \<Rightarrow> file_claims \<Rightarrow> json" where
  "license_payload_json i attributes claims =
     JObj [(lit ''data'', JObj [(lit ''id'', JStr i), (lit ''type'', JStr (lit ''licenses'')),
              (lit ''attributes'', JObj attributes)]),
           (lit ''meta'', claims_json claims)]"

definition canon_dict :: "pydict \<Rightarrow> pydict" where
  "canon_dict d = sort_key fst (map (\<lambda>kv. (fst kv, canon (snd kv))) d)"

lemma canon_claims_json:
  "canon (claims_json c) =
     JObj [(lit ''exp'', case fc_exp c of None \<Rightarrow> JNull | Some e \<Rightarrow> JInt e),
           (lit ''iat'', JInt (fc_iat c)), (lit ''jti'', JStr (fc_jti c)), (lit ''kid'', JStr (fc_kid c))]"
  by (simp add: claims_json_def lit_def split: option.splits)

lemma canon_license_payload:
  "canon (license_payload_json i attributes claims) =
     JObj [(lit ''data'', JObj [(lit ''attributes'', JObj (canon_dict attributes)), (lit ''id'', JStr i),
              (lit ''type'', JStr (lit ''licenses''))]),
           (lit ''meta'', canon (claims_json claims))]"
  by (simp add: license_payload_json_def canon_dict_def lit_def)

lemma map_of_canon_dict:
  assumes "distinct (map fst d)"
  shows "map_of (canon_dict d) k = map_option canon (map_of d k)"
proof -
  let ?m = "map (\<lambda>kv. (fst kv, canon (snd kv))) d"
  have keys: "distinct (map fst ?m)" using assms by (simp add: comp_def)
  then have "distinct (map fst (sort_key fst ?m))" unfolding distinct_map set_sort distinct_sort .
  with keys have "map_of (canon_dict d) = map_of ?m"
    by (simp add: canon_dict_def map_of_inject_set)
  also have "?m = map (\<lambda>(k, v). (k, canon v)) d" by (simp add: case_prod_unfold)
  finally show ?thesis by (simp add: map_of_map)
qed

lemma parse_claims_canon:
  assumes "map_of d (lit ''meta'') = Some (canon (claims_json c))"
  shows "parse_claims R (JObj d) = Inr c"
  using assms by (cases "fc_exp c") (simp_all add: parse_claims_def dict_get_def canon_claims_json)

text \<open>How the issuer puts a payload into \<open>enc\<close>: plainly, or under the license key.\<close>

definition license_sealed :: "crypto \<Rightarrow> pystr option \<Rightarrow> pystr \<Rightarrow> pystr \<Rightarrow> bytes \<Rightarrow> bool" where
  "license_sealed P lk alg enc payload \<longleftrightarrow>
     alg = alg_plain \<and> enc = b64encode payload \<or>
     alg = alg_encrypted \<and>
       (\<exists>key k nonce ct. lk = Some key \<and> derive_license_file_key P key = Inr k \<and>
          length nonce = 12 \<and> 16 \<le> length ct \<and> enc = b64encode (nonce @ ct) \<and>
          aesgcm_open P k nonce ct = Some payload)"

lemma alg_distinct [simp]: "alg_plain \<noteq> alg_encrypted" "alg_encrypted \<noteq> alg_plain"
  by (simp_all add: alg_plain_def alg_encrypted_def)

lemma license_sealed_decode:
  "license_sealed P lk (lf_alg f) (lf_enc f) payload \<Longrightarrow> license_decode_payload P f lk = Inr payload"
  by (auto simp: license_sealed_def license_decode_payload_def aes_gcm_decrypt_def nonce_length_def
      gcm_tag_length_def)

lemma license_sealed_ascii: "license_sealed P lk alg enc payload \<Longrightarrow> list_all (\<lambda>c. c < 128) enc"
  using b64encode_ascii by (auto simp: license_sealed_def list_all_iff)

lemma license_payload_reads:
  assumes "writable (license_payload_json i attributes claims)"
    and "license_sealed P lk (lf_alg f) (lf_enc f) (json_bytes R (license_payload_json i attributes claims))"
  shows "license_decode_payload P f lk = Inr (json_bytes R (license_payload_json i attributes claims))"
    and "json_loads R (json_bytes R (license_payload_json i attributes claims))
           = Inr (canon (license_payload_json i attributes claims))"
    and "parse_claims R (canon (license_payload_json i attributes claims)) = Inr claims"
    and "ascii_encode (lf_enc f) = Some (map word_of_nat (lf_enc f))"
proof -
  show "parse_claims R (canon (license_payload_json i attributes claims)) = Inr claims"
    unfolding canon_license_payload by (rule parse_claims_canon) simp
  show "ascii_encode (lf_enc f) = Some (map word_of_nat (lf_enc f))"
    using license_sealed_ascii [OF assms(2)] by (simp add: ascii_encode_def)
qed (use assms in \<open>simp_all add: license_sealed_decode json_loads_json_bytes\<close>)

lemma license_verify_sealed:
  assumes "writable (license_payload_json i attributes claims)"
    and "license_sealed P lk (lf_alg f) (lf_enc f) (json_bytes R (license_payload_json i attributes claims))"
    and "ed25519_verify P pk (map word_of_nat (lf_enc f)) (lf_sig f)"
    and "case fc_exp claims of None \<Rightarrow> True | Some exp \<Rightarrow> reference_time now clock \<le> exp + 60"
  shows "license_verify P R f pk lk now clock =
    Inr (\<lparr>lr_id = JStr i, lr_type = JStr (lit ''licenses''), lr_attributes = canon_dict attributes,
          lr_relationships = []\<rparr>, claims)"
proof -
  have data: "payload_data (canon (license_payload_json i attributes claims)) =
      Inr (JObj [(lit ''attributes'', JObj (canon_dict attributes)), (lit ''id'', JStr i),
                 (lit ''type'', JStr (lit ''licenses''))])"
    by (simp add: canon_license_payload payload_data_def)
  have "enforce_expiry LicenseFileExpired claims now clock = Inr ()"
    using assms(4) by (auto simp: enforce_expiry_def clock_skew_tolerance_seconds_def split: option.splits)
  then show ?thesis
    by (simp add: license_verify_def license_payload_reads [OF assms(1,2)] assms(3) data
        license_resource_from_def dict_member_def)
qed

lemma license_unverified_kid_sealed:
  assumes "writable (license_payload_json i attributes claims)"
    and "license_sealed P lk (lf_alg f) (lf_enc f) (json_bytes R (license_payload_json i attributes claims))"
  shows "license_unverified_kid P R f lk = Inr (Some (fc_kid claims))"
  by (simp add: license_unverified_kid_def license_payload_reads [OF assms])

interpretation lic_format: certificate_format lic_header lic_footer
  by unfold_locales (simp_all add: lic_header_def lic_footer_def lit_def py_isspace_def)

lemma license_file_parse_text:
  assumes "alg = alg_plain \<or> alg = alg_encrypted" "license_sealed P lk alg enc payload"
    and "length (certificate_text R lic_header lic_footer enc sig alg) \<le> max_certificate_length"
  shows "license_file_parse R (certificate_text R lic_header lic_footer enc sig alg) =
    Inr \<lparr>lf_enc = enc, lf_sig = sig, lf_alg = alg, lf_expiry = None\<rparr>"
proof -
  have "list_all encodable enc"
    using license_sealed_ascii [OF assms(2)] by (auto simp: list_all_iff ascii_encodable)
  moreover have "list_all encodable alg"
    using assms(1) by (auto simp: alg_plain_def alg_encrypted_def lit_def ascii_encodable)
  ultimately have "parse_certificate_envelope R (certificate_text R lic_header lic_footer enc sig alg)
      lic_header lic_footer = Inr (enc, sig, alg)"
    using lic_format.parse_certificate_text [of enc alg "[]" "[]"] assms(3) by simp
  then show ?thesis
    using assms(1) by (auto simp: license_file_parse_def lic_valid_algorithms_def)
qed

text \<open>
  C11: round trip. A license file written in the documented format around any attributes and claims,
  plain or encrypted under the license key, and signed over the text of its payload, is parsed and
  verified back to the same license and claims until sixty seconds past its expiry.
\<close>

theorem license_file_round_trip:
  assumes "writable (license_payload_json i attributes claims)"
    and "alg = alg_plain \<or> alg = alg_encrypted"
    and "license_sealed P lk alg enc (json_bytes R (license_payload_json i attributes claims))"
    and "ed25519_verify P pk (map word_of_nat enc) sig"
    and "case fc_exp claims of None \<Rightarrow> True | Some exp \<Rightarrow> reference_time now clock \<le> exp + 60"
    and "length (certificate_text R lic_header lic_footer enc sig alg) \<le> max_certificate_length"
  shows "rbind (license_file_parse R (certificate_text R lic_header lic_footer enc sig alg))
      (\<lambda>f. license_verify P R f pk lk now clock) =
    Inr (\<lparr>lr_id = JStr i, lr_type = JStr (lit ''licenses''), lr_attributes = canon_dict attributes,
          lr_relationships = []\<rparr>, claims)"
  using license_file_parse_text [OF assms(2,3,6)] license_verify_sealed
    [of i attributes claims P lk "\<lparr>lf_enc = enc, lf_sig = sig, lf_alg = alg, lf_expiry = None\<rparr>" R pk now clock]
    assms by simp

section \<open>Instances\<close>

text \<open>A plain file of license \<open>l\<close> that expires at 100, signed by the key of 32 bytes 7.\<close>

definition sample_claims :: file_claims where
  "sample_claims = \<lparr>fc_iat = 0, fc_jti = lit ''j'', fc_kid = lit ''k'', fc_exp = Some 100\<rparr>"

definition sample_license_enc :: pystr where
  "sample_license_enc =
     b64encode (json_bytes sample_runtime (license_payload_json (lit ''l'') [] sample_claims))"

definition sample_license_file :: license_file where
  "sample_license_file =
     \<lparr>lf_enc = sample_license_enc, lf_sig = 7 # map word_of_nat sample_license_enc, lf_alg = alg_plain,
      lf_expiry = None\<rparr>"

definition sample_license :: "json license_resource" where
  "sample_license = \<lparr>lr_id = JStr (lit ''l''), lr_type = JStr (lit ''licenses''), lr_attributes = [],
     lr_relationships = []\<rparr>"

definition sample_key :: "byte \<Rightarrow> signing_key" where
  "sample_key b = \<lparr>sk_kid = lit ''x'', sk_public_key = b64encode (replicate 32 b),
     sk_algorithm = lit ''Ed25519'', sk_status = lit ''retired'', sk_created = None, sk_retired = None\<rparr>"

lemma sample_writable: "writable (license_payload_json (lit ''l'') [] sample_claims)"
  by (simp add: license_payload_json_def claims_json_def sample_claims_def)
    (simp add: lit_def encodable_def surrogate_def)

lemma sample_license_sealed:
  "license_sealed P lk alg_plain sample_license_enc
     (json_bytes sample_runtime (license_payload_json (lit ''l'') [] sample_claims))"
  by (simp add: license_sealed_def sample_license_enc_def)

lemma sample_check [simp]:
  "ed25519_verify sample_crypto pk m s \<longleftrightarrow> length pk = 32 \<and> s = take 1 pk @ m"
  by (simp add: ed25519_verify_def sample_crypto_def)

lemma sample_key_bytes [simp]: "public_key_bytes (sample_key b) = Some (replicate 32 b)"
  by (simp add: sample_key_def)

lemma sample_key_usable [simp]: "is_ed25519 (sample_key b)" "usable (sample_key b)"
proof -
  show e: "is_ed25519 (sample_key b)"
    by (simp add: is_ed25519_def sample_key_def ed25519_algorithm_def py_lower_def lower_char_def lit_def)
  then show "usable (sample_key b)" by (simp add: usable_iff)
qed

lemma sample_license_verifies:
  "license_verify sample_crypto sample_runtime sample_license_file (replicate 32 7) None (Some 0) 0
     = Inr (sample_license, sample_claims)"
  using license_verify_sealed [OF sample_writable, of sample_crypto None sample_license_file sample_runtime
      "replicate 32 7" "Some 0" 0] sample_license_sealed
  by (simp add: sample_license_file_def sample_license_def canon_dict_def)
    (simp add: sample_claims_def reference_time_def numeral_eq_Suc)

lemma sample_ascii: "ascii_encode sample_license_enc = Some (map word_of_nat sample_license_enc)"
  using license_sealed_ascii [OF sample_license_sealed] by (simp add: ascii_encode_def)

lemma replicate_32_Cons: "replicate 32 x = x # replicate 31 (x :: byte)"
  by (simp add: numeral_eq_Suc)

lemma sample_signed [simp]: "license_signed sample_crypto sample_license_file (replicate 32 b) \<longleftrightarrow> b = 7"
  by (auto simp: license_signed_def sample_license_file_def sample_ascii replicate_32_Cons)

lemma sample_key_set_verifies:
  "license_verify_with_key_set sample_crypto sample_runtime sample_license_file
     [sample_key 9, sample_key 7] None (Some 0) 0 = Inr ((sample_license, sample_claims), sample_key 7)"
  using license_set.verify_set_Inr
    [where P = sample_crypto and R = sample_runtime and f = sample_license_file
      and ks = "[sample_key 9, sample_key 7]" and c = "(None, Some 0, 0)"
      and r = "(sample_license, sample_claims)" and k = "sample_key 7"]
  by (simp add: sample_license_verifies usable_keys_def) (simp add: sample_license_file_def sample_ascii)

lemma license_key_set_complete_witness:
  "\<exists>j c. j \<in> set [sample_key 9, sample_key 7] \<and> is_ed25519 j \<and> public_key_bytes j = Some c \<and>
    ed25519_verify sample_crypto c (map word_of_nat sample_license_enc) (lf_sig sample_license_file) \<and>
    license_verify_with_key_set sample_crypto sample_runtime sample_license_file
        [sample_key 9, sample_key 7] None (Some 0) 0 =
      rbind (license_verify sample_crypto sample_runtime sample_license_file c None (Some 0) 0)
        (\<lambda>r. Inr (r, j))"
  by (rule license_key_set_complete [of _ _ "sample_key 7" _ "replicate 32 7"])
    (simp_all add: sample_license_file_def sample_ascii replicate_32_Cons)

lemma sample_not_named: "\<not> names_key [sample_key 9] (lit ''k'')"
proof -
  have "computed_kid k \<noteq> Inr (lit ''k'')" for k
    using key_id_length [of "sk_public_key k" "lit ''k''"] by (auto simp: computed_kid_def)
  then show ?thesis by (simp add: names_key_def sample_key_def)
qed

lemma license_key_set_rejection_witness:
  "license_verify_with_key_set sample_crypto sample_runtime sample_license_file [sample_key 9] None (Some 0) 0
     = Inl (UnknownSigningKeyError (lit ''k'') [lit ''x''])"
proof -
  have kid: "license_unverified_kid sample_crypto sample_runtime sample_license_file None = Inr (Some (lit ''k''))"
    using license_unverified_kid_sealed [OF sample_writable, of sample_crypto None sample_license_file sample_runtime]
      sample_license_sealed by (simp add: sample_license_file_def sample_claims_def)
  have "list_all encodable (sk_public_key (sample_key 9))"
    using b64encode_ascii by (fastforce simp: sample_key_def list_all_iff ascii_encodable)
  then have "hashable_keys [sample_key 9]" by (simp add: hashable_keys_def)
  moreover have "usable_keys [sample_key 9] = [sample_key 9]" by (simp add: usable_keys_def)
  moreover have "\<not> signed_by (license_signed sample_crypto sample_license_file) [sample_key 9]"
    by (simp add: signed_by_def)
  moreover have "ascii_encode (lf_enc sample_license_file) \<noteq> None"
    by (simp add: sample_license_file_def sample_ascii)
  ultimately show ?thesis
    using license_key_set_rejection [of sample_license_file "[sample_key 9]" sample_crypto sample_runtime
        None "Some (lit ''k'')" "Some 0" 0] kid sample_not_named
    by (simp add: names_key_def unbackfilled_account_key_id_def) (simp add: sample_key_def)
qed

lemma sample_certificate_length:
  "length (certificate_text sample_runtime lic_header lic_footer sample_license_enc
     (7 # map word_of_nat sample_license_enc) alg_plain) \<le> max_certificate_length"
proof -
  have "length (dumps sample_runtime (license_payload_json (lit ''l'') [] sample_claims)) \<le> 200"
    by (simp add: license_payload_json_def claims_json_def sample_claims_def dumps_str_def escape_char_def
        lit_def dec_of_int_def dec_of_nat.simps)
  then have "length sample_license_enc \<le> 1100"
    using length_json_bytes [of sample_runtime "license_payload_json (lit ''l'') [] sample_claims"]
    by (simp add: sample_license_enc_def length_b64encode_eq)
  then show ?thesis
    using length_certificate_text [of sample_runtime lic_header lic_footer sample_license_enc
        "7 # map word_of_nat sample_license_enc" alg_plain]
    by (simp add: length_b64encode_eq max_certificate_length_def lic_header_def lic_footer_def alg_plain_def)
qed

lemma license_file_round_trip_witness:
  "rbind (license_file_parse sample_runtime
       (certificate_text sample_runtime lic_header lic_footer sample_license_enc
          (7 # map word_of_nat sample_license_enc) alg_plain))
     (\<lambda>f. license_verify sample_crypto sample_runtime f (replicate 32 7) None (Some 0) 0) =
   Inr (sample_license, sample_claims)"
  using license_file_round_trip [OF sample_writable, of alg_plain sample_crypto None sample_license_enc
      sample_runtime "replicate 32 7" "7 # map word_of_nat sample_license_enc" "Some 0" 0]
    sample_license_sealed sample_certificate_length
  by (simp add: sample_license_def canon_dict_def replicate_32_Cons)
    (simp add: sample_claims_def reference_time_def)

end
