(* ===== verification/Machine_File.thy ===== *)
theory Machine_File
  imports License_File
begin

text \<open>
  \<open>src/src/tamga/checkout/machine_file.py\<close>: machine files, whose verifier is chosen by the
  license's scheme and whose encrypted payload is a pair of base64 texts joined by a dot.

  A scheme argument is \<open>None\<close> when the caller's value is no member of \<open>LicenseScheme\<close>. The
  same contract as for license files, \<open>key_set_file\<close>, is interpreted here for the Ed25519 scheme,
  the only one a key set applies to.
\<close>

section \<open>Data\<close>

record 'i machine_resource =
  mr_id :: 'i
  mr_fingerprint :: json
  mr_name :: json
  mr_ip :: json
  mr_hostname :: json
  mr_platform :: json
  mr_cores :: json
  mr_memory :: json
  mr_disk :: json
  mr_metadata :: json
  mr_heartbeat_status :: heartbeat_status
  mr_last_heartbeat_at :: "datetime option"
  mr_next_heartbeat_at :: "datetime option"
  mr_last_check_out_at :: "datetime option"
  mr_created :: "datetime option"
  mr_updated :: "datetime option"

record machine_file =
  mf_enc :: pystr
  mf_sig :: bytes
  mf_alg :: pystr

definition mach_header :: pystr where "mach_header = lit ''-----BEGIN MACHINE FILE-----''"
definition mach_footer :: pystr where "mach_footer = lit ''-----END MACHINE FILE-----''"
definition enc_prefix_plain :: pystr where "enc_prefix_plain = lit ''base64''"
definition enc_prefix_encrypted :: pystr where "enc_prefix_encrypted = lit ''aes-256-gcm''"
definition alg_v2_marker :: pystr where "alg_v2_marker = lit ''v2''"

definition rejected_schemes :: "license_scheme list" where
  "rejected_schemes = [RSA_2048_JWT_RS256]"

definition scheme_to_alg_suffix :: "license_scheme \<Rightarrow> pystr option" where
  "scheme_to_alg_suffix s =
     (case s of
        ED25519_SIGN \<Rightarrow> Some (lit ''ed25519'')
      | RSA_2048_PKCS1_SIGN \<Rightarrow> Some (lit ''rsa-sha256'')
      | RSA_2048_PKCS1_PSS_SIGN \<Rightarrow> Some (lit ''rsa-pss-sha256'')
      | ECDSA_P256_SIGN \<Rightarrow> Some (lit ''ecdsa-p256'')
      | RSA_2048_JWT_RS256 \<Rightarrow> None)"

definition signing_suffixes :: "pystr list" where
  "signing_suffixes = List.map_filter scheme_to_alg_suffix license_schemes"

definition mach_valid_algorithms :: "pystr list" where
  "mach_valid_algorithms =
     [prefix @ [43] @ suffix @ [43] @ alg_v2_marker.
        prefix \<leftarrow> [enc_prefix_plain, enc_prefix_encrypted], suffix \<leftarrow> signing_suffixes]"

definition verifiers ::
  "crypto \<Rightarrow> license_scheme \<Rightarrow> (bytes \<Rightarrow> bytes \<Rightarrow> bytes \<Rightarrow> exc + bool) option" where
  "verifiers P s =
     (case s of
        ED25519_SIGN \<Rightarrow> Some (\<lambda>k m sig. Inr (ed25519_verify P k m sig))
      | RSA_2048_PKCS1_SIGN \<Rightarrow> Some (verify_pkcs1v15 P)
      | RSA_2048_PKCS1_PSS_SIGN \<Rightarrow> Some (verify_pss P)
      | ECDSA_P256_SIGN \<Rightarrow> Some (verify_p256 P)
      | RSA_2048_JWT_RS256 \<Rightarrow> None)"

definition scheme_not_supported :: exc where
  "scheme_not_supported =
     TamgaError (tamga_error_of SchemeNotSupportedError 422 (JStr (lit ''SCHEME_NOT_SUPPORTED'')) JNull JNull None)"

section \<open>Operations\<close>

definition validate_alg :: "pystr \<Rightarrow> exc + (pystr \<times> pystr)" where
  "validate_alg alg =
     (case partition_at 43 alg of
        (prefix, first_sep, remainder) \<Rightarrow>
          (case rpartition_at 43 remainder of
             (suffix, last_sep, marker) \<Rightarrow>
               (if \<not> first_sep \<or> \<not> last_sep \<or> marker \<noteq> alg_v2_marker then Inl ValueError
                else if alg \<notin> set mach_valid_algorithms then Inl ValueError
                else Inr (prefix, suffix))))"

definition machine_file_parse :: "runtime \<Rightarrow> pystr \<Rightarrow> exc + machine_file" where
  "machine_file_parse R certificate =
     rbind (parse_certificate_envelope R certificate mach_header mach_footer) (\<lambda>(enc, sig_bytes, alg).
     rbind (validate_alg alg) (\<lambda>_. Inr \<lparr>mf_enc = enc, mf_sig = sig_bytes, mf_alg = alg\<rparr>))"

definition machine_decrypt ::
  "crypto \<Rightarrow> machine_file \<Rightarrow> pystr option \<Rightarrow> pystr option \<Rightarrow> exc + bytes" where
  "machine_decrypt P f license_key fingerprint =
     (case (license_key, fingerprint) of
        (Some lk, Some fp) \<Rightarrow>
          (case partition_at 46 (mf_enc f) of
             (nonce_b64, separator, cipher_b64) \<Rightarrow>
               rbind (ensure (separator \<and> 46 \<notin> set cipher_b64) ValueError) (\<lambda>_.
               rbind (b64decode_strict nonce_b64) (\<lambda>nonce.
               rbind (b64decode_strict cipher_b64) (\<lambda>ciphertext_and_tag.
               rbind (ensure (length nonce = nonce_length) ValueError) (\<lambda>_.
               rbind (ensure (gcm_tag_length \<le> length ciphertext_and_tag) ValueError) (\<lambda>_.
               rbind (derive_machine_file_key P lk fp) (\<lambda>key.
                 aes_gcm_decrypt P key nonce ciphertext_and_tag)))))))
      | _ \<Rightarrow> Inl ValueError)"

definition machine_decode_payload ::
  "crypto \<Rightarrow> machine_file \<Rightarrow> pystr \<Rightarrow> pystr option \<Rightarrow> pystr option \<Rightarrow> exc + bytes" where
  "machine_decode_payload P f enc_prefix license_key fingerprint =
     (if enc_prefix = enc_prefix_encrypted then machine_decrypt P f license_key fingerprint
      else b64decode_strict (mf_enc f))"

definition machine_unverified_kid ::
  "crypto \<Rightarrow> runtime \<Rightarrow> machine_file \<Rightarrow> pystr option \<Rightarrow> pystr option \<Rightarrow> exc + pystr option" where
  "machine_unverified_kid P R f license_key fingerprint =
     except_value (\<lambda>e. is_ValueError e \<or> e = InvalidTag) None
       (rbind (validate_alg (mf_alg f)) (\<lambda>(enc_prefix, _).
        rbind (machine_decode_payload P f enc_prefix license_key fingerprint) (\<lambda>plaintext.
        rbind (json_loads R plaintext) (\<lambda>parsed.
        rbind (parse_claims R parsed) (\<lambda>claims. Inr (Some (fc_kid claims)))))))"

definition heartbeat_status_of :: "json \<Rightarrow> heartbeat_status" where
  "heartbeat_status_of raw =
     (case enum_of heartbeat_statuses heartbeat_status_value raw of None \<Rightarrow> NOT_STARTED | Some s \<Rightarrow> s)"

definition machine_resource_from :: "pydict \<Rightarrow> exc + json machine_resource" where
  "machine_resource_from data =
     (case map_of data (lit ''id'') of
        None \<Rightarrow> Inl ValueError
      | Some i \<Rightarrow>
          rbind (dict_member data (lit ''attributes'')) (\<lambda>attributes.
            let get = (\<lambda>k. dict_get attributes (lit k) JNull) in
            Inr \<lparr>mr_id = i,
              mr_fingerprint = dict_get attributes (lit ''fingerprint'') (JStr []),
              mr_name = get ''name'', mr_ip = get ''ip'', mr_hostname = get ''hostname'',
              mr_platform = get ''platform'', mr_cores = get ''cores'', mr_memory = get ''memory'',
              mr_disk = get ''disk'',
              mr_metadata = py_or (dict_get attributes (lit ''metadata'') (JObj [])) (JObj []),
              mr_heartbeat_status =
                heartbeat_status_of (dict_get attributes (lit ''heartbeat_status'') (JStr (lit ''NOT_STARTED''))),
              mr_last_heartbeat_at = None, mr_next_heartbeat_at = None, mr_last_check_out_at = None,
              mr_created = None, mr_updated = None\<rparr>))"

definition data_object :: "json \<Rightarrow> exc + pydict" where
  "data_object data = (case data of JObj d \<Rightarrow> Inr d | _ \<Rightarrow> Inl ValueError)"

definition verifier_for ::
  "crypto \<Rightarrow> license_scheme option \<Rightarrow> exc + license_scheme \<times> (bytes \<Rightarrow> bytes \<Rightarrow> bytes \<Rightarrow> exc + bool)" where
  "verifier_for P scheme =
     (case scheme of
        None \<Rightarrow> Inl scheme_not_supported
      | Some s \<Rightarrow>
          (case verifiers P s of
             None \<Rightarrow> Inl scheme_not_supported
           | Some v \<Rightarrow> if s \<in> set rejected_schemes then Inl scheme_not_supported else Inr (s, v)))"

definition machine_verify ::
  "crypto \<Rightarrow> runtime \<Rightarrow> machine_file \<Rightarrow> bytes \<Rightarrow> license_scheme option \<Rightarrow> pystr option \<Rightarrow> pystr option
    \<Rightarrow> int option \<Rightarrow> int \<Rightarrow> exc + (json machine_resource \<times> file_claims)" where
  "machine_verify P R f public_key scheme license_key fingerprint now clock =
     rbind (verifier_for P scheme) (\<lambda>(s, verifier).
     rbind (validate_alg (mf_alg f)) (\<lambda>(enc_prefix, alg_suffix).
     rbind (ensure (Some alg_suffix = scheme_to_alg_suffix s) ValueError) (\<lambda>_.
     rbind (of_option UnicodeEncodeError (ascii_encode (mf_enc f))) (\<lambda>message.
     rbind (verifier public_key message (mf_sig f)) (\<lambda>valid.
     rbind (ensure valid InvalidSignature) (\<lambda>_.
     rbind (machine_decode_payload P f enc_prefix license_key fingerprint) (\<lambda>plaintext.
     rbind (except_raise (\<lambda>e. e = JSONDecodeError) ValueError (json_loads R plaintext)) (\<lambda>parsed.
     rbind (payload_data parsed) (\<lambda>data.
     rbind (data_object data) (\<lambda>d.
     rbind (parse_claims R parsed) (\<lambda>claims.
     rbind (enforce_expiry MachineFileExpired claims now clock) (\<lambda>_.
     rbind (machine_resource_from d) (\<lambda>m. Inr (m, claims))))))))))))))"

definition machine_verify_with_key_set ::
  "crypto \<Rightarrow> runtime \<Rightarrow> machine_file \<Rightarrow> key_set \<Rightarrow> license_scheme option \<Rightarrow> pystr option \<Rightarrow> pystr option
    \<Rightarrow> int option \<Rightarrow> int \<Rightarrow> exc + ((json machine_resource \<times> file_claims) \<times> signing_key)" where
  "machine_verify_with_key_set P R f ks scheme license_key fingerprint now clock =
     rbind (verifier_for P scheme) (\<lambda>(s, _).
     rbind (ensure (s = ED25519_SIGN) (SigningKeyNotApplicableError (license_scheme_value s))) (\<lambda>_.
     rbind (of_option UnicodeEncodeError (ascii_encode (mf_enc f))) (\<lambda>message.
     rbind (resolve_signing_key ks (\<lambda>pk. ed25519_verify P pk message (mf_sig f))
              (machine_unverified_kid P R f license_key fingerprint)) (\<lambda>(key, public_key).
     rbind (machine_verify P R f public_key scheme license_key fingerprint now clock) (\<lambda>r.
       Inr (r, key))))))"

section \<open>Algorithms and schemes\<close>

lemma data_object_Inr [simp]: "data_object v = Inr d \<longleftrightarrow> v = JObj d"
  by (cases v) (auto simp: data_object_def)

lemma data_object_JObj [simp]: "data_object (JObj d) = Inr d"
  by (simp add: data_object_def)

lemma raises_only_data_object [raises_intros]: "E ValueError \<Longrightarrow> raises_only E (data_object v)"
  unfolding data_object_def by (intro raises_intros)

lemma signing_suffixes_eq:
  "signing_suffixes = [lit ''ed25519'', lit ''rsa-sha256'', lit ''rsa-pss-sha256'', lit ''ecdsa-p256'']"
  by (simp add: signing_suffixes_def List.map_filter_def license_schemes_def scheme_to_alg_suffix_def)

lemma suffix_has_no_plus: "s \<in> set signing_suffixes \<Longrightarrow> 43 \<notin> set s"
  by (auto simp: signing_suffixes_eq lit_def)

lemma prefix_has_no_plus: "p \<in> {enc_prefix_plain, enc_prefix_encrypted} \<Longrightarrow> 43 \<notin> set p"
  by (auto simp: enc_prefix_plain_def enc_prefix_encrypted_def lit_def)

lemma valid_algorithms_iff:
  "alg \<in> set mach_valid_algorithms \<longleftrightarrow>
     (\<exists>p \<in> {enc_prefix_plain, enc_prefix_encrypted}. \<exists>s \<in> set signing_suffixes.
        alg = p @ [43] @ s @ [43] @ alg_v2_marker)"
  by (auto simp: mach_valid_algorithms_def)

lemma partition_alg:
  assumes "43 \<notin> set p" "43 \<notin> set m"
  shows "partition_at 43 (p @ [43] @ s @ [43] @ m) = (p, True, s @ [43] @ m)"
    and "rpartition_at 43 (s @ [43] @ m) = (s, True, m)"
  using assms by (simp_all add: partition_at_append rpartition_at_True)

text \<open>
  The algorithm names a machine file may carry: \<open>_validate_alg\<close> accepts exactly the eight made of an
  encoding, a signing suffix and the v2 marker, and splits each into its two parts.
\<close>

lemma validate_alg_Inr:
  "validate_alg alg = Inr (prefix, suffix) \<longleftrightarrow>
     prefix \<in> {lit ''base64'', lit ''aes-256-gcm''} \<and>
     suffix \<in> {lit ''ed25519'', lit ''rsa-sha256'', lit ''rsa-pss-sha256'', lit ''ecdsa-p256''} \<and>
     alg = prefix @ lit ''+'' @ suffix @ lit ''+v2''"
proof -
  have m: "43 \<notin> set alg_v2_marker" by (simp add: alg_v2_marker_def lit_def)
  have plus: "lit ''+'' = [43]" "lit ''+v2'' = 43 # alg_v2_marker"
    by (simp_all add: lit_def alg_v2_marker_def)
  have "validate_alg alg = Inr (prefix, suffix) \<longleftrightarrow>
     prefix \<in> {enc_prefix_plain, enc_prefix_encrypted} \<and> suffix \<in> set signing_suffixes \<and>
     alg = prefix @ [43] @ suffix @ [43] @ alg_v2_marker" (is "?l \<longleftrightarrow> ?r")
  proof
    assume l: ?l
    then have "alg \<in> set mach_valid_algorithms"
      by (auto simp: validate_alg_def split: prod.splits if_splits)
    then obtain p s where p: "p \<in> {enc_prefix_plain, enc_prefix_encrypted}"
      and s: "s \<in> set signing_suffixes" and alg: "alg = p @ [43] @ s @ [43] @ alg_v2_marker"
      unfolding valid_algorithms_iff by blast
    have "prefix = p \<and> suffix = s"
      using l partition_alg [OF prefix_has_no_plus [OF p] m, of s]
      unfolding alg validate_alg_def by (simp split: if_splits)
    with p s alg show ?r by simp
  next
    assume r: ?r
    then have "alg \<in> set mach_valid_algorithms" unfolding valid_algorithms_iff by blast
    moreover have "43 \<notin> set prefix" using r prefix_has_no_plus by blast
    ultimately show ?l
      using partition_alg [OF _ m, of prefix suffix] r by (simp add: validate_alg_def)
  qed
  then show ?thesis
    by (simp add: plus signing_suffixes_eq enc_prefix_plain_def enc_prefix_encrypted_def)
qed

lemma verifier_for_cases:
  "verifier_for P scheme =
     (case scheme of
        Some ED25519_SIGN \<Rightarrow> Inr (ED25519_SIGN, \<lambda>k m s. Inr (ed25519_verify P k m s))
      | Some RSA_2048_PKCS1_SIGN \<Rightarrow> Inr (RSA_2048_PKCS1_SIGN, verify_pkcs1v15 P)
      | Some RSA_2048_PKCS1_PSS_SIGN \<Rightarrow> Inr (RSA_2048_PKCS1_PSS_SIGN, verify_pss P)
      | Some ECDSA_P256_SIGN \<Rightarrow> Inr (ECDSA_P256_SIGN, verify_p256 P)
      | _ \<Rightarrow> Inl scheme_not_supported)"
  by (auto simp: verifier_for_def verifiers_def rejected_schemes_def split: option.splits license_scheme.splits)

text \<open>
  The scheme decides. A scheme that is not a member of the enumeration, or is
  \<open>RSA_2048_JWT_RS256\<close>, is refused with \<open>SchemeNotSupportedError\<close> whatever the file holds, with
  one key or a key set; a key set refuses the RSA and ECDSA schemes with
  \<open>SigningKeyNotApplicableError\<close>.
\<close>

lemma machine_scheme_refused:
  "machine_verify P R f pk (Some RSA_2048_JWT_RS256) lk fp now clock = Inl scheme_not_supported \<and>
   machine_verify P R f pk None lk fp now clock = Inl scheme_not_supported \<and>
   machine_verify_with_key_set P R f ks (Some RSA_2048_JWT_RS256) lk fp now clock = Inl scheme_not_supported \<and>
   machine_verify_with_key_set P R f ks None lk fp now clock = Inl scheme_not_supported \<and>
   machine_verify_with_key_set P R f ks (Some RSA_2048_PKCS1_SIGN) lk fp now clock
     = Inl (SigningKeyNotApplicableError (lit ''RSA_2048_PKCS1_SIGN'')) \<and>
   machine_verify_with_key_set P R f ks (Some RSA_2048_PKCS1_PSS_SIGN) lk fp now clock
     = Inl (SigningKeyNotApplicableError (lit ''RSA_2048_PKCS1_PSS_SIGN'')) \<and>
   machine_verify_with_key_set P R f ks (Some ECDSA_P256_SIGN) lk fp now clock
     = Inl (SigningKeyNotApplicableError (lit ''ECDSA_P256_SIGN''))"
  by (simp add: machine_verify_def machine_verify_with_key_set_def verifier_for_cases)

section \<open>What is accepted\<close>

text \<open>
  C2: a machine file is accepted exactly when the scheme has a verifier, the file's algorithm is one
  of the eight and its suffix is the scheme's, that verifier accepts the signature over the ASCII
  bytes of the payload text, the payload decodes to JSON with an object as its data and well-formed
  claims, and the signed expiry lies no more than sixty seconds in the past.
\<close>

theorem machine_verify_accepts_iff:
  "machine_verify P R f pk scheme lk fp now clock = Inr (m, claims) \<longleftrightarrow>
     (\<exists>s verifier enc_prefix alg_suffix message payload parsed d.
        verifier_for P scheme = Inr (s, verifier) \<and> validate_alg (mf_alg f) = Inr (enc_prefix, alg_suffix) \<and>
        scheme_to_alg_suffix s = Some alg_suffix \<and>
        ascii_encode (mf_enc f) = Some message \<and> verifier pk message (mf_sig f) = Inr True \<and>
        machine_decode_payload P f enc_prefix lk fp = Inr payload \<and> json_loads R payload = Inr parsed \<and>
        payload_data parsed = Inr (JObj d) \<and> parse_claims R parsed = Inr claims \<and>
        machine_resource_from d = Inr m \<and>
        (case fc_exp claims of None \<Rightarrow> True | Some exp \<Rightarrow> reference_time now clock \<le> exp + 60))"
  (is "?l \<longleftrightarrow> ?r")
proof
  assume ?l
  then show ?r
    by (auto simp: machine_verify_def rbind_Inr_iff enforce_expiry_def clock_skew_tolerance_seconds_def
        split: option.splits if_splits)
next
  assume ?r
  then obtain s verifier enc_prefix alg_suffix message payload parsed d where
    "verifier_for P scheme = Inr (s, verifier)" "validate_alg (mf_alg f) = Inr (enc_prefix, alg_suffix)"
    "scheme_to_alg_suffix s = Some alg_suffix" "ascii_encode (mf_enc f) = Some message"
    "verifier pk message (mf_sig f) = Inr True"
    "machine_decode_payload P f enc_prefix lk fp = Inr payload" "json_loads R payload = Inr parsed"
    "payload_data parsed = Inr (JObj d)" "parse_claims R parsed = Inr claims"
    "machine_resource_from d = Inr m"
    "case fc_exp claims of None \<Rightarrow> True | Some exp \<Rightarrow> reference_time now clock \<le> exp + 60"
    by blast
  moreover from this(11) have "enforce_expiry MachineFileExpired claims now clock = Inr ()"
    by (auto simp: enforce_expiry_def clock_skew_tolerance_seconds_def split: option.splits)
  ultimately show ?l by (simp add: machine_verify_def)
qed

lemma ed25519_accepted:
  assumes "machine_verify P R f pk (Some ED25519_SIGN) lk fp now clock = Inr r"
  shows "\<exists>message. ascii_encode (mf_enc f) = Some message \<and> ed25519_verify P pk message (mf_sig f)"
  using assms by (auto simp: machine_verify_def rbind_Inr_iff verifier_for_cases)

definition machine_signed :: "crypto \<Rightarrow> machine_file \<Rightarrow> bytes \<Rightarrow> bool" where
  "machine_signed P f public_key =
     (case ascii_encode (mf_enc f) of
        None \<Rightarrow> False
      | Some message \<Rightarrow> ed25519_verify P public_key message (mf_sig f))"

interpretation machine_set: key_set_file
  "\<lambda>f. ascii_encode (mf_enc f) \<noteq> None"
  "machine_signed P"
  "\<lambda>f pk (lk, fp, now, clock). machine_verify P R f pk (Some ED25519_SIGN) lk fp now clock"
  "\<lambda>f (lk, fp, now, clock). machine_unverified_kid P R f lk fp"
  "\<lambda>f ks (lk, fp, now, clock). machine_verify_with_key_set P R f ks (Some ED25519_SIGN) lk fp now clock"
  for P R
proof
  show "(case c of (lk, fp, now, clock) \<Rightarrow> machine_verify P R f pk (Some ED25519_SIGN) lk fp now clock) = Inr r \<Longrightarrow>
      ascii_encode (mf_enc f) \<noteq> None \<and> machine_signed P f pk" for f pk c r
    by (cases c) (auto simp: machine_signed_def dest!: ed25519_accepted)
  show "(case c of (lk, fp, now, clock) \<Rightarrow> machine_verify_with_key_set P R f ks (Some ED25519_SIGN) lk fp now clock) =
     rbind (ensure (ascii_encode (mf_enc f) \<noteq> None) UnicodeEncodeError) (\<lambda>_.
     rbind (resolve_signing_key ks (machine_signed P f)
        (case c of (lk, fp, now, clock) \<Rightarrow> machine_unverified_kid P R f lk fp)) (\<lambda>kb.
     rbind (case c of (lk, fp, now, clock) \<Rightarrow>
         machine_verify P R f (snd kb) (Some ED25519_SIGN) lk fp now clock)
       (\<lambda>r. Inr (r, fst kb))))" for f ks c
    by (cases c; cases "ascii_encode (mf_enc f)")
      (simp_all add: machine_verify_with_key_set_def machine_signed_def [abs_def] verifier_for_cases split_def)
  show "machine_signed P f a \<Longrightarrow> machine_signed P f b \<Longrightarrow>
      (case c of (lk, fp, now, clock) \<Rightarrow> machine_verify P R f a (Some ED25519_SIGN) lk fp now clock) =
      (case c of (lk, fp, now, clock) \<Rightarrow> machine_verify P R f b (Some ED25519_SIGN) lk fp now clock)" for f a b c
    by (cases c) (auto simp: machine_verify_def machine_signed_def verifier_for_cases split: option.splits)
qed

text \<open>
  C15: machine files against a key set. An Ed25519 machine file is accepted against a key set exactly
  when some usable key of the set verifies its signature and the first such key, taken in the order
  of the set, makes \<open>verify\<close> itself accept it with the same result.
\<close>

theorem machine_key_set_accepts_iff:
  "machine_verify_with_key_set P R f ks (Some ED25519_SIGN) lk fp now clock = Inr (r, k) \<longleftrightarrow>
     (\<exists>message pre post b.
        ascii_encode (mf_enc f) = Some message \<and> usable_keys ks = pre @ k # post \<and>
        public_key_bytes k = Some b \<and> ed25519_verify P b message (mf_sig f) \<and>
        list_all (\<lambda>j. \<nexists>c. public_key_bytes j = Some c \<and> ed25519_verify P c message (mf_sig f)) pre \<and>
        machine_verify P R f b (Some ED25519_SIGN) lk fp now clock = Inr r)"
  using machine_set.verify_set_Inr [where P = P and R = R and f = f and ks = ks
      and c = "(lk, fp, now, clock)" and r = r and k = k]
  by (cases "ascii_encode (mf_enc f)")
    (simp_all add: try_keys_Some machine_signed_def list_all_iff, blast)

lemma raises_only_validate_alg [raises_intros]: "E ValueError \<Longrightarrow> raises_only E (validate_alg alg)"
  unfolding validate_alg_def by (intro raises_intros)

lemma raises_only_machine_decode [raises_intros]:
  "E ValueError \<Longrightarrow> E UnicodeEncodeError \<Longrightarrow> E InvalidTag \<Longrightarrow>
    raises_only E (machine_decode_payload P f p lk fp)"
  unfolding machine_decode_payload_def machine_decrypt_def by (intro raises_intros)

lemma raises_only_machine_resource [raises_intros]:
  "E ValueError \<Longrightarrow> raises_only E (machine_resource_from d)"
  unfolding machine_resource_from_def Let_def by (intro raises_intros)

lemma verifier_raises:
  "verifier_for P scheme = Inr (s, v) \<Longrightarrow> raises_only (\<lambda>e. e = UnsupportedAlgorithm) (v pk m sig)"
  by (auto simp: verifier_for_cases raises_only_def verify_rsa_outcome verify_p256_outcome
      split: option.splits license_scheme.splits sum.splits if_splits)

lemma raises_only_verifier_for [raises_intros]: "E scheme_not_supported \<Longrightarrow> raises_only E (verifier_for P scheme)"
  unfolding verifier_for_def by (intro raises_intros)

lemma raises_only_machine_parse [raises_intros]:
  "raises_only is_ValueError (machine_file_parse R certificate)"
  unfolding machine_file_parse_def by (intro raises_intros) (simp_all (no_asm))

text \<open>What verifying a machine file may raise: as a license file, or for its scheme or its key.\<close>

definition machine_error :: "exc \<Rightarrow> bool" where
  "machine_error e \<longleftrightarrow> documented_error e \<or> e = scheme_not_supported \<or> e = UnsupportedAlgorithm"

lemma raises_only_machine_verify [raises_intros]:
  "raises_only machine_error (machine_verify P R f pk scheme lk fp now clock)"
  unfolding machine_verify_def
  by (intro raises_intros raises_only_mono [OF verifier_raises [of P scheme]]) (auto simp: machine_error_def)

lemma machine_unverified_kid_Inr: "\<exists>k. machine_unverified_kid P R f lk fp = Inr k"
  unfolding machine_unverified_kid_def
  by (rule except_value_total, intro raises_intros) (simp_all (no_asm))

lemma raises_only_machine_key_set [raises_intros]:
  "raises_only machine_error (machine_verify_with_key_set P R f ks scheme lk fp now clock)"
proof -
  have "raises_only documented_error (resolve_signing_key ks v (machine_unverified_kid P R f lk fp))" for v
    using machine_unverified_kid_Inr [of P R f lk fp] by (intro raises_only_resolve) auto
  then have "raises_only machine_error (resolve_signing_key ks v (machine_unverified_kid P R f lk fp))" for v
    by (rule raises_only_mono) (simp add: machine_error_def)
  then show ?thesis
    unfolding machine_verify_with_key_set_def by (intro raises_intros) (simp_all (no_asm) add: machine_error_def)
qed

section \<open>Round trip\<close>

text \<open>
  A payload of the documented format: any attributes at all. \<open>issued_machine\<close> says what a reader
  must find in it, attribute by attribute, objects with their keys in order.
\<close>

definition machine_payload_json :: "pystr \<Rightarrow> pydict \<Rightarrow> file_claims \<Rightarrow> json" where
  "machine_payload_json i attributes claims =
     JObj [(lit ''data'', JObj [(lit ''type'', JStr (lit ''machines'')), (lit ''id'', JStr i),
              (lit ''attributes'', JObj attributes)]),
           (lit ''meta'', claims_json claims)]"

definition attribute_or :: "json \<Rightarrow> pydict \<Rightarrow> pystr \<Rightarrow> json" where
  "attribute_or d attributes k = (case map_of attributes k of None \<Rightarrow> d | Some v \<Rightarrow> canon v)"

definition issued_status :: "pydict \<Rightarrow> heartbeat_status" where
  "issued_status attributes =
     (case map_of attributes (lit ''heartbeat_status'') of
        Some (JStr s) \<Rightarrow>
          (case List.find (\<lambda>x. heartbeat_status_value x = s) heartbeat_statuses of
             None \<Rightarrow> NOT_STARTED | Some x \<Rightarrow> x)
      | _ \<Rightarrow> NOT_STARTED)"

definition issued_metadata :: "pydict \<Rightarrow> json" where
  "issued_metadata attributes =
     (case map_of attributes (lit ''metadata'') of
        None \<Rightarrow> JObj [] | Some v \<Rightarrow> if py_truthy v then canon v else JObj [])"

definition issued_machine :: "pystr \<Rightarrow> pydict \<Rightarrow> json machine_resource" where
  "issued_machine i attributes =
     \<lparr>mr_id = JStr i,
      mr_fingerprint = attribute_or (JStr []) attributes (lit ''fingerprint''),
      mr_name = attribute_or JNull attributes (lit ''name''),
      mr_ip = attribute_or JNull attributes (lit ''ip''),
      mr_hostname = attribute_or JNull attributes (lit ''hostname''),
      mr_platform = attribute_or JNull attributes (lit ''platform''),
      mr_cores = attribute_or JNull attributes (lit ''cores''),
      mr_memory = attribute_or JNull attributes (lit ''memory''),
      mr_disk = attribute_or JNull attributes (lit ''disk''),
      mr_metadata = issued_metadata attributes,
      mr_heartbeat_status = issued_status attributes,
      mr_last_heartbeat_at = None, mr_next_heartbeat_at = None,
      mr_last_check_out_at = None, mr_created = None, mr_updated = None\<rparr>"

lemma canon_machine_payload:
  "canon (machine_payload_json i attributes claims) =
     JObj [(lit ''data'', JObj [(lit ''attributes'', JObj (canon_dict attributes)), (lit ''id'', JStr i),
              (lit ''type'', JStr (lit ''machines''))]),
           (lit ''meta'', canon (claims_json claims))]"
  by (simp add: machine_payload_json_def canon_dict_def lit_def)

interpretation heartbeat_read: lenient_enum heartbeat_statuses heartbeat_status_value NOT_STARTED
  "\<lambda>raw. Inr (heartbeat_status_of raw) :: unit + heartbeat_status"
  by unfold_locales (simp add: heartbeat_status_of_def)

lemma heartbeat_status_of_value [simp]: "heartbeat_status_of (JStr (heartbeat_status_value s)) = s"
  using heartbeat_read.read_value [of s] by simp

lemma py_truthy_canon [simp]: "py_truthy (canon v) = py_truthy v"
proof (cases v)
  case (JObj d)
  have "sort_key fst xs = [] \<longleftrightarrow> xs = []" for xs :: pydict
    by (metis set_sort set_empty)
  then show ?thesis by (simp add: JObj py_truthy_def)
qed (simp_all add: py_truthy_def)

lemma heartbeat_status_of_canon:
  "heartbeat_status_of (canon v) =
     (case v of JStr s \<Rightarrow> (case List.find (\<lambda>x. heartbeat_status_value x = s) heartbeat_statuses of
                          None \<Rightarrow> NOT_STARTED | Some x \<Rightarrow> x)
      | _ \<Rightarrow> NOT_STARTED)"
  by (cases v) (simp_all add: heartbeat_status_of_def enum_of_def)

lemma machine_resource_of_payload:
  assumes "distinct (map fst attributes)"
  shows "machine_resource_from [(lit ''attributes'', JObj (canon_dict attributes)), (lit ''id'', JStr i),
      (lit ''type'', JStr (lit ''machines''))] = Inr (issued_machine i attributes)"
proof -
  have get: "dict_get (canon_dict attributes) k d = attribute_or d attributes k" for k d
    by (simp add: dict_get_def attribute_or_def map_of_canon_dict [OF assms] split: option.split)
  have "heartbeat_status_of (attribute_or (JStr (lit ''NOT_STARTED'')) attributes (lit ''heartbeat_status''))
      = issued_status attributes"
    using heartbeat_status_of_value [of NOT_STARTED]
    by (simp add: attribute_or_def issued_status_def heartbeat_status_of_canon split: option.split)
  moreover have "py_or (attribute_or (JObj []) attributes (lit ''metadata'')) (JObj []) = issued_metadata attributes"
    by (simp add: py_or_def attribute_or_def issued_metadata_def split: option.split)
  ultimately show ?thesis
    by (simp add: machine_resource_from_def dict_member_def Let_def issued_machine_def get)
qed

text \<open>How the issuer encrypts a payload: under the license key and the machine's fingerprint.\<close>

definition machine_sealed :: "crypto \<Rightarrow> pystr \<Rightarrow> pystr \<Rightarrow> pystr \<Rightarrow> bytes \<Rightarrow> bool" where
  "machine_sealed P lk fp enc payload \<longleftrightarrow>
     (\<exists>k nonce ct. derive_machine_file_key P lk fp = Inr k \<and> length nonce = 12 \<and> 16 \<le> length ct \<and>
        enc = b64encode nonce @ lit ''.'' @ b64encode ct \<and> aesgcm_open P k nonce ct = Some payload)"

lemma b64encode_no_dot: "46 \<notin> set (b64encode bs)"
proof
  assume "46 \<in> set (b64encode bs)"
  then have "b64_value 46 \<noteq> None" using b64decode_alphabet [OF b64decode_encode] by fastforce
  then show False by (simp add: b64_value_def)
qed

lemma machine_sealed_decrypt:
  assumes "machine_sealed P lk fp (mf_enc f) payload"
  shows "machine_decrypt P f (Some lk) (Some fp) = Inr payload"
proof -
  have dot: "lit ''.'' = [46]" by (simp add: lit_def)
  from assms show ?thesis
    by (auto simp: machine_sealed_def machine_decrypt_def dot partition_at_append b64encode_no_dot
        nonce_length_def gcm_tag_length_def aes_gcm_decrypt_def)
qed

lemma machine_sealed_ascii: "machine_sealed P lk fp enc payload \<Longrightarrow> list_all (\<lambda>c. c < 128) enc"
  using b64encode_ascii by (fastforce simp: machine_sealed_def list_all_iff lit_def)

lemma machine_verify_sealed:
  assumes "writable (machine_payload_json i attributes claims)"
    and "scheme_to_alg_suffix s = Some suffix" "verifiers P s = Some verifier"
    and "mf_alg f = lit ''aes-256-gcm'' @ lit ''+'' @ suffix @ lit ''+v2''"
    and "machine_sealed P lk fp (mf_enc f) (json_bytes R (machine_payload_json i attributes claims))"
    and "verifier pk (map word_of_nat (mf_enc f)) (mf_sig f) = Inr True"
    and "case fc_exp claims of None \<Rightarrow> True | Some exp \<Rightarrow> reference_time now clock \<le> exp + 60"
  shows "machine_verify P R f pk (Some s) (Some lk) (Some fp) now clock =
    Inr (issued_machine i attributes, claims)"
proof -
  let ?v = "machine_payload_json i attributes claims"
  have suffix: "suffix \<in> {lit ''ed25519'', lit ''rsa-sha256'', lit ''rsa-pss-sha256'', lit ''ecdsa-p256''}"
    and verifier: "verifier_for P (Some s) = Inr (s, verifier)"
    using assms(2,3) by (cases s; simp add: scheme_to_alg_suffix_def verifiers_def verifier_for_cases)+
  have alg: "validate_alg (mf_alg f) = Inr (lit ''aes-256-gcm'', suffix)"
    unfolding assms(4) validate_alg_Inr using suffix by simp
  have "ascii_encode (mf_enc f) = Some (map word_of_nat (mf_enc f))"
    using machine_sealed_ascii [OF assms(5)] by (simp add: ascii_encode_def)
  moreover have "machine_decode_payload P f (lit ''aes-256-gcm'') (Some lk) (Some fp) = Inr (json_bytes R ?v)"
    using machine_sealed_decrypt [OF assms(5)] by (simp add: machine_decode_payload_def enc_prefix_encrypted_def)
  moreover have "parse_claims R (canon ?v) = Inr claims"
    unfolding canon_machine_payload by (rule parse_claims_canon) simp
  moreover have "payload_data (canon ?v) = Inr (JObj [(lit ''attributes'', JObj (canon_dict attributes)),
      (lit ''id'', JStr i), (lit ''type'', JStr (lit ''machines''))])"
    by (simp add: canon_machine_payload payload_data_def)
  moreover have "distinct (map fst attributes)" using assms(1) by (simp add: machine_payload_json_def)
  moreover have "enforce_expiry MachineFileExpired claims now clock = Inr ()"
    using assms(7) by (auto simp: enforce_expiry_def clock_skew_tolerance_seconds_def split: option.splits)
  ultimately show ?thesis
    using assms(2,6) by (simp add: machine_verify_def verifier alg json_loads_json_bytes [OF assms(1)]
        machine_resource_of_payload)
qed

interpretation mach_format: certificate_format mach_header mach_footer
  by unfold_locales (simp_all add: mach_header_def mach_footer_def lit_def py_isspace_def)

text \<open>
  C12: round trip. An encrypted machine file written in the documented format around any attributes
  and claims, its payload sealed under the license key and the machine's fingerprint and signed under
  any of the four schemes, is parsed and verified back to its machine and claims: each of the
  machine's eleven fields is the attribute of its own name (an absent text is None, an absent or
  empty metadata object the empty one, an absent or unknown heartbeat status NOT_STARTED).
\<close>

theorem machine_file_round_trip:
  assumes "writable (machine_payload_json i attributes claims)"
    and "scheme_to_alg_suffix s = Some suffix" "verifiers P s = Some verifier"
    and "alg = lit ''aes-256-gcm'' @ lit ''+'' @ suffix @ lit ''+v2''"
    and "machine_sealed P lk fp enc (json_bytes R (machine_payload_json i attributes claims))"
    and "verifier pk (map word_of_nat enc) sig = Inr True"
    and "case fc_exp claims of None \<Rightarrow> True | Some exp \<Rightarrow> reference_time now clock \<le> exp + 60"
    and "length (certificate_text R mach_header mach_footer enc sig alg) \<le> max_certificate_length"
  shows "rbind (machine_file_parse R (certificate_text R mach_header mach_footer enc sig alg))
      (\<lambda>f. machine_verify P R f pk (Some s) (Some lk) (Some fp) now clock) =
    Inr (issued_machine i attributes, claims)"
proof -
  let ?f = "\<lparr>mf_enc = enc, mf_sig = sig, mf_alg = alg\<rparr>"
  have suffix: "suffix \<in> {lit ''ed25519'', lit ''rsa-sha256'', lit ''rsa-pss-sha256'', lit ''ecdsa-p256''}"
    using assms(2,3) by (cases s) (simp_all add: scheme_to_alg_suffix_def verifiers_def)
  have "validate_alg alg = Inr (lit ''aes-256-gcm'', suffix)"
    unfolding assms(4) validate_alg_Inr using suffix by simp
  moreover have "list_all encodable enc"
    using machine_sealed_ascii [OF assms(5)] by (auto simp: list_all_iff ascii_encodable)
  moreover have "list_all encodable alg"
    using suffix unfolding assms(4) by (auto simp: lit_def ascii_encodable)
  ultimately have "machine_file_parse R (certificate_text R mach_header mach_footer enc sig alg) = Inr ?f"
    using mach_format.parse_certificate_text [of enc alg "[]" "[]" R sig] assms(8)
    by (simp add: machine_file_parse_def)
  then show ?thesis
    using machine_verify_sealed [where f = ?f, OF assms(1-3)] assms(4-7) by simp
qed

text \<open>An instance: machine \<open>m\<close>, found dead, in a file signed under PSS for license key \<open>k\<close>.\<close>

definition sample_attributes :: pydict where
  "sample_attributes = [(lit ''name'', JStr (lit ''n'')), (lit ''fingerprint'', JStr (lit ''f'')),
     (lit ''cores'', JInt 8), (lit ''heartbeat_status'', JStr (lit ''DEAD'')), (lit ''hostname'', JStr (lit ''h''))]"

lemma sample_issued_machine:
  "issued_machine (lit ''m'') sample_attributes =
     \<lparr>mr_id = JStr (lit ''m''), mr_fingerprint = JStr (lit ''f''), mr_name = JStr (lit ''n''), mr_ip = JNull,
      mr_hostname = JStr (lit ''h''), mr_platform = JNull, mr_cores = JInt 8, mr_memory = JNull,
      mr_disk = JNull, mr_metadata = JObj [], mr_heartbeat_status = DEAD, mr_last_heartbeat_at = None,
      mr_next_heartbeat_at = None, mr_last_check_out_at = None, mr_created = None, mr_updated = None\<rparr>"
  by (simp add: issued_machine_def sample_attributes_def attribute_or_def issued_metadata_def
      issued_status_def heartbeat_statuses_def lit_def)

definition sample_machine_key :: bytes where
  "sample_machine_key = hkdf_sha256 sample_crypto 32 machine_file_key_salt [102] [107]"

definition sample_machine_enc :: pystr where
  "sample_machine_enc = b64encode (replicate 12 0) @ lit ''.'' @
     b64encode (json_bytes sample_runtime (machine_payload_json (lit ''m'') sample_attributes sample_claims)
       @ take 16 sample_machine_key)"

lemma sample_machine_key: "length (take 16 sample_machine_key) = 16"
  by (simp add: sample_machine_key_def sample_crypto_def machine_file_key_salt_def ascii_bytes_def)

lemma sample_machine_sealed:
  "machine_sealed sample_crypto (lit ''k'') (lit ''f'') sample_machine_enc
     (json_bytes sample_runtime (machine_payload_json (lit ''m'') sample_attributes sample_claims))"
proof -
  let ?p = "json_bytes sample_runtime (machine_payload_json (lit ''m'') sample_attributes sample_claims)"
  have utf8: "utf8_encode (lit ''k'') = Some [107]" "utf8_encode (lit ''f'') = Some [102]"
    by (simp_all add: utf8_encode_def lit_def encodable_def surrogate_def utf8_cp_def)
  then have "derive_machine_file_key sample_crypto (lit ''k'') (lit ''f'') = Inr sample_machine_key"
    by (simp add: derive_machine_file_key_def sample_machine_key_def)
  moreover have "aesgcm_open sample_crypto sample_machine_key (replicate 12 0) (?p @ take 16 sample_machine_key)
      = Some ?p"
    using sample_machine_key by (simp add: sample_crypto_def)
  ultimately show ?thesis
    unfolding machine_sealed_def sample_machine_enc_def
    by (rule_tac x = sample_machine_key in exI, rule_tac x = "replicate 12 0" in exI,
        rule_tac x = "?p @ take 16 sample_machine_key" in exI)
      (use sample_machine_key in simp)
qed

lemma machine_file_round_trip_witness:
  "rbind (machine_file_parse sample_runtime
       (certificate_text sample_runtime mach_header mach_footer sample_machine_enc
          (7 # map word_of_nat sample_machine_enc @ map word_of_nat sample_machine_enc)
          (lit ''aes-256-gcm'' @ lit ''+'' @ lit ''rsa-pss-sha256'' @ lit ''+v2'')))
     (\<lambda>f. machine_verify sample_crypto sample_runtime f [7] (Some RSA_2048_PKCS1_PSS_SIGN)
        (Some (lit ''k'')) (Some (lit ''f'')) (Some 160) 0) =
   Inr (issued_machine (lit ''m'') sample_attributes, sample_claims)"
proof (rule machine_file_round_trip)
  let ?v = "machine_payload_json (lit ''m'') sample_attributes sample_claims"
  let ?sig = "7 # map word_of_nat sample_machine_enc @ map word_of_nat sample_machine_enc :: bytes"
  show "writable ?v"
    by (simp add: machine_payload_json_def claims_json_def sample_claims_def sample_attributes_def)
      (simp add: lit_def encodable_def surrogate_def)
  show "scheme_to_alg_suffix RSA_2048_PKCS1_PSS_SIGN = Some (lit ''rsa-pss-sha256'')"
    by (simp add: scheme_to_alg_suffix_def)
  show "verifiers sample_crypto RSA_2048_PKCS1_PSS_SIGN = Some (verify_pss sample_crypto)"
    by (simp add: verifiers_def)
  show "machine_sealed sample_crypto (lit ''k'') (lit ''f'') sample_machine_enc (json_bytes sample_runtime ?v)"
    by (rule sample_machine_sealed)
  show "verify_pss sample_crypto [7] (map word_of_nat sample_machine_enc) ?sig = Inr True"
    by (simp add: verify_rsa_outcome load_rsa_public_key_def load_either_def sample_crypto_def)
  show "case fc_exp sample_claims of None \<Rightarrow> True | Some exp \<Rightarrow> reference_time (Some 160) 0 \<le> exp + 60"
    by (simp add: sample_claims_def reference_time_def)
  have "length (dumps sample_runtime ?v) \<le> 300"
    by (simp add: sample_attributes_def machine_payload_json_def claims_json_def sample_claims_def dumps_str_def escape_char_def
        lit_def dec_of_int_def dec_of_nat.simps)
  then have "length (json_bytes sample_runtime ?v) \<le> 1200"
    using length_json_bytes [of sample_runtime ?v] by simp
  then have "length sample_machine_enc \<le> 1800"
    using sample_machine_key by (simp add: sample_machine_enc_def length_b64encode_eq)
  then show "length (certificate_text sample_runtime mach_header mach_footer sample_machine_enc ?sig
      (lit ''aes-256-gcm'' @ lit ''+'' @ lit ''rsa-pss-sha256'' @ lit ''+v2'')) \<le> max_certificate_length"
    using length_certificate_text [of sample_runtime mach_header mach_footer sample_machine_enc ?sig
        "lit ''aes-256-gcm'' @ lit ''+'' @ lit ''rsa-pss-sha256'' @ lit ''+v2''"]
    by (simp add: length_b64encode_eq max_certificate_length_def mach_header_def mach_footer_def)
qed simp

end
