(* ===== verification/Offline_Files.thy ===== *)
theory Offline_Files
  imports Machine_File
begin

text \<open>
  The entry points an application calls on an offline file, \<open>verify\<close>, \<open>verify_with_claims\<close> and
  \<open>verify_with_key_set\<close> of \<open>LicenseFile\<close> and \<open>MachineFile\<close>, each over the one pipeline of its
  class (\<open>license_verify\<close>, \<open>machine_verify\<close>), and what the exceptions of a key set carry.

  \<open>license_authentic\<close> states what a signature is for: with an issuer whose keys sign only the
  texts of files it issued, plain or encrypted, every accepted file is one of its licenses, unexpired.
\<close>

section \<open>LicenseFile\<close>

record verified_license_file =
  vlf_license :: "json license_resource"
  vlf_claims :: file_claims
  vlf_key :: signing_key

definition license_file_verify ::
  "crypto \<Rightarrow> runtime \<Rightarrow> license_file \<Rightarrow> bytes \<Rightarrow> pystr option \<Rightarrow> int option \<Rightarrow> int
    \<Rightarrow> exc + json license_resource" where
  "license_file_verify P R f public_key license_key now clock =
     rbind (license_verify P R f public_key license_key now clock) (\<lambda>(license, _). Inr license)"

definition license_file_verify_with_claims ::
  "crypto \<Rightarrow> runtime \<Rightarrow> license_file \<Rightarrow> bytes \<Rightarrow> pystr option \<Rightarrow> int option \<Rightarrow> int
    \<Rightarrow> exc + (json license_resource \<times> file_claims)" where
  "license_file_verify_with_claims P R f public_key license_key now clock =
     license_verify P R f public_key license_key now clock"

definition license_file_verify_with_key_set ::
  "crypto \<Rightarrow> runtime \<Rightarrow> license_file \<Rightarrow> key_set \<Rightarrow> pystr option \<Rightarrow> int option \<Rightarrow> int
    \<Rightarrow> exc + verified_license_file" where
  "license_file_verify_with_key_set P R f ks license_key now clock =
     rbind (license_verify_with_key_set P R f ks license_key now clock) (\<lambda>((license, claims), key).
       Inr \<lparr>vlf_license = license, vlf_claims = claims, vlf_key = key\<rparr>)"

section \<open>MachineFile\<close>

record verified_machine_file =
  vmf_machine :: "json machine_resource"
  vmf_claims :: file_claims
  vmf_key :: signing_key

definition machine_file_verify ::
  "crypto \<Rightarrow> runtime \<Rightarrow> machine_file \<Rightarrow> bytes \<Rightarrow> license_scheme option \<Rightarrow> pystr option \<Rightarrow> pystr option
    \<Rightarrow> int option \<Rightarrow> int \<Rightarrow> exc + json machine_resource" where
  "machine_file_verify P R f public_key scheme license_key fingerprint now clock =
     rbind (machine_verify P R f public_key scheme license_key fingerprint now clock)
       (\<lambda>(machine, _). Inr machine)"

definition machine_file_verify_with_claims ::
  "crypto \<Rightarrow> runtime \<Rightarrow> machine_file \<Rightarrow> bytes \<Rightarrow> license_scheme option \<Rightarrow> pystr option \<Rightarrow> pystr option
    \<Rightarrow> int option \<Rightarrow> int \<Rightarrow> exc + (json machine_resource \<times> file_claims)" where
  "machine_file_verify_with_claims P R f public_key scheme license_key fingerprint now clock =
     machine_verify P R f public_key scheme license_key fingerprint now clock"

definition machine_file_verify_with_key_set ::
  "crypto \<Rightarrow> runtime \<Rightarrow> machine_file \<Rightarrow> key_set \<Rightarrow> license_scheme option \<Rightarrow> pystr option \<Rightarrow> pystr option
    \<Rightarrow> int option \<Rightarrow> int \<Rightarrow> exc + verified_machine_file" where
  "machine_file_verify_with_key_set P R f ks scheme license_key fingerprint now clock =
     rbind (machine_verify_with_key_set P R f ks scheme license_key fingerprint now clock)
       (\<lambda>((machine, claims), key).
         Inr \<lparr>vmf_machine = machine, vmf_claims = claims, vmf_key = key\<rparr>)"

section \<open>What the exceptions of a key set carry\<close>

text \<open>
  The attributes of the classes; \<open>None\<close> for an exception that has none. Only the classes of
  \<open>is_SigningKeyError\<close> have the first three.
\<close>

fun available_keys :: "exc \<Rightarrow> pystr list option" where
  "available_keys (NoUsableSigningKeyError available) = Some available"
| "available_keys (UnknownSigningKeyError kid available) = Some available"
| "available_keys (SigningKeyNotPublishedError kid available) = Some available"
| "available_keys _ = None"

fun claimed_kid :: "exc \<Rightarrow> pystr option" where
  "claimed_kid (UnknownSigningKeyError kid available) = Some kid"
| "claimed_kid (SigningKeyNotPublishedError kid available) = Some kid"
| "claimed_kid _ = None"

fun inapplicable_scheme :: "exc \<Rightarrow> pystr option" where
  "inapplicable_scheme (SigningKeyNotApplicableError scheme) = Some scheme"
| "inapplicable_scheme _ = None"

fun expired_at :: "exc \<Rightarrow> int option" where
  "expired_at (LicenseFileExpired exp) = Some exp"
| "expired_at (MachineFileExpired exp) = Some exp"
| "expired_at _ = None"

lemma attributes_of_classes:
  "available_keys e \<noteq> None \<Longrightarrow> is_SigningKeyError e"
  "claimed_kid e \<noteq> None \<longleftrightarrow> is_UnknownSigningKeyError e"
  "expired_at e \<noteq> None \<longleftrightarrow> is_LicenseFileExpired e"
  by (cases e; simp)+

lemma rejection_attributes:
  assumes "rejection ks (Some kid) = Inl e" "e \<noteq> InvalidSignature" "hashable_keys ks"
  shows "is_UnknownSigningKeyError e" "claimed_kid e = Some kid"
    and "available_keys e = Some (map sk_kid (usable_keys ks))"
  using assms by (auto simp: rejection_spec rejection_error_def split: if_splits)

section \<open>What the entry points raise\<close>

text \<open>
  C35: the error contract of the offline files. Parsing raises only \<open>ValueError\<close>s. Verifying a
  license file, in any of the three ways, raises only \<open>InvalidSignature\<close>, \<open>InvalidTag\<close> or a
  \<open>ValueError\<close>, which expiry and every key-set error are; a machine file moreover
  \<open>SchemeNotSupportedError\<close>, or the \<open>UnsupportedAlgorithm\<close> of a PEM key of unknown type.
\<close>

theorem offline_file_errors:
  "raises_only is_ValueError (license_file_parse R certificate) \<and>
   raises_only documented_error (license_file_verify P R f pk lk now clock) \<and>
   raises_only documented_error (license_file_verify_with_claims P R f pk lk now clock) \<and>
   raises_only documented_error (license_file_verify_with_key_set P R f ks lk now clock) \<and>
   raises_only is_ValueError (machine_file_parse R certificate) \<and>
   raises_only (\<lambda>e. documented_error e \<or> e = scheme_not_supported \<or> e = UnsupportedAlgorithm)
     (machine_file_verify P R g pk scheme lk fp now clock) \<and>
   raises_only (\<lambda>e. documented_error e \<or> e = scheme_not_supported \<or> e = UnsupportedAlgorithm)
     (machine_file_verify_with_claims P R g pk scheme lk fp now clock) \<and>
   raises_only (\<lambda>e. documented_error e \<or> e = scheme_not_supported \<or> e = UnsupportedAlgorithm)
     (machine_file_verify_with_key_set P R g ks scheme lk fp now clock)"
  unfolding machine_error_def [symmetric, abs_def] license_file_verify_def license_file_verify_with_claims_def
    license_file_verify_with_key_set_def machine_file_verify_def machine_file_verify_with_claims_def
    machine_file_verify_with_key_set_def
  by (intro conjI raises_intros) (simp_all split: prod.split)

section \<open>Authenticity\<close>

text \<open>
  The texts an issuer signs. The name of the encoding, \<open>alg\<close>, is not under the signature, so a file
  may be presented under the other one; an issued text has to be read as its license both ways or not
  at all. A plain text is the payload of an issued license, and is not taken for a ciphertext by the
  license key in use. An encrypted text seals such a payload, the license key in use opens it to
  nothing else, and the sealed bytes are not themselves a JSON text.
\<close>

definition opens_to :: "crypto \<Rightarrow> pystr option \<Rightarrow> bytes \<Rightarrow> bytes \<Rightarrow> bool" where
  "opens_to P lk bs payload \<longleftrightarrow>
     (\<exists>key k. lk = Some key \<and> derive_license_file_key P key = Inr k \<and>
        aesgcm_open P k (take 12 bs) (drop 12 bs) = Some payload)"

definition issued_bytes :: "crypto \<Rightarrow> runtime \<Rightarrow> pystr option \<Rightarrow> bytes \<Rightarrow> bytes \<Rightarrow> bool" where
  "issued_bytes P R lk payload bs \<longleftrightarrow>
     bs = payload \<and> (\<forall>q. \<not> opens_to P lk bs q) \<or>
     (\<exists>k. aesgcm_open P k (take 12 bs) (drop 12 bs) = Some payload) \<and>
       (\<forall>q. opens_to P lk bs q \<longrightarrow> q = payload) \<and> (\<exists>e. json_loads R bs = Inl e)"

definition issued_message ::
  "crypto \<Rightarrow> runtime \<Rightarrow> pystr option \<Rightarrow> (pystr \<times> pydict \<times> file_claims) set \<Rightarrow> bytes \<Rightarrow> bool" where
  "issued_message P R lk licenses message \<longleftrightarrow>
     (\<exists>(i, attributes, claims) \<in> licenses. writable (license_payload_json i attributes claims) \<and>
        (\<exists>bs. issued_bytes P R lk (json_bytes R (license_payload_json i attributes claims)) bs \<and>
           message = map word_of_nat (b64encode bs)))"

definition license_of :: "pystr \<Rightarrow> pydict \<Rightarrow> json license_resource" where
  "license_of i attributes =
     \<lparr>lr_id = JStr i, lr_type = JStr (lit ''licenses''), lr_attributes = canon_dict attributes,
      lr_relationships = []\<rparr>"

definition unexpired :: "file_claims \<Rightarrow> int option \<Rightarrow> int \<Rightarrow> bool" where
  "unexpired claims now clock \<longleftrightarrow>
     (case fc_exp claims of None \<Rightarrow> True | Some exp \<Rightarrow> reference_time now clock \<le> exp + 60)"

lemma ascii_message_text:
  assumes "ascii_encode s = Some (map word_of_nat (b64encode bs))"
  shows "s = b64encode bs"
proof -
  have "ascii_encode (b64encode bs) = Some (map word_of_nat (b64encode bs))"
    using b64encode_ascii by (auto simp: ascii_encode_def list_all_iff)
  with assms show ?thesis by (rule ascii_encode_inj)
qed

text \<open>Issued bytes are read as their payload, whatever \<open>alg\<close> the file carries.\<close>

lemma issued_bytes_read:
  assumes "license_decode_payload P f lk = Inr plaintext" "json_loads R plaintext = Inr parsed"
    and "lf_enc f = b64encode bs" "issued_bytes P R lk payload bs"
  shows "plaintext = payload"
proof (cases "lf_alg f = alg_encrypted")
  case True
  with assms(1,3) have "opens_to P lk bs plaintext"
    by (auto simp: license_decode_payload_def opens_to_def nonce_length_def aes_gcm_decrypt_def
        rbind_Inr_iff split: option.splits)
  with assms(4) show ?thesis by (auto simp: issued_bytes_def)
next
  case False
  with assms(1,3) have "plaintext = bs" by (simp add: license_decode_payload_def)
  with assms(2,4) show ?thesis by (auto simp: issued_bytes_def)
qed

lemma license_verify_issued:
  assumes "license_verify P R f pk lk now clock = Inr (l, claims)"
    and "\<And>message. ascii_encode (lf_enc f) = Some message \<Longrightarrow> issued_message P R lk licenses message"
  shows "\<exists>i attributes. (i, attributes, claims) \<in> licenses \<and> l = license_of i attributes \<and>
    unexpired claims now clock"
proof -
  from assms(1) obtain message plaintext parsed data where v:
    "ascii_encode (lf_enc f) = Some message" "license_decode_payload P f lk = Inr plaintext"
    "json_loads R plaintext = Inr parsed" "parse_claims R parsed = Inr claims"
    "payload_data parsed = Inr data" "license_resource_from data = Inr l" "unexpired claims now clock"
    unfolding license_verify_Inr unexpired_def by blast
  obtain i attributes c bs where i: "(i, attributes, c) \<in> licenses"
    and w: "writable (license_payload_json i attributes c)"
    and b: "issued_bytes P R lk (json_bytes R (license_payload_json i attributes c)) bs"
    and m: "message = map word_of_nat (b64encode bs)"
    using assms(2) [OF v(1)] unfolding issued_message_def by blast
  from v(1) have "lf_enc f = b64encode bs" unfolding m by (rule ascii_message_text)
  from issued_bytes_read [OF v(2,3) this b] v(3)
  have parsed: "parsed = canon (license_payload_json i attributes c)"
    by (simp add: json_loads_json_bytes [OF w])
  have "parse_claims R parsed = Inr c"
    unfolding parsed canon_license_payload by (rule parse_claims_canon) simp
  moreover have "l = license_of i attributes"
    using v(5,6) unfolding parsed
    by (auto simp: canon_license_payload payload_data_def license_resource_from_def dict_member_def
        license_of_def)
  ultimately show ?thesis using i v(4,7) by auto
qed

text \<open>
  C10: authenticity. Let the keys of a set sign, of all texts, only those of files their issuer has
  issued, plain or encrypted. Then a license file accepted against that set, with or without a license
  key, holds one of the issued licenses with the claims it was issued with, those claims have not
  expired by more than the tolerance, and the key reported is of the set: nothing can be altered,
  mixed or extended, not even by renaming the encoding, which the signature does not cover.
\<close>

theorem license_authentic:
  assumes "\<And>k b message. k \<in> set ks \<Longrightarrow> public_key_bytes k = Some b \<Longrightarrow>
      ed25519_verify P b message (lf_sig f) \<Longrightarrow> issued_message P R lk licenses message"
    and "license_file_verify_with_key_set P R f ks lk now clock = Inr v"
  shows "\<exists>i attributes. (i, attributes, vlf_claims v) \<in> licenses \<and>
    vlf_license v = license_of i attributes \<and> unexpired (vlf_claims v) now clock \<and> vlf_key v \<in> set ks"
proof -
  from assms(2) have set: "license_verify_with_key_set P R f ks lk now clock
      = Inr ((vlf_license v, vlf_claims v), vlf_key v)"
    by (auto simp: license_file_verify_with_key_set_def rbind_Inr_iff)
  then obtain b where k: "vlf_key v \<in> set ks" "public_key_bytes (vlf_key v) = Some b" "license_signed P f b"
    and v: "license_verify P R f b lk now clock = Inr (vlf_license v, vlf_claims v)"
    using license_set.verify_set_sound [of P R f ks "(lk, now, clock)"] by auto
  have "issued_message P R lk licenses message" if "ascii_encode (lf_enc f) = Some message" for message
    using that k(3) assms(1) [OF k(1,2)] by (simp add: license_signed_def)
  with license_verify_issued [OF v] k(1) show ?thesis by blast
qed

text \<open>
  An issuer with one license: it has encrypted its file under license key \<open>k\<close>, with a nonce of
  bytes 255, and its signing key signs that one text and nothing else.
\<close>

definition sealed_payload :: bytes where
  "sealed_payload = json_bytes sample_runtime (license_payload_json (lit ''l'') [] sample_claims)"

definition sealed_key :: bytes where
  "sealed_key = hkdf_sha256 sample_crypto 32 license_file_key_salt license_file_key_info [107]"

definition sealed_bytes :: bytes where
  "sealed_bytes = replicate 12 255 @ sealed_payload @ take 16 sealed_key"

definition sealed_file :: license_file where
  "sealed_file = \<lparr>lf_enc = b64encode sealed_bytes, lf_sig = 7 # map word_of_nat (b64encode sealed_bytes),
     lf_alg = alg_encrypted, lf_expiry = None\<rparr>"

definition issuer_crypto :: crypto where
  "issuer_crypto = sample_crypto\<lparr>ed25519_check :=
     (\<lambda>k s m. k = replicate 32 7 \<and> m = map word_of_nat (b64encode sealed_bytes) \<and> s = 7 # m)\<rparr>"

lemma issuer_check [simp]:
  "ed25519_verify issuer_crypto k m s \<longleftrightarrow>
     k = replicate 32 7 \<and> m = map word_of_nat (b64encode sealed_bytes) \<and> s = 7 # m"
  by (auto simp: ed25519_verify_def issuer_crypto_def sample_crypto_def)

lemma sealed_key_length: "length (take 16 sealed_key) = 16"
  by (simp add: sealed_key_def sample_crypto_def license_file_key_salt_def ascii_bytes_def)

lemma sealed_key_derived: "derive_license_file_key issuer_crypto (lit ''k'') = Inr sealed_key"
proof -
  have "utf8_encode (lit ''k'') = Some [107]"
    by (simp add: utf8_encode_def lit_def encodable_def surrogate_def utf8_cp_def)
  then show ?thesis by (simp add: derive_license_file_key_def sealed_key_def issuer_crypto_def)
qed

lemma sealed_opens: "aesgcm_open issuer_crypto sealed_key (replicate 12 255) (sealed_payload @ take 16 sealed_key)
    = Some sealed_payload"
  using sealed_key_length by (simp add: issuer_crypto_def sample_crypto_def)

lemma sealed_not_json: "json_loads sample_runtime sealed_bytes = Inl UnicodeDecodeError"
proof -
  have "replicate 12 x = x # x # x # x # replicate 8 x" for x :: byte by (simp add: numeral_eq_Suc)
  then have "\<exists>bs. map unat sealed_bytes = 255 # 255 # 255 # 255 # bs"
    by (simp add: sealed_bytes_def)
  then obtain bs where "map unat sealed_bytes = 255 # 255 # 255 # 255 # bs" ..
  then have "json_decode sealed_bytes = None" unfolding json_decode_def by (simp add: Let_def)
  then show ?thesis by (simp add: json_loads_def)
qed

lemma sealed_issued: "issued_bytes issuer_crypto sample_runtime (Some (lit ''k'')) sealed_payload sealed_bytes"
  using sealed_opens sealed_not_json
  by (auto simp: issued_bytes_def opens_to_def sealed_key_derived sealed_bytes_def)

lemma issuer_accepts:
  "license_file_verify_with_key_set issuer_crypto sample_runtime sealed_file
     [sample_key 9, sample_key 7] (Some (lit ''k'')) (Some 0) 0 =
   Inr \<lparr>vlf_license = sample_license, vlf_claims = sample_claims, vlf_key = sample_key 7\<rparr>"
proof -
  have sealed: "license_sealed issuer_crypto (Some (lit ''k'')) (lf_alg sealed_file) (lf_enc sealed_file)
      (json_bytes sample_runtime (license_payload_json (lit ''l'') [] sample_claims))"
    unfolding license_sealed_def sealed_payload_def [symmetric]
    by (rule disjI2, simp add: sealed_file_def sealed_key_derived, rule exI [of _ "replicate 12 255"],
        simp, rule exI [of _ "sealed_payload @ take 16 sealed_key"])
      (use sealed_key_length sealed_opens in \<open>simp add: sealed_bytes_def\<close>)
  have "license_verify issuer_crypto sample_runtime sealed_file (replicate 32 7) (Some (lit ''k'')) (Some 0) 0
      = Inr (sample_license, sample_claims)"
    using license_verify_sealed [OF sample_writable sealed, of "replicate 32 7" "Some 0" 0]
    by (simp add: sealed_file_def sample_license_def canon_dict_def)
      (simp add: sample_claims_def reference_time_def)
  moreover have "replicate 32 (9 :: byte) \<noteq> replicate 32 7" by (simp add: replicate_32_Cons)
  moreover have "ascii_encode (lf_enc sealed_file) = Some (map word_of_nat (lf_enc sealed_file))"
    using license_sealed_ascii [OF sealed] by (simp add: ascii_encode_def)
  ultimately have "license_verify_with_key_set issuer_crypto sample_runtime sealed_file
      [sample_key 9, sample_key 7] (Some (lit ''k'')) (Some 0) 0 = Inr ((sample_license, sample_claims), sample_key 7)"
    using license_set.verify_set_Inr
      [where P = issuer_crypto and R = sample_runtime and f = sealed_file
        and ks = "[sample_key 9, sample_key 7]" and c = "(Some (lit ''k''), Some 0, 0)"
        and r = "(sample_license, sample_claims)" and k = "sample_key 7"]
    by (simp add: usable_keys_def license_signed_def) (simp add: sealed_file_def)
  then show ?thesis by (simp add: license_file_verify_with_key_set_def)
qed

lemma license_authentic_witness:
  "\<exists>i attributes. (i, attributes, sample_claims) \<in> {(lit ''l'', [], sample_claims)} \<and>
     sample_license = license_of i attributes \<and> unexpired sample_claims (Some 0) 0 \<and>
     sample_key 7 \<in> set [sample_key 9, sample_key 7]"
  using license_authentic [where licenses = "{(lit ''l'', [], sample_claims)}" and P = issuer_crypto
      and f = sealed_file, OF _ issuer_accepts] sample_writable sealed_issued
  by (fastforce simp: issued_message_def sealed_payload_def)

end
