(* ===== verification/Policy.thy ===== *)
theory Policy
  imports Json
begin

text \<open>
  Policies and entitlements: \<open>src/src/tamga/models/policy.py\<close> and the reading of the
  \<open>policies\<close> resource in \<open>client.py\<close>.

  Fields the parser copies without looking at them keep the JSON value they had on the wire. The
  heartbeat window is computed from such a value, so it can raise \<open>TypeError\<close>.
\<close>

section \<open>Reading ids and mappings\<close>

text \<open>\<open>UUID(str(v))\<close>.\<close>

definition uuid_of_json :: "runtime \<Rightarrow> json \<Rightarrow> exc + uuid" where
  "uuid_of_json R v = of_option ValueError (uuid_of_str (py_str R v))"

text \<open>
  \<open>dict(v)\<close>: a mapping is copied, any other iterable must yield pairs. Keys that are not
  text cannot be met by the lookups that follow and are dropped.
\<close>

fun dict_of_pairs :: "pydict \<Rightarrow> json list \<Rightarrow> exc + pydict" where
  "dict_of_pairs m [] = Inr m"
| "dict_of_pairs m (x # xs) =
     rbind (py_iter x) (\<lambda>pair.
       (case pair of
          [k, v] \<Rightarrow>
            (case k of
               JStr s \<Rightarrow> dict_of_pairs (dict_set m s v) xs
             | JArr _ \<Rightarrow> Inl TypeError
             | JObj _ \<Rightarrow> Inl TypeError
             | _ \<Rightarrow> dict_of_pairs m xs)
        | _ \<Rightarrow> Inl ValueError))"

definition py_dict :: "json \<Rightarrow> exc + pydict" where
  "py_dict v = (case v of JObj m \<Rightarrow> Inr m | _ \<Rightarrow> rbind (py_iter v) (dict_of_pairs []))"

lemma py_dict_JObj [simp]: "py_dict (JObj m) = Inr m"
  by (simp add: py_dict_def)

lemma uuid_of_json_uuid [simp]: "u < 2 ^ 128 \<Longrightarrow> uuid_of_json R (JStr (str_of_uuid u)) = Inr u"
  by (simp add: uuid_of_json_def uuid_of_str_of_uuid)

lemma uuid_of_json_Inl: "uuid_of_json R v = Inl e \<Longrightarrow> e = ValueError"
  by (simp add: uuid_of_json_def)

lemma raises_only_uuid_of_json [raises_intros]: "E ValueError \<Longrightarrow> raises_only E (uuid_of_json R v)"
  unfolding uuid_of_json_def by (intro raises_intros)

section \<open>Policies\<close>

definition default_heartbeat_duration_seconds :: int where
  "default_heartbeat_duration_seconds = 600"

definition removed_phantom_limits :: "pystr list" where
  "removed_phantom_limits = [lit ''max_memory'', lit ''max_disk'']"

record policy_resource =
  po_id :: uuid
  po_overage_strategy :: overage_strategy
  po_heartbeat_cull_strategy :: heartbeat_cull_strategy
  po_heartbeat_resurrection_strategy :: heartbeat_resurrection_strategy
  po_check_in_interval :: "check_in_interval option"
  po_require_check_in :: bool
  po_scheme :: "license_scheme option"
  po_expiration_strategy :: json
  po_renewal_basis :: json
  po_authentication_strategy :: json
  po_max_machines :: json
  po_max_cores :: json
  po_max_processes :: json
  po_heartbeat_duration :: json
  po_require_heartbeat :: bool
  po_machine_uniqueness_strategy :: json

text \<open>
  \<open>__getattr__\<close>, reached for a name that is not a field: the removed limits still read as
  \<open>None\<close>. The deprecation warning it emits is not modelled.
\<close>

definition policy_getattr :: "pystr \<Rightarrow> exc + json" where
  "policy_getattr name = (if name \<in> set removed_phantom_limits then Inr JNull else Inl AttributeError)"

text \<open>\<open>v <= 0\<close> on a JSON value.\<close>

definition py_nonpositive :: "json \<Rightarrow> exc + bool" where
  "py_nonpositive v =
     (case v of
        JInt i \<Rightarrow> Inr (i \<le> 0)
      | JBool b \<Rightarrow> Inr (\<not> b)
      | JFloat f \<Rightarrow> Inr (\<not> float_is_nan f \<and> (float_negative f \<or> float_is_zero f))
      | _ \<Rightarrow> Inl TypeError)"

definition effective_heartbeat_window_seconds :: "policy_resource \<Rightarrow> exc + json" where
  "effective_heartbeat_window_seconds p =
     (if po_heartbeat_duration p = JNull then Inr (JInt default_heartbeat_duration_seconds)
      else rbind (py_nonpositive (po_heartbeat_duration p)) (\<lambda>nonpositive.
        Inr (if nonpositive then JInt default_heartbeat_duration_seconds
             else po_heartbeat_duration p)))"

text \<open>
  \<open>E(raw) if raw is not None else d\<close>, and the same call in a \<open>try\<close> whose handler takes
  the default as well.
\<close>

definition optional_member :: "(json \<Rightarrow> 'm option) \<Rightarrow> 'm \<Rightarrow> json \<Rightarrow> exc + 'm" where
  "optional_member construct d raw =
     (if raw = JNull then Inr d else of_option ValueError (construct raw))"

definition lenient_member :: "(json \<Rightarrow> 'm option) \<Rightarrow> 'm \<Rightarrow> json \<Rightarrow> exc + 'm" where
  "lenient_member construct d raw =
     except_value (\<lambda>e. e = ValueError) d (optional_member construct d raw)"

definition policy_from_api :: "runtime \<Rightarrow> pydict \<Rightarrow> exc + policy_resource" where
  "policy_from_api R attributes =
     (let get = (\<lambda>k d. dict_get attributes (lit k) d) in
      rbind (lenient_member (enum_of overage_strategies overage_strategy_value) NO_OVERAGE
               (get ''overage_strategy'' JNull)) (\<lambda>overage.
      rbind (lenient_member (enum_of resurrection_strategies resurrection_strategy_value) NO_REVIVE
               (get ''heartbeat_resurrection_strategy'' JNull)) (\<lambda>resurrection.
      rbind (optional_member (enum_of cull_strategies cull_strategy_value) DEACTIVATE_DEAD
               (get ''heartbeat_cull_strategy'' JNull)) (\<lambda>cull.
      rbind (optional_member (map_option Some \<circ> check_in_interval_of) None
               (get ''check_in_interval'' JNull)) (\<lambda>check_in.
      rbind (optional_member (map_option Some \<circ> enum_of license_schemes license_scheme_value) None
               (get ''scheme'' JNull)) (\<lambda>scheme.
      rbind (case map_of attributes (lit ''id'') of
               None \<Rightarrow> Inr 0 | Some raw_id \<Rightarrow> uuid_of_json R raw_id) (\<lambda>i.
        Inr \<lparr>po_id = i,
          po_overage_strategy = overage,
          po_heartbeat_cull_strategy = cull,
          po_heartbeat_resurrection_strategy = resurrection,
          po_check_in_interval = check_in,
          po_require_check_in = py_truthy (get ''require_check_in'' (JBool False)),
          po_scheme = scheme,
          po_expiration_strategy = get ''expiration_strategy'' (JStr (lit ''RESTRICT_ACCESS'')),
          po_renewal_basis = get ''renewal_basis'' (JStr (lit ''FROM_EXPIRY'')),
          po_authentication_strategy = get ''authentication_strategy'' (JStr (lit ''TOKEN'')),
          po_max_machines = get ''max_machines'' JNull,
          po_max_cores = get ''max_cores'' JNull,
          po_max_processes = get ''max_processes'' JNull,
          po_heartbeat_duration = get ''heartbeat_duration'' JNull,
          po_require_heartbeat = py_truthy (get ''require_heartbeat'' (JBool False)),
          po_machine_uniqueness_strategy =
            get ''machine_uniqueness_strategy'' (JStr (lit ''UNIQUE_PER_LICENSE''))\<rparr>)))))))"

text \<open>\<open>client._parse_policy_resource\<close>: the id of the resource object joins its attributes.\<close>

definition parse_policy_resource :: "runtime \<Rightarrow> json \<Rightarrow> exc + policy_resource" where
  "parse_policy_resource R data =
     rbind (py_get data (lit ''attributes'') JNull) (\<lambda>raw.
     rbind (py_dict (py_or raw (JObj []))) (\<lambda>attributes.
     rbind (py_item data (lit ''id'')) (\<lambda>i.
       policy_from_api R
         (if map_of attributes (lit ''id'') = None then dict_set attributes (lit ''id'') i
          else attributes))))"

section \<open>Entitlements\<close>

record entitlement =
  en_id :: uuid
  en_name :: json
  en_code :: json
  en_kind :: json
  en_metadata :: json
  en_created :: "datetime option"
  en_updated :: "datetime option"
  en_inherited :: json
  en_max_value :: json
  en_current_value :: json

section \<open>What a policy read accepts\<close>

lemma optional_member_Inr:
  "(\<exists>m. optional_member construct d raw = Inr m) \<longleftrightarrow> raw = JNull \<or> construct raw \<noteq> None"
  by (auto simp: optional_member_def)

lemma optional_member_Inl: "optional_member construct d raw = Inl e \<Longrightarrow> e = ValueError"
  by (auto simp: optional_member_def split: if_splits)

lemma lenient_member_eq:
  "lenient_member construct d raw = Inr (case construct raw of Some m \<Rightarrow> if raw = JNull then d else m | None \<Rightarrow> d)"
  by (cases "construct raw") (auto simp: lenient_member_def optional_member_def)

text \<open>The members of an enumeration that a wire value may be absent from or must name.\<close>

lemma optional_closed_enum:
  assumes "closed_enum members val"
  shows "optional_member (enum_of members val) d raw = Inr m \<longleftrightarrow>
    raw = JNull \<and> m = d \<or> raw = JStr (val m)"
proof -
  have member: "enum_of members val raw = Some m \<longleftrightarrow> raw = JStr (val m)"
    by (rule closed_enum.of_iff [OF assms])
  show ?thesis
    by (cases "raw = JNull") (auto simp: optional_member_def member)
qed

lemma optional_member_ok:
  assumes "closed_enum members val"
  shows "(\<exists>m. optional_member (map_option g \<circ> enum_of members val) d raw = Inr m) \<longleftrightarrow>
    raw = JNull \<or> (\<exists>m. raw = JStr (val m))"
    "(\<exists>m. optional_member (enum_of members val) d' raw = Inr m) \<longleftrightarrow>
    raw = JNull \<or> (\<exists>m. raw = JStr (val m))"
  using closed_enum.of_none_iff [OF assms, of raw] by (auto simp: optional_member_Inr)

lemma check_in_readable:
  "(\<exists>m. optional_member (map_option Some \<circ> check_in_interval_of) None raw = Inr m) \<longleftrightarrow>
     raw = JNull \<or> (\<exists>s k. raw = JStr s \<and> py_lower (strip py_isspace s) \<in> set (check_in_spellings k))"
proof -
  have "check_in_interval_of raw \<noteq> None \<longleftrightarrow>
      (\<exists>s k. raw = JStr s \<and> py_lower (strip py_isspace s) \<in> set (check_in_spellings k))" if "raw \<noteq> JNull"
  proof (cases raw)
    case (JStr s)
    then show ?thesis by (auto simp flip: check_in_interval_of_iff)
  qed (auto simp: check_in_interval_of_def check_in_missing_def enum_of_def)
  then show ?thesis by (auto simp: optional_member_Inr)
qed

definition id_readable :: "runtime \<Rightarrow> pydict \<Rightarrow> bool" where
  "id_readable R m \<longleftrightarrow>
     (case map_of m (lit ''id'') of None \<Rightarrow> True | Some i \<Rightarrow> uuid_of_str (py_str R i) \<noteq> None)"

definition policy_readable :: "runtime \<Rightarrow> pydict \<Rightarrow> bool" where
  "policy_readable R m \<longleftrightarrow>
     (let cull = dict_get m (lit ''heartbeat_cull_strategy'') JNull;
          check_in = dict_get m (lit ''check_in_interval'') JNull;
          scheme = dict_get m (lit ''scheme'') JNull
      in (cull = JNull \<or> (\<exists>c. cull = JStr (cull_strategy_value c))) \<and>
         (check_in = JNull \<or>
            (\<exists>s k. check_in = JStr s \<and> py_lower (strip py_isspace s) \<in> set (check_in_spellings k))) \<and>
         (scheme = JNull \<or> (\<exists>c. scheme = JStr (license_scheme_value c))) \<and>
         id_readable R m)"

lemma id_readable_iff:
  "(\<exists>i. (case map_of m (lit ''id'') of None \<Rightarrow> Inr 0 | Some raw \<Rightarrow> uuid_of_json R raw) = Inr i) \<longleftrightarrow>
     id_readable R m"
  by (auto simp: id_readable_def uuid_of_json_def split: option.splits)

lemma rbind_returns: "(\<exists>y. rbind r f = Inr y) \<longleftrightarrow> (\<exists>x. r = Inr x \<and> (\<exists>y. f x = Inr y))"
  by (auto simp: rbind_Inr_iff)

lemma policy_from_api_Inr:
  "(\<exists>p. policy_from_api R m = Inr p) \<longleftrightarrow> policy_readable R m"
  unfolding policy_from_api_def policy_readable_def Let_def lenient_member_eq rbind_simps rbind_returns
  by (simp only: sum.inject simp_thms ex_simps optional_member_ok(2) [OF cull_enum.closed_enum_axioms]
      check_in_readable optional_member_ok(1) [OF scheme_enum.closed_enum_axioms] id_readable_iff)

lemma raises_only_optional_member [raises_intros]:
  "E ValueError \<Longrightarrow> raises_only E (optional_member construct d raw)"
  unfolding optional_member_def by (intro raises_intros)

lemma raises_only_policy_from_api [raises_intros]:
  "E ValueError \<Longrightarrow> raises_only E (policy_from_api R m)"
  unfolding policy_from_api_def Let_def lenient_member_eq by (intro raises_intros)

text \<open>
  C38: which policy attributes are refused. \<open>from_api\<close> raises nothing but
  \<open>ValueError\<close>, and it does so exactly when the cull strategy or the scheme is not one of the
  documented names, the check-in cadence is not a spelling of one of the four, or the id is not a
  UUID; the overage and resurrection strategies never stop it.
\<close>

theorem policy_read_refused_iff:
  "policy_from_api R m = Inl e \<longleftrightarrow> e = ValueError \<and> \<not> policy_readable R m"
proof (cases "policy_from_api R m")
  case (Inl x)
  then have "x = ValueError"
    using raises_only_policy_from_api [of "\<lambda>e. e = ValueError"] by (simp add: raises_only_def)
  with Inl show ?thesis using policy_from_api_Inr [where R = R and m = m] by auto
next
  case (Inr p)
  then show ?thesis using policy_from_api_Inr [where R = R and m = m] by auto
qed

interpretation overage_read: lenient_enum overage_strategies overage_strategy_value NO_OVERAGE
  "lenient_member (enum_of overage_strategies overage_strategy_value) NO_OVERAGE"
  by unfold_locales (auto simp: lenient_member_eq enum_of_def split: option.split)

interpretation resurrection_read: lenient_enum resurrection_strategies resurrection_strategy_value NO_REVIVE
  "lenient_member (enum_of resurrection_strategies resurrection_strategy_value) NO_REVIVE"
  by unfold_locales (auto simp: lenient_member_eq enum_of_def split: option.split)

text \<open>
  C39: the lenient fields of a policy. Of a policy that is read, the overage strategy is the one
  its attribute names and \<open>NO_OVERAGE\<close> for every other value, \<open>DENY_ACCESS\<close> included;
  the resurrection strategy likewise, with \<open>NO_REVIVE\<close>; a cadence is present exactly when
  the attribute spells it.
\<close>

theorem policy_read_lenient_fields:
  assumes "policy_from_api R m = Inr p"
  shows "(po_overage_strategy p = s \<longleftrightarrow>
        dict_get m (lit ''overage_strategy'') JNull = JStr (overage_strategy_value s) \<or>
        s = NO_OVERAGE \<and> (\<nexists>j. dict_get m (lit ''overage_strategy'') JNull = JStr (overage_strategy_value j)))
    \<and> (po_heartbeat_resurrection_strategy p = r \<longleftrightarrow>
        dict_get m (lit ''heartbeat_resurrection_strategy'') JNull = JStr (resurrection_strategy_value r) \<or>
        r = NO_REVIVE \<and>
        (\<nexists>j. dict_get m (lit ''heartbeat_resurrection_strategy'') JNull = JStr (resurrection_strategy_value j)))
    \<and> (po_check_in_interval p = Some c \<longleftrightarrow>
        (\<exists>t. dict_get m (lit ''check_in_interval'') JNull = JStr t \<and>
             py_lower (strip py_isspace t) \<in> set (check_in_spellings c)))"
proof -
  have o: "lenient_member (enum_of overage_strategies overage_strategy_value) NO_OVERAGE
        (dict_get m (lit ''overage_strategy'') JNull) = Inr (po_overage_strategy p)"
    and h: "lenient_member (enum_of resurrection_strategies resurrection_strategy_value) NO_REVIVE
        (dict_get m (lit ''heartbeat_resurrection_strategy'') JNull) = Inr (po_heartbeat_resurrection_strategy p)"
    and k: "optional_member (map_option Some \<circ> check_in_interval_of) None
        (dict_get m (lit ''check_in_interval'') JNull) = Inr (po_check_in_interval p)"
    using assms by (auto simp: policy_from_api_def Let_def rbind_Inr_iff)
  have "po_check_in_interval p = Some c \<longleftrightarrow>
      (\<exists>t. dict_get m (lit ''check_in_interval'') JNull = JStr t \<and>
           py_lower (strip py_isspace t) \<in> set (check_in_spellings c))"
  proof (cases "dict_get m (lit ''check_in_interval'') JNull")
    case (JStr t)
    with k show ?thesis
      by (auto simp: optional_member_def simp flip: check_in_interval_of_iff)
  qed (use k in \<open>auto simp: optional_member_def check_in_interval_of_def check_in_missing_def enum_of_def\<close>)
  then show ?thesis
    using overage_read.read_iff [of "dict_get m (lit ''overage_strategy'') JNull" s]
      resurrection_read.read_iff [of "dict_get m (lit ''heartbeat_resurrection_strategy'') JNull" r]
    by (simp add: o h)
qed

text \<open>An instance: a policy whose overage strategy is the legacy \<open>DENY_ACCESS\<close> and whose cadence is a noun.\<close>

definition sample_policy_attributes :: pydict where
  "sample_policy_attributes =
     [(lit ''overage_strategy'', JStr (lit ''DENY_ACCESS'')), (lit ''check_in_interval'', JStr (lit '' Week'')),
      (lit ''heartbeat_duration'', JInt 120)]"

lemma policy_read_lenient_fields_witness:
  "\<exists>p. policy_from_api sample_runtime sample_policy_attributes = Inr p \<and>
     po_overage_strategy p = NO_OVERAGE \<and> po_check_in_interval p = Some WEEKLY"
proof -
  have week: "py_lower (strip py_isspace (lit '' Week'')) = lit ''week''"
    by (simp add: lit_def strip_def lstrip_def rstrip_def py_isspace_def py_lower_def lower_char_def)
  have "policy_readable sample_runtime sample_policy_attributes"
    by (simp add: policy_readable_def sample_policy_attributes_def id_readable_def)
      (use week in \<open>auto simp: check_in_spellings_def intro!: exI [of _ WEEKLY]\<close>)
  then obtain p where p: "policy_from_api sample_runtime sample_policy_attributes = Inr p"
    using policy_from_api_Inr by blast
  have "lit ''DENY_ACCESS'' \<noteq> overage_strategy_value j" for j by (cases j) simp_all
  then show ?thesis
    using policy_read_lenient_fields [OF p, of NO_OVERAGE NO_REVIVE WEEKLY] p week
    by (auto simp: sample_policy_attributes_def check_in_spellings_def)
qed

end
