(* ===== verification/Transport.thy ===== *)
theory Transport
  imports Error_Parsing
begin

text \<open>
  \<open>src/src/tamga/transport.py\<close>: base URLs, the version header, the four auth transports and
  the reading of a response. httpx is not part of the source: a response is its status, its body
  and a lookup of its headers.
\<close>

section \<open>URLs and the version header\<close>

definition max_tamga_version_length :: nat where
  "max_tamga_version_length = 32"

definition json_api_content_type :: pystr where
  "json_api_content_type = lit ''application/vnd.api+json''"

definition build_root_url :: "pystr \<Rightarrow> pystr" where
  "build_root_url host =
     (let stripped = strip py_isspace host;
          scheme = (if startswith (lit ''http://'') stripped then lit ''http'' else lit ''https'');
          normalized_host = removeprefix (lit ''http://'') (removeprefix (lit ''https://'') stripped);
          normalized_host = rstrip (\<lambda>c. c = 47) normalized_host
      in scheme @ lit ''://'' @ normalized_host)"

definition build_base_url :: "pystr \<Rightarrow> pystr \<Rightarrow> pystr" where
  "build_base_url host account_id =
     (let stripped = strip py_isspace host;
          scheme = (if startswith (lit ''http://'') stripped then lit ''http'' else lit ''https'');
          normalized_host = removeprefix (lit ''http://'') (removeprefix (lit ''https://'') stripped);
          normalized_host = rstrip (\<lambda>c. c = 47) normalized_host
      in scheme @ lit ''://'' @ normalized_host @ lit ''/v1/accounts/'' @ account_id)"

definition version_char_ok :: "runtime \<Rightarrow> nat \<Rightarrow> bool" where
  "version_char_ok R c \<longleftrightarrow> py_isalnum R c \<or> c \<in> set (lit ''.-'')"

definition sanitize_tamga_version :: "runtime \<Rightarrow> pystr \<Rightarrow> exc + pystr" where
  "sanitize_tamga_version R version =
     (let sanitized = take max_tamga_version_length (filter (version_char_ok R) version) in
      if sanitized = [] then Inl ValueError else Inr sanitized)"

section \<open>Auth transports\<close>

text \<open>\<open>BasicAuth\<close> holds its email, password, token and license key.\<close>

datatype auth =
    BearerAuth pystr
  | BasicAuth "pystr option" "pystr option" "pystr option" "pystr option"
  | LicenseAuth pystr
  | QueryParamAuth pystr pystr

type_synonym headers = "(pystr \<times> pystr) list"

fun basic_user_pass :: "auth \<Rightarrow> exc + pystr" where
  "basic_user_pass (BasicAuth (Some email) password _ _) =
     Inr (email @ lit '':'' @ (case password of None \<Rightarrow> [] | Some p \<Rightarrow> p))"
| "basic_user_pass (BasicAuth None _ (Some token) _) = Inr (token @ lit '':'')"
| "basic_user_pass (BasicAuth None _ None (Some key)) = Inr (lit ''license:'' @ key)"
| "basic_user_pass _ = Inl ValueError"

fun apply_auth :: "headers \<Rightarrow> pydict \<Rightarrow> auth \<Rightarrow> exc + headers \<times> pydict" where
  "apply_auth hs ps (BearerAuth token) =
     Inr (dict_set hs (lit ''Authorization'') (lit ''Bearer '' @ token), ps)"
| "apply_auth hs ps (BasicAuth email password token key) =
     rbind (basic_user_pass (BasicAuth email password token key)) (\<lambda>user_pass.
     rbind (of_option UnicodeEncodeError (utf8_encode user_pass)) (\<lambda>encoded.
       Inr (dict_set hs (lit ''Authorization'') (lit ''Basic '' @ b64encode encoded), ps)))"
| "apply_auth hs ps (LicenseAuth key) =
     Inr (dict_set hs (lit ''Authorization'') (lit ''License '' @ key), ps)"
| "apply_auth hs ps (QueryParamAuth val name) = Inr (hs, dict_set ps name (JStr val))"

section \<open>Responses\<close>

record http_response =
  rs_status :: int
  rs_content :: bytes
  rs_header :: "pystr \<Rightarrow> pystr option"

record tamga_response =
  tr_data :: json
  tr_tamga_version :: "pystr option"
  tr_tamga_edition :: "pystr option"
  tr_tamga_mode :: "pystr option"
  tr_request_id :: "pystr option"

definition parse_retry_after :: "http_response \<Rightarrow> int option" where
  "parse_retry_after r =
     (case rs_header r (lit ''Retry-After'') of
        None \<Rightarrow> None
      | Some raw \<Rightarrow> int_of_str 10 (strip py_isspace raw))"

text \<open>\<open>raise parse_error_envelope(...)\<close>.\<close>

definition raise_envelope :: "runtime \<Rightarrow> http_response \<Rightarrow> int option \<Rightarrow> exc + 'a" where
  "raise_envelope R r retry_after =
     rbind (parse_error_envelope R (rs_status r) (rs_content r) retry_after) (\<lambda>e. Inl (TamgaError e))"

definition response_body :: "runtime \<Rightarrow> http_response \<Rightarrow> exc + json" where
  "response_body R r = (if rs_content r = [] then Inr JNull else json_loads R (rs_content r))"

definition parse_response :: "runtime \<Rightarrow> http_response \<Rightarrow> bool \<Rightarrow> exc + tamga_response" where
  "parse_response R r is_quick_validate =
     (if 400 \<le> rs_status r then raise_envelope R r (parse_retry_after r)
      else rbind (response_body R r) (\<lambda>body.
           rbind (if is_quick_validate \<or> body = JNull then Inr body else py_get body (lit ''data'') body)
             (\<lambda>data.
             Inr \<lparr>tr_data = data,
               tr_tamga_version = rs_header r (lit ''Tamga-Version''),
               tr_tamga_edition = rs_header r (lit ''Tamga-Edition''),
               tr_tamga_mode = rs_header r (lit ''Tamga-Mode''),
               tr_request_id = rs_header r (lit ''X-Request-Id'')\<rparr>)))"

text \<open>\<open>client._raw_response_meta\<close>.\<close>

definition raw_response_meta :: "runtime \<Rightarrow> http_response \<Rightarrow> exc + pydict" where
  "raw_response_meta R r =
     (if rs_content r = [] then Inr []
      else rbind (json_loads R (rs_content r)) (\<lambda>body.
           rbind (py_get body (lit ''meta'') JNull) (\<lambda>meta.
             Inr (case meta of JObj d \<Rightarrow> d | _ \<Rightarrow> []))))"

section \<open>What is shown about them\<close>

lemma base_url_of_root: "build_base_url host account_id = build_root_url host @ lit ''/v1/accounts/'' @ account_id"
  by (simp add: build_base_url_def build_root_url_def Let_def)

lemma root_url_scheme:
  "startswith (lit ''http://'') (build_root_url host) \<longleftrightarrow> startswith (lit ''http://'') (strip py_isspace host)"
  by (simp add: build_root_url_def Let_def startswith_def lit_def)

lemma root_url_https:
  "startswith (lit ''https://'') (build_root_url host) \<longleftrightarrow> \<not> startswith (lit ''http://'') (strip py_isspace host)"
  by (simp add: build_root_url_def Let_def startswith_def lit_def)

lemma sanitize_Inr:
  assumes "sanitize_tamga_version R v = Inr w"
  shows "w \<noteq> []" "length w \<le> 32" "list_all (version_char_ok R) w"
  using assms by (auto simp: sanitize_tamga_version_def Let_def max_tamga_version_length_def
      list_all_iff dest: in_set_takeD split: if_splits)

lemma sanitize_id:
  "w \<noteq> [] \<Longrightarrow> length w \<le> 32 \<Longrightarrow> list_all (version_char_ok R) w \<Longrightarrow> sanitize_tamga_version R w = Inr w"
  by (simp add: sanitize_tamga_version_def Let_def max_tamga_version_length_def list_all_iff)

lemma sanitize_Inl: "sanitize_tamga_version R v = Inl e \<longleftrightarrow> e = ValueError \<and> (\<nexists>c. c \<in> set v \<and> version_char_ok R c)"
  by (auto simp: sanitize_tamga_version_def Let_def max_tamga_version_length_def filter_empty_conv)

lemma raises_only_sanitize [raises_intros]: "E ValueError \<Longrightarrow> raises_only E (sanitize_tamga_version R v)"
  by (auto simp: raises_only_def sanitize_Inl)

lemma raises_only_basic_user_pass [raises_intros]: "E ValueError \<Longrightarrow> raises_only E (basic_user_pass a)"
  by (cases a rule: basic_user_pass.cases) simp_all

lemma raises_only_apply_auth [raises_intros]:
  "E ValueError \<Longrightarrow> E UnicodeEncodeError \<Longrightarrow> raises_only E (apply_auth hs ps a)"
  by (cases a) (simp_all only: apply_auth.simps, auto intro!: raises_intros)

text \<open>Every header value an auth transport sets is under \<open>Authorization\<close>, and a query transport sets none.\<close>

lemma apply_auth_headers:
  "apply_auth hs ps a = Inr (hs', ps') \<Longrightarrow>
     hs' = hs \<or> (\<exists>v. hs' = dict_set hs (lit ''Authorization'') v)"
  by (cases a) (auto simp: rbind_Inr_iff)

text \<open>A status of 400 or above never parses; a response without body has no data.\<close>

lemma parse_response_error: "400 \<le> rs_status r \<Longrightarrow> parse_response R r q \<noteq> Inr t"
  by (auto simp: parse_response_def raise_envelope_def rbind_Inr_iff)

lemma parse_response_empty:
  "rs_status r < 400 \<Longrightarrow> rs_content r = [] \<Longrightarrow> \<exists>t. parse_response R r q = Inr t \<and> tr_data t = JNull"
  by (simp add: parse_response_def response_body_def)

text \<open>A document \<open>{"data": v, ...}\<close> yields \<open>v\<close>; the flat quick-validate body is left as it is.\<close>

lemma parse_response_data:
  assumes "rs_status r < 400" "rs_content r \<noteq> []" "json_loads R (rs_content r) = Inr (JObj d)"
  shows "\<exists>t. parse_response R r False = Inr t \<and> tr_data t = dict_get d (lit ''data'') (JObj d)"
    "\<exists>t. parse_response R r True = Inr t \<and> tr_data t = JObj d"
    "raw_response_meta R r = Inr (case dict_get d (lit ''meta'') JNull of JObj m \<Rightarrow> m | _ \<Rightarrow> [])"
  using assms by (simp_all add: parse_response_def response_body_def raw_response_meta_def)

end
