(* ===== verification/Http_Client.thy ===== *)
theory Http_Client
  imports Complex_Main Transport
begin

text \<open>
  How \<open>src/src/tamga/client.py\<close> sends a request: its assembly, authentication, the
  \<open>429\<close> retry loop and the reading of the answer.

  The world is the sequence of events so far: requests handed to \<open>httpx.Client.request\<close> and
  sleeps. A \<open>client\<close> holds the configuration and what lies outside the source: the answer
  of the server to a request after a given history (\<open>None\<close> when httpx raises, which
  \<open>HttpxError\<close> stands for), the next
  \<open>random.random()\<close> as the 53 bits it is made of, and the clock.

  \<open>exchange\<close> states the retry protocol; \<open>request_loop\<close> is the loop of the source, which
  terminates because the attempts count up to the budget.
\<close>

section \<open>Configuration and world\<close>

record config =
  cf_account_id :: pystr
  cf_host :: pystr
  cf_api_version :: pystr
  cf_default_auth :: "auth option"
  cf_user_agent :: "pystr option"
  cf_max_retries :: int

record http_request =
  rq_method :: pystr
  rq_url :: pystr
  rq_json :: "json option"
  rq_params :: pydict
  rq_headers :: headers

datatype event = Sent http_request | Slept rat

type_synonym history = "event list"

record client =
  cl_config :: config
  cl_runtime :: runtime
  cl_send :: "history \<Rightarrow> http_request \<Rightarrow> http_response option"
  cl_random :: "history \<Rightarrow> 53 word"
  cl_now :: "history \<Rightarrow> datetime"

type_synonym 'a call = "(exc, history, 'a) eff"

definition max_page_size :: int where
  "max_page_size = 100"

definition answer :: "client \<Rightarrow> history \<Rightarrow> http_request \<Rightarrow> exc + http_response" where
  "answer C h rq = of_option HttpxError (cl_send C h rq)"

definition http_request_call :: "client \<Rightarrow> http_request \<Rightarrow> http_response call" where
  "http_request_call C rq h = (answer C h rq, h @ [Sent rq])"

definition random_random :: "client \<Rightarrow> history \<Rightarrow> rat" where
  "random_random C h = of_nat (unat (cl_random C h)) / 2 ^ 53"

text \<open>\<open>time.sleep\<close>: a number of nanoseconds beyond 64 bits and a negative duration are refused.\<close>

definition sleep :: "rat \<Rightarrow> unit call" where
  "sleep d h =
     (if d * 10 ^ 9 < - (2 ^ 63) \<or> 2 ^ 63 \<le> d * 10 ^ 9 then (Inl OverflowError, h)
      else if d < 0 then (Inl ValueError, h)
      else (Inr (), h @ [Slept d]))"

section \<open>Retrying\<close>

definition retryable_post_suffixes :: "pystr list" where
  "retryable_post_suffixes =
     [lit ''/actions/validate'', lit ''/actions/validate-key'', lit ''/actions/check-in'',
      lit ''/actions/check-out'', lit ''/actions/ping'', lit ''/actions/ping-heartbeat'',
      lit ''/actions/reset-heartbeat'']"

definition is_retryable :: "pystr \<Rightarrow> pystr \<Rightarrow> bool" where
  "is_retryable verb path =
     (if py_upper verb = lit ''GET'' then True
      else py_upper verb = lit ''POST'' \<and> list_ex (\<lambda>s. endswith s path) retryable_post_suffixes)"

text \<open>
  \<open>float(n)\<close> of an integer: too large a magnitude raises. The value is exact below \<open>2 ^ 53\<close>,
  and the only larger ones that reach it here are negative, which \<open>sleep\<close> refuses whatever the
  rounding.
\<close>

definition float_of_int :: "int \<Rightarrow> exc + rat" where
  "float_of_int n = (if \<bar>n\<bar> < 2 ^ 1024 - 2 ^ 970 then Inr (of_int n) else Inl OverflowError)"

definition retry_delay :: "client \<Rightarrow> nat \<Rightarrow> int option \<Rightarrow> rat call" where
  "retry_delay C attempt retry_after h =
     (case retry_after of
        Some seconds \<Rightarrow> (float_of_int (min seconds 60), h)
      | None \<Rightarrow> (Inr (2 ^ min attempt 5 + random_random C h), h))"

function request_loop :: "client \<Rightarrow> bool \<Rightarrow> http_request \<Rightarrow> nat \<Rightarrow> http_response call" where
  "request_loop C retryable rq attempt h =
     (case http_request_call C rq h of
        (Inl e, h1) \<Rightarrow> (Inl e, h1)
      | (Inr r, h1) \<Rightarrow>
          (if rs_status r \<noteq> 429 \<or> \<not> retryable \<or> cf_max_retries (cl_config C) \<le> int attempt
           then (Inr r, h1)
           else (case ebind (retry_delay C attempt (parse_retry_after r)) sleep h1 of
                   (Inl e, h2) \<Rightarrow> (Inl e, h2)
                 | (Inr _, h2) \<Rightarrow> request_loop C retryable rq (Suc attempt) h2)))"
  by pat_completeness auto
termination
  by (relation "measure (\<lambda>(C, _, _, attempt, _). nat (cf_max_retries (cl_config C)) - attempt)") auto

declare request_loop.simps [simp del]

definition request_with_retry :: "client \<Rightarrow> http_request \<Rightarrow> http_response call" where
  "request_with_retry C rq = request_loop C (is_retryable (rq_method rq) (rq_url rq)) rq 0"

section \<open>Sending\<close>

text \<open>The headers and the request \<open>_send_raw_response\<close> assembles before anything is sent.\<close>

definition request_headers :: "config \<Rightarrow> pystr \<Rightarrow> bool \<Rightarrow> headers" where
  "request_headers cf version is_quick_validate =
     (let headers = [(lit ''Tamga-Version'', version)];
          headers = (if is_quick_validate then headers
                     else dict_set headers (lit ''Content-Type'') json_api_content_type)
      in case cf_user_agent cf of
           Some agent \<Rightarrow> if agent = [] then headers else dict_set headers (lit ''User-Agent'') agent
         | None \<Rightarrow> headers)"

definition prepare_request ::
  "client \<Rightarrow> pystr \<Rightarrow> pystr \<Rightarrow> json option \<Rightarrow> pydict \<Rightarrow> auth option \<Rightarrow> bool \<Rightarrow> exc + http_request" where
  "prepare_request C verb path json_body params auth_override is_quick_validate =
     rbind (sanitize_tamga_version (cl_runtime C) (cf_api_version (cl_config C))) (\<lambda>version.
       let headers = request_headers (cl_config C) version is_quick_validate;
           auth = (case auth_override of Some a \<Rightarrow> Some a | None \<Rightarrow> cf_default_auth (cl_config C))
       in rbind (case auth of None \<Rightarrow> Inr (headers, params) | Some a \<Rightarrow> apply_auth headers params a)
            (\<lambda>(hs, ps). Inr \<lparr>rq_method = verb, rq_url = path, rq_json = json_body, rq_params = ps,
               rq_headers = hs\<rparr>))"

definition send_raw_response ::
  "client \<Rightarrow> pystr \<Rightarrow> pystr \<Rightarrow> json option \<Rightarrow> pydict \<Rightarrow> auth option \<Rightarrow> bool \<Rightarrow> http_response call" where
  "send_raw_response C verb path json_body params auth_override is_quick_validate =
     ebind (lift (prepare_request C verb path json_body params auth_override is_quick_validate))
       (request_with_retry C)"

definition send_request_raw ::
  "client \<Rightarrow> pystr \<Rightarrow> pystr \<Rightarrow> json option \<Rightarrow> pydict \<Rightarrow> auth option \<Rightarrow> bool \<Rightarrow> tamga_response call" where
  "send_request_raw C verb path json_body params auth_override is_quick_validate =
     ebind (send_raw_response C verb path json_body params auth_override is_quick_validate)
       (\<lambda>r. lift (parse_response (cl_runtime C) r is_quick_validate))"

definition send_request ::
  "client \<Rightarrow> pystr \<Rightarrow> pystr \<Rightarrow> json option \<Rightarrow> pydict \<Rightarrow> auth option \<Rightarrow> bool \<Rightarrow> json call" where
  "send_request C verb path json_body params auth_override is_quick_validate =
     ebind (send_request_raw C verb path json_body params auth_override is_quick_validate)
       (\<lambda>t. ret (tr_data t))"

definition send_request_with_meta ::
  "client \<Rightarrow> pystr \<Rightarrow> pystr \<Rightarrow> json option \<Rightarrow> pydict \<Rightarrow> (json \<times> pydict) call" where
  "send_request_with_meta C verb path json_body params =
     ebind (send_raw_response C verb path json_body params None False) (\<lambda>r.
     ebind (lift (parse_response (cl_runtime C) r False)) (\<lambda>t.
     ebind (lift (raw_response_meta (cl_runtime C) r)) (\<lambda>meta. ret (tr_data t, meta))))"

text \<open>\<open>_client_request\<close>, for the sub-clients that assemble their own headers.\<close>

definition client_request ::
  "client \<Rightarrow> pystr \<Rightarrow> pystr \<Rightarrow> json option \<Rightarrow> pydict \<Rightarrow> headers \<Rightarrow> http_response call" where
  "client_request C verb path json_body params headers =
     request_with_retry C \<lparr>rq_method = verb, rq_url = path, rq_json = json_body, rq_params = params,
       rq_headers = headers\<rparr>"

section \<open>The retry protocol\<close>

text \<open>
  \<open>exchange C rq n h rs h'\<close>: from history \<open>h\<close>, starting with attempt \<open>n\<close>, the
  request was sent once for every response of \<open>rs\<close>; each but the last was a \<open>429\<close>, and
  was followed by the delay the protocol prescribes.
\<close>

inductive exchange ::
  "client \<Rightarrow> http_request \<Rightarrow> nat \<Rightarrow> history \<Rightarrow> http_response list \<Rightarrow> history \<Rightarrow> bool"
  for C :: client and rq :: http_request where
  answered: "answer C h rq = Inr r \<Longrightarrow> exchange C rq n h [r] (h @ [Sent rq])"
| throttled: "answer C h rq = Inr r \<Longrightarrow> rs_status r = 429 \<Longrightarrow>
    retry_delay C n (parse_retry_after r) (h @ [Sent rq]) = (Inr d, h @ [Sent rq]) \<Longrightarrow>
    sleep d (h @ [Sent rq]) = (Inr (), h @ [Sent rq, Slept d]) \<Longrightarrow>
    exchange C rq (Suc n) (h @ [Sent rq, Slept d]) rs h' \<Longrightarrow> exchange C rq n h (r # rs) h'"

inductive_cases exchange_NilE: "exchange C rq n h [] h'"
inductive_cases exchange_ConsE: "exchange C rq n h (r # rs) h'"

lemma exchange_not_Nil [simp]: "\<not> exchange C rq n h [] h'"
  by (blast elim: exchange_NilE)

lemma http_request_call_eq: "http_request_call C rq h = (answer C h rq, h @ [Sent rq])"
  by (simp add: http_request_call_def)

lemma sleep_Inr: "sleep d h = (Inr u, h') \<longleftrightarrow> 0 \<le> d \<and> d * 10 ^ 9 < 2 ^ 63 \<and> h' = h @ [Slept d]"
  by (auto simp: sleep_def)

lemma random_random_bounds: "0 \<le> random_random C h" "random_random C h < 1"
proof -
  have "unat (cl_random C h) < 2 ^ 53" using unsigned_less [of "cl_random C h"] by simp
  then have "(of_nat (unat (cl_random C h)) :: rat) < of_nat (2 ^ 53)" by (rule of_nat_less_iff [THEN iffD2])
  then show "random_random C h < 1" by (simp add: random_random_def)
qed (unfold random_random_def, intro divide_nonneg_pos of_nat_0_le_iff, simp)

lemma retry_delay_history: "snd (retry_delay C n ra h) = h"
  by (cases ra) (simp_all add: retry_delay_def)

lemma retry_delay_bound:
  assumes "retry_delay C n ra h = (Inr d, h')"
  shows "d \<le> 60"
proof (cases ra)
  case None
  have "(2 :: rat) ^ min n 5 \<le> 2 ^ 5" by (rule power_increasing) simp_all
  moreover have "random_random C h < 1" by (rule random_random_bounds)
  ultimately show ?thesis using assms None by (auto simp: retry_delay_def)
next
  case (Some s)
  have "(of_int (min s 60) :: rat) \<le> of_int 60" by (rule of_int_le_iff [THEN iffD2]) simp
  then show ?thesis
    using assms Some by (auto simp: retry_delay_def float_of_int_def split: if_splits)
qed

text \<open>What a pause did: the delay was computed and slept, or an exception came of one of the two.\<close>

lemma pause_cases:
  obtains e where "ebind (retry_delay C n ra) sleep h = (Inl e, h)"
  | d where "retry_delay C n ra h = (Inr d, h)" "sleep d h = (Inr (), h @ [Slept d])"
      "ebind (retry_delay C n ra) sleep h = (Inr (), h @ [Slept d])" "0 \<le> d" "d \<le> 60"
proof (cases "retry_delay C n ra h")
  case (Pair v h1)
  then have h1: "h1 = h" using retry_delay_history [of C n ra h] by simp
  show ?thesis
  proof (cases v)
    case (Inl e)
    with Pair h1 that(1) show ?thesis by (simp add: ebind_def)
  next
    case (Inr d)
    have "d \<le> 60" using Pair Inr retry_delay_bound by blast
    have run: "ebind (retry_delay C n ra) sleep h = sleep d h"
      using Pair Inr h1 by (simp add: ebind_step(2))
    show ?thesis
    proof (cases "0 \<le> d \<and> d * 10 ^ 9 < 2 ^ 63")
      case True
      then have "sleep d h = (Inr (), h @ [Slept d])" by (simp add: sleep_Inr)
      with run True \<open>d \<le> 60\<close> that(2) Pair Inr h1 show ?thesis by simp
    next
      case False
      then have "sleep d h = (Inl (if d * 10 ^ 9 < - (2 ^ 63) \<or> 2 ^ 63 \<le> d * 10 ^ 9
          then OverflowError else ValueError), h)"
        by (auto simp: sleep_def not_le not_less)
      with run that(1) show ?thesis by simp
    qed
  qed
qed

text \<open>How many more times the loop may send, from its attempt counter.\<close>

definition budget :: "client \<Rightarrow> bool \<Rightarrow> nat" where
  "budget C retryable = (if retryable then nat (cf_max_retries (cl_config C)) else 0)"

lemma request_loop_step:
  "request_loop C retryable rq n h =
     (case answer C h rq of
        Inl e \<Rightarrow> (Inl e, h @ [Sent rq])
      | Inr r \<Rightarrow>
          (if rs_status r \<noteq> 429 \<or> budget C retryable \<le> n then (Inr r, h @ [Sent rq])
           else ebind (ebind (retry_delay C n (parse_retry_after r)) sleep)
                  (\<lambda>_. request_loop C retryable rq (Suc n)) (h @ [Sent rq])))"
proof -
  have "\<not> retryable \<or> cf_max_retries (cl_config C) \<le> int n \<longleftrightarrow> budget C retryable \<le> n"
    by (auto simp: budget_def)
  then show ?thesis
    by (subst request_loop.simps)
      (cases "answer C h rq"; cases "ebind (retry_delay C n (parse_retry_after (projr (answer C h rq)))) sleep (h @ [Sent rq])";
       simp add: http_request_call_eq ebind_step split: sum.split)
qed

lemma request_loop_exchange:
  "request_loop C retryable rq n h = (Inr r, h') \<Longrightarrow>
     \<exists>rs. exchange C rq n h (rs @ [r]) h' \<and> n + length rs \<le> max n (budget C retryable) \<and>
       (rs_status r \<noteq> 429 \<or> budget C retryable \<le> n + length rs)"
proof (induction "budget C retryable - n" arbitrary: n h rule: less_induct)
  case less
  from less.prems obtain q where q: "answer C h rq = Inr q"
    by (subst (asm) request_loop_step) (auto split: sum.splits)
  show ?case
  proof (cases "rs_status q \<noteq> 429 \<or> budget C retryable \<le> n")
    case True
    with less.prems q have "r = q" "h' = h @ [Sent rq]"
      by (simp_all add: request_loop_step [of C retryable rq n h])
    with True q show ?thesis by (intro exI [of _ "[]"]) (auto intro: exchange.answered)
  next
    case False
    then have run: "ebind (ebind (retry_delay C n (parse_retry_after q)) sleep)
        (\<lambda>_. request_loop C retryable rq (Suc n)) (h @ [Sent rq]) = (Inr r, h')"
      using less.prems q by (simp add: request_loop_step [of C retryable rq n h])
    show ?thesis
    proof (rule pause_cases [of C n "parse_retry_after q" "h @ [Sent rq]"])
      fix e assume "ebind (retry_delay C n (parse_retry_after q)) sleep (h @ [Sent rq]) = (Inl e, h @ [Sent rq])"
      with run show ?thesis by (simp add: ebind_step(1))
    next
      fix d
      assume d: "retry_delay C n (parse_retry_after q) (h @ [Sent rq]) = (Inr d, h @ [Sent rq])"
        "sleep d (h @ [Sent rq]) = (Inr (), (h @ [Sent rq]) @ [Slept d])"
        "ebind (retry_delay C n (parse_retry_after q)) sleep (h @ [Sent rq]) = (Inr (), (h @ [Sent rq]) @ [Slept d])"
      with run have "request_loop C retryable rq (Suc n) (h @ [Sent rq, Slept d]) = (Inr r, h')"
        by (simp add: ebind_step(2))
      then obtain rs where rs: "exchange C rq (Suc n) (h @ [Sent rq, Slept d]) (rs @ [r]) h'"
        "Suc n + length rs \<le> max (Suc n) (budget C retryable)"
        "rs_status r \<noteq> 429 \<or> budget C retryable \<le> Suc n + length rs"
        using less.hyps [of "Suc n"] False by (meson diff_less_mono2 lessI not_le)
      have "exchange C rq n h (q # rs @ [r]) h'"
        using exchange.throttled [OF q _ d(1) _ rs(1)] d(2) False by simp
      with rs(2,3) False show ?thesis by (intro exI [of _ "q # rs"]) auto
    qed
  qed
qed

lemma exchange_request_loop:
  "exchange C rq n h rs h' \<Longrightarrow> n + length rs \<le> Suc (max n (budget C retryable)) \<Longrightarrow>
     (rs_status (last rs) \<noteq> 429 \<or> budget C retryable \<le> n + length rs - 1) \<Longrightarrow>
     request_loop C retryable rq n h = (Inr (last rs), h')"
proof (induction rule: exchange.induct)
  case (answered h r n)
  then show ?case by (simp add: request_loop_step [of C retryable rq n h])
next
  case (throttled h r n d rs h')
  have ne: "rs \<noteq> []" using throttled.hyps(5) by (cases rs) auto
  then have less: "n < budget C retryable" using throttled.prems(1) by (cases rs) auto
  have "ebind (retry_delay C n (parse_retry_after r)) sleep (h @ [Sent rq]) = (Inr (), h @ [Sent rq, Slept d])"
    using throttled.hyps(3,4) by (simp add: ebind_step(2))
  with throttled less ne show ?case
    by (simp add: request_loop_step [of C retryable rq n h] ebind_step(2))
qed

lemma exchange_length: "exchange C rq n h rs h' \<Longrightarrow> rs \<noteq> []"
  by (cases rs) auto

text \<open>A loop may stop at an answer that is not a \<open>429\<close>, or when its budget is spent.\<close>

definition settled :: "client \<Rightarrow> http_request \<Rightarrow> http_response \<Rightarrow> nat \<Rightarrow> bool" where
  "settled C rq r retries \<longleftrightarrow>
     rs_status r \<noteq> 429 \<or> retries = budget C (is_retryable (rq_method rq) (rq_url rq))"

text \<open>
  C4: the retry loop refines the retry protocol. A request returns a response exactly when the
  protocol has a run that ends in it: every earlier answer was a \<open>429\<close> followed by the
  prescribed pause, the retries stay within the budget (none for a request that is not safe to
  repeat), and the response is not a \<open>429\<close> unless the budget is spent.
\<close>

theorem request_with_retry_refines_exchange:
  "request_with_retry C rq h = (Inr r, h') \<longleftrightarrow>
     (\<exists>rs. exchange C rq 0 h (rs @ [r]) h' \<and>
           length rs \<le> budget C (is_retryable (rq_method rq) (rq_url rq)) \<and> settled C rq r (length rs))"
proof
  assume "request_with_retry C rq h = (Inr r, h')"
  then show "\<exists>rs. exchange C rq 0 h (rs @ [r]) h' \<and>
      length rs \<le> budget C (is_retryable (rq_method rq) (rq_url rq)) \<and> settled C rq r (length rs)"
    using request_loop_exchange [of C "is_retryable (rq_method rq) (rq_url rq)" rq 0 h r h']
    by (auto simp: request_with_retry_def settled_def)
next
  assume "\<exists>rs. exchange C rq 0 h (rs @ [r]) h' \<and>
      length rs \<le> budget C (is_retryable (rq_method rq) (rq_url rq)) \<and> settled C rq r (length rs)"
  then obtain rs where "exchange C rq 0 h (rs @ [r]) h'"
    "length rs \<le> budget C (is_retryable (rq_method rq) (rq_url rq))" "settled C rq r (length rs)" by blast
  then show "request_with_retry C rq h = (Inr r, h')"
    using exchange_request_loop [of C rq 0 h "rs @ [r]" h' "is_retryable (rq_method rq) (rq_url rq)"]
    by (auto simp: request_with_retry_def settled_def)
qed

section \<open>What a call emits\<close>

text \<open>
  \<open>emits P m\<close>: the call \<open>m\<close> only extends the history, by events that satisfy
  \<open>P\<close>. The collection \<open>emits_intros\<close> has one rule per combinator.
\<close>

named_theorems emits_intros "rules that collect the events of a call"

definition emits :: "(event \<Rightarrow> bool) \<Rightarrow> 'a call \<Rightarrow> bool" where
  "emits P m \<longleftrightarrow> (\<forall>h. \<exists>es. snd (m h) = h @ es \<and> list_all P es)"

lemma emitsD: "emits P m \<Longrightarrow> m h = (x, h') \<Longrightarrow> \<exists>es. h' = h @ es \<and> list_all P es"
  unfolding emits_def by (metis snd_conv)

lemma emitsI: "(\<And>h. \<exists>es. snd (m h) = h @ es \<and> list_all P es) \<Longrightarrow> emits P m"
  by (simp add: emits_def)

lemma emits_mono: "emits P m \<Longrightarrow> (\<And>e. P e \<Longrightarrow> Q e) \<Longrightarrow> emits Q m"
  unfolding emits_def by (meson list_all_iff)

lemma emits_pure [emits_intros]: "emits P (ret x)" "emits P (lift r)"
  by (auto intro!: emitsI simp: ret_def lift_def)

lemma emits_ebind [emits_intros]:
  assumes "emits P m" "\<And>x. emits P (f x)"
  shows "emits P (ebind m f)"
proof (rule emitsI)
  fix h
  obtain v h1 where m: "m h = (v, h1)" by (cases "m h")
  obtain es where es: "h1 = h @ es" "list_all P es" using emitsD [OF assms(1) m] by blast
  show "\<exists>es. snd (ebind m f h) = h @ es \<and> list_all P es"
  proof (cases v)
    case (Inl e)
    with m es show ?thesis by (auto simp: ebind_def)
  next
    case (Inr x)
    obtain es' where "snd (f x h1) = h1 @ es'" "list_all P es'"
      using assms(2) [of x] unfolding emits_def by blast
    with m es Inr show ?thesis by (auto simp: ebind_def)
  qed
qed

lemma emits_try_except [emits_intros]:
  assumes "emits P m" "\<And>e. emits P (f e)"
  shows "emits P (try_except m X f)"
proof (rule emitsI)
  fix h
  obtain v h1 where m: "m h = (v, h1)" by (cases "m h")
  obtain es where es: "h1 = h @ es" "list_all P es" using emitsD [OF assms(1) m] by blast
  show "\<exists>es. snd (try_except m X f h) = h @ es \<and> list_all P es"
  proof (cases v)
    case (Inl e)
    obtain es' where "snd (f e h1) = h1 @ es'" "list_all P es'"
      using assms(2) [of e] unfolding emits_def by blast
    with m es Inl show ?thesis by (auto simp: try_except_def)
  qed (use m es in \<open>auto simp: try_except_def\<close>)
qed

lemma emits_branches [emits_intros]:
  "(b \<Longrightarrow> emits P m) \<Longrightarrow> (\<not> b \<Longrightarrow> emits P n) \<Longrightarrow> emits P (if b then m else n)"
  "(v = None \<Longrightarrow> emits P m) \<Longrightarrow> (\<And>x. v = Some x \<Longrightarrow> emits P (f x)) \<Longrightarrow>
     emits P (case v of None \<Rightarrow> m | Some x \<Rightarrow> f x)"
  "(\<And>x y. p = (x, y) \<Longrightarrow> emits P (g x y)) \<Longrightarrow> emits P (case p of (x, y) \<Rightarrow> g x y)"
  by (simp, cases v, simp_all, cases p, simp)

text \<open>The events of one logical request: itself, and pauses of at most a minute.\<close>

definition request_event :: "http_request \<Rightarrow> event \<Rightarrow> bool" where
  "request_event rq ev \<longleftrightarrow> ev = Sent rq \<or> (\<exists>d. ev = Slept d \<and> 0 \<le> d \<and> d \<le> 60)"

definition sends :: "event list \<Rightarrow> http_request list" where
  "sends es = concat (map (\<lambda>ev. case ev of Sent rq \<Rightarrow> [rq] | Slept _ \<Rightarrow> []) es)"

lemma sends_simps [simp]:
  "sends [] = []" "sends (Sent rq # es) = rq # sends es" "sends (Slept d # es) = sends es"
  "sends (es @ fs) = sends es @ sends fs"
  by (simp_all add: sends_def)

lemma request_loop_events:
  "\<exists>es k. snd (request_loop C retryable rq n h) = h @ es \<and> list_all (request_event rq) es \<and>
     sends es = replicate (Suc k) rq \<and> k \<le> budget C retryable - n"
proof (induction "budget C retryable - n" arbitrary: n h rule: less_induct)
  case less
  have once: ?case if "snd (request_loop C retryable rq n h) = h @ [Sent rq]"
    using that by (intro exI [of _ "[Sent rq]"] exI [of _ 0]) (simp add: request_event_def)
  show ?case
  proof (cases "answer C h rq")
    case (Inl e)
    then show ?thesis by (intro once) (simp add: request_loop_step [of C retryable rq n h])
  next
    case (Inr q)
    show ?thesis
    proof (cases "rs_status q \<noteq> 429 \<or> budget C retryable \<le> n")
      case True
      with Inr show ?thesis by (intro once) (simp add: request_loop_step [of C retryable rq n h])
    next
      case False
      then have gt: "n < budget C retryable" by simp
      then have lt: "budget C retryable - Suc n < budget C retryable - n" by simp
      have step: "request_loop C retryable rq n h =
          ebind (ebind (retry_delay C n (parse_retry_after q)) sleep)
            (\<lambda>_. request_loop C retryable rq (Suc n)) (h @ [Sent rq])"
        using False Inr by (simp add: request_loop_step [of C retryable rq n h])
      show ?thesis
      proof (rule pause_cases [of C n "parse_retry_after q" "h @ [Sent rq]"])
        fix e assume "ebind (retry_delay C n (parse_retry_after q)) sleep (h @ [Sent rq]) = (Inl e, h @ [Sent rq])"
        then show ?thesis by (intro once) (simp add: step ebind_step(1))
      next
        fix d
        assume d: "ebind (retry_delay C n (parse_retry_after q)) sleep (h @ [Sent rq])
            = (Inr (), (h @ [Sent rq]) @ [Slept d])" "0 \<le> d" "d \<le> 60"
        obtain es k where
          "snd (request_loop C retryable rq (Suc n) (h @ [Sent rq, Slept d])) = (h @ [Sent rq, Slept d]) @ es"
          "list_all (request_event rq) es" "sends es = replicate (Suc k) rq" "k \<le> budget C retryable - Suc n"
          using less.hyps [OF lt] by blast
        with d gt show ?thesis
          by (intro exI [of _ "Sent rq # Slept d # es"] exI [of _ "Suc k"])
            (simp add: step ebind_step(2) request_event_def)
      qed
    qed
  qed
qed

text \<open>
  C18: the cost of one call. Whatever the server answers, a request is sent at least once and at
  most \<open>max_retries\<close> more times, unchanged, and each pause in between is between zero and
  sixty seconds; a request that is not safe to repeat is sent exactly once.
\<close>

theorem request_cost_bounded:
  "\<exists>es k. snd (request_with_retry C rq h) = h @ es \<and> list_all (request_event rq) es \<and>
     sends es = replicate (Suc k) rq \<and>
     k \<le> (if is_retryable (rq_method rq) (rq_url rq) then nat (cf_max_retries (cl_config C)) else 0)"
  using request_loop_events [of C "is_retryable (rq_method rq) (rq_url rq)" rq 0 h]
  by (simp add: request_with_retry_def budget_def)

lemma emits_request_with_retry [emits_intros]:
  assumes "\<And>ev. request_event rq ev \<Longrightarrow> P ev"
  shows "emits P (request_with_retry C rq)"
proof (rule emits_mono [OF _ assms])
  show "emits (request_event rq) (request_with_retry C rq)"
    by (rule emitsI)
      (use request_loop_events [of C "is_retryable (rq_method rq) (rq_url rq)" rq 0]
        in \<open>auto simp: request_with_retry_def\<close>)
qed

lemma request_sent_once:
  "\<not> is_retryable (rq_method rq) (rq_url rq) \<Longrightarrow>
     request_with_retry C rq h = (answer C h rq, h @ [Sent rq])"
  by (simp add: request_with_retry_def request_loop_step [of _ _ _ 0] budget_def split: sum.split)

lemma endswith_lit: "endswith (lit p) (x @ lit s) \<longleftrightarrow> take (length p) (rev (lit s) @ rev x) = rev (lit p)"
  by (simp add: endswith_def startswith_def)

text \<open>
  What is repeated after a \<open>429\<close>: every \<open>GET\<close> and the licensing actions, the machine heartbeat
  among them; no \<open>DELETE\<close> or \<open>PATCH\<close>, no creation, no meter change and no offline proof, whatever
  the ids in the path.
\<close>

lemma retry_scope_all:
  "is_retryable (lit ''GET'') x \<and> \<not> is_retryable (lit ''DELETE'') x \<and> \<not> is_retryable (lit ''PATCH'') x \<and>
   \<not> is_retryable (lit ''POST'') (lit ''/machines'') \<and> \<not> is_retryable (lit ''POST'') (lit ''/components'') \<and>
   \<not> is_retryable (lit ''POST'') (lit ''/processes'') \<and>
   \<not> is_retryable (lit ''POST'') (x @ lit ''/actions/increment'') \<and>
   \<not> is_retryable (lit ''POST'') (x @ lit ''/actions/decrement'') \<and>
   \<not> is_retryable (lit ''POST'') (x @ lit ''/actions/reset'') \<and>
   \<not> is_retryable (lit ''POST'') (x @ lit ''/actions/generate-offline-proof'') \<and>
   is_retryable (lit ''POST'') (x @ lit ''/actions/validate'') \<and>
   is_retryable (lit ''POST'') (x @ lit ''/actions/check-in'') \<and>
   is_retryable (lit ''POST'') (x @ lit ''/actions/check-out'') \<and>
   is_retryable (lit ''POST'') (x @ lit ''/actions/ping'') \<and>
   is_retryable (lit ''POST'') (x @ lit ''/actions/ping-heartbeat'') \<and>
   is_retryable (lit ''POST'') (x @ lit ''/actions/reset-heartbeat'')"
proof -
  have upper: "py_upper (lit ''GET'') = lit ''GET''" "py_upper (lit ''POST'') = lit ''POST''"
    "py_upper (lit ''DELETE'') = lit ''DELETE''" "py_upper (lit ''PATCH'') = lit ''PATCH''"
    by (simp_all add: py_upper_def upper_char_def lit_def)
  have plain: "endswith (lit p) (lit s) \<longleftrightarrow> take (length p) (rev (lit s)) = rev (lit p)" for p s
    using endswith_lit [of p "[]" s] by simp
  show ?thesis
    by (simp add: is_retryable_def upper retryable_post_suffixes_def endswith_lit plain)
      (simp add: lit_def)
qed

text \<open>The two halves of the scope, for the sub-clients.\<close>

lemma retried:
  "is_retryable (lit ''GET'') x"
  "is_retryable (lit ''POST'') (x @ lit ''/actions/validate'')"
  "is_retryable (lit ''POST'') (x @ lit ''/actions/check-in'')"
  "is_retryable (lit ''POST'') (x @ lit ''/actions/check-out'')"
  "is_retryable (lit ''POST'') (x @ lit ''/actions/ping'')"
  "is_retryable (lit ''POST'') (x @ lit ''/actions/ping-heartbeat'')"
  "is_retryable (lit ''POST'') (x @ lit ''/actions/reset-heartbeat'')"
  by (simp_all only: retry_scope_all)

lemma not_retried:
  "\<not> is_retryable (lit ''DELETE'') x" "\<not> is_retryable (lit ''PATCH'') x"
  "\<not> is_retryable (lit ''POST'') (lit ''/machines'')" "\<not> is_retryable (lit ''POST'') (lit ''/components'')"
  "\<not> is_retryable (lit ''POST'') (lit ''/processes'')"
  "\<not> is_retryable (lit ''POST'') (x @ lit ''/actions/increment'')"
  "\<not> is_retryable (lit ''POST'') (x @ lit ''/actions/decrement'')"
  "\<not> is_retryable (lit ''POST'') (x @ lit ''/actions/reset'')"
  "\<not> is_retryable (lit ''POST'') (x @ lit ''/actions/generate-offline-proof'')"
  by (simp_all only: retry_scope_all simp_thms)

text \<open>A request made ready to be sent carries what it was asked for, and one valid version header.\<close>

lemma prepare_request_Inr:
  assumes "prepare_request C verb path body params auth quick = Inr rq"
  shows "rq_method rq = verb" "rq_url rq = path" "rq_json rq = body"
    "\<exists>w. map_of (rq_headers rq) (lit ''Tamga-Version'') = Some w \<and> w \<noteq> [] \<and> length w \<le> 32 \<and>
       list_all (version_char_ok (cl_runtime C)) w"
proof -
  obtain w where w: "sanitize_tamga_version (cl_runtime C) (cf_api_version (cl_config C)) = Inr w"
    and auth: "(case (case auth of Some a \<Rightarrow> Some a | None \<Rightarrow> cf_default_auth (cl_config C)) of
        None \<Rightarrow> Inr (request_headers (cl_config C) w quick, params)
      | Some a \<Rightarrow> apply_auth (request_headers (cl_config C) w quick) params a) = Inr (rq_headers rq, rq_params rq)"
    and rq: "rq_method rq = verb" "rq_url rq = path" "rq_json rq = body"
    using assms by (force simp: prepare_request_def Let_def rbind_Inr_iff)
  have "map_of (request_headers (cl_config C) w quick) (lit ''Tamga-Version'') = Some w"
    by (simp add: request_headers_def Let_def split: option.split)
  then have "map_of (rq_headers rq) (lit ''Tamga-Version'') = Some w"
    using auth by (auto split: option.splits dest!: apply_auth_headers)
  then show "rq_method rq = verb" "rq_url rq = path" "rq_json rq = body"
    "\<exists>w. map_of (rq_headers rq) (lit ''Tamga-Version'') = Some w \<and> w \<noteq> [] \<and> length w \<le> 32 \<and>
       list_all (version_char_ok (cl_runtime C)) w"
    using rq sanitize_Inr [OF w] by simp_all
qed

lemma raises_only_prepare_request [raises_intros]:
  "E ValueError \<Longrightarrow> E UnicodeEncodeError \<Longrightarrow> raises_only E (prepare_request C verb path body params auth quick)"
  unfolding prepare_request_def Let_def by (intro raises_intros) assumption+

lemma send_raw_response_cases:
  obtains e where "prepare_request C verb path body params auth quick = Inl e"
      "send_raw_response C verb path body params auth quick = lift (Inl e)"
  | rq where "prepare_request C verb path body params auth quick = Inr rq"
      "send_raw_response C verb path body params auth quick = request_with_retry C rq"
proof (cases "prepare_request C verb path body params auth quick")
  case (Inl e)
  then show ?thesis using that(1) by (simp add: send_raw_response_def fun_eq_iff ebind_lift lift_apply)
next
  case (Inr rq)
  then show ?thesis using that(2) by (simp add: send_raw_response_def fun_eq_iff ebind_lift)
qed

text \<open>
  The events of the helpers: every request of theirs is the one prepared. \<open>to_path\<close> is the
  class of events the sub-clients are specified by: a pause, or a request of that verb to that path.
\<close>

definition to_path :: "pystr \<Rightarrow> pystr \<Rightarrow> event \<Rightarrow> bool" where
  "to_path verb path ev \<longleftrightarrow>
     (case ev of Sent rq \<Rightarrow> rq_method rq = verb \<and> rq_url rq = path | Slept d \<Rightarrow> 0 \<le> d \<and> d \<le> 60)"

lemma request_event_to_path: "request_event rq ev \<Longrightarrow> to_path (rq_method rq) (rq_url rq) ev"
  by (auto simp: request_event_def to_path_def)

lemma emits_send_raw_response [emits_intros]:
  assumes "\<And>ev. to_path verb path ev \<Longrightarrow> P ev"
  shows "emits P (send_raw_response C verb path body params auth quick)"
proof (rule send_raw_response_cases [of C verb path body params auth quick])
  fix e assume "send_raw_response C verb path body params auth quick = lift (Inl e)"
  then show ?thesis by (simp add: emits_pure)
next
  fix rq assume rq: "prepare_request C verb path body params auth quick = Inr rq"
    "send_raw_response C verb path body params auth quick = request_with_retry C rq"
  show ?thesis
    unfolding rq(2)
  proof (rule emits_request_with_retry)
    fix ev assume "request_event rq ev"
    then show "P ev" using request_event_to_path [of rq ev] assms prepare_request_Inr(1,2) [OF rq(1)] by simp
  qed
qed

lemma emits_client_request [emits_intros]:
  "(\<And>ev. to_path verb path ev \<Longrightarrow> P ev) \<Longrightarrow> emits P (client_request C verb path body params headers)"
  unfolding client_request_def
  by (rule emits_request_with_retry) (drule request_event_to_path, simp)

lemma emits_send_request [emits_intros]:
  assumes "\<And>ev. to_path verb path ev \<Longrightarrow> P ev"
  shows "emits P (send_request_raw C verb path body params auth quick)"
    "emits P (send_request C verb path body params auth quick)"
    "emits P (send_request_with_meta C verb path body params)"
  unfolding send_request_def send_request_raw_def send_request_with_meta_def
  by (intro emits_intros, erule assms)+

section \<open>Which requests a call sent\<close>

definition urls :: "pystr \<Rightarrow> event list \<Rightarrow> pystr list" where
  "urls verb es = map rq_url (filter (\<lambda>rq. rq_method rq = verb) (sends es))"

lemma urls_simps [simp]:
  "urls verb [] = []" "urls verb (Slept d # es) = urls verb es"
  "urls verb (Sent rq # es) = (if rq_method rq = verb then [rq_url rq] else []) @ urls verb es"
  "urls verb (es @ fs) = urls verb es @ urls verb fs"
  by (simp_all add: urls_def)

lemma urls_to_path:
  "list_all (to_path verb path) es \<Longrightarrow> verb' \<noteq> verb \<Longrightarrow> urls verb' es = []"
  by (induction es) (auto simp: to_path_def split: event.splits)

lemma urls_paths: "list_all (to_path verb path) es \<Longrightarrow> set (urls verb es) \<subseteq> {path}"
  by (induction es) (auto simp: to_path_def split: event.splits)

text \<open>A call that is not repeated: it sends its one request, or fails before sending.\<close>

definition sends_once :: "pystr \<Rightarrow> pystr \<Rightarrow> 'a call \<Rightarrow> bool" where
  "sends_once verb path m \<longleftrightarrow>
     (\<forall>h. (\<exists>rq. rq_method rq = verb \<and> rq_url rq = path \<and> snd (m h) = h @ [Sent rq]) \<or>
          (snd (m h) = h \<and> (\<exists>e. fst (m h) = Inl e)))"

lemma sends_once_ebind:
  assumes "sends_once verb path m" "\<And>x h. snd (f x h) = h"
  shows "sends_once verb path (ebind m f)"
  unfolding sends_once_def
proof
  fix h
  obtain v h1 where m: "m h = (v, h1)" by (cases "m h")
  show "(\<exists>rq. rq_method rq = verb \<and> rq_url rq = path \<and> snd (ebind m f h) = h @ [Sent rq]) \<or>
      (snd (ebind m f h) = h \<and> (\<exists>e. fst (ebind m f h) = Inl e))"
    using assms(1) [unfolded sends_once_def, rule_format, of h] m assms(2)
    by (cases v) (auto simp: ebind_def)
qed

lemma sends_once_raw:
  assumes "\<not> is_retryable verb path"
  shows "sends_once verb path (send_raw_response C verb path body params auth quick)"
proof (rule send_raw_response_cases [of C verb path body params auth quick])
  fix e assume "send_raw_response C verb path body params auth quick = lift (Inl e)"
  then show ?thesis by (simp add: sends_once_def lift_apply)
next
  fix rq assume rq: "prepare_request C verb path body params auth quick = Inr rq"
    "send_raw_response C verb path body params auth quick = request_with_retry C rq"
  then have "rq_method rq = verb" "rq_url rq = path" using prepare_request_Inr(1,2) by blast+
  then show ?thesis
    using assms rq(2) by (auto simp: sends_once_def request_sent_once)
qed

lemma sends_once_request:
  assumes "\<not> is_retryable verb path"
  shows "sends_once verb path (send_request C verb path body params auth quick)"
  unfolding send_request_def send_request_raw_def
  by (intro sends_once_ebind sends_once_raw assms) (simp_all add: lift_apply ret_apply)

lemma sends_once_urls:
  assumes "sends_once verb path m" "m h = (v, h')"
  obtains es where "h' = h @ es" "urls verb es = [path] \<or> urls verb es = [] \<and> (\<exists>e. v = Inl e)"
    "list_all (to_path verb path) es"
proof -
  have "(\<exists>rq. rq_method rq = verb \<and> rq_url rq = path \<and> h' = h @ [Sent rq]) \<or> (h' = h \<and> (\<exists>e. v = Inl e))"
    using assms(1) [unfolded sends_once_def, rule_format, of h] assms(2) by simp
  then show ?thesis
    by (elim disjE exE conjE, intro that) (auto simp: to_path_def intro: that)
qed

section \<open>What a call may raise\<close>

text \<open>
  \<open>throws E m\<close>: whatever the history, the exceptions of the call \<open>m\<close> satisfy \<open>E\<close>;
  \<open>throws_intros\<close> has one rule per combinator. \<open>call_error\<close> is what one request can raise:
  the exception of httpx, a \<open>TamgaError\<close> parsed from the answer (which says nothing of a
  rollback), an answer that is not the JSON expected, or a request that cannot be written.
\<close>

named_theorems throws_intros "rules that collect the exceptions of a call with effects"

definition throws :: "(exc \<Rightarrow> bool) \<Rightarrow> 'a call \<Rightarrow> bool" where
  "throws E m \<longleftrightarrow> (\<forall>h. raises_only E (fst (m h)))"

lemma throwsD: "throws E m \<Longrightarrow> m h = (Inl e, h') \<Longrightarrow> E e"
  unfolding throws_def raises_only_def by (metis fst_conv)

lemma throws_mono: "throws E m \<Longrightarrow> (\<And>e. E e \<Longrightarrow> E' e) \<Longrightarrow> throws E' m"
  by (simp add: throws_def raises_only_def)

lemma throws_pure [throws_intros]:
  "throws E (ret x)" "raises_only E r \<Longrightarrow> throws E (lift r)"
  by (simp_all add: throws_def ret_apply lift_apply)

lemma throws_ebind [throws_intros]:
  "throws E m \<Longrightarrow> (\<And>x. throws E (f x)) \<Longrightarrow> throws E (ebind m f)"
  by (auto simp: throws_def raises_only_def ebind_def split: prod.splits sum.splits) (metis fst_conv)+

lemma throws_try_except [throws_intros]:
  "throws (\<lambda>e. P e \<or> E e) m \<Longrightarrow> (\<And>e. P e \<Longrightarrow> throws E (f e)) \<Longrightarrow> throws E (try_except m P f)"
  by (auto simp: throws_def raises_only_def try_except_def split: prod.splits sum.splits if_splits)
    (metis fst_conv)+

lemma throws_branches [throws_intros]:
  "(b \<Longrightarrow> throws E m) \<Longrightarrow> (\<not> b \<Longrightarrow> throws E n) \<Longrightarrow> throws E (if b then m else n)"
  "(v = None \<Longrightarrow> throws E m) \<Longrightarrow> (\<And>x. v = Some x \<Longrightarrow> throws E (f x)) \<Longrightarrow>
     throws E (case v of None \<Rightarrow> m | Some x \<Rightarrow> f x)"
  "(\<And>x y. p = (x, y) \<Longrightarrow> throws E (g x y)) \<Longrightarrow> throws E (case p of (x, y) \<Rightarrow> g x y)"
  by (simp, cases v, simp_all, cases p, simp)

lemma pause_raises:
  "ebind (retry_delay C n ra) sleep h = (Inl e, h') \<Longrightarrow> e = OverflowError \<or> e = ValueError"
  by (auto simp: ebind_def retry_delay_def float_of_int_def sleep_def split: option.splits if_splits prod.splits sum.splits)

lemma request_loop_raises:
  "request_loop C retryable rq n h = (Inl e, h') \<Longrightarrow> e = HttpxError \<or> e = OverflowError \<or> e = ValueError"
proof (induction "budget C retryable - n" arbitrary: n h rule: less_induct)
  case less
  show ?case
  proof (cases "answer C h rq")
    case (Inl x)
    then have "x = HttpxError" by (simp add: answer_def)
    with less.prems Inl show ?thesis by (simp add: request_loop_step [of C retryable rq n h])
  next
    case (Inr q)
    show ?thesis
    proof (cases "rs_status q \<noteq> 429 \<or> budget C retryable \<le> n")
      case True
      with less.prems Inr show ?thesis by (simp add: request_loop_step [of C retryable rq n h])
    next
      case False
      then have gt: "n < budget C retryable" by simp
      then have lt: "budget C retryable - Suc n < budget C retryable - n" by simp
      have "ebind (ebind (retry_delay C n (parse_retry_after q)) sleep)
            (\<lambda>_. request_loop C retryable rq (Suc n)) (h @ [Sent rq]) = (Inl e, h')"
        using less.prems gt Inr False by (simp add: request_loop_step [of C retryable rq n h])
      then show ?thesis
        by (cases rule: ebind_Inl) (blast dest: pause_raises less.hyps [OF lt])+
    qed
  qed
qed

definition call_error :: "exc \<Rightarrow> bool" where
  "call_error e \<longleftrightarrow>
     (case e of
        TamgaError t \<Rightarrow> te_class t \<noteq> MachineOverLimitError \<and> te_rolled_back t = None
      | _ \<Rightarrow> e \<in> {ValueError, KeyError, TypeError, AttributeError, UnicodeDecodeError, UnicodeEncodeError,
                 JSONDecodeError, HttpxError, OverflowError})"

lemma call_error_simps [simp]:
  "call_error ValueError" "call_error KeyError" "call_error TypeError" "call_error AttributeError"
  "call_error UnicodeDecodeError" "call_error UnicodeEncodeError" "call_error JSONDecodeError"
  "call_error HttpxError" "call_error OverflowError"
  "call_error (TamgaError t) \<longleftrightarrow> te_class t \<noteq> MachineOverLimitError \<and> te_rolled_back t = None"
  by (simp_all add: call_error_def)

lemma exception_class_not_over_limit: "exception_class v \<noteq> MachineOverLimitError"
proof -
  have "MachineOverLimitError \<notin> snd ` set code_to_exception" by (simp add: code_to_exception_def)
  then have "map_of code_to_exception s \<noteq> Some MachineOverLimitError" for s
    by (force dest: map_of_SomeD)
  then show ?thesis by (auto simp: exception_class_def split: json.splits option.splits)
qed

lemma parse_error_envelope_plain:
  "parse_error_envelope R st b ra = Inr t \<Longrightarrow> te_class t \<noteq> MachineOverLimitError \<and> te_rolled_back t = None"
  by (auto simp: parse_error_envelope_def rbind_Inr_iff Let_def exception_class_not_over_limit split: if_splits)

lemma raises_only_first_error [raises_intros]: "raises_only call_error (first_error R b)"
  unfolding first_error_def py_index0_def by (intro raises_intros) simp_all

lemma raises_only_parse_error_envelope [raises_intros]:
  "raises_only call_error (parse_error_envelope R st b ra)"
  unfolding parse_error_envelope_def Let_def by (intro raises_intros) simp_all

lemma raises_only_raise_envelope [raises_intros]: "raises_only call_error (raise_envelope R r ra)"
  unfolding raise_envelope_def
  by (intro raises_intros) (simp add: parse_error_envelope_plain)

lemma raises_only_parse_response [raises_intros]: "raises_only call_error (parse_response R r q)"
  unfolding parse_response_def response_body_def by (intro raises_intros) simp_all

lemma raises_only_raw_response_meta [raises_intros]: "raises_only call_error (raw_response_meta R r)"
  unfolding raw_response_meta_def by (intro raises_intros) simp_all

lemma throws_request_with_retry [throws_intros]: "throws call_error (request_with_retry C rq)"
proof -
  have "call_error e" if "request_with_retry C rq h = (Inl e, h')" for e h h'
    using request_loop_raises [OF that [unfolded request_with_retry_def]] by auto
  then show ?thesis unfolding throws_def raises_only_def by (metis prod.collapse)
qed

lemma throws_client_request [throws_intros]:
  "throws call_error (client_request C verb path body params headers)"
  unfolding client_request_def by (rule throws_request_with_retry)

lemma throws_send_raw_response [throws_intros]:
  "throws call_error (send_raw_response C verb path body params auth quick)"
  unfolding send_raw_response_def by (intro throws_intros raises_intros) simp_all

lemma throws_send_request [throws_intros]:
  "throws call_error (send_request_raw C verb path body params auth quick)"
  "throws call_error (send_request C verb path body params auth quick)"
  "throws call_error (send_request_with_meta C verb path body params)"
  unfolding send_request_def send_request_raw_def send_request_with_meta_def
  by (intro throws_intros raises_intros)+

end
