(* ===== verification/Resources.thy ===== *)
theory Resources
  imports Machine_File Policy Http_Client
begin

text \<open>
  The resources of the API and how \<open>client.py\<close> reads them off a decoded document:
  \<open>src/src/tamga/models\<close> and the \<open>_parse_*\<close> functions of
  \<open>src/src/tamga/client.py\<close>, the pages of a listing and the validation scope.

  A field the parser copies without looking at it keeps its JSON value. The parsers evaluate
  their fields in the order of the source, so the first wrong field decides the exception.
\<close>

section \<open>Resources\<close>

record component_resource =
  co_id :: uuid
  co_machine_id :: uuid
  co_fingerprint :: json
  co_name :: json
  co_metadata :: json
  co_created :: "datetime option"
  co_updated :: "datetime option"

record process_resource =
  pr_id :: uuid
  pr_machine_id :: uuid
  pr_pid :: json
  pr_metadata :: json
  pr_last_heartbeat_at :: "datetime option"
  pr_created :: "datetime option"
  pr_updated :: "datetime option"

record release_resource =
  re_id :: uuid
  re_product_id :: uuid
  re_version :: json
  re_channel :: json
  re_status :: json
  re_name :: json
  re_tag :: json
  re_metadata :: json
  re_created :: "datetime option"
  re_updated :: "datetime option"

record artifact_resource =
  ar_id :: uuid
  ar_filename :: json
  ar_status :: json
  ar_filetype :: json
  ar_filesize :: json
  ar_checksum :: json
  ar_platform :: json
  ar_arch :: json
  ar_signature :: json
  ar_redirect_url :: json
  ar_metadata :: json
  ar_created :: "datetime option"
  ar_updated :: "datetime option"

record health_status =
  he_status :: json
  he_version :: json
  he_uptime_seconds :: int

text \<open>\<open>LicenseFileResource\<close> and \<open>MachineFileResource\<close> have the same fields.\<close>

record file_resource =
  fr_certificate :: json
  fr_algorithm :: json
  fr_includes :: json
  fr_ttl :: json
  fr_expiry :: json
  fr_issued :: json

text \<open>
  A license as read from the API. Its fetcher is the license id its entitlements are listed by,
  when it came from a client that holds one.
\<close>

record license_read =
  li_id :: uuid
  li_type :: json
  li_attributes :: json
  li_relationships :: json
  li_entitlements_fetcher :: "uuid option"
  li_entitlements_cache :: "entitlement list option"

record validation_meta =
  vm_ts :: datetime
  vm_valid :: bool
  vm_detail :: json
  vm_code :: validation_code

record validation_result =
  vr_license :: "license_read option"
  vr_meta :: validation_meta

record license_scope =
  ls_product :: "uuid option"
  ls_policy :: "uuid option"
  ls_user :: "uuid option"
  ls_environment :: "uuid option"
  ls_entitlements :: "pystr list option"
  ls_fingerprint :: "pystr option"
  ls_version :: "pystr option"
  ls_checksum :: "pystr option"

record 'a page =
  pg_items :: "'a list"
  pg_next_after :: "pystr option"

record 'a offset_page =
  op_items :: "'a list"
  op_page_number :: int
  op_page_size :: int
  op_total :: int
  op_total_pages :: int

definition has_next_page :: "'a offset_page \<Rightarrow> bool" where
  "has_next_page p \<longleftrightarrow> op_page_number p < op_total_pages p"

section \<open>Parsers\<close>

text \<open>What \<open>x.get(...)\<close> needs of \<open>x\<close>.\<close>

definition as_dict :: "json \<Rightarrow> exc + pydict" where
  "as_dict v = (case v of JObj m \<Rightarrow> Inr m | _ \<Rightarrow> Inl AttributeError)"

definition parse_datetime :: "runtime \<Rightarrow> json \<Rightarrow> exc + datetime option" where
  "parse_datetime R v =
     (case v of
        JNull \<Rightarrow> Inr None
      | JStr s \<Rightarrow>
          rbind (of_option ValueError (fromisoformat R (replace_str (lit ''Z'') (lit ''+00:00'') s)))
            (\<lambda>t. Inr (Some t))
      | _ \<Rightarrow> Inl AttributeError)"

definition get_datetime :: "runtime \<Rightarrow> pydict \<Rightarrow> string \<Rightarrow> exc + datetime option" where
  "get_datetime R m k = parse_datetime R (dict_get m (lit k) JNull)"

definition get_metadata :: "pydict \<Rightarrow> json" where
  "get_metadata m = py_or (dict_get m (lit ''metadata'') JNull) (JObj [])"

definition item_uuid :: "runtime \<Rightarrow> json \<Rightarrow> string \<Rightarrow> exc + uuid" where
  "item_uuid R v k = rbind (py_item v (lit k)) (uuid_of_json R)"

definition parse_license_resource :: "runtime \<Rightarrow> json \<Rightarrow> uuid option \<Rightarrow> exc + license_read" where
  "parse_license_resource R data fetcher =
     rbind (item_uuid R data ''id'') (\<lambda>i.
     rbind (py_get data (lit ''type'') (JStr (lit ''licenses''))) (\<lambda>t.
     rbind (py_get data (lit ''attributes'') (JObj [])) (\<lambda>attributes.
     rbind (py_get data (lit ''relationships'') (JObj [])) (\<lambda>relationships.
       Inr \<lparr>li_id = i, li_type = t, li_attributes = attributes, li_relationships = relationships,
            li_entitlements_fetcher = fetcher, li_entitlements_cache = None\<rparr>))))"

definition parse_machine_resource :: "runtime \<Rightarrow> json \<Rightarrow> exc + uuid machine_resource" where
  "parse_machine_resource R data =
     rbind (py_get data (lit ''attributes'') (JObj [])) (\<lambda>raw.
     rbind (item_uuid R data ''id'') (\<lambda>i.
     rbind (as_dict raw) (\<lambda>attrs.
       let get = (\<lambda>k. dict_get attrs (lit k) JNull) in
       rbind (of_option ValueError (enum_of heartbeat_statuses heartbeat_status_value
                (dict_get attrs (lit ''heartbeat_status'') (JStr (lit ''NOT_STARTED''))))) (\<lambda>status.
       rbind (get_datetime R attrs ''last_heartbeat_at'') (\<lambda>last_heartbeat.
       rbind (get_datetime R attrs ''next_heartbeat_at'') (\<lambda>next_heartbeat.
       rbind (get_datetime R attrs ''last_check_out_at'') (\<lambda>last_check_out.
       rbind (get_datetime R attrs ''created'') (\<lambda>created.
       rbind (get_datetime R attrs ''updated'') (\<lambda>updated.
         Inr \<lparr>mr_id = i, mr_fingerprint = dict_get attrs (lit ''fingerprint'') (JStr []),
           mr_name = get ''name'', mr_ip = get ''ip'', mr_hostname = get ''hostname'',
           mr_platform = get ''platform'', mr_cores = get ''cores'', mr_memory = get ''memory'',
           mr_disk = get ''disk'', mr_metadata = get_metadata attrs, mr_heartbeat_status = status,
           mr_last_heartbeat_at = last_heartbeat, mr_next_heartbeat_at = next_heartbeat,
           mr_last_check_out_at = last_check_out, mr_created = created, mr_updated = updated\<rparr>)))))))))"

definition parse_component_resource :: "runtime \<Rightarrow> json \<Rightarrow> exc + component_resource" where
  "parse_component_resource R data =
     rbind (py_get data (lit ''attributes'') (JObj [])) (\<lambda>raw.
     rbind (item_uuid R data ''id'') (\<lambda>i.
     rbind (item_uuid R raw ''machine_id'') (\<lambda>machine_id.
     rbind (as_dict raw) (\<lambda>attrs.
     rbind (get_datetime R attrs ''created'') (\<lambda>created.
     rbind (get_datetime R attrs ''updated'') (\<lambda>updated.
       Inr \<lparr>co_id = i, co_machine_id = machine_id,
         co_fingerprint = dict_get attrs (lit ''fingerprint'') (JStr []),
         co_name = dict_get attrs (lit ''name'') (JStr []), co_metadata = get_metadata attrs,
         co_created = created, co_updated = updated\<rparr>))))))"

definition parse_process_resource :: "runtime \<Rightarrow> json \<Rightarrow> exc + process_resource" where
  "parse_process_resource R data =
     rbind (py_get data (lit ''attributes'') (JObj [])) (\<lambda>raw.
     rbind (item_uuid R data ''id'') (\<lambda>i.
     rbind (item_uuid R raw ''machine_id'') (\<lambda>machine_id.
     rbind (as_dict raw) (\<lambda>attrs.
     rbind (get_datetime R attrs ''last_heartbeat_at'') (\<lambda>last_heartbeat.
     rbind (get_datetime R attrs ''created'') (\<lambda>created.
     rbind (get_datetime R attrs ''updated'') (\<lambda>updated.
       Inr \<lparr>pr_id = i, pr_machine_id = machine_id, pr_pid = dict_get attrs (lit ''pid'') (JStr []),
         pr_metadata = get_metadata attrs, pr_last_heartbeat_at = last_heartbeat,
         pr_created = created, pr_updated = updated\<rparr>)))))))"

definition parse_entitlement :: "runtime \<Rightarrow> json \<Rightarrow> exc + entitlement" where
  "parse_entitlement R data =
     rbind (py_get data (lit ''attributes'') (JObj [])) (\<lambda>raw.
     rbind (item_uuid R data ''id'') (\<lambda>i.
     rbind (as_dict raw) (\<lambda>attrs.
     rbind (get_datetime R attrs ''created'') (\<lambda>created.
     rbind (get_datetime R attrs ''updated'') (\<lambda>updated.
       Inr \<lparr>en_id = i, en_name = dict_get attrs (lit ''name'') (JStr []),
         en_code = dict_get attrs (lit ''code'') (JStr []),
         en_kind = dict_get attrs (lit ''kind'') (JStr (lit ''flag'')),
         en_metadata = get_metadata attrs, en_created = created, en_updated = updated,
         en_inherited = dict_get attrs (lit ''inherited'') JNull,
         en_max_value = dict_get attrs (lit ''max_value'') JNull,
         en_current_value = dict_get attrs (lit ''current_value'') JNull\<rparr>)))))"

definition parse_release_resource :: "runtime \<Rightarrow> json \<Rightarrow> exc + release_resource" where
  "parse_release_resource R data =
     rbind (py_get data (lit ''attributes'') (JObj [])) (\<lambda>raw.
     rbind (item_uuid R data ''id'') (\<lambda>i.
     rbind (item_uuid R raw ''productId'') (\<lambda>product_id.
     rbind (as_dict raw) (\<lambda>attrs.
     rbind (get_datetime R attrs ''created'') (\<lambda>created.
     rbind (get_datetime R attrs ''updated'') (\<lambda>updated.
       Inr \<lparr>re_id = i, re_product_id = product_id,
         re_version = dict_get attrs (lit ''version'') (JStr []),
         re_channel = dict_get attrs (lit ''channel'') (JStr []),
         re_status = dict_get attrs (lit ''status'') (JStr []),
         re_name = dict_get attrs (lit ''name'') JNull, re_tag = dict_get attrs (lit ''tag'') JNull,
         re_metadata = get_metadata attrs, re_created = created, re_updated = updated\<rparr>))))))"

definition parse_artifact_resource :: "runtime \<Rightarrow> json \<Rightarrow> exc + artifact_resource" where
  "parse_artifact_resource R data =
     (case data of
        JObj d \<Rightarrow>
          (case map_of d (lit ''id'') of
             None \<Rightarrow> Inl ValueError
           | Some raw_id \<Rightarrow>
               (let attrs = (case map_of d (lit ''attributes'') of Some (JObj m) \<Rightarrow> m | _ \<Rightarrow> []);
                    get = (\<lambda>k. dict_get attrs (lit k) JNull)
                in rbind (uuid_of_json R raw_id) (\<lambda>i.
                   rbind (get_datetime R attrs ''created'') (\<lambda>created.
                   rbind (get_datetime R attrs ''updated'') (\<lambda>updated.
                     Inr \<lparr>ar_id = i, ar_filename = dict_get attrs (lit ''filename'') (JStr []),
                       ar_status = dict_get attrs (lit ''status'') (JStr []),
                       ar_filetype = get ''filetype'', ar_filesize = get ''filesize'',
                       ar_checksum = get ''checksum'', ar_platform = get ''platform'',
                       ar_arch = get ''arch'', ar_signature = get ''signature'',
                       ar_redirect_url = get ''redirectUrl'', ar_metadata = get_metadata attrs,
                       ar_created = created, ar_updated = updated\<rparr>)))))
      | _ \<Rightarrow> Inl ValueError)"

definition parse_signing_key_resource :: "runtime \<Rightarrow> json \<Rightarrow> exc + signing_key" where
  "parse_signing_key_resource R data =
     rbind (py_get data (lit ''attributes'') JNull) (\<lambda>raw.
     rbind (py_item data (lit ''id'')) (\<lambda>i.
     rbind (as_dict (py_or raw (JObj []))) (\<lambda>attributes.
     rbind (get_datetime R attributes ''created'') (\<lambda>created.
     rbind (get_datetime R attributes ''retired'') (\<lambda>retired.
       Inr \<lparr>sk_kid = py_str R i,
         sk_public_key = py_str R (dict_get attributes (lit ''publicKey'') (JStr [])),
         sk_algorithm = py_str R (dict_get attributes (lit ''algorithm'') (JStr ed25519_algorithm)),
         sk_status = py_str R (dict_get attributes (lit ''status'') (JStr active_status)),
         sk_created = created, sk_retired = retired\<rparr>)))))"

definition parse_page_meta :: "pydict \<Rightarrow> exc + int \<times> int \<times> int \<times> int" where
  "parse_page_meta meta =
     (case dict_get meta (lit ''page'') JNull of
        JObj page \<Rightarrow>
          rbind (py_int (dict_get page (lit ''number'') (JInt 0))) (\<lambda>number.
          rbind (py_int (dict_get page (lit ''size'') (JInt 0))) (\<lambda>page_size.
          rbind (py_int (dict_get page (lit ''total'') (JInt 0))) (\<lambda>total.
          rbind (py_int (dict_get page (lit ''totalPages'') (JInt 0))) (\<lambda>total_pages.
            Inr (number, page_size, total, total_pages)))))
      | _ \<Rightarrow> Inr (0, 0, 0, 0))"

definition parse_file_resource :: "json \<Rightarrow> exc + file_resource" where
  "parse_file_resource data =
     rbind (py_get data (lit ''attributes'') (JObj [])) (\<lambda>raw.
     rbind (as_dict raw) (\<lambda>attrs.
       Inr \<lparr>fr_certificate = dict_get attrs (lit ''certificate'') (JStr []),
         fr_algorithm = dict_get attrs (lit ''algorithm'') (JStr []),
         fr_includes = dict_get attrs (lit ''includes'') (JArr []),
         fr_ttl = dict_get attrs (lit ''ttl'') JNull, fr_expiry = dict_get attrs (lit ''expiry'') JNull,
         fr_issued = dict_get attrs (lit ''issued'') (JStr [])\<rparr>))"

text \<open>\<open>_parse_validation_meta\<close>; \<open>now\<close> stands in for a missing timestamp.\<close>

definition parse_validation_meta :: "runtime \<Rightarrow> datetime \<Rightarrow> json \<Rightarrow> exc + validation_meta" where
  "parse_validation_meta R now meta =
     rbind (as_dict meta) (\<lambda>m.
     rbind (get_datetime R m ''ts'') (\<lambda>ts.
       Inr \<lparr>vm_ts = (case ts of None \<Rightarrow> now | Some t \<Rightarrow> t),
         vm_valid = py_truthy (dict_get m (lit ''valid'') (JBool False)),
         vm_detail = dict_get m (lit ''detail'') (JStr []),
         vm_code = validation_code_of (dict_get m (lit ''code'') (JStr (lit ''UNKNOWN'')))\<rparr>))"

text \<open>The items of a listing: \<open>[parse(d) for d in (data or [])]\<close>.\<close>

definition resource_items :: "(json \<Rightarrow> exc + 'a) \<Rightarrow> json \<Rightarrow> exc + 'a list" where
  "resource_items parse data = rbind (py_iter (py_or data (JArr []))) (map_res parse)"

section \<open>What a validation is scoped to\<close>

definition scope_member :: "string \<Rightarrow> ('a \<Rightarrow> json) \<Rightarrow> 'a option \<Rightarrow> pydict" where
  "scope_member k f v = (case v of None \<Rightarrow> [] | Some x \<Rightarrow> [(lit k, f x)])"

definition scope_to_dict :: "license_scope option \<Rightarrow> pydict option" where
  "scope_to_dict scope =
     (case scope of
        None \<Rightarrow> None
      | Some s \<Rightarrow>
          Some (scope_member ''product'' (JStr \<circ> str_of_uuid) (ls_product s)
              @ scope_member ''policy'' (JStr \<circ> str_of_uuid) (ls_policy s)
              @ scope_member ''user'' (JStr \<circ> str_of_uuid) (ls_user s)
              @ scope_member ''environment'' (JStr \<circ> str_of_uuid) (ls_environment s)
              @ scope_member ''entitlements'' (\<lambda>cs. JArr (map JStr cs)) (ls_entitlements s)
              @ scope_member ''fingerprint'' JStr (ls_fingerprint s)))"

section \<open>Keyset pages\<close>

definition next_after_cursor :: "('a \<Rightarrow> uuid) \<Rightarrow> 'a list \<Rightarrow> int option \<Rightarrow> pystr option" where
  "next_after_cursor ident items limit =
     (case limit of
        None \<Rightarrow> None
      | Some n \<Rightarrow> (if items = [] \<or> int (length items) < n then None
                   else Some (str_of_uuid (ident (last items)))))"

section \<open>What the parsers promise\<close>

text \<open>The exceptions of a document of the wrong shape.\<close>

definition shape_error :: "exc \<Rightarrow> bool" where
  "shape_error e \<longleftrightarrow> e = ValueError \<or> e = KeyError \<or> e = TypeError \<or> e = AttributeError"

lemma shape_error_simps [simp]:
  "shape_error ValueError" "shape_error KeyError" "shape_error TypeError" "shape_error AttributeError"
  by (simp_all add: shape_error_def)

lemma as_dict_Inr: "as_dict v = Inr m \<longleftrightarrow> v = JObj m"
  by (cases v) (auto simp: as_dict_def)

lemma as_dict_JObj [simp]: "as_dict (JObj m) = Inr m"
  by (simp add: as_dict_def)

lemma raises_only_as_dict [raises_intros]: "E AttributeError \<Longrightarrow> raises_only E (as_dict v)"
  by (cases v) (simp_all add: as_dict_def)

lemma raises_only_get_datetime [raises_intros]:
  "E ValueError \<Longrightarrow> E AttributeError \<Longrightarrow> raises_only E (get_datetime R m k)"
  unfolding get_datetime_def parse_datetime_def by (intro raises_intros)

lemma raises_only_item_uuid [raises_intros]:
  "E ValueError \<Longrightarrow> E KeyError \<Longrightarrow> E TypeError \<Longrightarrow> raises_only E (item_uuid R v k)"
  unfolding item_uuid_def by (intro raises_intros)

lemma raises_only_resource_items [raises_intros]:
  "E TypeError \<Longrightarrow> (\<And>d. raises_only E (parse d)) \<Longrightarrow> raises_only E (resource_items parse data)"
  unfolding resource_items_def by (intro raises_intros)

text \<open>
  The interface of a resource parser: it raises only for a document of the wrong shape, and the
  id of what it returns is the one its document states.
\<close>

definition document_id :: "runtime \<Rightarrow> json \<Rightarrow> uuid \<Rightarrow> bool" where
  "document_id R data i \<longleftrightarrow>
     (\<exists>d raw. data = JObj d \<and> map_of d (lit ''id'') = Some raw \<and> uuid_of_json R raw = Inr i)"

locale resource_parser =
  fixes R :: runtime and parse :: "json \<Rightarrow> exc + 'a" and ident :: "'a \<Rightarrow> uuid"
  assumes parse_raises: "raises_only shape_error (parse data)"
    and parse_id: "parse data = Inr x \<Longrightarrow> document_id R data (ident x)"
begin

lemma items_raise: "raises_only shape_error (resource_items parse data)"
  by (intro raises_intros parse_raises) simp

lemma items_id:
  assumes "resource_items parse data = Inr items"
  shows "\<exists>ds. py_iter (py_or data (JArr [])) = Inr ds \<and> length items = length ds \<and>
    list_all2 (\<lambda>d x. parse d = Inr x \<and> document_id R d (ident x)) ds items"
  using assms parse_id
  by (auto simp: resource_items_def rbind_Inr_iff map_res_Inr_iff list_all2_conv_all_nth)

lemma no_data: "resource_items parse JNull = Inr []"
  by (simp add: resource_items_def py_or_def py_truthy_def py_iter_def)

end

lemma item_uuid_Inr:
  "item_uuid R data k = Inr i \<longleftrightarrow>
     (\<exists>d raw. data = JObj d \<and> map_of d (lit k) = Some raw \<and> uuid_of_json R raw = Inr i)"
  by (auto simp: item_uuid_def rbind_Inr_iff py_item_Inr)

lemma document_id_item: "item_uuid R data ''id'' = Inr i \<Longrightarrow> document_id R data i"
  by (simp add: document_id_def item_uuid_Inr)

interpretation machines: resource_parser R "parse_machine_resource R" mr_id for R
proof
  show "raises_only shape_error (parse_machine_resource R data)" for data
    unfolding parse_machine_resource_def Let_def by (intro raises_intros) simp_all
  show "document_id R data (mr_id x)" if "parse_machine_resource R data = Inr x" for data x
    using that by (auto simp: parse_machine_resource_def Let_def rbind_Inr_iff dest: document_id_item)
qed

interpretation components: resource_parser R "parse_component_resource R" co_id for R
proof
  show "raises_only shape_error (parse_component_resource R data)" for data
    unfolding parse_component_resource_def by (intro raises_intros) simp_all
  show "document_id R data (co_id x)" if "parse_component_resource R data = Inr x" for data x
    using that by (auto simp: parse_component_resource_def rbind_Inr_iff dest: document_id_item)
qed

interpretation processes: resource_parser R "parse_process_resource R" pr_id for R
proof
  show "raises_only shape_error (parse_process_resource R data)" for data
    unfolding parse_process_resource_def by (intro raises_intros) simp_all
  show "document_id R data (pr_id x)" if "parse_process_resource R data = Inr x" for data x
    using that by (auto simp: parse_process_resource_def rbind_Inr_iff dest: document_id_item)
qed

interpretation entitlements: resource_parser R "parse_entitlement R" en_id for R
proof
  show "raises_only shape_error (parse_entitlement R data)" for data
    unfolding parse_entitlement_def by (intro raises_intros) simp_all
  show "document_id R data (en_id x)" if "parse_entitlement R data = Inr x" for data x
    using that by (auto simp: parse_entitlement_def rbind_Inr_iff dest: document_id_item)
qed

interpretation releases: resource_parser R "parse_release_resource R" re_id for R
proof
  show "raises_only shape_error (parse_release_resource R data)" for data
    unfolding parse_release_resource_def by (intro raises_intros) simp_all
  show "document_id R data (re_id x)" if "parse_release_resource R data = Inr x" for data x
    using that by (auto simp: parse_release_resource_def rbind_Inr_iff dest: document_id_item)
qed

interpretation artifacts: resource_parser R "parse_artifact_resource R" ar_id for R
proof
  show "raises_only shape_error (parse_artifact_resource R data)" for data
    unfolding parse_artifact_resource_def Let_def by (intro raises_intros) simp_all
  show "document_id R data (ar_id x)" if "parse_artifact_resource R data = Inr x" for data x
    using that by (cases data)
      (auto simp: parse_artifact_resource_def document_id_def Let_def rbind_Inr_iff split: option.splits)
qed

interpretation licenses: resource_parser R "\<lambda>d. parse_license_resource R d fetcher" li_id for R fetcher
proof
  show "raises_only shape_error (parse_license_resource R data fetcher)" for data
    unfolding parse_license_resource_def by (intro raises_intros) simp_all
  show "document_id R data (li_id x)" if "parse_license_resource R data fetcher = Inr x" for data x
    using that by (auto simp: parse_license_resource_def rbind_Inr_iff dest: document_id_item)
qed

lemma raises_only_parse_policy [raises_intros]:
  "raises_only shape_error (parse_policy_resource R data)"
proof -
  have pairs: "raises_only shape_error (dict_of_pairs m xs)" for m xs
    by (induction m xs rule: dict_of_pairs.induct)
      (auto intro!: raises_intros split: list.split json.split)
  show ?thesis
    unfolding parse_policy_resource_def py_dict_def
    by (intro raises_intros pairs) simp_all
qed

lemma raises_only_parse_file [raises_intros]: "E AttributeError \<Longrightarrow> raises_only E (parse_file_resource data)"
  unfolding parse_file_resource_def by (intro raises_intros)

lemma raises_only_parse_validation_meta [raises_intros]:
  "E ValueError \<Longrightarrow> E AttributeError \<Longrightarrow> raises_only E (parse_validation_meta R now meta)"
  unfolding parse_validation_meta_def by (intro raises_intros)

lemma raises_only_parse_signing_key [raises_intros]:
  "raises_only shape_error (parse_signing_key_resource R data)"
  unfolding parse_signing_key_resource_def by (intro raises_intros) simp_all

text \<open>
  Whose id a policy carries: that of its document, unless its attributes spell one themselves.
\<close>

definition policy_document_id :: "runtime \<Rightarrow> json \<Rightarrow> uuid \<Rightarrow> bool" where
  "policy_document_id R data i \<longleftrightarrow>
     (\<exists>d raw attributes. data = JObj d \<and> map_of d (lit ''id'') = Some raw \<and>
        py_dict (py_or (dict_get d (lit ''attributes'') JNull) (JObj [])) = Inr attributes \<and>
        uuid_of_json R (dict_get attributes (lit ''id'') raw) = Inr i)"

lemma policy_from_api_id:
  "policy_from_api R m = Inr p \<Longrightarrow> map_of m (lit ''id'') = Some raw \<Longrightarrow> uuid_of_json R raw = Inr (po_id p)"
  by (auto simp: policy_from_api_def Let_def rbind_Inr_iff)

lemma parse_policy_id:
  assumes "parse_policy_resource R data = Inr p"
  shows "policy_document_id R data (po_id p)"
proof -
  obtain raw attributes i where a: "py_get data (lit ''attributes'') JNull = Inr raw"
    "py_dict (py_or raw (JObj [])) = Inr attributes" "py_item data (lit ''id'') = Inr i"
    "policy_from_api R (if map_of attributes (lit ''id'') = None then dict_set attributes (lit ''id'') i else attributes)
       = Inr p"
    using assms by (auto simp: parse_policy_resource_def rbind_Inr_iff)
  obtain d where d: "data = JObj d" "map_of d (lit ''id'') = Some i" using a(3) by (auto simp: py_item_Inr)
  have "uuid_of_json R (dict_get attributes (lit ''id'') i) = Inr (po_id p)"
    using a(4) by (cases "map_of attributes (lit ''id'')") (auto simp: dict_get_def dest: policy_from_api_id)
  with a(1,2) d show ?thesis unfolding policy_document_id_def by auto
qed

definition signing_key_document_id :: "runtime \<Rightarrow> json \<Rightarrow> pystr \<Rightarrow> bool" where
  "signing_key_document_id R data kid \<longleftrightarrow> (\<exists>d raw. data = JObj d \<and> map_of d (lit ''id'') = Some raw \<and> kid = py_str R raw)"

lemma parse_signing_key_id: "parse_signing_key_resource R data = Inr k \<Longrightarrow> signing_key_document_id R data (sk_kid k)"
  by (auto simp: parse_signing_key_resource_def rbind_Inr_iff py_item_Inr signing_key_document_id_def)

lemma parse_owner_id:
  "parse_component_resource R data = Inr c \<Longrightarrow>
     \<exists>raw. py_get data (lit ''attributes'') (JObj []) = Inr raw \<and> item_uuid R raw ''machine_id'' = Inr (co_machine_id c)"
  "parse_process_resource R data = Inr p \<Longrightarrow>
     \<exists>raw. py_get data (lit ''attributes'') (JObj []) = Inr raw \<and> item_uuid R raw ''machine_id'' = Inr (pr_machine_id p)"
  by (auto simp: parse_component_resource_def parse_process_resource_def rbind_Inr_iff)

text \<open>
  C40: reading a resource. Every parser either returns or raises one of the four exceptions a
  document of the wrong shape can cause, and every resource keeps the id of its document: a license,
  machine, component, process, entitlement, release and artifact as the UUID the document's \<open>id\<close>
  spells, a signing key as its text, a policy unless its attributes hold an id of their own; a
  component and a process keep the machine they belong to as well.
\<close>

theorem resource_parsers:
  "raises_only shape_error (parse_license_resource R data fetcher) \<and>
   raises_only shape_error (parse_machine_resource R data) \<and>
   raises_only shape_error (parse_component_resource R data) \<and>
   raises_only shape_error (parse_process_resource R data) \<and>
   raises_only shape_error (parse_entitlement R data) \<and>
   raises_only shape_error (parse_release_resource R data) \<and>
   raises_only shape_error (parse_artifact_resource R data) \<and>
   raises_only shape_error (parse_policy_resource R data) \<and>
   raises_only shape_error (parse_signing_key_resource R data) \<and>
   {l. parse_license_resource R data fetcher = Inr l} \<subseteq> {l. document_id R data (li_id l)} \<and>
   {m. parse_machine_resource R data = Inr m} \<subseteq> {m. document_id R data (mr_id m)} \<and>
   {c. parse_component_resource R data = Inr c} \<subseteq> {c. document_id R data (co_id c)} \<and>
   {p. parse_process_resource R data = Inr p} \<subseteq> {p. document_id R data (pr_id p)} \<and>
   {e. parse_entitlement R data = Inr e} \<subseteq> {e. document_id R data (en_id e)} \<and>
   {r. parse_release_resource R data = Inr r} \<subseteq> {r. document_id R data (re_id r)} \<and>
   {a. parse_artifact_resource R data = Inr a} \<subseteq> {a. document_id R data (ar_id a)} \<and>
   {p. parse_policy_resource R data = Inr p} \<subseteq> {p. policy_document_id R data (po_id p)} \<and>
   {k. parse_signing_key_resource R data = Inr k} \<subseteq> {k. signing_key_document_id R data (sk_kid k)} \<and>
   {c. parse_component_resource R data = Inr c} \<subseteq>
     {c. \<exists>raw. py_get data (lit ''attributes'') (JObj []) = Inr raw \<and> item_uuid R raw ''machine_id'' = Inr (co_machine_id c)} \<and>
   {p. parse_process_resource R data = Inr p} \<subseteq>
     {p. \<exists>raw. py_get data (lit ''attributes'') (JObj []) = Inr raw \<and> item_uuid R raw ''machine_id'' = Inr (pr_machine_id p)}"
  by (intro conjI licenses.parse_raises machines.parse_raises components.parse_raises processes.parse_raises
      entitlements.parse_raises releases.parse_raises artifacts.parse_raises raises_only_parse_policy
      raises_only_parse_signing_key subsetI CollectI; drule CollectD;
      (erule licenses.parse_id machines.parse_id components.parse_id processes.parse_id entitlements.parse_id
        releases.parse_id artifacts.parse_id parse_policy_id parse_signing_key_id parse_owner_id))

section \<open>The validation scope\<close>

definition scope_keys :: "pystr set" where
  "scope_keys = {lit ''product'', lit ''policy'', lit ''user'', lit ''environment'', lit ''entitlements'',
     lit ''fingerprint''}"

lemma mem_scope_member: "q \<in> fst ` set (scope_member k f v) \<longleftrightarrow> v \<noteq> None \<and> q = lit k"
  by (cases v) (simp_all add: scope_member_def)

lemma distinct_scope_member: "distinct (map fst (scope_member k f v))"
  by (cases v) (simp_all add: scope_member_def)

lemma map_of_scope_member:
  "map_of (scope_member k f v) q = (if q = lit k then map_option f v else None)"
  by (cases v) (simp_all add: scope_member_def)

lemma map_of_scope_member_append:
  "map_of (scope_member k f v @ d) q = (if q = lit k \<and> v \<noteq> None then map_option f v else map_of d q)"
  by (cases v) (auto simp: scope_member_def)

text \<open>
  The scope sent with a validation. Neither \<open>version\<close> nor \<open>checksum\<close> is ever sent,
  whatever they are set to; each of the other six fields is sent exactly when it is set, the
  empty entitlement list included.
\<close>

lemma scope_excludes_rejected_keys:
  "scope_to_dict (Some (s\<lparr>ls_version := version, ls_checksum := checksum\<rparr>)) = scope_to_dict (Some s) \<and>
   (\<exists>d. scope_to_dict (Some s) = Some d \<and> distinct (map fst d) \<and> fst ` set d \<subseteq> scope_keys \<and>
     map_of d (lit ''product'') = map_option (JStr \<circ> str_of_uuid) (ls_product s) \<and>
     map_of d (lit ''policy'') = map_option (JStr \<circ> str_of_uuid) (ls_policy s) \<and>
     map_of d (lit ''user'') = map_option (JStr \<circ> str_of_uuid) (ls_user s) \<and>
     map_of d (lit ''environment'') = map_option (JStr \<circ> str_of_uuid) (ls_environment s) \<and>
     map_of d (lit ''entitlements'') = map_option (\<lambda>cs. JArr (map JStr cs)) (ls_entitlements s) \<and>
     map_of d (lit ''fingerprint'') = map_option JStr (ls_fingerprint s))"
proof -
  obtain d where d: "scope_to_dict (Some s) = Some d" by (simp add: scope_to_dict_def)
  then have "distinct (map fst d)"
    by (auto simp: scope_to_dict_def distinct_scope_member mem_scope_member disjoint_iff image_Un)
  moreover have "q \<in> scope_keys" if "q \<in> fst ` set d" for q
    using that d [unfolded scope_to_dict_def option.case option.inject, symmetric]
    by (simp only: set_append image_Un Un_iff mem_scope_member scope_keys_def) blast
  moreover have "map_of d (lit ''product'') = map_option (JStr \<circ> str_of_uuid) (ls_product s)"
    "map_of d (lit ''policy'') = map_option (JStr \<circ> str_of_uuid) (ls_policy s)"
    "map_of d (lit ''user'') = map_option (JStr \<circ> str_of_uuid) (ls_user s)"
    "map_of d (lit ''environment'') = map_option (JStr \<circ> str_of_uuid) (ls_environment s)"
    "map_of d (lit ''entitlements'') = map_option (\<lambda>cs. JArr (map JStr cs)) (ls_entitlements s)"
    "map_of d (lit ''fingerprint'') = map_option JStr (ls_fingerprint s)"
    using d [unfolded scope_to_dict_def option.case option.inject, symmetric]
    by (simp_all add: map_of_scope_member_append map_of_scope_member del: map_of_append)
  moreover have "scope_to_dict (Some (s\<lparr>ls_version := version, ls_checksum := checksum\<rparr>)) = scope_to_dict (Some s)"
    by (simp add: scope_to_dict_def)
  ultimately show ?thesis
    using d by (intro conjI exI [of _ d] subsetI) assumption+
qed

section \<open>Keyset cursors\<close>

lemma next_after_cursor_iff:
  "next_after_cursor ident items (Some n) = Some c \<longleftrightarrow>
     items \<noteq> [] \<and> n \<le> int (length items) \<and> c = str_of_uuid (ident (last items))"
  by (auto simp: next_after_cursor_def)

end
