(* ===== verification/Entitlements_Client.thy ===== *)
theory Entitlements_Client
  imports Resources
begin

text \<open>
  \<open>EntitlementsClient\<close> of \<open>src/src/tamga/client.py\<close> and the entitlement lookup of
  \<open>LicenseResource\<close> in \<open>src/src/tamga/models/license.py\<close>, which caches what it fetched
  in the license object: the model returns the updated object.
\<close>

section \<open>Paths\<close>

definition slash :: "string \<Rightarrow> uuid \<Rightarrow> pystr" where
  "slash collection i = lit ''/'' @ lit collection @ lit ''/'' @ str_of_uuid i"

definition entitlement_path :: "uuid \<Rightarrow> uuid \<Rightarrow> pystr" where
  "entitlement_path license_id ent_id =
     slash ''licenses'' license_id @ slash ''entitlements'' ent_id"

section \<open>Operations\<close>

text \<open>The listing takes a cursor and does not send it.\<close>

definition entitlements_list :: "client \<Rightarrow> uuid \<Rightarrow> int option \<Rightarrow> pystr option \<Rightarrow> entitlement page call" where
  "entitlements_list C license_id limit cursor =
     ebind (send_request_raw C (lit ''GET'') (slash ''licenses'' license_id @ lit ''/entitlements'') None
              [(lit ''limit'', JInt (case limit of None \<Rightarrow> max_page_size | Some n \<Rightarrow> n))] None False) (\<lambda>response.
     ebind (lift (resource_items (parse_entitlement (cl_runtime C)) (tr_data response))) (\<lambda>items.
       ret \<lparr>pg_items = items, pg_next_after = None\<rparr>))"

definition entitlements_get :: "client \<Rightarrow> uuid \<Rightarrow> uuid \<Rightarrow> entitlement call" where
  "entitlements_get C license_id ent_id =
     ebind (send_request C (lit ''GET'') (entitlement_path license_id ent_id) None [] None False)
       (\<lambda>data. lift (parse_entitlement (cl_runtime C) data))"

definition entitlements_list_all :: "client \<Rightarrow> uuid \<Rightarrow> entitlement list call" where
  "entitlements_list_all C license_id =
     ebind (entitlements_list C license_id (Some max_page_size) None) (\<lambda>p. ret (pg_items p))"

definition increment_entitlement_usage :: "client \<Rightarrow> uuid \<Rightarrow> uuid \<Rightarrow> int option \<Rightarrow> entitlement call" where
  "increment_entitlement_usage C license_id ent_id increment =
     (let body = (case increment of None \<Rightarrow> None | Some n \<Rightarrow> Some (JObj [(lit ''increment'', JInt n)])) in
      ebind (send_request C (lit ''POST'')
               (entitlement_path license_id ent_id @ lit ''/actions/increment'') body [] None False)
        (\<lambda>data. lift (parse_entitlement (cl_runtime C) data)))"

definition decrement_entitlement_usage :: "client \<Rightarrow> uuid \<Rightarrow> uuid \<Rightarrow> int option \<Rightarrow> entitlement call" where
  "decrement_entitlement_usage C license_id ent_id decrement =
     (let body = (case decrement of None \<Rightarrow> None | Some n \<Rightarrow> Some (JObj [(lit ''decrement'', JInt n)])) in
      ebind (send_request C (lit ''POST'')
               (entitlement_path license_id ent_id @ lit ''/actions/decrement'') body [] None False)
        (\<lambda>data. lift (parse_entitlement (cl_runtime C) data)))"

definition reset_entitlement_usage :: "client \<Rightarrow> uuid \<Rightarrow> uuid \<Rightarrow> entitlement call" where
  "reset_entitlement_usage C license_id ent_id =
     ebind (send_request C (lit ''POST'')
              (entitlement_path license_id ent_id @ lit ''/actions/reset'') None [] None False)
       (\<lambda>data. lift (parse_entitlement (cl_runtime C) data))"

section \<open>Entitlements of a license\<close>

definition refresh_entitlements :: "client \<Rightarrow> license_read \<Rightarrow> (entitlement list \<times> license_read) call" where
  "refresh_entitlements C l =
     (case li_entitlements_fetcher l of
        None \<Rightarrow> lift (Inl RuntimeError)
      | Some license_id \<Rightarrow>
          ebind (entitlements_list_all C license_id) (\<lambda>entitlements.
            ret (entitlements, l\<lparr>li_entitlements_cache := Some entitlements\<rparr>)))"

definition has_entitlement :: "client \<Rightarrow> license_read \<Rightarrow> pystr \<Rightarrow> (bool \<times> license_read) call" where
  "has_entitlement C l code =
     ebind (case li_entitlements_cache l of
              Some entitlements \<Rightarrow> ret (entitlements, l)
            | None \<Rightarrow> refresh_entitlements C l)
       (\<lambda>(entitlements, l'). ret (list_ex (\<lambda>e. en_code e = JStr code) entitlements, l'))"

section \<open>Meters and the cache\<close>

text \<open>The path of a meter action ends in an action that is never repeated after a \<open>429\<close>.\<close>

lemma meter_not_retryable:
  "\<not> is_retryable (lit ''POST'') (x @ lit ''/actions/increment'')"
  "\<not> is_retryable (lit ''POST'') (x @ lit ''/actions/decrement'')"
  "\<not> is_retryable (lit ''POST'') (x @ lit ''/actions/reset'')"
  using not_retried by simp_all

end
