(* ===== verification/Licenses_Client.thy ===== *)
theory Licenses_Client
  imports Entitlements_Client
begin

text \<open>
  \<open>LicensesClient\<close> of \<open>src/src/tamga/client.py\<close>. \<open>ents\<close> says whether the client
  holds an entitlements client, which a license it returns then fetches through;
  \<open>MachinesClient.activate_machine\<close> builds one that does not.
\<close>

section \<open>Headers and results\<close>

text \<open>
  \<open>_headers\<close>: the sub-client's own assembly of the headers. Query parameters an auth transport
  adds are dropped, as they are in the source.
\<close>

definition license_headers :: "client \<Rightarrow> auth option \<Rightarrow> exc + headers" where
  "license_headers C auth_override =
     rbind (sanitize_tamga_version (cl_runtime C) (cf_api_version (cl_config C))) (\<lambda>version.
       let headers = [(lit ''Tamga-Version'', version), (lit ''Content-Type'', lit ''application/vnd.api+json'')];
           auth = (case auth_override of Some a \<Rightarrow> Some a | None \<Rightarrow> cf_default_auth (cl_config C))
       in rbind (case auth of None \<Rightarrow> Inr (headers, []) | Some a \<Rightarrow> apply_auth headers [] a) (\<lambda>(hs, _).
            Inr (case cf_user_agent (cl_config C) of
                   Some agent \<Rightarrow> if agent = [] then hs else dict_set hs (lit ''User-Agent'') agent
                 | None \<Rightarrow> hs)))"

definition license_from_data :: "runtime \<Rightarrow> bool \<Rightarrow> json \<Rightarrow> exc + license_read" where
  "license_from_data R ents data =
     (if ents then rbind (item_uuid R data ''id'') (\<lambda>license_id. parse_license_resource R data (Some license_id))
      else parse_license_resource R data None)"

definition utc_now :: "client \<Rightarrow> datetime call" where
  "utc_now C h = (Inr (cl_now C h), h)"

text \<open>What both \<open>POST\<close> validations do with their response.\<close>

definition validation_of_response :: "client \<Rightarrow> bool \<Rightarrow> http_response \<Rightarrow> validation_result call" where
  "validation_of_response C ents response =
     ebind (lift (parse_response (cl_runtime C) response False)) (\<lambda>parsed.
     ebind (lift (raw_response_meta (cl_runtime C) response)) (\<lambda>meta.
     ebind (lift (if py_truthy (tr_data parsed)
                  then rbind (license_from_data (cl_runtime C) ents (tr_data parsed)) (\<lambda>l. Inr (Some l))
                  else Inr None)) (\<lambda>license.
     ebind (utc_now C) (\<lambda>now.
     ebind (lift (parse_validation_meta (cl_runtime C) now (JObj meta))) (\<lambda>m.
       ret \<lparr>vr_license = license, vr_meta = m\<rparr>)))))"

section \<open>Operations\<close>

definition validate_by_key :: "client \<Rightarrow> bool \<Rightarrow> pystr \<Rightarrow> validation_result call" where
  "validate_by_key C ents key =
     (let auth = (case cf_default_auth (cl_config C) of Some a \<Rightarrow> a | None \<Rightarrow> LicenseAuth key) in
      ebind (lift (license_headers C (Some auth))) (\<lambda>headers.
      ebind (client_request C (lit ''POST'') (lit ''/licenses/actions/validate-key'')
               (Some (JObj [(lit ''key'', JStr key)])) [] headers)
        (validation_of_response C ents)))"

definition validation_body :: "license_scope option \<Rightarrow> bool \<Rightarrow> json option" where
  "validation_body scope skip_touch =
     (let meta = (case scope_to_dict scope of None \<Rightarrow> [] | Some [] \<Rightarrow> [] | Some d \<Rightarrow> [(lit ''scope'', JObj d)]);
          meta = (if skip_touch then dict_set meta (lit ''skip_touch'') (JBool skip_touch) else meta)
      in if meta = [] then None else Some (JObj [(lit ''meta'', JObj meta)]))"

definition validate_by_id ::
  "client \<Rightarrow> bool \<Rightarrow> uuid \<Rightarrow> license_scope option \<Rightarrow> bool \<Rightarrow> validation_result call" where
  "validate_by_id C ents license_id scope skip_touch =
     ebind (lift (license_headers C None)) (\<lambda>headers.
     ebind (client_request C (lit ''POST'') (slash ''licenses'' license_id @ lit ''/actions/validate'')
              (validation_body scope skip_touch) [] headers)
       (validation_of_response C ents))"

definition quick_validate :: "client \<Rightarrow> uuid \<Rightarrow> validation_result call" where
  "quick_validate C license_id =
     ebind (send_request C (lit ''GET'') (slash ''licenses'' license_id @ lit ''/actions/validate'') None []
              None True) (\<lambda>data.
     ebind (utc_now C) (\<lambda>now.
     ebind (lift (parse_validation_meta (cl_runtime C) now data)) (\<lambda>m.
       ret \<lparr>vr_license = None, vr_meta = m\<rparr>)))"

definition licenses_get :: "client \<Rightarrow> bool \<Rightarrow> uuid \<Rightarrow> license_read call" where
  "licenses_get C ents license_id =
     ebind (send_request C (lit ''GET'') (slash ''licenses'' license_id) None [] None False)
       (\<lambda>data. lift (license_from_data (cl_runtime C) ents data))"

definition get_policy :: "client \<Rightarrow> uuid \<Rightarrow> policy_resource call" where
  "get_policy C license_id =
     ebind (send_request C (lit ''GET'') (slash ''licenses'' license_id @ lit ''/policy'') None [] None False)
       (\<lambda>data. lift (parse_policy_resource (cl_runtime C) data))"

definition check_in :: "client \<Rightarrow> bool \<Rightarrow> uuid \<Rightarrow> license_read call" where
  "check_in C ents license_id =
     ebind (send_request C (lit ''POST'') (slash ''licenses'' license_id @ lit ''/actions/check-in'') None []
              None False)
       (\<lambda>data. lift (license_from_data (cl_runtime C) ents data))"

datatype checked_out = RawFile bytes | FileResource file_resource

definition check_out_params :: "bool \<Rightarrow> int option \<Rightarrow> pydict" where
  "check_out_params encrypt ttl =
     (lit ''encrypt'', JStr (if encrypt then lit ''true'' else lit ''false'')) #
     (case ttl of None \<Rightarrow> [] | Some t \<Rightarrow> [(lit ''ttl'', JInt t)])"

definition check_out_body :: "bool \<Rightarrow> int option \<Rightarrow> json" where
  "check_out_body encrypt ttl =
     JObj [(lit ''meta'', JObj [(lit ''encrypt'', JBool encrypt),
                               (lit ''ttl'', case ttl of None \<Rightarrow> JNull | Some t \<Rightarrow> JInt t)])]"

text \<open>The raw variant raises without the \<open>Retry-After\<close> of the response.\<close>

definition raw_content :: "client \<Rightarrow> http_response \<Rightarrow> exc + checked_out" where
  "raw_content C response =
     (if 400 \<le> rs_status response then raise_envelope (cl_runtime C) response None
      else Inr (RawFile (rs_content response)))"

definition license_check_out :: "client \<Rightarrow> uuid \<Rightarrow> bool \<Rightarrow> int option \<Rightarrow> bool \<Rightarrow> checked_out call" where
  "license_check_out C license_id encrypt ttl as_bytes =
     (let path = slash ''licenses'' license_id @ lit ''/actions/check-out'' in
      if as_bytes then
        ebind (lift (license_headers C None)) (\<lambda>headers.
        ebind (client_request C (lit ''GET'') path None (check_out_params encrypt ttl)
                 (dict_set headers (lit ''Accept'') (lit ''application/octet-stream'')))
          (\<lambda>response. lift (raw_content C response)))
      else
        ebind (send_request C (lit ''POST'') path (Some (check_out_body encrypt ttl)) [] None False)
          (\<lambda>data. lift (rbind (parse_file_resource data) (\<lambda>f. Inr (FileResource f)))))"

section \<open>Events and exceptions\<close>

lemma emits_utc_now [emits_intros]: "emits P (utc_now C)"
  by (auto intro!: emitsI simp: utc_now_def)

lemma throws_utc_now [throws_intros]: "throws E (utc_now C)"
  by (simp add: throws_def utc_now_def)

lemma raises_only_license_headers [raises_intros]:
  "E ValueError \<Longrightarrow> E UnicodeEncodeError \<Longrightarrow> raises_only E (license_headers C auth)"
  unfolding license_headers_def Let_def by (intro raises_intros) assumption+

lemma shape_error_call [simp]: "shape_error e \<Longrightarrow> call_error e"
  by (auto simp: shape_error_def)

lemma raises_only_shape_call: "raises_only shape_error r \<Longrightarrow> raises_only call_error r"
  by (erule raises_only_mono) simp

lemma raises_only_license_from_data [raises_intros]: "raises_only call_error (license_from_data R ents data)"
  unfolding license_from_data_def
  by (intro raises_intros raises_only_shape_call licenses.parse_raises) simp_all

lemma throws_validation_of_response [throws_intros]: "throws call_error (validation_of_response C ents r)"
  unfolding validation_of_response_def by (intro throws_intros raises_intros) simp_all

lemma emits_validation_of_response [emits_intros]: "emits P (validation_of_response C ents r)"
  unfolding validation_of_response_def by (intro emits_intros)

lemma throws_validate_by_id [throws_intros]: "throws call_error (validate_by_id C ents license_id scope touch)"
  unfolding validate_by_id_def by (intro throws_intros raises_intros) simp_all

lemma emits_validate_by_id [emits_intros]:
  "(\<And>ev. to_path (lit ''POST'') (slash ''licenses'' license_id @ lit ''/actions/validate'') ev \<Longrightarrow> P ev) \<Longrightarrow>
     emits P (validate_by_id C ents license_id scope touch)"
  unfolding validate_by_id_def by (intro emits_intros)

text \<open>
  A credential carried by a query parameter is lost: the headers, all that is kept of the transport,
  are those of a client without a credential. \<open>send_raw_response\<close> keeps it.
\<close>

lemma query_credential_dropped:
  "license_headers C (Some (QueryParamAuth val name)) =
     license_headers (C\<lparr>cl_config := cl_config C\<lparr>cf_default_auth := None\<rparr>\<rparr>) None"
  "prepare_request C verb path body params (Some (QueryParamAuth val name)) quick = Inr rq \<Longrightarrow>
     map_of (rq_params rq) name = Some (JStr val)"
  by (auto simp: license_headers_def prepare_request_def Let_def rbind_Inr_iff)

text \<open>The raw check-out of a throttled license or machine raises without the server's delay.\<close>

lemma raw_content_no_delay:
  "raises_only (\<lambda>e. case e of TamgaError t \<Rightarrow> te_retry_after t = None | _ \<Rightarrow> True) (raw_content C r)"
  unfolding raw_content_def raise_envelope_def parse_error_envelope_def first_error_def py_index0_def Let_def
  by (intro raises_intros) (auto simp: rbind_Inr_iff split: if_splits)

end
