(* ===== verification/Proof_Token.thy ===== *)
theory Proof_Token
  imports Json_Round_Trip Crypto
begin

text \<open>
  Offline proofs: \<open>src/src/tamga/proof.py\<close>. The payload is rebuilt from its fields in the one
  canonical writing of \<open>Json\<close> and the signature is PKCS#1 v1.5 whatever the license's scheme.

  The fingerprint is the JSON value the machine resource carries. \<open>canon\<close> of
  \<open>Json_Round_Trip\<close> is the value with its keys in order, which is what the writing keeps of a
  dataset.
\<close>

section \<open>Payload\<close>

definition proof_version_prefix :: pystr where
  "proof_version_prefix = lit ''v1x0.''"

definition proof_payload_json :: "uuid \<Rightarrow> uuid \<Rightarrow> json \<Rightarrow> json \<Rightarrow> json" where
  "proof_payload_json account_id machine_id fingerprint dataset =
     JObj [(lit ''account'', JObj [(lit ''id'', JStr (str_of_uuid account_id))]),
           (lit ''machine'', JObj [(lit ''id'', JStr (str_of_uuid machine_id)),
                                  (lit ''fingerprint'', fingerprint)]),
           (lit ''dataset'', dataset)]"

definition build_proof_payload ::
  "runtime \<Rightarrow> uuid \<Rightarrow> uuid \<Rightarrow> json \<Rightarrow> json \<Rightarrow> exc + bytes" where
  "build_proof_payload R account_id machine_id fingerprint dataset =
     of_option UnicodeEncodeError
       (utf8_encode (dumps R (proof_payload_json account_id machine_id fingerprint dataset)))"

section \<open>Parsing and verifying a proof\<close>

record proof_result =
  pf_raw :: pystr
  pf_signature :: bytes
  pf_account_id :: uuid
  pf_machine_id :: uuid
  pf_fingerprint :: json
  pf_dataset :: json

definition proof_parse :: "pystr \<Rightarrow> uuid \<Rightarrow> uuid \<Rightarrow> json \<Rightarrow> json \<Rightarrow> exc + proof_result" where
  "proof_parse raw account_id machine_id fingerprint dataset =
     (if \<not> startswith proof_version_prefix raw then Inl ValueError
      else rbind (of_option ValueError (b64decode (drop (length proof_version_prefix) raw)))
        (\<lambda>signature.
          Inr \<lparr>pf_raw = raw, pf_signature = signature, pf_account_id = account_id,
            pf_machine_id = machine_id, pf_fingerprint = fingerprint, pf_dataset = dataset\<rparr>))"

definition proof_verify :: "crypto \<Rightarrow> runtime \<Rightarrow> bytes \<Rightarrow> proof_result \<Rightarrow> exc + bool" where
  "proof_verify P R public_key p =
     rbind (build_proof_payload R (pf_account_id p) (pf_machine_id p) (pf_fingerprint p) (pf_dataset p))
       (\<lambda>payload. verify_pkcs1v15 P public_key payload (pf_signature p))"

section \<open>What a proof proves\<close>

lemma canon_proof_payload:
  "canon (proof_payload_json a m fp d) =
     JObj [(lit ''account'', JObj [(lit ''id'', JStr (str_of_uuid a))]), (lit ''dataset'', canon d),
           (lit ''machine'', JObj [(lit ''fingerprint'', canon fp), (lit ''id'', JStr (str_of_uuid m))])]"
  by (simp add: proof_payload_json_def lit_def)

lemma dumps_canon: "dumps R (canon v) = dumps R v"
proof (induction v)
  case (JObj d)
  have "sort_key fst (sort_key fst (map (\<lambda>kv. (fst kv, canon (snd kv))) d))
      = map (\<lambda>kv. (fst kv, canon (snd kv))) (sort_key fst d)"
    by (simp add: sort_key_map sort_key_id_if_sorted)
  moreover have "member_text R (fst kv, canon (snd kv)) = member_text R kv" if "kv \<in> set d" for kv
    using JObj that by (cases kv) (force simp: member_text_def)
  then have "join_with [44] (map (\<lambda>x. member_text R (fst x, canon (snd x))) (sort_key fst d))
      = join_with [44] (map (member_text R) (sort_key fst d))"
    by (intro arg_cong [where f = "join_with [44]"] map_cong) simp_all
  ultimately show ?case
    by (simp add: dumps_JObj comp_def del: dumps.simps)
next
  case (JArr xs)
  then show ?case by (simp add: comp_def cong: map_cong)
qed simp_all

lemma proof_payload_writable:
  "writable fp \<Longrightarrow> writable d \<Longrightarrow> writable (proof_payload_json a m fp d)"
  by (simp add: proof_payload_json_def str_of_uuid_encodable) (simp add: lit_def encodable_def surrogate_def)

lemma build_proof_payload_eq:
  "writable fp \<Longrightarrow> writable d \<Longrightarrow> build_proof_payload R a m fp d = Inr (json_bytes R (proof_payload_json a m fp d))"
  by (simp add: build_proof_payload_def utf8_json_bytes proof_payload_writable)

text \<open>
  C26: the signed bytes identify the proof. Two proofs whose fingerprints and datasets have a
  canonical writing (no floats, no lone surrogates) are signed over the same bytes exactly when
  they agree on the account, the machine, the fingerprint and, up to the order of keys, the
  dataset; so a signature for one never verifies for another.
\<close>

theorem proof_payload_identifies:
  assumes "writable fp" "writable d" "writable fp'" "writable d'"
    and "a < 2 ^ 128" "m < 2 ^ 128" "a' < 2 ^ 128" "m' < 2 ^ 128"
  shows "build_proof_payload R a m fp d = build_proof_payload R a' m' fp' d' \<longleftrightarrow>
    a = a' \<and> m = m' \<and> canon fp = canon fp' \<and> canon d = canon d'"
proof
  let ?v = "proof_payload_json a m fp d" and ?w = "proof_payload_json a' m' fp' d'"
  have v: "writable ?v" and w: "writable ?w"
    using assms by (simp_all add: proof_payload_writable)
  {
    assume "build_proof_payload R a m fp d = build_proof_payload R a' m' fp' d'"
    then have "json_bytes R ?v = json_bytes R ?w"
      using assms(1-4) by (simp add: build_proof_payload_eq)
    then have "canon ?v = canon ?w"
      using json_loads_json_bytes [OF v, of R] json_loads_json_bytes [OF w, of R] by simp
    then show "a = a' \<and> m = m' \<and> canon fp = canon fp' \<and> canon d = canon d'"
      using str_of_uuid_inj assms(5-8) by (simp add: canon_proof_payload)
  }
  assume "a = a' \<and> m = m' \<and> canon fp = canon fp' \<and> canon d = canon d'"
  then have "canon ?v = canon ?w" by (simp add: canon_proof_payload)
  then have "dumps R ?v = dumps R ?w"
    by (metis dumps_canon)
  then show "build_proof_payload R a m fp d = build_proof_payload R a' m' fp' d'"
    by (simp add: build_proof_payload_def)
qed

lemma proof_payload_identifies_witness:
  "build_proof_payload sample_runtime 1 2 (JStr (lit ''f'')) (JObj [(lit ''b'', JInt 1), (lit ''a'', JBool True)]) =
     build_proof_payload sample_runtime 1 2 (JStr (lit ''f'')) (JObj [(lit ''a'', JBool True), (lit ''b'', JInt 1)]) \<and>
   build_proof_payload sample_runtime 1 2 (JStr (lit ''f'')) (JObj []) \<noteq>
     build_proof_payload sample_runtime 1 3 (JStr (lit ''f'')) (JObj [])"
proof -
  have f: "writable (JStr (lit ''f''))" "writable (JObj [(lit ''b'', JInt 1), (lit ''a'', JBool True)])"
    "writable (JObj [(lit ''a'', JBool True), (lit ''b'', JInt 1)])" "writable (JObj [])"
    by (simp_all add: lit_def encodable_def surrogate_def)
  have "canon (JObj [(lit ''b'', JInt 1), (lit ''a'', JBool True)])
      = canon (JObj [(lit ''a'', JBool True), (lit ''b'', JInt 1)])"
    by (simp add: lit_def)
  then show ?thesis
    using proof_payload_identifies [OF f(1,2,1,3), of 1 2 1 2 sample_runtime]
      proof_payload_identifies [OF f(1,4,1,4), of 1 2 1 3 sample_runtime]
    by simp
qed

text \<open>
  Round trip of a proof. The value \<open>v1x0.\<close> followed by the base64 of a signature is parsed
  to that signature, and verifying the result is verifying that signature over the payload of
  exactly the fields it was parsed with.
\<close>

lemma proof_round_trip:
  "rbind (proof_parse (proof_version_prefix @ b64encode sig) a m fp d) (proof_verify P R key) =
   rbind (build_proof_payload R a m fp d) (\<lambda>payload. verify_pkcs1v15 P key payload sig)"
  by (simp add: proof_parse_def proof_verify_def)

text \<open>
  C25: an accepted proof. Verification of a parsed proof returns true only for a text with the
  version prefix whose remainder is base64 of a signature that an RSA key of 2048 to 8192 bits
  accepts over the rebuilt payload, and always then.
\<close>

theorem proof_accepts_iff:
  "rbind (proof_parse raw a m fp d) (proof_verify P R key) = Inr True \<longleftrightarrow>
     (\<exists>b64 sig payload bits k. raw = proof_version_prefix @ b64 \<and> b64decode b64 = Some sig \<and>
        build_proof_payload R a m fp d = Inr payload \<and>
        2048 \<le> bits \<and> bits \<le> 8192 \<and> load_either P key = Inr (RsaKey bits k) \<and> pkcs1v15_check P k sig payload)"
proof (cases "startswith proof_version_prefix raw")
  case True
  then obtain b64 where raw: "raw = proof_version_prefix @ b64" by (auto simp: startswith_iff)
  have "verify_pkcs1v15 P key payload sig = Inr True \<longleftrightarrow>
      (\<exists>bits k. 2048 \<le> bits \<and> bits \<le> 8192 \<and> load_either P key = Inr (RsaKey bits k) \<and>
        pkcs1v15_check P k sig payload)" for payload sig
  proof -
    have "verify_pkcs1v15 P key payload sig = Inr True \<longleftrightarrow>
        (\<exists>k. load_rsa_public_key P key = Inr k \<and> pkcs1v15_check P k sig payload)"
      by (cases "load_rsa_public_key P key") (simp_all add: verify_rsa_outcome)
    then show ?thesis unfolding load_rsa_Inr by blast
  qed
  then show ?thesis
    by (cases "b64decode b64"; cases "build_proof_payload R a m fp d")
      (auto simp: raw proof_parse_def proof_verify_def)
qed (auto simp: proof_parse_def)

end
