(* ===== verification/Machines_Client.thy ===== *)
theory Machines_Client
  imports Licenses_Client Proof_Token
begin

text \<open>
  \<open>MachinesClient\<close> of \<open>src/src/tamga/client.py\<close>: machines are created, read, listed,
  updated and deleted, activated with a rollback, found by fingerprint, pinged, checked out and
  proved offline.
\<close>

section \<open>Requests\<close>

definition max_checkout_ttl_seconds :: int where
  "max_checkout_ttl_seconds = 31536000"

definition max_machine_search_pages :: int where
  "max_machine_search_pages = 20"

text \<open>The optional keyword arguments of \<open>create\<close> and \<open>update\<close>.\<close>

record machine_attrs =
  ma_name :: "pystr option"
  ma_ip :: "pystr option"
  ma_hostname :: "pystr option"
  ma_platform :: "pystr option"
  ma_cores :: "int option"
  ma_memory :: "int option"
  ma_disk :: "int option"
  ma_metadata :: "pydict option"

definition machine_attributes :: "machine_attrs \<Rightarrow> pydict" where
  "machine_attributes a =
     scope_member ''name'' JStr (ma_name a) @ scope_member ''ip'' JStr (ma_ip a)
     @ scope_member ''hostname'' JStr (ma_hostname a) @ scope_member ''platform'' JStr (ma_platform a)
     @ scope_member ''cores'' JInt (ma_cores a) @ scope_member ''memory'' JInt (ma_memory a)
     @ scope_member ''disk'' JInt (ma_disk a) @ scope_member ''metadata'' JObj (ma_metadata a)"

definition machine_create_body :: "uuid \<Rightarrow> pystr \<Rightarrow> machine_attrs \<Rightarrow> json" where
  "machine_create_body license_id fingerprint a =
     JObj [(lit ''data'', JObj
       [(lit ''type'', JStr (lit ''machines'')),
        (lit ''attributes'', JObj ((lit ''fingerprint'', JStr fingerprint) # machine_attributes a)),
        (lit ''relationships'', JObj [(lit ''license'', JObj [(lit ''data'', JObj
           [(lit ''type'', JStr (lit ''licenses'')), (lit ''id'', JStr (str_of_uuid license_id))])])])])]"

definition machine_call ::
  "client \<Rightarrow> pystr \<Rightarrow> pystr \<Rightarrow> json option \<Rightarrow> uuid machine_resource call" where
  "machine_call C verb path body =
     ebind (send_request C verb path body [] None False)
       (\<lambda>data. lift (parse_machine_resource (cl_runtime C) data))"

definition machines_create :: "client \<Rightarrow> uuid \<Rightarrow> pystr \<Rightarrow> machine_attrs \<Rightarrow> uuid machine_resource call" where
  "machines_create C license_id fingerprint a =
     machine_call C (lit ''POST'') (lit ''/machines'') (Some (machine_create_body license_id fingerprint a))"

definition machines_delete :: "client \<Rightarrow> uuid \<Rightarrow> unit call" where
  "machines_delete C machine_id =
     ebind (send_request C (lit ''DELETE'') (slash ''machines'' machine_id) None [] None False) (\<lambda>_. ret ())"

definition machines_get :: "client \<Rightarrow> uuid \<Rightarrow> uuid machine_resource call" where
  "machines_get C machine_id = machine_call C (lit ''GET'') (slash ''machines'' machine_id) None"

definition machines_update :: "client \<Rightarrow> uuid \<Rightarrow> machine_attrs \<Rightarrow> uuid machine_resource call" where
  "machines_update C machine_id a =
     machine_call C (lit ''PATCH'') (slash ''machines'' machine_id)
       (Some (JObj [(lit ''data'', JObj [(lit ''type'', JStr (lit ''machines'')),
                                        (lit ''attributes'', JObj (machine_attributes a))])]))"

definition ping_heartbeat :: "client \<Rightarrow> uuid \<Rightarrow> uuid machine_resource call" where
  "ping_heartbeat C machine_id =
     machine_call C (lit ''POST'') (slash ''machines'' machine_id @ lit ''/actions/ping-heartbeat'') None"

definition reset_heartbeat :: "client \<Rightarrow> uuid \<Rightarrow> uuid machine_resource call" where
  "reset_heartbeat C machine_id =
     machine_call C (lit ''POST'') (slash ''machines'' machine_id @ lit ''/actions/reset-heartbeat'') None"

section \<open>Listing and searching\<close>

definition machines_list_params ::
  "int \<Rightarrow> int option \<Rightarrow> pystr option \<Rightarrow> uuid option \<Rightarrow> pystr option \<Rightarrow> pydict" where
  "machines_list_params page_number page_size search license_id platform =
     [(lit ''page[number]'', JInt page_number),
      (lit ''page[size]'', JInt (case page_size of None \<Rightarrow> max_page_size | Some n \<Rightarrow> n))]
     @ scope_member ''filter[q]'' JStr search
     @ scope_member ''filter[license]'' (JStr \<circ> str_of_uuid) license_id
     @ scope_member ''filter[platform]'' JStr platform"

definition machines_list ::
  "client \<Rightarrow> int \<Rightarrow> int option \<Rightarrow> pystr option \<Rightarrow> uuid option \<Rightarrow> pystr option
    \<Rightarrow> uuid machine_resource offset_page call" where
  "machines_list C page_number page_size search license_id platform =
     ebind (send_request_with_meta C (lit ''GET'') (lit ''/machines'') None
              (machines_list_params page_number page_size search license_id platform)) (\<lambda>(data, meta).
     ebind (lift (parse_page_meta meta)) (\<lambda>(number, applied_size, total, total_pages).
     ebind (lift (resource_items (parse_machine_resource (cl_runtime C)) data)) (\<lambda>items.
       ret \<lparr>op_items = items, op_page_number = number, op_page_size = applied_size, op_total = total,
            op_total_pages = total_pages\<rparr>)))"

text \<open>The loop of \<open>find_by_fingerprint\<close>, over the page numbers that are left.\<close>

fun find_in_pages ::
  "client \<Rightarrow> pystr \<Rightarrow> uuid \<Rightarrow> int list \<Rightarrow> uuid machine_resource option call" where
  "find_in_pages C fingerprint license_id [] = ret None"
| "find_in_pages C fingerprint license_id (page_number # page_numbers) =
     ebind (machines_list C page_number (Some max_page_size) (Some fingerprint) (Some license_id) None)
       (\<lambda>p. case find (\<lambda>m. mr_fingerprint m = JStr fingerprint) (op_items p) of
              Some m \<Rightarrow> ret (Some m)
            | None \<Rightarrow> (if op_items p = [] \<or> \<not> has_next_page p then ret None
                       else find_in_pages C fingerprint license_id page_numbers))"

definition find_by_fingerprint ::
  "client \<Rightarrow> pystr \<Rightarrow> uuid \<Rightarrow> int \<Rightarrow> uuid machine_resource option call" where
  "find_by_fingerprint C fingerprint license_id max_pages =
     (if strip py_isspace fingerprint = [] then lift (Inl ValueError)
      else find_in_pages C fingerprint license_id [1..max_pages])"

section \<open>Activation\<close>

definition create_limit_code_to_validation_code :: "(pystr \<times> validation_code) list" where
  "create_limit_code_to_validation_code =
     [(lit ''MACHINE_LIMIT_EXCEEDED'', TOO_MANY_MACHINES), (lit ''CORE_LIMIT_EXCEEDED'', TOO_MANY_CORES),
      (lit ''MEMORY_LIMIT_EXCEEDED'', TOO_MUCH_MEMORY), (lit ''DISK_LIMIT_EXCEEDED'', TOO_MUCH_DISK)]"

definition over_limit_codes :: "validation_code list" where
  "over_limit_codes =
     [TOO_MANY_MACHINES, TOO_MANY_CORES, TOO_MUCH_MEMORY, TOO_MUCH_DISK, TOO_MANY_PROCESSES]"

definition machine_over_limit ::
  "int \<Rightarrow> json \<Rightarrow> validation_code \<Rightarrow> bool \<Rightarrow> json \<Rightarrow> pydict option \<Rightarrow> exc" where
  "machine_over_limit status code vcode rolled_back pointer meta =
     TamgaError ((tamga_error_of MachineOverLimitError status code JNull pointer meta)
       \<lparr>te_validation_code := Some vcode, te_rolled_back := Some rolled_back\<rparr>)"

text \<open>
  What becomes of an error of the creation: a limit code is normalised, any other is raised again.
  An unhashable code cannot be looked up.
\<close>

definition creation_refused :: "exc \<Rightarrow> exc" where
  "creation_refused e =
     (case e of
        TamgaError t \<Rightarrow>
          (if \<not> hashable (te_code t) then TypeError
           else (case te_code t of
                   JStr s \<Rightarrow>
                     (case map_of create_limit_code_to_validation_code s of
                        Some vcode \<Rightarrow> machine_over_limit (te_status t) (te_code t) vcode False (te_pointer t) (te_meta t)
                      | None \<Rightarrow> e)
                 | _ \<Rightarrow> e))
      | _ \<Rightarrow> e)"

definition activate_machine ::
  "client \<Rightarrow> uuid \<Rightarrow> pystr \<Rightarrow> machine_attrs \<Rightarrow> uuid machine_resource call" where
  "activate_machine C license_id fingerprint a =
     ebind (try_except (machines_create C license_id fingerprint a) is_TamgaError
              (\<lambda>e. lift (Inl (creation_refused e)))) (\<lambda>machine.
     ebind (validate_by_id C False license_id None False) (\<lambda>result.
       let code = vm_code (vr_meta result) in
       if code \<in> set over_limit_codes then
         ebind (machines_delete C (mr_id machine)) (\<lambda>_.
           lift (Inl (machine_over_limit 200 (JStr (validation_code_value code)) code True JNull None)))
       else ret machine))"

definition resolve_taken_fingerprint ::
  "client \<Rightarrow> tamga_error \<Rightarrow> uuid \<Rightarrow> pystr \<Rightarrow> uuid machine_resource option call" where
  "resolve_taken_fingerprint C conflict license_id fingerprint =
     (case existing_machine_id conflict of
        None \<Rightarrow> find_by_fingerprint C fingerprint license_id max_machine_search_pages
      | Some machine_id \<Rightarrow>
          ebind (try_except (ebind (machines_get C machine_id) (\<lambda>m. ret (Some m)))
                   (is_tamga NotFoundError) (\<lambda>_. ret None)) (\<lambda>existing.
            case existing of
              Some m \<Rightarrow> (if mr_fingerprint m = JStr fingerprint then ret (Some m)
                         else find_by_fingerprint C fingerprint license_id max_machine_search_pages)
            | None \<Rightarrow> find_by_fingerprint C fingerprint license_id max_machine_search_pages))"

definition fingerprint_conflict :: "tamga_error \<Rightarrow> exc" where
  "fingerprint_conflict conflict =
     TamgaError (tamga_error_of FingerprintTakenError (te_status conflict) (te_code conflict) JNull
       (te_pointer conflict) (te_meta conflict))"

definition recover_activation ::
  "client \<Rightarrow> uuid \<Rightarrow> pystr \<Rightarrow> exc \<Rightarrow> uuid machine_resource call" where
  "recover_activation C license_id fingerprint e =
     (case e of
        TamgaError conflict \<Rightarrow>
          ebind (resolve_taken_fingerprint C conflict license_id fingerprint) (\<lambda>existing.
            case existing of Some m \<Rightarrow> ret m | None \<Rightarrow> lift (Inl (fingerprint_conflict conflict)))
      | _ \<Rightarrow> lift (Inl e))"

definition activate_machine_idempotent ::
  "client \<Rightarrow> uuid \<Rightarrow> pystr \<Rightarrow> machine_attrs \<Rightarrow> uuid machine_resource call" where
  "activate_machine_idempotent C license_id fingerprint a =
     try_except (activate_machine C license_id fingerprint a) (is_tamga FingerprintTakenError)
       (recover_activation C license_id fingerprint)"

section \<open>Check-out and offline proofs\<close>

definition ttl_invalid :: exc where
  "ttl_invalid =
     TamgaError (tamga_error_of TtlInvalidError 422 (JStr (lit ''TTL_INVALID'')) JNull JNull None)"

definition octet_headers :: "client \<Rightarrow> pydict \<Rightarrow> exc + headers \<times> pydict" where
  "octet_headers C params =
     rbind (sanitize_tamga_version (cl_runtime C) (cf_api_version (cl_config C))) (\<lambda>version.
       let headers = [(lit ''Tamga-Version'', version), (lit ''Accept'', lit ''application/octet-stream'')] in
       case cf_default_auth (cl_config C) of
         None \<Rightarrow> Inr (headers, params) | Some a \<Rightarrow> apply_auth headers params a)"

definition machine_check_out :: "client \<Rightarrow> uuid \<Rightarrow> bool \<Rightarrow> int option \<Rightarrow> bool \<Rightarrow> checked_out call" where
  "machine_check_out C machine_id encrypt ttl as_bytes =
     (let path = slash ''machines'' machine_id @ lit ''/actions/check-out'' in
      if (case ttl of None \<Rightarrow> False | Some t \<Rightarrow> \<not> (0 < t \<and> t \<le> max_checkout_ttl_seconds))
      then lift (Inl ttl_invalid)
      else if as_bytes then
        ebind (lift (octet_headers C (check_out_params encrypt ttl))) (\<lambda>(headers, params).
        ebind (client_request C (lit ''GET'') path None params headers)
          (\<lambda>response. lift (raw_content C response)))
      else
        ebind (send_request C (lit ''POST'') path (Some (check_out_body encrypt ttl)) [] None False)
          (\<lambda>data. lift (rbind (parse_file_resource data) (\<lambda>f. Inr (FileResource f)))))"

text \<open>\<open>_json_headers\<close> drops the query parameters of the auth transport, as \<open>_headers\<close> does.\<close>

definition machine_json_headers :: "client \<Rightarrow> exc + headers" where
  "machine_json_headers C =
     rbind (sanitize_tamga_version (cl_runtime C) (cf_api_version (cl_config C))) (\<lambda>version.
       let headers = [(lit ''Tamga-Version'', version), (lit ''Content-Type'', lit ''application/vnd.api+json'')] in
       case cf_default_auth (cl_config C) of
         None \<Rightarrow> Inr headers | Some a \<Rightarrow> rbind (apply_auth headers [] a) (\<lambda>(hs, _). Inr hs))"

definition generate_offline_proof :: "client \<Rightarrow> uuid \<Rightarrow> pydict option \<Rightarrow> proof_result call" where
  "generate_offline_proof C machine_id dataset =
     (let dataset = JObj (case dataset of None \<Rightarrow> [] | Some d \<Rightarrow> d) in
      ebind (lift (machine_json_headers C)) (\<lambda>headers.
      ebind (client_request C (lit ''POST'') (slash ''machines'' machine_id @ lit ''/actions/generate-offline-proof'')
               (Some (JObj [(lit ''meta'', JObj [(lit ''dataset'', dataset)])])) [] headers) (\<lambda>response.
      ebind (lift (parse_response (cl_runtime C) response False)) (\<lambda>parsed.
      ebind (lift (raw_response_meta (cl_runtime C) response)) (\<lambda>meta.
      ebind (lift (parse_machine_resource (cl_runtime C) (tr_data parsed))) (\<lambda>machine.
      ebind (lift (of_option ValueError (uuid_of_str (cf_account_id (cl_config C))))) (\<lambda>account_id.
        lift (case dict_get meta (lit ''proof'') (JStr []) of
                JStr raw \<Rightarrow> proof_parse raw account_id (mr_id machine) (mr_fingerprint machine) dataset
              | _ \<Rightarrow> Inl AttributeError))))))))"

end
