(* ===== verification/Scripted_Server.thy ===== *)
theory Scripted_Server
  imports Resources
begin

text \<open>
  A server for the instances of the library: it answers each request by a script, a function from
  the request to a status and a document, and never throttles. The lemmas evaluate a call against
  it; they model no code of their own.
\<close>

definition reply :: "int \<times> json \<Rightarrow> http_response" where
  "reply r = \<lparr>rs_status = fst r, rs_content = json_bytes sample_runtime (snd r), rs_header = (\<lambda>_. None)\<rparr>"

definition sample_config :: config where
  "sample_config = \<lparr>cf_account_id = str_of_uuid 1, cf_host = lit ''h'', cf_api_version = lit ''1'',
     cf_default_auth = None, cf_user_agent = None, cf_max_retries = 3\<rparr>"

definition scripted :: "(http_request \<Rightarrow> int \<times> json) \<Rightarrow> client" where
  "scripted script =
     \<lparr>cl_config = sample_config, cl_runtime = sample_runtime,
      cl_send = (\<lambda>_ rq. Some (reply (script rq))), cl_random = (\<lambda>_. 0),
      cl_now = (\<lambda>_. \<lparr>dt_aware = True, dt_micros = 0\<rparr>)\<rparr>"

lemma scripted_sel [simp]:
  "cl_config (scripted f) = sample_config" "cl_runtime (scripted f) = sample_runtime"
  "cf_default_auth sample_config = None" "cf_user_agent sample_config = None"
  by (simp_all add: scripted_def sample_config_def)

lemma reply_status [simp]: "rs_status (reply r) = fst r"
  by (simp add: reply_def)

lemma json_bytes_not_Nil: "writable v \<Longrightarrow> json_bytes R v \<noteq> []"
  using json_loads_json_bytes [of v R] by (auto simp: json_loads_def json_decode_def loads_text_def
      skip_ws_def Let_def utf8_decode_def)

lemma reply_loads:
  "writable (snd r) \<Longrightarrow> json_loads sample_runtime (rs_content (reply r)) = Inr (canon (snd r))"
  "writable (snd r) \<Longrightarrow> rs_content (reply r) \<noteq> []"
  by (simp_all add: reply_def json_loads_json_bytes json_bytes_not_Nil)

lemma scripted_request:
  assumes "fst (script rq) \<noteq> 429"
  shows "request_with_retry (scripted script) rq h = (Inr (reply (script rq)), h @ [Sent rq])"
  using assms
  by (simp add: request_with_retry_def request_loop_step [of _ _ _ 0] answer_def)
    (simp add: scripted_def)

definition sample_headers :: headers where
  "sample_headers = [(lit ''Tamga-Version'', lit ''1''), (lit ''Content-Type'', lit ''application/vnd.api+json'')]"

lemma sample_version: "sanitize_tamga_version sample_runtime (lit ''1'') = Inr (lit ''1'')"
  by (rule sanitize_id) (simp_all add: version_char_ok_def py_isalnum_def ascii_isalnum_def lit_def)

lemma scripted_prepare:
  "prepare_request (scripted script) verb path body params None False =
     Inr \<lparr>rq_method = verb, rq_url = path, rq_json = body, rq_params = params, rq_headers = sample_headers\<rparr>"
  using sample_version
  by (simp add: prepare_request_def request_headers_def sample_headers_def json_api_content_type_def
      sample_config_def)

definition scripted_rq :: "pystr \<Rightarrow> pystr \<Rightarrow> json option \<Rightarrow> pydict \<Rightarrow> http_request" where
  "scripted_rq verb path body params =
     \<lparr>rq_method = verb, rq_url = path, rq_json = body, rq_params = params, rq_headers = sample_headers\<rparr>"

lemma scripted_rq_sel [simp]:
  "rq_method (scripted_rq verb path body params) = verb" "rq_url (scripted_rq verb path body params) = path"
  "rq_json (scripted_rq verb path body params) = body" "rq_params (scripted_rq verb path body params) = params"
  "rq_headers (scripted_rq verb path body params) = sample_headers"
  by (simp_all add: scripted_rq_def)

text \<open>One request against the script, answered by a document \<open>{"data": v, ...}\<close> with keys in order.\<close>

lemma scripted_send_raw:
  assumes "script (scripted_rq verb path body params) = (status, v)" "status \<noteq> 429"
  shows "send_raw_response (scripted script) verb path body params None False h =
    (Inr (reply (status, v)), h @ [Sent (scripted_rq verb path body params)])"
  using assms
  by (simp add: send_raw_response_def scripted_prepare ebind_lift scripted_request flip: scripted_rq_def)

lemma scripted_parse:
  assumes "writable v" "canon v = JObj d" "status < 400"
  shows "\<exists>t. parse_response sample_runtime (reply (status, v)) False = Inr t \<and>
      tr_data t = dict_get d (lit ''data'') (JObj d)"
    "raw_response_meta sample_runtime (reply (status, v)) =
       Inr (case dict_get d (lit ''meta'') JNull of JObj m \<Rightarrow> m | _ \<Rightarrow> [])"
  using assms parse_response_data [of "reply (status, v)" sample_runtime d] reply_loads [of "(status, v)"]
  by simp_all

lemma scripted_send:
  assumes "script (scripted_rq verb path body params) = (status, v)"
    and "writable v" "canon v = JObj d" "status < 400"
  shows "send_request (scripted script) verb path body params None False h =
    (Inr (dict_get d (lit ''data'') (JObj d)), h @ [Sent (scripted_rq verb path body params)])"
proof -
  obtain t where "parse_response sample_runtime (reply (status, v)) False = Inr t"
    "tr_data t = dict_get d (lit ''data'') (JObj d)"
    using scripted_parse(1) [OF assms(2-4)] by blast
  then show ?thesis
    using scripted_send_raw [of script verb path body params status v h] assms(1,4)
    by (simp add: send_request_def send_request_raw_def ebind_step(2) ebind_lift lift_apply ret_apply)
qed

lemma scripted_client_request:
  assumes "script (scripted_rq verb path body params) = (status, v)" "status \<noteq> 429"
  shows "client_request (scripted script) verb path body params sample_headers h =
    (Inr (reply (status, v)), h @ [Sent (scripted_rq verb path body params)])"
  using assms by (simp add: client_request_def scripted_request flip: scripted_rq_def)

end
