(* ===== verification/Machine_Activation.thy ===== *)
theory Machine_Activation
  imports Machines_Client Scripted_Server
begin

text \<open>
  What is shown of \<open>MachinesClient\<close>: what activation sends and deletes, what its error says,
  what the idempotent variant recovers, and what the search by fingerprint returns and costs.
\<close>

section \<open>Events and exceptions of the operations\<close>

lemma emits_machine_call [emits_intros]:
  "(\<And>ev. to_path verb path ev \<Longrightarrow> P ev) \<Longrightarrow> emits P (machine_call C verb path body)"
  unfolding machine_call_def by (intro emits_intros)

lemma throws_machine_call [throws_intros]: "throws call_error (machine_call C verb path body)"
  unfolding machine_call_def by (intro throws_intros raises_only_shape_call machines.parse_raises)

lemma sends_once_machine_call:
  "\<not> is_retryable verb path \<Longrightarrow> sends_once verb path (machine_call C verb path body)"
  unfolding machine_call_def by (intro sends_once_ebind sends_once_request) (simp_all add: lift_apply)

lemma sends_once_machines_create:
  "sends_once (lit ''POST'') (lit ''/machines'') (machines_create C license_id fingerprint a)"
  unfolding machines_create_def by (intro sends_once_machine_call not_retried)

lemma throws_machines_create [throws_intros]: "throws call_error (machines_create C license_id fingerprint a)"
  unfolding machines_create_def by (rule throws_machine_call)

lemma sends_once_machines_delete:
  "sends_once (lit ''DELETE'') (slash ''machines'' machine_id) (machines_delete C machine_id)"
  unfolding machines_delete_def
  by (intro sends_once_ebind sends_once_request not_retried) (simp_all add: ret_apply)

lemma throws_machines_delete [throws_intros]: "throws call_error (machines_delete C machine_id)"
  unfolding machines_delete_def by (intro throws_intros)

lemma validate_urls:
  assumes "validate_by_id C ents license_id scope touch h = (v, h')"
  obtains es where "h' = h @ es" "urls (lit ''DELETE'') es = []"
    "set (urls (lit ''POST'') es) \<subseteq> {slash ''licenses'' license_id @ lit ''/actions/validate''}"
proof -
  obtain es where "h' = h @ es"
    "list_all (to_path (lit ''POST'') (slash ''licenses'' license_id @ lit ''/actions/validate'')) es"
    using emitsD [OF emits_validate_by_id assms] by blast
  then show ?thesis
    using that [of es] urls_to_path [of "lit ''POST''" _ es "lit ''DELETE''"] urls_paths [of "lit ''POST''" _ es]
    by simp
qed

section \<open>Activation\<close>

text \<open>
  The four ways an activation ends: the creation failed, the validation failed, the license is
  over its limit and the machine is deleted, or the machine is returned.
\<close>

lemma activation_cases:
  obtains
    (refused) e h1 where "machines_create C lid fp a h = (Inl e, h1)"
      "activate_machine C lid fp a h = (Inl (if is_TamgaError e then creation_refused e else e), h1)"
  | (unvalidated) m h1 e h2 where "machines_create C lid fp a h = (Inr m, h1)"
      "validate_by_id C False lid None False h1 = (Inl e, h2)" "activate_machine C lid fp a h = (Inl e, h2)"
  | (over) m h1 v h2 r h3 where "machines_create C lid fp a h = (Inr m, h1)"
      "validate_by_id C False lid None False h1 = (Inr v, h2)"
      "vm_code (vr_meta v) \<in> set over_limit_codes" "machines_delete C (mr_id m) h2 = (r, h3)"
      "activate_machine C lid fp a h =
        (case r of Inl e \<Rightarrow> Inl e
         | Inr _ \<Rightarrow> Inl (machine_over_limit 200 (JStr (validation_code_value (vm_code (vr_meta v))))
             (vm_code (vr_meta v)) True JNull None), h3)"
  | (activated) m h1 v h2 where "machines_create C lid fp a h = (Inr m, h1)"
      "validate_by_id C False lid None False h1 = (Inr v, h2)"
      "vm_code (vr_meta v) \<notin> set over_limit_codes" "activate_machine C lid fp a h = (Inr m, h2)"
proof (cases "machines_create C lid fp a h")
  case c: (Pair w h1)
  show ?thesis
  proof (cases w)
    case (Inl e)
    with c refused show ?thesis
      by (simp add: activate_machine_def ebind_def try_except_def lift_apply)
  next
    case (Inr m)
    show ?thesis
    proof (cases "validate_by_id C False lid None False h1")
      case v: (Pair x h2)
      have run: "activate_machine C lid fp a h =
          ebind (validate_by_id C False lid None False) (\<lambda>result.
            let code = vm_code (vr_meta result) in
            if code \<in> set over_limit_codes then
              ebind (machines_delete C (mr_id m)) (\<lambda>_.
                lift (Inl (machine_over_limit 200 (JStr (validation_code_value code)) code True JNull None)))
            else ret m) h1"
        using c Inr by (simp add: activate_machine_def ebind_def [of "try_except _ _ _"] try_except_def)
      show ?thesis
      proof (cases x)
        case (Inl e)
        with c v run show ?thesis by (intro unvalidated) (simp_all add: ebind_step(1) \<open>w = Inr m\<close>)
      next
        case x: (Inr v')
        show ?thesis
        proof (cases "vm_code (vr_meta v') \<in> set over_limit_codes")
          case True
          obtain r h3 where d: "machines_delete C (mr_id m) h2 = (r, h3)" by (cases "machines_delete C (mr_id m) h2")
          with c v x True run \<open>w = Inr m\<close> show ?thesis
            by (intro over [of m h1 v' h2 r h3]) (simp_all add: ebind_step(2) ebind_def lift_apply Let_def split: sum.split)
        next
          case False
          with c v x run \<open>w = Inr m\<close> show ?thesis
            by (intro activated [of m h1 v' h2]) (simp_all add: ebind_step(2) ret_apply)
        qed
      qed
    qed
  qed
qed

lemma create_events:
  assumes "machines_create C lid fp a h = (r, h1)"
  shows "\<exists>es. h1 = h @ es \<and> urls (lit ''DELETE'') es = [] \<and>
    length (filter (\<lambda>u. u = lit ''/machines'') (urls (lit ''POST'') es)) \<le> 1"
proof -
  obtain es where es: "h1 = h @ es" "list_all (to_path (lit ''POST'') (lit ''/machines'')) es"
    "urls (lit ''POST'') es = [lit ''/machines''] \<or> urls (lit ''POST'') es = [] \<and> (\<exists>e. r = Inl e)"
    by (rule sends_once_urls [OF sends_once_machines_create assms])
  then have "urls (lit ''DELETE'') es = []" using urls_to_path [OF es(2)] by simp
  with es show ?thesis by (intro exI [of _ es]) auto
qed

lemma validate_events:
  assumes "validate_by_id C ents lid scope touch h = (r, h1)"
  shows "\<exists>es. h1 = h @ es \<and> urls (lit ''DELETE'') es = [] \<and>
    filter (\<lambda>u. u = lit ''/machines'') (urls (lit ''POST'') es) = []"
proof -
  obtain es where "h1 = h @ es" "urls (lit ''DELETE'') es = []"
    "set (urls (lit ''POST'') es) \<subseteq> {slash ''licenses'' lid @ lit ''/actions/validate''}"
    by (rule validate_urls [OF assms])
  moreover have "slash ''licenses'' lid @ lit ''/actions/validate'' \<noteq> lit ''/machines''"
    by (simp add: slash_def lit_def)
  ultimately show ?thesis by (intro exI [of _ es]) (auto simp: filter_empty_conv)
qed

lemma created_validated_events:
  assumes "machines_create C lid fp a h = (Inr m, h1)"
    and "validate_by_id C ents lid scope touch h1 = (r, h2)"
  shows "\<exists>es. h2 = h @ es \<and> urls (lit ''DELETE'') es = [] \<and>
    length (filter (\<lambda>u. u = lit ''/machines'') (urls (lit ''POST'') es)) \<le> 1"
proof -
  obtain es1 es2 where "h1 = h @ es1" "urls (lit ''DELETE'') es1 = []"
    "length (filter (\<lambda>u. u = lit ''/machines'') (urls (lit ''POST'') es1)) \<le> 1" "h2 = h1 @ es2"
    "urls (lit ''DELETE'') es2 = []" "filter (\<lambda>u. u = lit ''/machines'') (urls (lit ''POST'') es2) = []"
    using create_events [OF assms(1)] validate_events [OF assms(2)] by blast
  then show ?thesis by (intro exI [of _ "es1 @ es2"]) simp
qed

lemma delete_events:
  assumes "machines_delete C i h = (r, h1)"
  obtains es where "h1 = h @ es" "urls (lit ''POST'') es = []"
    "urls (lit ''DELETE'') es = [slash ''machines'' i] \<or> urls (lit ''DELETE'') es = [] \<and> (\<exists>e. r = Inl e)"
proof -
  obtain es where es: "h1 = h @ es" "list_all (to_path (lit ''DELETE'') (slash ''machines'' i)) es"
    "urls (lit ''DELETE'') es = [slash ''machines'' i] \<or> urls (lit ''DELETE'') es = [] \<and> (\<exists>e. r = Inl e)"
    by (rule sends_once_urls [OF sends_once_machines_delete assms])
  then show ?thesis using that [of es] urls_to_path [OF es(2)] by simp
qed

text \<open>
  Whether a request can be assembled depends on the configuration only, so once the creation was
  sent a deletion can be sent as well.
\<close>

lemma apply_auth_any:
  "apply_auth hs ps a = Inr r \<Longrightarrow> \<exists>r'. apply_auth hs' ps' a = Inr r'"
  by (cases a) (auto simp: rbind_Inr_iff)

lemma prepare_request_any:
  assumes "prepare_request C verb path body params auth quick = Inr rq"
  shows "\<exists>rq'. prepare_request C verb' path' body' params' auth quick' = Inr rq'"
proof -
  obtain w where w: "sanitize_tamga_version (cl_runtime C) (cf_api_version (cl_config C)) = Inr w"
    using assms by (auto simp: prepare_request_def rbind_Inr_iff)
  show ?thesis
  proof (cases "case auth of Some a \<Rightarrow> Some a | None \<Rightarrow> cf_default_auth (cl_config C)")
    case None
    with w show ?thesis by (simp add: prepare_request_def Let_def)
  next
    case (Some a)
    with assms w obtain r where "apply_auth (request_headers (cl_config C) w quick) params a = Inr r"
      by (auto simp: prepare_request_def Let_def rbind_Inr_iff)
    then obtain hs ps where "apply_auth (request_headers (cl_config C) w quick') params' a = Inr (hs, ps)"
      using apply_auth_any by (metis surj_pair)
    with w Some show ?thesis by (simp add: prepare_request_def Let_def)
  qed
qed

lemma created_prepared:
  assumes "machines_create C lid fp a h = (Inr m, h1)"
  obtains rq where "prepare_request C verb path None [] None False = Inr rq"
proof -
  have "\<exists>rq. prepare_request C (lit ''POST'') (lit ''/machines'') (Some (machine_create_body lid fp a)) [] None False = Inr rq"
    using assms
    by (cases "prepare_request C (lit ''POST'') (lit ''/machines'') (Some (machine_create_body lid fp a)) [] None False")
      (auto simp: machines_create_def machine_call_def send_request_def send_request_raw_def send_raw_response_def
        ebind_def lift_apply)
  with that prepare_request_any show thesis by metis
qed

text \<open>The requests of the three steps: the creation and the deletion are sent once, the validation is one exchange.\<close>

lemma send_request_once:
  assumes "prepare_request C verb path body ps None False = Inr rq" "\<not> is_retryable verb path"
  shows "snd (send_request C verb path body ps None False h) = h @ [Sent rq]"
proof -
  have "rq_method rq = verb" "rq_url rq = path" using prepare_request_Inr(1,2) [OF assms(1)] by simp_all
  then have "request_with_retry C rq h = (answer C h rq, h @ [Sent rq])"
    using request_sent_once [of rq C h] assms(2) by simp
  then show ?thesis
    by (simp add: send_request_def send_request_raw_def send_raw_response_def assms(1)
        ebind_lift ret_apply lift_apply ebind_def split: prod.split sum.split)
qed

lemma snd_ebind_quiet: "(\<And>x h. snd (f x h) = h) \<Longrightarrow> snd (ebind m f h) = snd (m h)"
  by (simp add: ebind_def split: prod.split sum.split)

lemma delete_sent:
  assumes "prepare_request C (lit ''DELETE'') (slash ''machines'' i) None [] None False = Inr rq"
  shows "snd (machines_delete C i h) = h @ [Sent rq]"
  using send_request_once [OF assms not_retried(1)]
  by (simp add: machines_delete_def snd_ebind_quiet ret_apply)

lemma create_sent:
  assumes "prepare_request C (lit ''POST'') (lit ''/machines'') (Some (machine_create_body lid fp a)) [] None False = Inr rq"
  shows "snd (machines_create C lid fp a h) = h @ [Sent rq]"
  using send_request_once [OF assms not_retried(3)]
  by (simp add: machines_create_def machine_call_def snd_ebind_quiet lift_apply)

lemma created_request:
  assumes "machines_create C lid fp a h = (Inr m, h1)"
  obtains c where "h1 = h @ [Sent c]" "rq_method c = lit ''POST''" "rq_url c = lit ''/machines''"
    "rq_json c = Some (machine_create_body lid fp a)"
proof -
  obtain c where c: "prepare_request C (lit ''POST'') (lit ''/machines'') (Some (machine_create_body lid fp a))
      [] None False = Inr c"
    using assms
    by (cases "prepare_request C (lit ''POST'') (lit ''/machines'') (Some (machine_create_body lid fp a)) [] None False")
      (auto simp: machines_create_def machine_call_def send_request_def send_request_raw_def send_raw_response_def
        ebind_def lift_apply)
  with create_sent [OF c, of h] prepare_request_Inr(1-3) [OF c] assms that show thesis by simp
qed

lemma refused_request:
  assumes "machines_create C lid fp a h = (Inl e, h1)"
  shows "h1 = h \<or> (\<exists>c. h1 = h @ [Sent c] \<and> rq_method c = lit ''POST'' \<and> rq_url c = lit ''/machines'')"
  using sends_once_machines_create [of C lid fp a, unfolded sends_once_def, rule_format, of h] assms by auto

lemma license_headers_any:
  assumes "prepare_request C verb path body ps None quick = Inr rq"
  obtains hs where "license_headers C None = Inr hs"
proof -
  obtain w where w: "sanitize_tamga_version (cl_runtime C) (cf_api_version (cl_config C)) = Inr w"
    using assms by (auto simp: prepare_request_def rbind_Inr_iff)
  show ?thesis
  proof (cases "cf_default_auth (cl_config C)")
    case None
    with w that show ?thesis by (simp add: license_headers_def Let_def)
  next
    case (Some x)
    with assms w obtain r where "apply_auth (request_headers (cl_config C) w quick) ps x = Inr r"
      by (auto simp: prepare_request_def Let_def rbind_Inr_iff)
    from apply_auth_any [OF this, of "[(lit ''Tamga-Version'', w),
        (lit ''Content-Type'', lit ''application/vnd.api+json'')]" "[]"]
    obtain q where "apply_auth [(lit ''Tamga-Version'', w),
        (lit ''Content-Type'', lit ''application/vnd.api+json'')] [] x = Inr q" by blast
    with w Some that show ?thesis by (cases q) (simp add: license_headers_def Let_def)
  qed
qed

lemma validation_quiet: "snd (validation_of_response C ents r h) = h"
proof -
  have "emits (\<lambda>_. False) (validation_of_response C ents r)" by (rule emits_validation_of_response)
  from emitsD [OF this prod.collapse [symmetric], of h] show ?thesis by (auto simp: list_all_iff)
qed

text \<open>A validation without a scope is one exchange of one request.\<close>

definition validation_request :: "uuid \<Rightarrow> http_request \<Rightarrow> bool" where
  "validation_request license_id rq \<longleftrightarrow>
     rq_method rq = lit ''POST'' \<and> rq_url rq = slash ''licenses'' license_id @ lit ''/actions/validate'' \<and>
     rq_json rq = None \<and> rq_params rq = []"

lemma validation_sent:
  assumes "license_headers C None = Inr hs"
  shows "\<exists>v. validation_request lid v \<and> snd (validate_by_id C ents lid None False h) = snd (request_with_retry C v h)"
proof -
  let ?v = "\<lparr>rq_method = lit ''POST'', rq_url = slash ''licenses'' lid @ lit ''/actions/validate'', rq_json = None,
      rq_params = [], rq_headers = hs\<rparr>"
  have "validation_body None False = None" by (simp add: validation_body_def scope_to_dict_def)
  then have "snd (validate_by_id C ents lid None False h) = snd (request_with_retry C ?v h)"
    using assms by (simp add: validate_by_id_def ebind_lift client_request_def snd_ebind_quiet validation_quiet)
  then show ?thesis by (intro exI [of _ ?v]) (simp add: validation_request_def)
qed

lemma created_validation:
  assumes "machines_create C lid fp a h = (Inr m, h1)" "validate_by_id C False lid None False h1 = (r, h2)"
  obtains v vs where "validation_request lid v" "h2 = h1 @ vs" "snd (request_with_retry C v h1) = h1 @ vs"
proof -
  obtain rq where "prepare_request C (lit ''GET'') [] None [] None False = Inr rq"
    by (rule created_prepared [OF assms(1)])
  then obtain hs where "license_headers C None = Inr hs" by (rule license_headers_any)
  then obtain v where v: "validation_request lid v" "h2 = snd (request_with_retry C v h1)"
    using validation_sent [of C hs lid False h1] assms(2) by auto
  obtain es where "h2 = h1 @ es"
    using request_loop_events [of C "is_retryable (rq_method v) (rq_url v)" v 0 h1] v(2)
    by (auto simp: request_with_retry_def)
  with v that show thesis by blast
qed

text \<open>
  C1: the protocol of an activation, event by event. A creation is sent, at most once; unless it
  returned a machine, nothing follows. After it, one request for the validation of this license is
  exchanged (repeated only as the retry loop repeats it, C4 and C18). When that validation reports one
  of the over-limit codes, one deletion follows, of the machine this creation returned; otherwise
  nothing does. A machine is returned exactly when it was created and validated within the limits.
\<close>

theorem activation_protocol:
  "\<exists>cs vs ds. snd (activate_machine C lid fp a h) = h @ cs @ vs @ ds \<and>
     (case machines_create C lid fp a h of
        (Inl _, h1) \<Rightarrow> h1 = h @ cs \<and> vs = [] \<and> ds = [] \<and>
          (cs = [] \<or> (\<exists>c. cs = [Sent c] \<and> rq_method c = lit ''POST'' \<and> rq_url c = lit ''/machines''))
      | (Inr m, h1) \<Rightarrow> h1 = h @ cs \<and>
          (\<exists>c. cs = [Sent c] \<and> rq_method c = lit ''POST'' \<and> rq_url c = lit ''/machines'' \<and>
             rq_json c = Some (machine_create_body lid fp a)) \<and>
          (\<exists>v. validation_request lid v \<and> h @ cs @ vs = snd (request_with_retry C v (h @ cs))) \<and>
          (case fst (validate_by_id C False lid None False h1) of
             Inl _ \<Rightarrow> ds = []
           | Inr v \<Rightarrow>
               (if vm_code (vr_meta v) \<in> set over_limit_codes
                then \<exists>d. ds = [Sent d] \<and> rq_method d = lit ''DELETE'' \<and> rq_url d = slash ''machines'' (mr_id m)
                else ds = []))) \<and>
     (fst (activate_machine C lid fp a h) = Inr n \<longleftrightarrow>
       (\<exists>h1 v h2. machines_create C lid fp a h = (Inr n, h1) \<and>
          validate_by_id C False lid None False h1 = (Inr v, h2) \<and> vm_code (vr_meta v) \<notin> set over_limit_codes))"
proof (rule activation_cases [of C lid fp a h])
  fix e h1
  assume c: "machines_create C lid fp a h = (Inl e, h1)"
    "activate_machine C lid fp a h = (Inl (if is_TamgaError e then creation_refused e else e), h1)"
  obtain cs where "h1 = h @ cs" "cs = [] \<or> (\<exists>c. cs = [Sent c] \<and> rq_method c = lit ''POST'' \<and> rq_url c = lit ''/machines'')"
    using refused_request [OF c(1)] by (metis append_Nil2)
  with c show ?thesis by - (rule exI [of _ cs], rule exI [of _ "[]"], rule exI [of _ "[]"], simp)
next
  fix m h1 e h2
  assume s: "machines_create C lid fp a h = (Inr m, h1)"
    "validate_by_id C False lid None False h1 = (Inl e, h2)" "activate_machine C lid fp a h = (Inl e, h2)"
  obtain c where c: "h1 = h @ [Sent c]" "rq_method c = lit ''POST''" "rq_url c = lit ''/machines''"
    "rq_json c = Some (machine_create_body lid fp a)" by (rule created_request [OF s(1)])
  obtain q vs where q: "validation_request lid q" "h2 = h1 @ vs" "snd (request_with_retry C q h1) = h1 @ vs"
    by (rule created_validation [OF s(1,2)])
  from q c have "\<exists>q. validation_request lid q \<and> h @ [Sent c] @ vs = snd (request_with_retry C q (h @ [Sent c]))"
    by (intro exI [of _ q]) simp
  with c q(2) show ?thesis
    by - (rule exI [of _ "[Sent c]"], rule exI [of _ vs], rule exI [of _ "[]"], simp add: s [unfolded c(1)])
next
  fix m h1 v h2 r h3
  assume s: "machines_create C lid fp a h = (Inr m, h1)" "validate_by_id C False lid None False h1 = (Inr v, h2)"
    "vm_code (vr_meta v) \<in> set over_limit_codes" "machines_delete C (mr_id m) h2 = (r, h3)"
    "activate_machine C lid fp a h =
      (case r of Inl e \<Rightarrow> Inl e
       | Inr _ \<Rightarrow> Inl (machine_over_limit 200 (JStr (validation_code_value (vm_code (vr_meta v))))
           (vm_code (vr_meta v)) True JNull None), h3)"
  obtain c where c: "h1 = h @ [Sent c]" "rq_method c = lit ''POST''" "rq_url c = lit ''/machines''"
    "rq_json c = Some (machine_create_body lid fp a)" by (rule created_request [OF s(1)])
  obtain q vs where q: "validation_request lid q" "h2 = h1 @ vs" "snd (request_with_retry C q h1) = h1 @ vs"
    by (rule created_validation [OF s(1,2)])
  obtain d where d: "prepare_request C (lit ''DELETE'') (slash ''machines'' (mr_id m)) None [] None False = Inr d"
    using created_prepared [OF s(1)] by blast
  have "rq_method d = lit ''DELETE''" "rq_url d = slash ''machines'' (mr_id m)" "h3 = h2 @ [Sent d]"
    using prepare_request_Inr(1,2) [OF d] delete_sent [OF d, of h2] s(4) by simp_all
  moreover from q c have "\<exists>q. validation_request lid q \<and> h @ [Sent c] @ vs = snd (request_with_retry C q (h @ [Sent c]))"
    by (intro exI [of _ q]) simp
  ultimately show ?thesis using s(3) c q(2)
    by - (rule exI [of _ "[Sent c]"], rule exI [of _ vs], rule exI [of _ "[Sent d]"], simp add: s(1,2,5) [unfolded c(1)] split: sum.split)
next
  fix m h1 v h2
  assume s: "machines_create C lid fp a h = (Inr m, h1)" "validate_by_id C False lid None False h1 = (Inr v, h2)"
    "vm_code (vr_meta v) \<notin> set over_limit_codes" "activate_machine C lid fp a h = (Inr m, h2)"
  obtain c where c: "h1 = h @ [Sent c]" "rq_method c = lit ''POST''" "rq_url c = lit ''/machines''"
    "rq_json c = Some (machine_create_body lid fp a)" by (rule created_request [OF s(1)])
  obtain q vs where q: "validation_request lid q" "h2 = h1 @ vs" "snd (request_with_retry C q h1) = h1 @ vs"
    by (rule created_validation [OF s(1,2)])
  from q c have "\<exists>q. validation_request lid q \<and> h @ [Sent c] @ vs = snd (request_with_retry C q (h @ [Sent c]))"
    by (intro exI [of _ q]) simp
  with c q(2) s(3) show ?thesis
    by - (rule exI [of _ "[Sent c]"], rule exI [of _ vs], rule exI [of _ "[]"], auto simp add: s(1,2,4) [unfolded c(1)])
qed

text \<open>A rollback that succeeded: over the whole activation, one deletion was sent, of the machine created.\<close>

lemma rollback_events:
  assumes "machines_create C lid fp a h = (Inr m, h1)"
    and "validate_by_id C False lid None False h1 = (Inr v, h2)"
    and "machines_delete C (mr_id m) h2 = (Inr (), h3)"
  shows "\<exists>es. h3 = h @ es \<and> urls (lit ''DELETE'') es = [slash ''machines'' (mr_id m)]"
proof -
  obtain es es3 where "h2 = h @ es" "urls (lit ''DELETE'') es = []" "h3 = h2 @ es3"
    "urls (lit ''DELETE'') es3 = [slash ''machines'' (mr_id m)]"
    using created_validated_events [OF assms(1,2)] delete_events [OF assms(3)] by (metis sum.distinct(1))
  then show ?thesis by (intro exI [of _ "es @ es3"]) simp
qed

text \<open>What the errors of the steps say of a rollback: nothing, unless the activation made them.\<close>

lemma creation_refused_error:
  assumes "call_error e" "creation_refused e = TamgaError t" "te_rolled_back t = Some b"
  obtains u s c where "e = TamgaError u" "\<not> b" "te_class t = MachineOverLimitError" "te_code u = JStr s"
    "map_of create_limit_code_to_validation_code s = Some c"
    "te_code t = te_code u" "te_status t = te_status u" "te_meta t = te_meta u" "te_pointer t = te_pointer u"
    "te_validation_code t = Some c"
proof (cases e)
  case (TamgaError u)
  show ?thesis
  proof (cases "\<exists>s c. te_code u = JStr s \<and> map_of create_limit_code_to_validation_code s = Some c")
    case True
    then obtain s c where c: "te_code u = JStr s" "map_of create_limit_code_to_validation_code s = Some c" by blast
    with assms(2,3) TamgaError show ?thesis
      by (intro that [OF TamgaError _ _ c])
        (auto simp: creation_refused_def machine_over_limit_def hashable_def)
  next
    case False
    then have "creation_refused e \<in> {TypeError, e}"
      unfolding creation_refused_def TamgaError exc.case by (auto split: json.splits option.splits)
    with assms TamgaError show ?thesis by auto
  qed
qed (use assms(2) in \<open>simp_all add: creation_refused_def\<close>)

lemma create_limit_codes:
  "map_of create_limit_code_to_validation_code s = Some c \<Longrightarrow>
     (s, c) \<in> {(lit ''MACHINE_LIMIT_EXCEEDED'', TOO_MANY_MACHINES), (lit ''CORE_LIMIT_EXCEEDED'', TOO_MANY_CORES),
               (lit ''MEMORY_LIMIT_EXCEEDED'', TOO_MUCH_MEMORY), (lit ''DISK_LIMIT_EXCEEDED'', TOO_MUCH_DISK)}"
  by (drule map_of_SomeD) (simp add: create_limit_code_to_validation_code_def)

text \<open>
  C16: what an activation error says. An error that speaks of a rollback is a
  \<open>MachineOverLimitError\<close> and speaks of it truly: with \<open>rolled_back=True\<close> the machine was created, the
  validation named one of the five limits, which the error carries, and the deletion was sent once and
  succeeded; with \<open>rolled_back=False\<close> the creation itself was refused with one of the four limit codes,
  nothing else was sent, and the error carries that code, its metadata and the verdict for the same limit.
\<close>

theorem activation_error_truthful:
  assumes "activate_machine C lid fp a h = (Inl (TamgaError t), h')" and "te_rolled_back t = Some b"
  shows "te_class t = MachineOverLimitError \<and>
    ((b \<and> (\<exists>m h1 v h2 es. machines_create C lid fp a h = (Inr m, h1) \<and>
            validate_by_id C False lid None False h1 = (Inr v, h2) \<and>
            vm_code (vr_meta v) \<in> {TOO_MANY_MACHINES, TOO_MANY_CORES, TOO_MUCH_MEMORY, TOO_MUCH_DISK, TOO_MANY_PROCESSES} \<and>
            te_validation_code t = Some (vm_code (vr_meta v)) \<and>
            te_code t = JStr (validation_code_value (vm_code (vr_meta v))) \<and>
            machines_delete C (mr_id m) h2 = (Inr (), h') \<and> h' = h @ es \<and>
            urls (lit ''DELETE'') es = [slash ''machines'' (mr_id m)]))
    \<or> (\<not> b \<and> (\<exists>u s c. machines_create C lid fp a h = (Inl (TamgaError u), h') \<and>
            te_code u = JStr s \<and> te_code t = te_code u \<and> te_status t = te_status u \<and>
            te_meta t = te_meta u \<and> te_pointer t = te_pointer u \<and> te_validation_code t = Some c \<and>
            (s, c) \<in> {(lit ''MACHINE_LIMIT_EXCEEDED'', TOO_MANY_MACHINES), (lit ''CORE_LIMIT_EXCEEDED'', TOO_MANY_CORES),
               (lit ''MEMORY_LIMIT_EXCEEDED'', TOO_MUCH_MEMORY), (lit ''DISK_LIMIT_EXCEEDED'', TOO_MUCH_DISK)})))"
proof (rule activation_cases [of C lid fp a h])
  fix e h1
  assume c: "machines_create C lid fp a h = (Inl e, h1)"
    "activate_machine C lid fp a h = (Inl (if is_TamgaError e then creation_refused e else e), h1)"
  have call: "call_error e" by (rule throwsD [OF throws_machines_create c(1)])
  from c(2) assms(1) have refused: "creation_refused e = TamgaError t" "h' = h1"
    by (cases e; simp)+
  from creation_refused_error [OF call refused(1) assms(2)] obtain u s k where u: "e = TamgaError u" "\<not> b"
    "te_class t = MachineOverLimitError" "te_code u = JStr s"
    "map_of create_limit_code_to_validation_code s = Some k" "te_code t = te_code u" "te_status t = te_status u"
    "te_meta t = te_meta u" "te_pointer t = te_pointer u" "te_validation_code t = Some k" .
  from create_limit_codes [OF u(5)] u c(1) refused(2) show ?thesis by blast
next
  fix m h1 e h2
  assume v: "validate_by_id C False lid None False h1 = (Inl e, h2)" and run: "activate_machine C lid fp a h = (Inl e, h2)"
  have "call_error e" by (rule throwsD [OF throws_validate_by_id v])
  moreover have "e = TamgaError t" using run assms(1) by simp
  ultimately show ?thesis using assms(2) by simp
next
  fix m h1 v h2 r h3
  assume c: "machines_create C lid fp a h = (Inr m, h1)"
    and v: "validate_by_id C False lid None False h1 = (Inr v, h2)"
    and over: "vm_code (vr_meta v) \<in> set over_limit_codes"
    and d: "machines_delete C (mr_id m) h2 = (r, h3)"
    and run: "activate_machine C lid fp a h =
      (case r of Inl e \<Rightarrow> Inl e
       | Inr _ \<Rightarrow> Inl (machine_over_limit 200 (JStr (validation_code_value (vm_code (vr_meta v))))
           (vm_code (vr_meta v)) True JNull None), h3)"
  show ?thesis
  proof (cases r)
    case (Inl e)
    then have "e = TamgaError t" using run assms(1) by simp
    then show ?thesis using assms(2) Inl d throwsD [OF throws_machines_delete, of C "mr_id m" h2 e h3] by simp
  next
    case (Inr u)
    with d have del: "machines_delete C (mr_id m) h2 = (Inr (), h3)" by simp
    from rollback_events [OF c v this] obtain es where
      "h3 = h @ es" "urls (lit ''DELETE'') es = [slash ''machines'' (mr_id m)]" by blast
    moreover have "h' = h3" "b" "te_class t = MachineOverLimitError"
      "te_validation_code t = Some (vm_code (vr_meta v))" "te_code t = JStr (validation_code_value (vm_code (vr_meta v)))"
      using run Inr assms by (auto simp: machine_over_limit_def)
    moreover have "vm_code (vr_meta v) \<in> {TOO_MANY_MACHINES, TOO_MANY_CORES, TOO_MUCH_MEMORY, TOO_MUCH_DISK, TOO_MANY_PROCESSES}"
      using over unfolding over_limit_codes_def by simp
    ultimately show ?thesis using c v del by blast
  qed
qed (use assms in simp_all)

text \<open>
  An instance: a server that creates machine 5 and then finds license 9 to have too many machines.
  The activation fails, says it was rolled back, and machine 5 was deleted.
\<close>

definition no_attrs :: machine_attrs where
  "no_attrs = \<lparr>ma_name = None, ma_ip = None, ma_hostname = None, ma_platform = None, ma_cores = None,
     ma_memory = None, ma_disk = None, ma_metadata = None\<rparr>"

definition sample_machine_doc :: "pystr \<Rightarrow> json" where
  "sample_machine_doc fingerprint =
     JObj [(lit ''data'', JObj [(lit ''attributes'', JObj [(lit ''fingerprint'', JStr fingerprint)]),
                               (lit ''id'', JStr (str_of_uuid 5))])]"

definition sample_verdict_doc :: "validation_code \<Rightarrow> json" where
  "sample_verdict_doc code =
     JObj [(lit ''data'', JObj [(lit ''id'', JStr (str_of_uuid 9))]),
           (lit ''meta'', JObj [(lit ''code'', JStr (validation_code_value code))])]"

definition sample_script :: "validation_code \<Rightarrow> http_request \<Rightarrow> int \<times> json" where
  "sample_script code rq =
     (if rq_url rq = lit ''/machines'' then (201, sample_machine_doc (lit ''f''))
      else if rq_method rq = lit ''DELETE'' then (200, JObj [])
      else (200, sample_verdict_doc code))"

lemma writable_lit: "list_all encodable (lit s) \<longleftrightarrow> list_all (encodable \<circ> of_char) s"
  by (simp add: lit_def list.pred_map)

lemma sample_docs_writable: "writable (sample_machine_doc (lit ''f''))" "writable (sample_verdict_doc code)"
  unfolding sample_machine_doc_def sample_verdict_doc_def
  by (simp add: str_of_uuid_encodable, simp add: lit_def encodable_def surrogate_def)
    (cases code; simp add: str_of_uuid_encodable, simp add: lit_def encodable_def surrogate_def)

lemma sample_docs_canon:
  "canon (sample_machine_doc fp) = sample_machine_doc fp"
  "canon (sample_verdict_doc code) = sample_verdict_doc code"
  by (simp_all add: sample_machine_doc_def sample_verdict_doc_def lit_def)

lemma sample_created:
  "\<exists>m. machines_create (scripted (sample_script code)) lid fp a h =
      (Inr m, h @ [Sent (scripted_rq (lit ''POST'') (lit ''/machines'') (Some (machine_create_body lid fp a)) [])]) \<and>
     mr_id m = 5 \<and> mr_fingerprint m = JStr (lit ''f'')"
proof -
  let ?rq = "scripted_rq (lit ''POST'') (lit ''/machines'') (Some (machine_create_body lid fp a)) []"
  have "send_request (scripted (sample_script code)) (lit ''POST'') (lit ''/machines'')
      (Some (machine_create_body lid fp a)) [] None False h =
    (Inr (JObj [(lit ''attributes'', JObj [(lit ''fingerprint'', JStr (lit ''f''))]), (lit ''id'', JStr (str_of_uuid 5))]),
      h @ [Sent ?rq])"
    using scripted_send [of "sample_script code" "lit ''POST''" "lit ''/machines''" "Some (machine_create_body lid fp a)"
        "[]" 201 "sample_machine_doc (lit ''f'')"] sample_docs_writable(1) sample_docs_canon(1)
    by (simp add: sample_script_def) (simp add: sample_machine_doc_def)
  then show ?thesis
    by (simp add: machines_create_def machine_call_def ebind_step(2) lift_apply parse_machine_resource_def
        item_uuid_def heartbeat_enum.of_value [of NOT_STARTED, simplified] get_datetime_def parse_datetime_def)
qed

lemma sample_validated:
  "\<exists>v. validate_by_id (scripted (sample_script code)) False lid None False h =
      (Inr v, h @ [Sent (scripted_rq (lit ''POST'') (slash ''licenses'' lid @ lit ''/actions/validate'') None [])]) \<and>
     vm_code (vr_meta v) = code"
proof -
  let ?path = "slash ''licenses'' lid @ lit ''/actions/validate''" and ?C = "scripted (sample_script code)"
  have path: "?path \<noteq> lit ''/machines''" by (simp add: slash_def lit_def)
  have headers: "license_headers ?C None = Inr sample_headers"
    using sample_version by (simp add: license_headers_def sample_headers_def sample_config_def)
  have sent: "client_request ?C (lit ''POST'') ?path None [] sample_headers h =
      (Inr (reply (200, sample_verdict_doc code)), h @ [Sent (scripted_rq (lit ''POST'') ?path None [])])"
    using path by (intro scripted_client_request) (simp_all add: sample_script_def)
  have doc: "canon (sample_verdict_doc code) = JObj [(lit ''data'', JObj [(lit ''id'', JStr (str_of_uuid 9))]),
      (lit ''meta'', JObj [(lit ''code'', JStr (validation_code_value code))])]"
    by (simp add: sample_docs_canon(2)) (simp add: sample_verdict_doc_def)
  note parsed = scripted_parse [OF sample_docs_writable(2) doc, of 200]
  obtain t where t: "parse_response sample_runtime (reply (200, sample_verdict_doc code)) False = Inr t"
    "tr_data t = JObj [(lit ''id'', JStr (str_of_uuid 9))]"
    using parsed(1) by auto
  have meta: "raw_response_meta sample_runtime (reply (200, sample_verdict_doc code)) =
      Inr [(lit ''code'', JStr (validation_code_value code))]"
    using parsed(2) by simp
  have "\<exists>v. validation_of_response ?C False (reply (200, sample_verdict_doc code)) h' = (Inr v, h') \<and>
      vm_code (vr_meta v) = code" for h'
    by (simp add: validation_of_response_def t meta ebind_lift py_truthy_def license_from_data_def
        parse_license_resource_def item_uuid_def ebind_step(2) utc_now_def parse_validation_meta_def
        get_datetime_def parse_datetime_def ret_apply)
  moreover have "validation_body None False = None" by (simp add: validation_body_def scope_to_dict_def)
  ultimately show ?thesis
    using sent by (simp add: validate_by_id_def headers ebind_lift ebind_step(2))
qed

lemma activation_error_truthful_witness:
  "\<exists>t h'. activate_machine (scripted (sample_script TOO_MANY_MACHINES)) 9 (lit ''f'') no_attrs [] =
       (Inl (TamgaError t), h') \<and> te_rolled_back t = Some True \<and>
     urls (lit ''DELETE'') h' = [slash ''machines'' 5]"
proof -
  let ?C = "scripted (sample_script TOO_MANY_MACHINES)"
  obtain m h1 where m: "machines_create ?C 9 (lit ''f'') no_attrs [] = (Inr m, h1)" "mr_id m = 5"
    using sample_created [of TOO_MANY_MACHINES 9 "lit ''f''" no_attrs "[]"] by blast
  obtain v h2 where v: "validate_by_id ?C False 9 None False h1 = (Inr v, h2)"
    "vm_code (vr_meta v) = TOO_MANY_MACHINES"
    using sample_validated [of TOO_MANY_MACHINES 9 h1] by blast
  have path: "slash ''machines'' 5 \<noteq> lit ''/machines''" by (simp add: slash_def lit_def)
  have "send_request ?C (lit ''DELETE'') (slash ''machines'' 5) None [] None False h2 =
      (Inr (dict_get [] (lit ''data'') (JObj [])),
       h2 @ [Sent (scripted_rq (lit ''DELETE'') (slash ''machines'' 5) None [])])"
    using path by (intro scripted_send [where status = 200 and v = "JObj []"]) (simp_all add: sample_script_def)
  then obtain h3 where d: "machines_delete ?C 5 h2 = (Inr (), h3)"
    by (simp add: machines_delete_def ebind_step(2) ret_apply)
  obtain t where run: "activate_machine ?C 9 (lit ''f'') no_attrs [] = (Inl (TamgaError t), h3)"
    "te_rolled_back t = Some True"
    using m v d by (simp add: activate_machine_def ebind_def try_except_def over_limit_codes_def Let_def
        lift_apply machine_over_limit_def)
  show ?thesis
    using activation_error_truthful [OF run] m run by auto
qed

section \<open>Search by fingerprint\<close>

lemma page_cost:
  "\<exists>es. snd (machines_list C n sz q l pf h) = h @ es \<and> list_all (to_path (lit ''GET'') (lit ''/machines'')) es \<and>
     length (sends es) \<le> Suc (nat (cf_max_retries (cl_config C)))"
proof -
  let ?ps = "machines_list_params n sz q l pf"
  have raw: "\<exists>es. snd (send_raw_response C (lit ''GET'') (lit ''/machines'') None ?ps None False h) = h @ es \<and>
      list_all (to_path (lit ''GET'') (lit ''/machines'')) es \<and>
      length (sends es) \<le> Suc (nat (cf_max_retries (cl_config C)))"
  proof (rule send_raw_response_cases [of C "lit ''GET''" "lit ''/machines''" None ?ps None False])
    fix e assume "send_raw_response C (lit ''GET'') (lit ''/machines'') None ?ps None False = lift (Inl e)"
    then show ?thesis by (simp add: lift_apply)
  next
    fix rq assume rq: "prepare_request C (lit ''GET'') (lit ''/machines'') None ?ps None False = Inr rq"
      "send_raw_response C (lit ''GET'') (lit ''/machines'') None ?ps None False = request_with_retry C rq"
    obtain es k where es: "snd (request_with_retry C rq h) = h @ es" "list_all (request_event rq) es"
      "sends es = replicate (Suc k) rq" "k \<le> nat (cf_max_retries (cl_config C))"
      using request_loop_events [of C "is_retryable (rq_method rq) (rq_url rq)" rq 0 h]
      by (auto simp: request_with_retry_def budget_def split: if_splits)
    have "list_all (to_path (lit ''GET'') (lit ''/machines'')) es"
      using es(2) request_event_to_path [of rq] prepare_request_Inr(1,2) [OF rq(1)]
      unfolding list_all_iff by metis
    with es rq(2) show ?thesis by auto
  qed
  have "snd (machines_list C n sz q l pf h)
      = snd (send_raw_response C (lit ''GET'') (lit ''/machines'') None ?ps None False h)"
    by (simp add: machines_list_def send_request_with_meta_def ebind_def lift_apply ret_apply
        split: prod.split sum.split)
  with raw show ?thesis by simp
qed

lemma find_in_pages_cost:
  "\<exists>es. snd (find_in_pages C fp lid ns h) = h @ es \<and> list_all (to_path (lit ''GET'') (lit ''/machines'')) es \<and>
     length (sends es) \<le> length ns * Suc (nat (cf_max_retries (cl_config C)))"
proof (induction ns arbitrary: h)
  case (Cons n ns)
  let ?list = "machines_list C n (Some max_page_size) (Some fp) (Some lid) None"
  obtain es where es: "snd (?list h) = h @ es" "list_all (to_path (lit ''GET'') (lit ''/machines'')) es"
    "length (sends es) \<le> Suc (nat (cf_max_retries (cl_config C)))"
    using page_cost [of C n "Some max_page_size" "Some fp" "Some lid" None h] by blast
  obtain v where v: "?list h = (v, h @ es)" using es(1) by (metis prod.collapse)
  obtain fs where fs: "snd (find_in_pages C fp lid ns (h @ es)) = (h @ es) @ fs"
    "list_all (to_path (lit ''GET'') (lit ''/machines'')) fs"
    "length (sends fs) \<le> length ns * Suc (nat (cf_max_retries (cl_config C)))"
    using Cons.IH by blast
  show ?case
  proof (cases "snd (find_in_pages C fp lid (n # ns) h) = h @ es")
    case True
    with es show ?thesis by (intro exI [of _ es]) simp
  next
    case False
    then have "snd (find_in_pages C fp lid (n # ns) h) = snd (find_in_pages C fp lid ns (h @ es))"
      using v by (cases v) (auto simp: ebind_def ret_apply split: option.splits if_splits)
    with es fs show ?thesis by (intro exI [of _ "es @ fs"]) simp
  qed
qed (simp add: ret_apply)

lemma find_in_pages_exact:
  "find_in_pages C fp lid ns h = (Inr (Some m), h') \<Longrightarrow> mr_fingerprint m = JStr fp"
proof (induction ns arbitrary: h)
  case (Cons n ns)
  from Cons.prems show ?case
    by (auto elim!: ebind_Inr dest: Cons.IH simp: ret_apply find_Some_iff split: option.splits if_splits)
qed (simp add: ret_apply)

lemma find_by_fingerprint_exact:
  "find_by_fingerprint C fp lid n h = (Inr (Some m), h') \<Longrightarrow> mr_fingerprint m = JStr fp"
  using find_in_pages_exact by (auto simp: find_by_fingerprint_def lift_apply split: if_splits)

lemma find_by_fingerprint_cost:
  "\<exists>es. snd (find_by_fingerprint C fp lid n h) = h @ es \<and> list_all (to_path (lit ''GET'') (lit ''/machines'')) es \<and>
     length (sends es) \<le> nat n * Suc (nat (cf_max_retries (cl_config C)))"
  using find_in_pages_cost [of C fp lid "[1..n]" h] by (simp add: find_by_fingerprint_def lift_apply)

text \<open>
  C33: the search by fingerprint. It terminates whatever page metadata the server sends, sending
  only reads of the machine list and at most \<open>max_pages\<close> of them, each with its retries; and a
  machine it returns has exactly the fingerprint asked for.
\<close>

theorem search_bounded_and_exact:
  "\<exists>es. snd (find_by_fingerprint C fp lid n h) = h @ es \<and>
     list_all (to_path (lit ''GET'') (lit ''/machines'')) es \<and>
     length (sends es) \<le> nat n * Suc (nat (cf_max_retries (cl_config C))) \<and>
     {m. fst (find_by_fingerprint C fp lid n h) = Inr (Some m)} \<subseteq> {m. mr_fingerprint m = JStr fp}"
proof -
  have "mr_fingerprint m = JStr fp" if "fst (find_by_fingerprint C fp lid n h) = Inr (Some m)" for m
    using find_by_fingerprint_exact that by (metis prod.collapse)
  then show ?thesis using find_by_fingerprint_cost [of C fp lid n h] by blast
qed

section \<open>Idempotent activation\<close>

text \<open>The recovery only reads.\<close>

definition read_event :: "event \<Rightarrow> bool" where
  "read_event ev \<longleftrightarrow> (case ev of Sent rq \<Rightarrow> rq_method rq = lit ''GET'' | Slept _ \<Rightarrow> True)"

lemma to_path_read: "to_path (lit ''GET'') path ev \<Longrightarrow> read_event ev"
  by (cases ev) (simp_all add: to_path_def read_event_def)

lemma emits_find_by_fingerprint [emits_intros]:
  "(\<And>ev. read_event ev \<Longrightarrow> P ev) \<Longrightarrow> emits P (find_by_fingerprint C fp lid n)"
proof (rule emitsI)
  fix h assume "\<And>ev. read_event ev \<Longrightarrow> P ev"
  then show "\<exists>es. snd (find_by_fingerprint C fp lid n h) = h @ es \<and> list_all P es"
    using find_by_fingerprint_cost [of C fp lid n h] to_path_read by (metis list_all_iff)
qed

lemma emits_recover [emits_intros]: "emits read_event (recover_activation C lid fp e)"
proof (cases e)
  case (TamgaError t)
  show ?thesis
    unfolding recover_activation_def TamgaError exc.case resolve_taken_fingerprint_def machines_get_def
    by (intro emits_intros) (assumption | erule to_path_read)+
qed (simp_all add: recover_activation_def emits_pure)

text \<open>How the lookup of the machine that holds a fingerprint ends.\<close>

lemma resolve_cases:
  assumes "resolve_taken_fingerprint C t lid fp h = (v, h')"
  obtains
    (found) m where "v = Inr (Some m)" "mr_fingerprint m = JStr fp"
  | (searched) h1 where "v = Inr None" "find_by_fingerprint C fp lid max_machine_search_pages h1 = (Inr None, h')"
  | (unread) e i h1 where "v = Inl e" "existing_machine_id t = Some i" "machines_get C i h1 = (Inl e, h')"
      "\<not> is_tamga NotFoundError e"
  | (unsearched) e h1 where "v = Inl e" "find_by_fingerprint C fp lid max_machine_search_pages h1 = (Inl e, h')"
proof -
  let ?find = "find_by_fingerprint C fp lid max_machine_search_pages"
  have search: thesis if "?find h1 = (v, h')" for h1
  proof (cases v)
    case (Inl e)
    with that unsearched show thesis by blast
  next
    case (Inr r)
    with that found searched find_by_fingerprint_exact [of C fp lid max_machine_search_pages h1] show thesis
      by (cases r) blast+
  qed
  show thesis
  proof (cases "existing_machine_id t")
    case None
    with assms search show thesis by (simp add: resolve_taken_fingerprint_def)
  next
    case (Some i)
    obtain r h1 where r: "machines_get C i h = (r, h1)" by (cases "machines_get C i h")
    show thesis
    proof (cases r)
      case (Inl e)
      show thesis
      proof (cases "is_tamga NotFoundError e")
        case True
        with assms Some r Inl search show thesis
          by (simp add: resolve_taken_fingerprint_def try_except_def ebind_def ret_apply)
      next
        case False
        with assms Some r Inl have "v = Inl e" "h' = h1"
          by (simp_all add: resolve_taken_fingerprint_def try_except_def ebind_def ret_apply)
        with unread [OF _ Some] r Inl False show thesis by blast
      qed
    next
      case (Inr m)
      show thesis
      proof (cases "mr_fingerprint m = JStr fp")
        case True
        with assms Some r Inr have "v = Inr (Some m)"
          by (simp add: resolve_taken_fingerprint_def try_except_def ebind_def ret_apply)
        with found True show thesis by blast
      next
        case False
        with assms Some r Inr search show thesis
          by (simp add: resolve_taken_fingerprint_def try_except_def ebind_def ret_apply)
      qed
    qed
  qed
qed

text \<open>The fields a conflict keeps when it is raised again.\<close>

definition same_conflict :: "tamga_error \<Rightarrow> tamga_error \<Rightarrow> bool" where
  "same_conflict t u \<longleftrightarrow>
     te_class u = FingerprintTakenError \<and> te_status u = te_status t \<and> te_code u = te_code t \<and>
     te_pointer u = te_pointer t \<and> te_meta u = te_meta t"

lemma fingerprint_conflict_same: "\<exists>u. fingerprint_conflict t = TamgaError u \<and> same_conflict t u"
  by (simp add: fingerprint_conflict_def same_conflict_def)

text \<open>
  C17: idempotent activation. It is \<open>activate_machine\<close> unless that ends in a fingerprint conflict.
  After a conflict it only reads, and ends in one of three ways: it returns a machine with exactly the
  fingerprint asked for; or the search over the machines of the license came to its end without one,
  and the conflict is raised again with its status, code, pointer and metadata; or it raises what its
  last read raised, which for the read of the machine the conflict names is not \<open>NotFoundError\<close>.
\<close>

theorem idempotent_activation_recovers:
  "case activate_machine C lid fp a h of (r, h1) \<Rightarrow>
     if \<nexists>t. r = Inl (TamgaError t) \<and> te_class t = FingerprintTakenError
     then activate_machine_idempotent C lid fp a h = (r, h1)
     else \<exists>t v es. r = Inl (TamgaError t) \<and> activate_machine_idempotent C lid fp a h = (v, h1 @ es) \<and>
       list_all read_event es \<and>
       ((\<exists>m. v = Inr m \<and> mr_fingerprint m = JStr fp) \<or>
        (\<exists>u h2. v = Inl (TamgaError u) \<and> same_conflict t u \<and>
           find_by_fingerprint C fp lid max_machine_search_pages h2 = (Inr None, h1 @ es)) \<or>
        (\<exists>e h2. v = Inl e \<and>
           (find_by_fingerprint C fp lid max_machine_search_pages h2 = (Inl e, h1 @ es) \<or>
            \<not> is_tamga NotFoundError e \<and>
              (\<exists>i. existing_machine_id t = Some i \<and> machines_get C i h2 = (Inl e, h1 @ es)))))"
proof (cases "activate_machine C lid fp a h")
  case run: (Pair r h1)
  show ?thesis
  proof (cases "\<exists>t. r = Inl (TamgaError t) \<and> te_class t = FingerprintTakenError")
    case False
    then have "activate_machine_idempotent C lid fp a h = (r, h1)"
      using run by (cases r) (auto simp: activate_machine_idempotent_def try_except_def is_tamga_def split: exc.splits)
    with run False show ?thesis by simp
  next
    case True
    then obtain t where t: "r = Inl (TamgaError t)" "te_class t = FingerprintTakenError" by blast
    obtain w h2 where w: "resolve_taken_fingerprint C t lid fp h1 = (w, h2)"
      by (cases "resolve_taken_fingerprint C t lid fp h1")
    let ?v = "case w of Inl e \<Rightarrow> Inl e | Inr None \<Rightarrow> Inl (fingerprint_conflict t) | Inr (Some m) \<Rightarrow> Inr m"
    have rec: "recover_activation C lid fp (TamgaError t) h1 = (?v, h2)"
      using w by (simp add: recover_activation_def ebind_def ret_apply lift_apply split: sum.split option.split)
    then have idem: "activate_machine_idempotent C lid fp a h = (?v, h2)"
      using run t by (simp add: activate_machine_idempotent_def try_except_def is_tamga_def)
    obtain es where es: "h2 = h1 @ es" "list_all read_event es" using emitsD [OF emits_recover rec] by blast
    have "(\<exists>m. ?v = Inr m \<and> mr_fingerprint m = JStr fp) \<or>
        (\<exists>u h3. ?v = Inl (TamgaError u) \<and> same_conflict t u \<and>
           find_by_fingerprint C fp lid max_machine_search_pages h3 = (Inr None, h2)) \<or>
        (\<exists>e h3. ?v = Inl e \<and>
           (find_by_fingerprint C fp lid max_machine_search_pages h3 = (Inl e, h2) \<or>
            \<not> is_tamga NotFoundError e \<and>
              (\<exists>i. existing_machine_id t = Some i \<and> machines_get C i h3 = (Inl e, h2))))"
      using w by (cases rule: resolve_cases) (use fingerprint_conflict_same [of t] in auto)
    with idem es t run show ?thesis by auto
  qed
qed

text \<open>
  An instance of the recovery: the creation answers that machine 5 holds the fingerprint, and machine 5
  is read and returned.
\<close>

definition taken_doc :: json where
  "taken_doc = JObj [(lit ''errors'', JArr [JObj [(lit ''code'', JStr (lit ''FINGERPRINT_TAKEN'')),
     (lit ''meta'', JObj [(lit ''machineId'', JStr (str_of_uuid 5))])]])]"

definition taken_script :: "http_request \<Rightarrow> int \<times> json" where
  "taken_script rq =
     (if rq_method rq = lit ''POST'' then (409, taken_doc) else (200, sample_machine_doc (lit ''f'')))"

text \<open>The error of the creation, read off its answer.\<close>

lemma taken_docs:
  "writable taken_doc" "canon taken_doc = taken_doc" 
  by (simp_all add: taken_doc_def str_of_uuid_encodable)
    (simp_all add: lit_def encodable_def surrogate_def)

lemma taken_error:
  "parse_response sample_runtime (reply (409, taken_doc)) False =
     Inl (TamgaError (tamga_error_of FingerprintTakenError 409 (JStr (lit ''FINGERPRINT_TAKEN'')) (JStr []) JNull
       (Some [(lit ''machineId'', JStr (str_of_uuid 5))])))"
proof -
  have "json_loads sample_runtime (rs_content (reply (409, taken_doc))) = Inr taken_doc"
    using reply_loads(1) [of "(409, taken_doc)"] taken_docs by simp
  then show ?thesis
    by (simp add: parse_response_def raise_envelope_def parse_error_envelope_def first_error_cases)
      (simp add: taken_doc_def py_truthy_def py_index0_def py_or_def hashable_def exception_class_def
        code_to_exception_def parse_retry_after_def reply_def)
qed

lemma idempotent_activation_recovers_witness:
  "\<exists>m c es. activate_machine_idempotent (scripted taken_script) 9 (lit ''f'') no_attrs [] = (Inr m, Sent c # es) \<and>
     list_all read_event es \<and> mr_id m = 5 \<and> mr_fingerprint m = JStr (lit ''f'')"
proof -
  let ?C = "scripted taken_script" and ?body = "Some (machine_create_body 9 (lit ''f'') no_attrs)"
  let ?rq = "scripted_rq (lit ''POST'') (lit ''/machines'') ?body []"
  obtain t where t: "parse_response sample_runtime (reply (409, taken_doc)) False = Inl (TamgaError t)"
    "te_class t = FingerprintTakenError" "te_code t = JStr (lit ''FINGERPRINT_TAKEN'')"
    "existing_machine_id t = Some 5"
    using taken_error by (simp add: existing_machine_id_def meta_uuid_str)
  have "machines_create ?C 9 (lit ''f'') no_attrs [] = (Inl (TamgaError t), [Sent ?rq])"
    using scripted_send_raw [of taken_script "lit ''POST''" "lit ''/machines''" ?body "[]" 409 taken_doc "[]"] t(1)
    by (simp add: machines_create_def machine_call_def send_request_def send_request_raw_def ebind_step
        ebind_lift lift_apply taken_script_def)
  then have act: "activate_machine ?C 9 (lit ''f'') no_attrs [] = (Inl (TamgaError t), [Sent ?rq])"
    using t(3) by (simp add: activate_machine_def ebind_def try_except_def lift_apply creation_refused_def
        hashable_def create_limit_code_to_validation_code_def)
  have path: "slash ''machines'' 5 \<noteq> lit ''/machines''" by (simp add: slash_def lit_def)
  have "\<exists>m h1. machines_get ?C 5 h = (Inr m, h1) \<and> mr_id m = 5 \<and> mr_fingerprint m = JStr (lit ''f'')" for h
    using scripted_send [of taken_script "lit ''GET''" "slash ''machines'' 5" None "[]" 200
        "sample_machine_doc (lit ''f'')"] sample_docs_writable(1) sample_docs_canon(1)
    by (simp add: taken_script_def) (simp add: machines_get_def machine_call_def sample_machine_doc_def
        ebind_step(2) lift_apply parse_machine_resource_def item_uuid_def
        heartbeat_enum.of_value [of NOT_STARTED, simplified] get_datetime_def parse_datetime_def)
  then obtain m h1 where m: "machines_get ?C 5 [Sent ?rq] = (Inr m, h1)" "mr_id m = 5"
    "mr_fingerprint m = JStr (lit ''f'')" by blast
  then have "activate_machine_idempotent ?C 9 (lit ''f'') no_attrs [] = (Inr m, h1)"
    using act t(2,4) by (simp add: activate_machine_idempotent_def try_except_def is_tamga_def
        recover_activation_def resolve_taken_fingerprint_def ebind_def ret_apply)
  with idempotent_activation_recovers [of ?C 9 "lit ''f''" no_attrs "[]"] m act t(2) show ?thesis by auto
qed

section \<open>Check-out\<close>

text \<open>
  The check-out time limit. A time to live outside \<open>1..31536000\<close> seconds is refused with
  \<open>TTL_INVALID\<close> before anything is sent, on both variants; the bounds themselves and an absent
  limit reach the server.
\<close>

lemma check_out_ttl_bounds:
  "machine_check_out C i enc (Some (- int n)) raw h = (Inl ttl_invalid, h) \<and>
   machine_check_out C i enc (Some (31536001 + int n)) raw h = (Inl ttl_invalid, h) \<and>
   machine_check_out C i enc (Some t) False h =
     (if 1 \<le> t \<and> t \<le> 31536000
      then ebind (send_request C (lit ''POST'') (slash ''machines'' i @ lit ''/actions/check-out'')
                    (Some (check_out_body enc (Some t))) [] None False)
             (\<lambda>data. lift (rbind (parse_file_resource data) (\<lambda>f. Inr (FileResource f)))) h
      else (Inl ttl_invalid, h))"
  by (simp add: machine_check_out_def max_checkout_ttl_seconds_def lift_apply Let_def)

end
