(* ===== verification/Other_Clients.thy ===== *)
theory Other_Clients
  imports Entitlements_Client Scripted_Server
begin

text \<open>
  The remaining sub-clients of \<open>src/src/tamga/client.py\<close>: components, processes, accounts,
  policies, releases, artifacts, and the health probe of \<open>TamgaClient\<close>.

  The three keyset listings have one shape, which the locale \<open>keyset_listing\<close> states; its lemmas
  say what a page holds and what its cursor is, and are proved once for the three.
\<close>

section \<open>Components and processes\<close>

definition keyset_params :: "int \<Rightarrow> pystr option \<Rightarrow> pydict" where
  "keyset_params effective_limit cursor =
     (lit ''limit'', JInt effective_limit) # scope_member ''page[after]'' JStr cursor"

definition effective_limit :: "int option \<Rightarrow> int" where
  "effective_limit limit = (case limit of None \<Rightarrow> max_page_size | Some n \<Rightarrow> n)"

definition components_create ::
  "client \<Rightarrow> uuid \<Rightarrow> pystr \<Rightarrow> pystr \<Rightarrow> pydict option \<Rightarrow> component_resource call" where
  "components_create C machine_id fingerprint name metadata =
     (let body = [(lit ''machine_id'', JStr (str_of_uuid machine_id)), (lit ''fingerprint'', JStr fingerprint),
                  (lit ''name'', JStr name)] @ scope_member ''metadata'' JObj metadata
      in ebind (send_request C (lit ''POST'') (lit ''/components'') (Some (JObj body)) [] None False)
           (\<lambda>data. lift (parse_component_resource (cl_runtime C) data)))"

definition components_list ::
  "client \<Rightarrow> uuid \<Rightarrow> int option \<Rightarrow> pystr option \<Rightarrow> component_resource page call" where
  "components_list C machine_id limit cursor =
     ebind (send_request_raw C (lit ''GET'') (slash ''machines'' machine_id @ lit ''/components'') None
              (keyset_params (effective_limit limit) cursor) None False) (\<lambda>response.
     ebind (lift (resource_items (parse_component_resource (cl_runtime C)) (tr_data response))) (\<lambda>items.
       ret \<lparr>pg_items = items, pg_next_after = next_after_cursor co_id items (Some (effective_limit limit))\<rparr>))"

text \<open>A \<open>pid\<close> that is not text is refused; the argument is any value a caller may pass.\<close>

definition processes_create :: "client \<Rightarrow> uuid \<Rightarrow> json \<Rightarrow> pydict option \<Rightarrow> process_resource call" where
  "processes_create C machine_id pid metadata =
     (if \<not> is_str pid then lift (Inl TypeError)
      else (let body = [(lit ''machine_id'', JStr (str_of_uuid machine_id)), (lit ''pid'', pid)]
                       @ scope_member ''metadata'' JObj metadata
            in ebind (send_request C (lit ''POST'') (lit ''/processes'') (Some (JObj body)) [] None False)
                 (\<lambda>data. lift (parse_process_resource (cl_runtime C) data))))"

definition processes_ping :: "client \<Rightarrow> uuid \<Rightarrow> process_resource call" where
  "processes_ping C process_id =
     ebind (send_request C (lit ''POST'') (slash ''processes'' process_id @ lit ''/actions/ping'') None []
              None False)
       (\<lambda>data. lift (parse_process_resource (cl_runtime C) data))"

definition processes_delete :: "client \<Rightarrow> uuid \<Rightarrow> unit call" where
  "processes_delete C process_id =
     ebind (send_request C (lit ''DELETE'') (slash ''processes'' process_id) None [] None False) (\<lambda>_. ret ())"

definition processes_list ::
  "client \<Rightarrow> uuid \<Rightarrow> int option \<Rightarrow> pystr option \<Rightarrow> process_resource page call" where
  "processes_list C machine_id limit cursor =
     ebind (send_request_raw C (lit ''GET'') (slash ''machines'' machine_id @ lit ''/processes'') None
              (keyset_params (effective_limit limit) cursor) None False) (\<lambda>response.
     ebind (lift (resource_items (parse_process_resource (cl_runtime C)) (tr_data response))) (\<lambda>items.
       ret \<lparr>pg_items = items, pg_next_after = next_after_cursor pr_id items (Some (effective_limit limit))\<rparr>))"

section \<open>Accounts, policies and releases\<close>

definition list_signing_keys :: "client \<Rightarrow> signing_key list call" where
  "list_signing_keys C =
     ebind (send_request_raw C (lit ''GET'') (lit ''/signing-keys'') None [] None False) (\<lambda>response.
       lift (resource_items (parse_signing_key_resource (cl_runtime C)) (tr_data response)))"

definition signing_key_set :: "client \<Rightarrow> key_set call" where
  "signing_key_set C = ebind (list_signing_keys C) ret"

definition policies_get :: "client \<Rightarrow> uuid \<Rightarrow> policy_resource call" where
  "policies_get C policy_id =
     ebind (send_request C (lit ''GET'') (slash ''policies'' policy_id) None [] None False)
       (\<lambda>data. lift (parse_policy_resource (cl_runtime C) data))"

definition check_for_upgrade ::
  "client \<Rightarrow> uuid \<Rightarrow> pystr \<Rightarrow> pystr \<Rightarrow> pystr \<Rightarrow> pystr option \<Rightarrow> pystr option \<Rightarrow> release_resource option call" where
  "check_for_upgrade C product_id platform filetype version channel con =
     (let params = [(lit ''product'', JStr (str_of_uuid product_id)), (lit ''platform'', JStr platform),
                    (lit ''filetype'', JStr filetype), (lit ''version'', JStr version)]
                   @ scope_member ''channel'' JStr channel @ scope_member ''constraint'' JStr con
      in ebind (send_request C (lit ''GET'') (lit ''/releases/actions/upgrade'') None params None False)
           (\<lambda>data. if data = JNull then ret None
                   else lift (rbind (parse_release_resource (cl_runtime C) data) (\<lambda>r. Inr (Some r)))))"

section \<open>Artifacts\<close>

definition min_presign_ttl_seconds :: int where "min_presign_ttl_seconds = 60"
definition max_presign_ttl_seconds :: int where "max_presign_ttl_seconds = 604800"

definition artifacts_list ::
  "client \<Rightarrow> uuid \<Rightarrow> int option \<Rightarrow> pystr option \<Rightarrow> artifact_resource page call" where
  "artifacts_list C release_id limit cursor =
     ebind (send_request_raw C (lit ''GET'') (slash ''releases'' release_id @ lit ''/artifacts'') None
              (keyset_params (effective_limit limit) cursor) None False) (\<lambda>response.
     ebind (lift (resource_items (parse_artifact_resource (cl_runtime C)) (tr_data response))) (\<lambda>items.
       ret \<lparr>pg_items = items, pg_next_after = next_after_cursor ar_id items (Some (effective_limit limit))\<rparr>))"

definition artifacts_get :: "client \<Rightarrow> uuid \<Rightarrow> artifact_resource call" where
  "artifacts_get C artifact_id =
     ebind (send_request C (lit ''GET'') (slash ''artifacts'' artifact_id) None [] None False)
       (\<lambda>data. lift (parse_artifact_resource (cl_runtime C) data))"

definition artifact_download_error :: "int \<Rightarrow> exc" where
  "artifact_download_error status =
     TamgaError (tamga_error_of ArtifactDownloadError status (JStr (lit ''ARTIFACT_DOWNLOAD_FAILED'')) JNull JNull None)"

definition download_path :: "uuid \<Rightarrow> pystr" where
  "download_path artifact_id = slash ''artifacts'' artifact_id @ lit ''/actions/download''"

definition get_download_url :: "client \<Rightarrow> uuid \<Rightarrow> int option \<Rightarrow> artifact_resource call" where
  "get_download_url C artifact_id ttl =
     (if (case ttl of None \<Rightarrow> False
          | Some t \<Rightarrow> \<not> (min_presign_ttl_seconds \<le> t \<and> t \<le> max_presign_ttl_seconds))
      then lift (Inl ValueError)
      else
        ebind (send_raw_response C (lit ''GET'') (download_path artifact_id) None
                 ((lit ''redirect'', JStr (lit ''false'')) # scope_member ''ttl'' JInt ttl) None False) (\<lambda>response.
          if 300 \<le> rs_status response \<and> rs_status response < 400
          then lift (Inl (artifact_download_error (rs_status response)))
          else ebind (lift (parse_response (cl_runtime C) response False)) (\<lambda>parsed.
                 lift (parse_artifact_resource (cl_runtime C) (tr_data parsed)))))"

text \<open>
  The second request of a download goes to the storage host: the bare \<open>http.request("GET", url)\<close>,
  with nothing attached and no retry. A URL that is not text is refused by httpx.
\<close>

definition storage_request :: "pystr \<Rightarrow> http_request" where
  "storage_request url =
     \<lparr>rq_method = lit ''GET'', rq_url = url, rq_json = None, rq_params = [], rq_headers = []\<rparr>"

definition artifacts_download :: "client \<Rightarrow> uuid \<Rightarrow> int option \<Rightarrow> bytes call" where
  "artifacts_download C artifact_id ttl =
     ebind (get_download_url C artifact_id ttl) (\<lambda>artifact.
       if \<not> py_truthy (ar_redirect_url artifact) then lift (Inl (artifact_download_error 0))
       else (case ar_redirect_url artifact of
               JStr url \<Rightarrow>
                 ebind (http_request_call C (storage_request url)) (\<lambda>response.
                   if rs_status response < 200 \<or> 300 \<le> rs_status response
                   then lift (Inl (artifact_download_error (rs_status response)))
                   else ret (rs_content response))
             | _ \<Rightarrow> lift (Inl TypeError)))"

section \<open>Health\<close>

definition health :: "client \<Rightarrow> health_status call" where
  "health C =
     ebind (send_raw_response C (lit ''GET'') (build_root_url (cf_host (cl_config C)) @ lit ''/v1/health'') None []
              None False) (\<lambda>response.
       if 400 \<le> rs_status response
       then lift (raise_envelope (cl_runtime C) response (parse_retry_after response))
       else lift (rbind (if rs_content response = [] then Inr (JObj [])
                         else json_loads (cl_runtime C) (rs_content response)) (\<lambda>body.
                  rbind (as_dict body) (\<lambda>m.
                  rbind (py_int (dict_get m (lit ''uptime_secs'') (JInt 0))) (\<lambda>uptime.
                    Inr \<lparr>he_status = dict_get m (lit ''status'') (JStr []),
                         he_version = dict_get m (lit ''version'') (JStr []), he_uptime_seconds = uptime\<rparr>)))))"

section \<open>Keyset listings\<close>

locale keyset_listing =
  fixes listing :: "client \<Rightarrow> uuid \<Rightarrow> int option \<Rightarrow> pystr option \<Rightarrow> 'a page call"
    and path :: "uuid \<Rightarrow> pystr"
    and parse :: "runtime \<Rightarrow> json \<Rightarrow> exc + 'a" and ident :: "'a \<Rightarrow> uuid"
  assumes parser: "resource_parser R (parse R) ident"
    and listing_eq: "listing C i limit cursor =
      ebind (send_request_raw C (lit ''GET'') (path i) None (keyset_params (effective_limit limit) cursor) None False)
        (\<lambda>response. ebind (lift (resource_items (parse (cl_runtime C)) (tr_data response))) (\<lambda>items.
           ret \<lparr>pg_items = items, pg_next_after = next_after_cursor ident items (Some (effective_limit limit))\<rparr>))"
begin

lemma emits_listing: "emits (to_path (lit ''GET'') (path i)) (listing C i limit cursor)"
  unfolding listing_eq by (intro emits_intros)

lemma throws_listing: "throws call_error (listing C i limit cursor)"
  unfolding listing_eq
  by (intro throws_intros raises_only_mono [OF resource_parser.items_raise [OF parser]])
    (auto simp: shape_error_def)

lemma page:
  assumes "listing C i limit cursor h = (Inr p, h')"
  shows "\<exists>data ds. py_iter (py_or data (JArr [])) = Inr ds \<and>
      list_all2 (\<lambda>d x. document_id (cl_runtime C) d (ident x)) ds (pg_items p) \<and>
      (pg_next_after p = None \<longleftrightarrow> pg_items p = [] \<or> int (length (pg_items p)) < effective_limit limit) \<and>
      set_option (pg_next_after p) \<subseteq> {str_of_uuid (ident (last (pg_items p)))}"
proof -
  obtain response :: tamga_response and items where items: "resource_items (parse (cl_runtime C)) (tr_data response) = Inr items"
    and p: "p = \<lparr>pg_items = items, pg_next_after = next_after_cursor ident items (Some (effective_limit limit))\<rparr>"
    using assms by (auto simp: listing_eq ret_apply lift_apply elim!: ebind_Inr)
  obtain ds where "py_iter (py_or (tr_data response) (JArr [])) = Inr ds"
    "list_all2 (\<lambda>d x. parse (cl_runtime C) d = Inr x \<and> document_id (cl_runtime C) d (ident x)) ds items"
    using resource_parser.items_id [OF parser items] by blast
  then show ?thesis
    unfolding p by (intro exI [of _ "tr_data response"] exI [of _ ds])
      (auto simp: next_after_cursor_def list_all2_conv_all_nth)
qed

end

interpretation component_pages: keyset_listing components_list "\<lambda>i. slash ''machines'' i @ lit ''/components''"
  parse_component_resource co_id
  by unfold_locales (simp_all add: components_list_def components.parse_raises components.parse_id)

interpretation process_pages: keyset_listing processes_list "\<lambda>i. slash ''machines'' i @ lit ''/processes''"
  parse_process_resource pr_id
  by unfold_locales (simp_all add: processes_list_def processes.parse_raises processes.parse_id)

interpretation artifact_pages: keyset_listing artifacts_list "\<lambda>i. slash ''releases'' i @ lit ''/artifacts''"
  parse_artifact_resource ar_id
  by unfold_locales (simp_all add: artifacts_list_def artifacts.parse_raises artifacts.parse_id)

text \<open>
  A keyset page. The items of a page of components are one per document of the answer, in its
  order and with its ids; a next cursor is offered exactly when the page is not shorter than the
  page size that was sent (100 unless the caller gave one) and not empty, and it is the id of the
  last item.
\<close>

lemma component_page:
  assumes "components_list C machine_id limit cursor h = (Inr p, h')"
  shows "\<exists>data ds. py_iter (py_or data (JArr [])) = Inr ds \<and>
      list_all2 (\<lambda>d x. document_id (cl_runtime C) d (co_id x)) ds (pg_items p) \<and>
      (pg_next_after p = None \<longleftrightarrow> pg_items p = [] \<or> int (length (pg_items p)) < effective_limit limit) \<and>
      set_option (pg_next_after p) \<subseteq> {str_of_uuid (co_id (last (pg_items p)))}"
  by (rule component_pages.page [OF assms])

section \<open>Published signing keys\<close>

text \<open>The document that publishes a key, and its reading.\<close>

definition signing_key_doc :: "signing_key \<Rightarrow> json" where
  "signing_key_doc k =
     JObj [(lit ''type'', JStr (lit ''signing-keys'')), (lit ''id'', JStr (sk_kid k)),
       (lit ''attributes'', JObj [(lit ''publicKey'', JStr (sk_public_key k)),
          (lit ''algorithm'', JStr (sk_algorithm k)), (lit ''status'', JStr (sk_status k)),
          (lit ''created'', JNull), (lit ''retired'', JNull)])]"

lemma parse_signing_key_doc:
  "parse_signing_key_resource R (signing_key_doc k) = Inr (k\<lparr>sk_created := None, sk_retired := None\<rparr>)"
  by (cases k) (simp add: parse_signing_key_resource_def signing_key_doc_def py_or_def py_truthy_def
      get_datetime_def parse_datetime_def)

text \<open>
  Round trip of the published keys. A listing that publishes keys in the documented shape (the
  resource id is the kid, the public half is under \<open>publicKey\<close>) is read back to exactly those
  keys, in its order, each usable for verification exactly when it was.
\<close>

lemma published_keys_round_trip:
  "resource_items (parse_signing_key_resource R) (JArr (map signing_key_doc ks)) =
     Inr (map (\<lambda>k. k\<lparr>sk_created := None, sk_retired := None\<rparr>) ks) \<and>
   map usable (map (\<lambda>k. k\<lparr>sk_created := None, sk_retired := None\<rparr>) ks) = map usable ks"
proof -
  have "map_res (parse_signing_key_resource R) (map signing_key_doc ks) =
      Inr (map (\<lambda>k. k\<lparr>sk_created := None, sk_retired := None\<rparr>) ks)"
    by (induction ks) (simp_all add: parse_signing_key_doc)
  then show ?thesis
    by (simp add: resource_items_def py_or_def py_truthy_def py_iter_def usable_iff is_ed25519_def public_key_bytes_def)
qed

section \<open>Downloads\<close>

text \<open>A request of a download: to the API's download route, or the bare one to the storage host.\<close>

definition download_event :: "uuid \<Rightarrow> event \<Rightarrow> bool" where
  "download_event artifact_id ev \<longleftrightarrow>
     (case ev of
        Sent rq \<Rightarrow> rq_url rq = download_path artifact_id \<or> rq = storage_request (rq_url rq)
      | Slept _ \<Rightarrow> True)"

lemma to_path_download: "to_path (lit ''GET'') (download_path i) ev \<Longrightarrow> download_event i ev"
  by (cases ev) (simp_all add: to_path_def download_event_def)

lemma emits_get_download_url: "emits (to_path (lit ''GET'') (download_path i)) (get_download_url C i ttl)"
  unfolding get_download_url_def by (intro emits_intros)

lemma urls_all_path: "list_all (to_path verb path) es \<Longrightarrow> filter (\<lambda>u. u \<noteq> path) (urls w es) = []"
  by (induction es) (auto simp: to_path_def split: event.splits)

text \<open>
  C7: a download leaks no credential. Whatever the servers answer, every request of a download is
  either to the API's own download route or carries no header, no parameter and no body; at most
  one request goes anywhere else, and none when the presign call fails or answers a redirect.
\<close>

theorem download_leaks_no_credential:
  "\<exists>es. snd (artifacts_download C i ttl h) = h @ es \<and> list_all (download_event i) es \<and>
     length (filter (\<lambda>u. u \<noteq> download_path i) (urls (lit ''GET'') es)) \<le>
       (case fst (get_download_url C i ttl h) of Inl _ \<Rightarrow> 0 | Inr _ \<Rightarrow> 1)"
proof -
  obtain v h1 where v: "get_download_url C i ttl h = (v, h1)" by (cases "get_download_url C i ttl h")
  obtain es where es: "h1 = h @ es" "list_all (to_path (lit ''GET'') (download_path i)) es"
    using emitsD [OF emits_get_download_url v] by blast
  have ok: "list_all (download_event i) es" using es(2) to_path_download by (auto simp: list_all_iff)
  have none: "filter (\<lambda>u. u \<noteq> download_path i) (urls (lit ''GET'') es) = []" by (rule urls_all_path [OF es(2)])
  show ?thesis
  proof (cases "snd (artifacts_download C i ttl h) = h1")
    case True
    with es(1) ok none show ?thesis by (intro exI [of _ es]) simp
  next
    case False
    then obtain a url where a: "v = Inr a" "ar_redirect_url a = JStr url"
      "snd (artifacts_download C i ttl h) = h1 @ [Sent (storage_request url)]"
      using v by (cases v) (auto simp: artifacts_download_def ebind_def http_request_call_def lift_apply ret_apply
          split: json.splits sum.splits if_splits)
    then show ?thesis
      using es(1) ok none v by (intro exI [of _ "es @ [Sent (storage_request url)]"])
        (simp add: download_event_def storage_request_def)
  qed
qed

text \<open>
  What is refused before anything is sent. A presign time to live outside \<open>60..604800\<close>
  seconds is refused by both operations, and so is a process id that is not text.
\<close>

lemma refused_before_sending:
  "get_download_url C i (Some (59 - int n)) h = (Inl ValueError, h) \<and>
   get_download_url C i (Some (604801 + int n)) h = (Inl ValueError, h) \<and>
   artifacts_download C i (Some (59 - int n)) h = (Inl ValueError, h) \<and>
   artifacts_download C i (Some (604801 + int n)) h = (Inl ValueError, h) \<and>
   processes_create C i (JInt pid) metadata h = (Inl TypeError, h)"
  by (simp add: get_download_url_def artifacts_download_def processes_create_def lift_apply ebind_def
      min_presign_ttl_seconds_def max_presign_ttl_seconds_def)

end
