(* ===== verification/Api_Contract.thy ===== *)
theory Api_Contract
  imports Machine_Activation Other_Clients
begin

text \<open>
  What the operations of the sub-clients of \<open>src/src/tamga/client.py\<close> have in common: the one route
  each of them talks to and the exceptions it can end in (collection \<open>contracts\<close>), found by the rules
  \<open>emits_intros\<close> and \<open>throws_intros\<close> of \<open>Http_Client\<close>.
\<close>

named_theorems contracts "the route of an operation and the exceptions it can end in"

section \<open>Parsers, as calls\<close>

lemma raises_only_items [raises_intros]:
  "raises_only call_error (resource_items (parse_component_resource R) data)"
  "raises_only call_error (resource_items (parse_process_resource R) data)"
  "raises_only call_error (resource_items (parse_machine_resource R) data)"
  "raises_only call_error (resource_items (parse_entitlement R) data)"
  "raises_only call_error (resource_items (parse_artifact_resource R) data)"
  by (intro raises_only_shape_call components.items_raise processes.items_raise machines.items_raise
      entitlements.items_raise artifacts.items_raise)+

lemma raises_only_resources [raises_intros]:
  "raises_only call_error (parse_component_resource R data)"
  "raises_only call_error (parse_process_resource R data)"
  "raises_only call_error (parse_machine_resource R data)"
  "raises_only call_error (parse_entitlement R data)"
  "raises_only call_error (parse_release_resource R data)"
  "raises_only call_error (parse_artifact_resource R data)"
  "raises_only call_error (parse_policy_resource R data)"
  "raises_only call_error (parse_signing_key_resource R data)"
  by (intro raises_only_shape_call components.parse_raises processes.parse_raises machines.parse_raises
      entitlements.parse_raises releases.parse_raises artifacts.parse_raises raises_only_parse_policy
      raises_only_parse_signing_key)+

lemma raises_only_signing_keys [raises_intros]:
  "raises_only call_error (resource_items (parse_signing_key_resource R) data)"
  unfolding resource_items_def by (intro raises_intros) simp_all

lemma raises_only_raw_content [raises_intros]: "raises_only call_error (raw_content C r)"
  unfolding raw_content_def by (intro raises_intros)

lemma raises_only_page_meta [raises_intros]: "raises_only call_error (parse_page_meta meta)"
  unfolding parse_page_meta_def by (intro raises_intros) simp_all

lemma raises_only_proof_parse [raises_intros]: "raises_only call_error (proof_parse raw a m f d)"
  unfolding proof_parse_def by (intro raises_intros) simp_all

section \<open>Entitlements and licenses\<close>

lemma entitlements_contract [contracts, throws_intros]:
  "emits (to_path (lit ''GET'') (slash ''licenses'' l @ lit ''/entitlements'')) (entitlements_list C l limit cursor)"
  "emits (to_path (lit ''GET'') (entitlement_path l e)) (entitlements_get C l e)"
  "emits (to_path (lit ''POST'') (entitlement_path l e @ lit ''/actions/increment''))
     (increment_entitlement_usage C l e n)"
  "emits (to_path (lit ''POST'') (entitlement_path l e @ lit ''/actions/decrement''))
     (decrement_entitlement_usage C l e n)"
  "emits (to_path (lit ''POST'') (entitlement_path l e @ lit ''/actions/reset'')) (reset_entitlement_usage C l e)"
  "throws call_error (entitlements_list C l limit cursor)"
  "throws call_error (entitlements_get C l e)"
  "throws call_error (increment_entitlement_usage C l e n)"
  "throws call_error (decrement_entitlement_usage C l e n)"
  "throws call_error (reset_entitlement_usage C l e)"
  unfolding entitlements_list_def entitlements_get_def increment_entitlement_usage_def
    decrement_entitlement_usage_def reset_entitlement_usage_def Let_def
  by ((intro emits_intros throws_intros raises_intros; simp)+)

lemma licenses_contract [contracts, throws_intros]:
  "emits (to_path (lit ''POST'') (lit ''/licenses/actions/validate-key'')) (validate_by_key C ents key)"
  "emits (to_path (lit ''POST'') (slash ''licenses'' l @ lit ''/actions/validate''))
     (validate_by_id C ents l scope touch)"
  "emits (to_path (lit ''GET'') (slash ''licenses'' l @ lit ''/actions/validate'')) (quick_validate C l)"
  "emits (to_path (lit ''GET'') (slash ''licenses'' l)) (licenses_get C ents l)"
  "emits (to_path (lit ''GET'') (slash ''licenses'' l @ lit ''/policy'')) (get_policy C l)"
  "emits (to_path (lit ''POST'') (slash ''licenses'' l @ lit ''/actions/check-in'')) (check_in C ents l)"
  "emits (to_path (if raw then lit ''GET'' else lit ''POST'') (slash ''licenses'' l @ lit ''/actions/check-out''))
     (license_check_out C l encrypt ttl raw)"
  "throws call_error (validate_by_key C ents key)"
  "throws call_error (quick_validate C l)"
  "throws call_error (licenses_get C ents l)"
  "throws call_error (get_policy C l)"
  "throws call_error (check_in C ents l)"
  "throws call_error (license_check_out C l encrypt ttl raw)"
  unfolding validate_by_key_def quick_validate_def licenses_get_def get_policy_def check_in_def
    license_check_out_def Let_def
  by ((intro emits_intros throws_intros raises_intros; simp)+)

section \<open>Machines\<close>

lemma machines_contract [contracts, throws_intros]:
  "emits (to_path (lit ''POST'') (lit ''/machines'')) (machines_create C l fp a)"
  "emits (to_path (lit ''DELETE'') (slash ''machines'' m)) (machines_delete C m)"
  "emits (to_path (lit ''GET'') (slash ''machines'' m)) (machines_get C m)"
  "emits (to_path (lit ''PATCH'') (slash ''machines'' m)) (machines_update C m a)"
  "emits (to_path (lit ''POST'') (slash ''machines'' m @ lit ''/actions/ping-heartbeat'')) (ping_heartbeat C m)"
  "emits (to_path (lit ''POST'') (slash ''machines'' m @ lit ''/actions/reset-heartbeat'')) (reset_heartbeat C m)"
  "emits (to_path (lit ''GET'') (lit ''/machines'')) (machines_list C n page_size query l' platform)"
  "throws call_error (machines_get C m)"
  "throws call_error (machines_update C m a)"
  "throws call_error (ping_heartbeat C m)"
  "throws call_error (reset_heartbeat C m)"
  "throws call_error (machines_list C n page_size query l' platform)"
  unfolding machines_create_def machines_delete_def machines_get_def machines_update_def ping_heartbeat_def
    reset_heartbeat_def machines_list_def
  by ((intro emits_intros throws_intros raises_intros; simp)+)

lemma search_contract [contracts, throws_intros]:
  "emits (to_path (lit ''GET'') (lit ''/machines'')) (find_by_fingerprint C fp l n)"
  "throws call_error (find_by_fingerprint C fp l n)"
proof -
  have "emits (to_path (lit ''GET'') (lit ''/machines'')) (find_in_pages C fp l ns)" for ns
    by (induction ns) (simp_all only: find_in_pages.simps, (intro emits_intros contracts; simp)+)
  moreover have "throws call_error (find_in_pages C fp l ns)" for ns
    by (induction ns) (simp_all only: find_in_pages.simps, (intro throws_intros; simp)+)
  ultimately show "emits (to_path (lit ''GET'') (lit ''/machines'')) (find_by_fingerprint C fp l n)"
    "throws call_error (find_by_fingerprint C fp l n)"
    unfolding find_by_fingerprint_def by (intro emits_intros throws_intros raises_intros; simp)+
qed

lemma raises_only_octet_headers [raises_intros]:
  "E ValueError \<Longrightarrow> E UnicodeEncodeError \<Longrightarrow> raises_only E (octet_headers C params)"
  "E ValueError \<Longrightarrow> E UnicodeEncodeError \<Longrightarrow> raises_only E (machine_json_headers C)"
  unfolding octet_headers_def machine_json_headers_def Let_def by (intro raises_intros; simp)+

lemma ttl_invalid_call [simp]: "call_error ttl_invalid"
  by (simp add: ttl_invalid_def tamga_error_of_def)

lemma machine_files_contract [contracts, throws_intros]:
  "emits (to_path (if raw then lit ''GET'' else lit ''POST'') (slash ''machines'' m @ lit ''/actions/check-out''))
     (machine_check_out C m encrypt ttl raw)"
  "emits (to_path (lit ''POST'') (slash ''machines'' m @ lit ''/actions/generate-offline-proof''))
     (generate_offline_proof C m dataset)"
  "throws call_error (machine_check_out C m encrypt ttl raw)"
  "throws call_error (generate_offline_proof C m dataset)"
  unfolding machine_check_out_def generate_offline_proof_def Let_def
  by ((intro emits_intros throws_intros raises_intros; simp)+)

section \<open>The other sub-clients\<close>

lemma components_contract [contracts, throws_intros]:
  "emits (to_path (lit ''POST'') (lit ''/components'')) (components_create C m fp name metadata)"
  "emits (to_path (lit ''GET'') (slash ''machines'' m @ lit ''/components'')) (components_list C m limit cursor)"
  "throws call_error (components_create C m fp name metadata)"
  "throws call_error (components_list C m limit cursor)"
  unfolding components_create_def Let_def
  by ((intro emits_intros throws_intros raises_intros component_pages.emits_listing
      component_pages.throws_listing; simp)+)

lemma processes_contract [contracts, throws_intros]:
  "emits (to_path (lit ''POST'') (lit ''/processes'')) (processes_create C m pid metadata)"
  "emits (to_path (lit ''POST'') (slash ''processes'' p @ lit ''/actions/ping'')) (processes_ping C p)"
  "emits (to_path (lit ''DELETE'') (slash ''processes'' p)) (processes_delete C p)"
  "emits (to_path (lit ''GET'') (slash ''machines'' m @ lit ''/processes'')) (processes_list C m limit cursor)"
  "throws call_error (processes_create C m pid metadata)"
  "throws call_error (processes_ping C p)"
  "throws call_error (processes_delete C p)"
  "throws call_error (processes_list C m limit cursor)"
  unfolding processes_create_def processes_ping_def processes_delete_def Let_def
  by ((intro emits_intros throws_intros raises_intros process_pages.emits_listing
      process_pages.throws_listing; simp)+)

lemma accounts_contract [contracts, throws_intros]:
  "emits (to_path (lit ''GET'') (lit ''/signing-keys'')) (signing_key_set C)"
  "emits (to_path (lit ''GET'') (slash ''policies'' p)) (policies_get C p)"
  "emits (to_path (lit ''GET'') (lit ''/releases/actions/upgrade''))
     (check_for_upgrade C product platform filetype version channel con)"
  "throws call_error (signing_key_set C)"
  "throws call_error (policies_get C p)"
  "throws call_error (check_for_upgrade C product platform filetype version channel con)"
  unfolding signing_key_set_def list_signing_keys_def policies_get_def check_for_upgrade_def Let_def
  by ((intro emits_intros throws_intros raises_intros; simp)+)

lemma artifact_download_error_call [simp]: "call_error (artifact_download_error status)"
  by (simp add: artifact_download_error_def tamga_error_of_def)

lemma artifacts_contract [contracts, throws_intros]:
  "emits (to_path (lit ''GET'') (slash ''releases'' r @ lit ''/artifacts'')) (artifacts_list C r limit cursor)"
  "emits (to_path (lit ''GET'') (slash ''artifacts'' i)) (artifacts_get C i)"
  "emits (to_path (lit ''GET'') (slash ''artifacts'' i @ lit ''/actions/download'')) (get_download_url C i ttl)"
  "emits (to_path (lit ''GET'') (build_root_url (cf_host (cl_config C)) @ lit ''/v1/health'')) (health C)"
  "throws call_error (artifacts_list C r limit cursor)"
  "throws call_error (artifacts_get C i)"
  "throws call_error (get_download_url C i ttl)"
  "throws call_error (health C)"
  unfolding artifacts_get_def get_download_url_def health_def download_path_def
  by ((intro emits_intros throws_intros raises_intros artifact_pages.emits_listing
      artifact_pages.throws_listing; simp)+)

lemma whole_listings_contract [contracts]:
  "emits (to_path (lit ''GET'') (slash ''licenses'' l @ lit ''/entitlements'')) (entitlements_list_all C l)"
  "emits (to_path (lit ''GET'') (slash ''licenses'' l @ lit ''/entitlements''))
     (refresh_entitlements C (x\<lparr>li_entitlements_fetcher := Some l\<rparr>))"
  "emits (to_path (lit ''GET'') (slash ''licenses'' l @ lit ''/entitlements''))
     (has_entitlement C (x\<lparr>li_entitlements_fetcher := Some l\<rparr>) code)"
  "emits (to_path (lit ''GET'') (lit ''/signing-keys'')) (list_signing_keys C)"
  unfolding has_entitlement_def refresh_entitlements_def entitlements_list_all_def list_signing_keys_def
    license_read.simps option.case
  by ((intro emits_intros contracts; simp)+)

section \<open>Operations of several routes\<close>

text \<open>
  A download talks to its own route and then to the storage host, with the bare request; an
  activation creates, validates and deletes; its idempotent variant also reads machines.
\<close>

lemma download_contract [contracts]:
  "emits (\<lambda>ev. to_path (lit ''GET'') (slash ''artifacts'' i @ lit ''/actions/download'') ev \<or>
       (\<exists>url. ev = Sent (storage_request url))) (artifacts_download C i ttl)"
proof -
  have presign: "emits (\<lambda>ev. to_path (lit ''GET'') (slash ''artifacts'' i @ lit ''/actions/download'') ev \<or>
      (\<exists>url. ev = Sent (storage_request url))) (get_download_url C i ttl)"
    by (rule emits_mono [OF artifacts_contract(3)]) simp
  have storage: "emits (\<lambda>ev. to_path (lit ''GET'') (slash ''artifacts'' i @ lit ''/actions/download'') ev \<or>
      (\<exists>url. ev = Sent (storage_request url))) (http_request_call C (storage_request url))" for url
    by (rule emitsI) (auto simp: http_request_call_def)
  show ?thesis
    unfolding artifacts_download_def
    by (intro emits_ebind presign emits_branches emits_pure; simp split: json.split)
      (intro emits_intros storage conjI allI impI)
qed

definition activation_event :: "uuid \<Rightarrow> event \<Rightarrow> bool" where
  "activation_event l ev \<longleftrightarrow>
     to_path (lit ''POST'') (lit ''/machines'') ev \<or>
     to_path (lit ''POST'') (slash ''licenses'' l @ lit ''/actions/validate'') ev \<or>
     (\<exists>m. to_path (lit ''DELETE'') (slash ''machines'' m) ev)"

lemma activation_contract [contracts]: "emits (activation_event l) (activate_machine C l fp a)"
  unfolding activate_machine_def machines_create_def machines_delete_def Let_def
  by (intro emits_intros) (auto simp: activation_event_def)

definition recovery_event :: "event \<Rightarrow> bool" where
  "recovery_event ev \<longleftrightarrow>
     to_path (lit ''GET'') (lit ''/machines'') ev \<or> (\<exists>m. to_path (lit ''GET'') (slash ''machines'' m) ev)"

lemma search_recovery: "emits recovery_event (find_by_fingerprint C fp l n)"
  by (rule emits_mono [OF search_contract(1)]) (simp add: recovery_event_def)

lemma recovery_contract: "emits recovery_event (recover_activation C l fp e)"
proof (cases e)
  case (TamgaError t)
  have found: "emits recovery_event (machines_get C m)" for m
    by (rule emits_mono [OF machines_contract(3)]) (auto simp: recovery_event_def)
  show ?thesis
    unfolding recover_activation_def TamgaError exc.case resolve_taken_fingerprint_def
    by (intro emits_ebind emits_branches emits_try_except emits_pure search_recovery found)
qed (simp_all add: recover_activation_def emits_pure)

lemma idempotent_activation_contract [contracts]:
  "emits (\<lambda>ev. activation_event l ev \<or> recovery_event ev) (activate_machine_idempotent C l fp a)"
  unfolding activate_machine_idempotent_def
  by (intro emits_try_except emits_mono [OF activation_contract] emits_mono [OF recovery_contract]) simp_all

end
