(* ===== verification/Api_Errors.thy ===== *)
theory Api_Errors
  imports Api_Contract
begin

text \<open>
  How the operations of \<open>src/src/tamga/client.py\<close> fail. Each sends its one request through the retry
  loop and then depends on how that ended: a failure of httpx, or of a pause, is the operation's own;
  an answer of status 400 or more is raised as its envelope reads; any other answer is parsed, which
  raises only for a document that is not of the expected shape. \<open>exchanged\<close> is that shape of a call,
  with one rule per way a request is sent.
\<close>

section \<open>Calls of one request\<close>

text \<open>A configuration that requests can be made with: a version is left of its text, and the credential is one.\<close>

definition client_ready :: "client \<Rightarrow> bool" where
  "client_ready C \<longleftrightarrow>
     (case sanitize_tamga_version (cl_runtime C) (cf_api_version (cl_config C)) of
        Inl _ \<Rightarrow> False
      | Inr _ \<Rightarrow>
          (case cf_default_auth (cl_config C) of
             None \<Rightarrow> True
           | Some a \<Rightarrow> (case apply_auth [] [] a of Inl _ \<Rightarrow> False | Inr _ \<Rightarrow> True)))"

text \<open>
  \<open>exchanged C verb path Q m\<close>: the call sends one request, of that verb to that path, through the
  retry loop. When the loop raises so does the call, at the same point; when it returns an answer, the
  call's outcome is one that \<open>Q\<close> allows for it.
\<close>

definition exchanged ::
  "client \<Rightarrow> pystr \<Rightarrow> pystr \<Rightarrow> (http_response \<Rightarrow> history \<Rightarrow> (exc + 'a) \<times> history \<Rightarrow> bool) \<Rightarrow> 'a call \<Rightarrow> bool" where
  "exchanged C verb path Q m \<longleftrightarrow>
     (\<forall>h. \<exists>rq. rq_method rq = verb \<and> rq_url rq = path \<and>
        (case request_with_retry C rq h of
           (Inl e, h') \<Rightarrow> m h = (Inl e, h')
         | (Inr r, h') \<Rightarrow> Q r h' (m h)))"

definition envelope_error :: "client \<Rightarrow> (http_response \<Rightarrow> int option) \<Rightarrow> http_response \<Rightarrow> exc" where
  "envelope_error C delay r =
     (case parse_error_envelope (cl_runtime C) (rs_status r) (rs_content r) (delay r) of
        Inl e \<Rightarrow> e | Inr t \<Rightarrow> TamgaError t)"

definition decode_error :: "exc \<Rightarrow> bool" where
  "decode_error e \<longleftrightarrow> e = UnicodeDecodeError \<or> e = JSONDecodeError \<or> e = AttributeError"

definition document_error :: "exc \<Rightarrow> bool" where
  "document_error e \<longleftrightarrow> decode_error e \<or> e = ValueError \<or> e = KeyError \<or> e = TypeError"

text \<open>
  The outcome of a single request: nothing more is sent. A refusal is raised as its envelope reads,
  with the delay of its header; other statuses may be refused by the operation itself (\<open>refuse\<close>);
  what is left is parsed, with errors in \<open>E\<close>.
\<close>

definition reported ::
  "client \<Rightarrow> (exc \<Rightarrow> bool) \<Rightarrow> (http_response \<Rightarrow> int option) \<Rightarrow> (http_response \<Rightarrow> exc option) \<Rightarrow>
     http_response \<Rightarrow> history \<Rightarrow> (exc + 'a) \<times> history \<Rightarrow> bool" where
  "reported C E delay refuse r h p \<longleftrightarrow>
     snd p = h \<and>
     (if 400 \<le> rs_status r then fst p = Inl (envelope_error C delay r)
      else (case refuse r of Some e \<Rightarrow> fst p = Inl e | None \<Rightarrow> raises_only E (fst p)))"

text \<open>The operations of one request whose refusals carry their delay.\<close>

definition reports :: "client \<Rightarrow> (exc \<Rightarrow> bool) \<Rightarrow> pystr \<Rightarrow> pystr \<Rightarrow> 'a call \<Rightarrow> bool" where
  "reports C E verb path m \<longleftrightarrow>
     exchanged C verb path (reported C E parse_retry_after (\<lambda>_. None)) m"

text \<open>A raw check-out, which leaves the delay out and hands the body of any other answer to its caller.\<close>

definition reports_raw :: "client \<Rightarrow> pystr \<Rightarrow> checked_out call \<Rightarrow> bool" where
  "reports_raw C path m \<longleftrightarrow>
     exchanged C (lit ''GET'') path (\<lambda>r h p. p =
       (if 400 \<le> rs_status r then Inl (envelope_error C (\<lambda>_. None) r) else Inr (RawFile (rs_content r)), h)) m"

text \<open>The first request of an operation that may send more: when it is refused, the operation ends in \<open>g\<close> of the error.\<close>

definition stops_at_refusal :: "client \<Rightarrow> (exc \<Rightarrow> exc) \<Rightarrow> pystr \<Rightarrow> pystr \<Rightarrow> 'a call \<Rightarrow> bool" where
  "stops_at_refusal C g verb path m \<longleftrightarrow>
     exchanged C verb path
       (\<lambda>r h p. 400 \<le> rs_status r \<longrightarrow> p = (Inl (g (envelope_error C parse_retry_after r)), h)) m"

section \<open>Requests of a ready client\<close>

lemma client_readyE:
  assumes "client_ready C"
  obtains w where "sanitize_tamga_version (cl_runtime C) (cf_api_version (cl_config C)) = Inr w"
    "\<And>a hs ps. cf_default_auth (cl_config C) = Some a \<Longrightarrow> \<exists>q. apply_auth hs ps a = Inr q"
proof -
  obtain w where w: "sanitize_tamga_version (cl_runtime C) (cf_api_version (cl_config C)) = Inr w"
    using assms by (auto simp: client_ready_def split: sum.splits)
  have "\<exists>q. apply_auth hs ps a = Inr q" if "cf_default_auth (cl_config C) = Some a" for a hs ps
    using assms w that apply_auth_any [of "[]" "[]" a _ hs ps]
    by (auto simp: client_ready_def split: sum.splits)
  with w that show thesis by blast
qed

lemma ready_prepare:
  assumes "client_ready C"
  shows "\<exists>rq. prepare_request C verb path body ps None quick = Inr rq"
proof -
  obtain w where w: "sanitize_tamga_version (cl_runtime C) (cf_api_version (cl_config C)) = Inr w"
    "\<And>a hs ps. cf_default_auth (cl_config C) = Some a \<Longrightarrow> \<exists>q. apply_auth hs ps a = Inr q"
    using client_readyE [OF assms] by blast
  from w(2) [of _ "request_headers (cl_config C) w quick" ps] show ?thesis
    by (cases "cf_default_auth (cl_config C)") (auto simp: prepare_request_def Let_def w(1))
qed

lemma ready_headers:
  assumes "client_ready C"
  shows "\<exists>hs. license_headers C None = Inr hs"
    and "\<exists>hs. license_headers C (Some (case cf_default_auth (cl_config C) of Some a \<Rightarrow> a | None \<Rightarrow> LicenseAuth key)) = Inr hs"
    and "\<exists>hs. machine_json_headers C = Inr hs"
    and "\<exists>hs ps. octet_headers C params = Inr (hs, ps)"
proof -
  obtain w where w: "sanitize_tamga_version (cl_runtime C) (cf_api_version (cl_config C)) = Inr w"
    "\<And>a hs ps. cf_default_auth (cl_config C) = Some a \<Longrightarrow> \<exists>q. apply_auth hs ps a = Inr q"
    using client_readyE [OF assms] by blast
  show "\<exists>hs. license_headers C None = Inr hs"
    "\<exists>hs. license_headers C (Some (case cf_default_auth (cl_config C) of Some a \<Rightarrow> a | None \<Rightarrow> LicenseAuth key)) = Inr hs"
    using w(2) [of _ "[(lit ''Tamga-Version'', w), (lit ''Content-Type'', lit ''application/vnd.api+json'')]" "[]"]
    by (cases "cf_default_auth (cl_config C)"; force simp: license_headers_def Let_def w(1))+
  show "\<exists>hs. machine_json_headers C = Inr hs"
    using w(2) [of _ "[(lit ''Tamga-Version'', w), (lit ''Content-Type'', lit ''application/vnd.api+json'')]" "[]"]
    by (cases "cf_default_auth (cl_config C)"; force simp: machine_json_headers_def Let_def w(1))
  show "\<exists>hs ps. octet_headers C params = Inr (hs, ps)"
    using w(2) [of _ "[(lit ''Tamga-Version'', w), (lit ''Accept'', lit ''application/octet-stream'')]" params]
    by (cases "cf_default_auth (cl_config C)"; force simp: octet_headers_def Let_def w(1))
qed

lemma exchanged_request:
  assumes "\<And>h. \<exists>rq. rq_method rq = verb \<and> rq_url rq = path \<and> m h = ebind (request_with_retry C rq) k h"
    and "\<And>r h. Q r h (k r h)"
  shows "exchanged C verb path Q m"
  unfolding exchanged_def
proof
  fix h
  obtain rq where rq: "rq_method rq = verb" "rq_url rq = path" "m h = ebind (request_with_retry C rq) k h"
    using assms(1) by blast
  with assms(2) show "\<exists>rq. rq_method rq = verb \<and> rq_url rq = path \<and>
      (case request_with_retry C rq h of (Inl e, h') \<Rightarrow> m h = (Inl e, h') | (Inr r, h') \<Rightarrow> Q r h' (m h))"
    by (intro exI [of _ rq]) (simp add: ebind_def split: prod.split sum.split)
qed

lemma exchanged_raw:
  assumes "client_ready C" "\<And>r h. Q r h (k r h)"
  shows "exchanged C verb path Q (ebind (send_raw_response C verb path body ps None quick) k)"
proof -
  obtain rq where rq: "prepare_request C verb path body ps None quick = Inr rq"
    using ready_prepare [OF assms(1)] by blast
  have "ebind (send_raw_response C verb path body ps None quick) k h = ebind (request_with_retry C rq) k h" for h
    by (simp add: send_raw_response_def rq ebind_def lift_apply)
  with prepare_request_Inr(1,2) [OF rq] assms(2) show ?thesis
    by (intro exchanged_request [where k = k]) auto
qed

lemma exchanged_client:
  assumes "\<And>r h. Q r h (k r h)"
  shows "exchanged C verb path Q (ebind (client_request C verb path body ps hs) k)"
proof (rule exchanged_request [where k = k])
  fix h
  show "\<exists>rq. rq_method rq = verb \<and> rq_url rq = path \<and>
      ebind (client_request C verb path body ps hs) k h = ebind (request_with_retry C rq) k h"
    by (rule exI [of _ "\<lparr>rq_method = verb, rq_url = path, rq_json = body, rq_params = ps, rq_headers = hs\<rparr>"])
      (simp add: client_request_def)
qed (rule assms)

lemma exchanged_lift:
  assumes "r = Inr x" "exchanged C verb path Q (f x)"
  shows "exchanged C verb path Q (ebind (lift r) f)"
proof -
  have "ebind (lift r) f = f x" by (simp add: assms(1) fun_eq_iff ebind_lift)
  with assms(2) show ?thesis by simp
qed

text \<open>What follows the request: a parse of the answer, and then only pure steps.\<close>

lemma reported_parse:
  assumes "\<And>x. emits (\<lambda>_. False) (f x)" "\<And>x. throws E (f x)"
    and "\<And>e. decode_error e \<Longrightarrow> E e" "refuse r = None"
  shows "reported C E parse_retry_after refuse r h (ebind (lift (parse_response (cl_runtime C) r quick)) f h)"
proof (cases "400 \<le> rs_status r")
  case True
  then show ?thesis
    by (simp add: reported_def parse_response_def raise_envelope_def envelope_error_def ebind_def lift_apply
        rbind_def split: sum.split)
next
  case False
  have quiet: "snd (f x h) = h" for x
    using emitsD [OF assms(1) prod.collapse [symmetric], of x h] by (auto simp: list_all_iff)
  have "raises_only decode_error (parse_response (cl_runtime C) r quick)"
    unfolding parse_response_def response_body_def using False
    by (intro raises_intros) (simp_all add: decode_error_def)
  then have parse: "raises_only E (parse_response (cl_runtime C) r quick)"
    by (rule raises_only_mono) (rule assms(3))
  show ?thesis
    using False assms(4) parse assms(2) [unfolded throws_def] quiet
    by (auto simp: reported_def ebind_def lift_apply split: sum.split)
qed

lemma reports_raw_client:
  "reports_raw C path (ebind (client_request C (lit ''GET'') path body ps hs) (\<lambda>r. lift (raw_content C r)))"
  unfolding reports_raw_def
  by (rule exchanged_client)
    (simp add: raw_content_def raise_envelope_def envelope_error_def lift_apply rbind_def split: sum.split)

lemma refusal_parse:
  "400 \<le> rs_status r \<longrightarrow> ebind (lift (parse_response (cl_runtime C) r quick)) f h =
     (Inl (envelope_error C parse_retry_after r), h)"
  by (simp add: parse_response_def raise_envelope_def envelope_error_def ebind_def lift_apply rbind_def split: sum.split)

lemma ebind_assoc_fun: "ebind (ebind m f) g = ebind m (\<lambda>x. ebind (f x) g)"
  by (simp add: fun_eq_iff ebind_assoc)

lemmas request_defs = send_request_def send_request_raw_def send_request_with_meta_def ebind_assoc_fun

text \<open>An operation of one request, as the sub-clients write it.\<close>

lemma reports_send:
  assumes "client_ready C" "\<And>e. decode_error e \<Longrightarrow> E e"
    and "\<And>x. emits (\<lambda>_. False) (f x)" "\<And>x. throws E (f x)"
  shows "reports C E verb path (ebind (send_request C verb path body ps None quick) f)"
  unfolding reports_def request_defs
  by (rule exchanged_raw [OF assms(1)], rule reported_parse; (intro emits_intros throws_intros)?; simp add: assms)

lemma reports_send_raw:
  assumes "client_ready C" "\<And>e. decode_error e \<Longrightarrow> E e"
    and "\<And>x. emits (\<lambda>_. False) (f x)" "\<And>x. throws E (f x)"
  shows "reports C E verb path (ebind (send_request_raw C verb path body ps None quick) f)"
  unfolding reports_def request_defs
  by (rule exchanged_raw [OF assms(1)], rule reported_parse; simp add: assms)

lemma raises_only_raw_meta:
  "(\<And>e. decode_error e \<Longrightarrow> E e) \<Longrightarrow> raises_only E (raw_response_meta R r)"
  unfolding raw_response_meta_def by (intro raises_intros) (simp_all add: decode_error_def)

lemma reports_send_meta:
  assumes "client_ready C" "\<And>e. decode_error e \<Longrightarrow> E e"
    and "\<And>x. emits (\<lambda>_. False) (f x)" "\<And>x. throws E (f x)"
  shows "reports C E verb path (ebind (send_request_with_meta C verb path body ps) f)"
  unfolding reports_def request_defs
  by (rule exchanged_raw [OF assms(1)], rule reported_parse;
      (intro emits_intros throws_intros raises_only_raw_meta)?; simp add: assms)

lemma reports_client:
  assumes "\<And>e. decode_error e \<Longrightarrow> E e" "\<And>x r. emits (\<lambda>_. False) (f r x)" "\<And>x r. throws E (f r x)"
  shows "reports C E verb path (ebind (client_request C verb path body ps hs)
    (\<lambda>r. ebind (lift (parse_response (cl_runtime C) r quick)) (f r)))"
  unfolding reports_def by (rule exchanged_client, rule reported_parse; simp add: assms)

section \<open>The readers of documents\<close>

lemma error_classes [simp]:
  "decode_error e \<Longrightarrow> document_error e" "document_error ValueError" "document_error KeyError"
  "document_error TypeError" "document_error AttributeError" "document_error UnicodeDecodeError"
  "document_error JSONDecodeError" "decode_error AttributeError" "decode_error UnicodeDecodeError"
  "decode_error JSONDecodeError"
  by (auto simp: document_error_def decode_error_def)

lemma raises_only_shape_document: "raises_only shape_error r \<Longrightarrow> raises_only document_error r"
  by (erule raises_only_mono) (auto simp: shape_error_def)

lemma document_readers [raises_intros]:
  "raises_only document_error (resource_items (parse_component_resource R) data)"
  "raises_only document_error (resource_items (parse_process_resource R) data)"
  "raises_only document_error (resource_items (parse_machine_resource R) data)"
  "raises_only document_error (resource_items (parse_entitlement R) data)"
  "raises_only document_error (resource_items (parse_artifact_resource R) data)"
  "raises_only document_error (parse_component_resource R data)"
  "raises_only document_error (parse_process_resource R data)"
  "raises_only document_error (parse_machine_resource R data)"
  "raises_only document_error (parse_entitlement R data)"
  "raises_only document_error (parse_release_resource R data)"
  "raises_only document_error (parse_artifact_resource R data)"
  "raises_only document_error (parse_policy_resource R data)"
  "raises_only document_error (parse_signing_key_resource R data)"
  by (intro raises_only_shape_document components.items_raise processes.items_raise machines.items_raise
      entitlements.items_raise artifacts.items_raise components.parse_raises processes.parse_raises
      machines.parse_raises entitlements.parse_raises releases.parse_raises artifacts.parse_raises
      raises_only_parse_policy raises_only_parse_signing_key)+

lemma document_licenses [raises_intros]: "raises_only document_error (license_from_data R ents data)"
  unfolding license_from_data_def
  by (intro raises_intros raises_only_shape_document licenses.parse_raises) simp_all

lemma document_raw_meta [raises_intros]: "raises_only document_error (raw_response_meta R r)"
  by (rule raises_only_raw_meta) simp

section \<open>Entitlements and licenses\<close>

named_theorems failures "how an operation fails"

lemma entitlements_fail [failures]:
  assumes "client_ready C"
  shows "reports C document_error (lit ''GET'') (slash ''licenses'' l @ lit ''/entitlements'') (entitlements_list C l limit cursor)"
    and "reports C document_error (lit ''GET'') (entitlement_path l e) (entitlements_get C l e)"
    and "reports C document_error (lit ''POST'') (entitlement_path l e @ lit ''/actions/increment'')
      (increment_entitlement_usage C l e n)"
    and "reports C document_error (lit ''POST'') (entitlement_path l e @ lit ''/actions/decrement'')
      (decrement_entitlement_usage C l e n)"
    and "reports C document_error (lit ''POST'') (entitlement_path l e @ lit ''/actions/reset'')
      (reset_entitlement_usage C l e)"
    and "reports C document_error (lit ''GET'') (slash ''licenses'' l @ lit ''/entitlements'') (entitlements_list_all C l)"
  unfolding entitlements_list_all_def entitlements_list_def entitlements_get_def increment_entitlement_usage_def
    decrement_entitlement_usage_def reset_entitlement_usage_def Let_def ebind_assoc_fun
  by ((intro reports_send reports_send_raw assms emits_intros throws_intros raises_intros; simp)+)

lemma license_entitlements_fail [failures]:
  assumes "client_ready C"
  shows "reports C document_error (lit ''GET'') (slash ''licenses'' l @ lit ''/entitlements'')
      (refresh_entitlements C (x\<lparr>li_entitlements_fetcher := Some l\<rparr>))"
    and "reports C document_error (lit ''GET'') (slash ''licenses'' l @ lit ''/entitlements'')
      (has_entitlement C (x\<lparr>li_entitlements_fetcher := Some l, li_entitlements_cache := None\<rparr>) code)"
  unfolding refresh_entitlements_def has_entitlement_def entitlements_list_all_def entitlements_list_def
  by (simp_all add: ebind_assoc_fun)
    ((intro reports_send_raw assms emits_intros throws_intros raises_intros; simp)+)

lemma licenses_fail [failures]:
  assumes "client_ready C"
  shows "reports C document_error (lit ''POST'') (lit ''/licenses/actions/validate-key'') (validate_by_key C ents key)"
    and "reports C document_error (lit ''POST'') (slash ''licenses'' l @ lit ''/actions/validate'')
      (validate_by_id C ents l scope touch)"
    and "reports C document_error (lit ''GET'') (slash ''licenses'' l @ lit ''/actions/validate'') (quick_validate C l)"
    and "reports C document_error (lit ''GET'') (slash ''licenses'' l) (licenses_get C ents l)"
    and "reports C document_error (lit ''GET'') (slash ''licenses'' l @ lit ''/policy'') (get_policy C l)"
    and "reports C document_error (lit ''POST'') (slash ''licenses'' l @ lit ''/actions/check-in'') (check_in C ents l)"
    and "reports C decode_error (lit ''POST'') (slash ''licenses'' l @ lit ''/actions/check-out'')
      (license_check_out C l encrypt ttl False)"
    and "reports_raw C (slash ''licenses'' l @ lit ''/actions/check-out'') (license_check_out C l encrypt ttl True)"
proof -
  obtain hs where hs: "license_headers C None = Inr hs" using ready_headers(1) [OF assms] by blast
  obtain ks where ks: "license_headers C (Some (case cf_default_auth (cl_config C) of Some a \<Rightarrow> a
      | None \<Rightarrow> LicenseAuth key)) = Inr ks"
    using ready_headers(2) [OF assms] by blast
  have lifted: "ebind (lift (Inr x)) f = f x" for x and f :: "headers \<Rightarrow> 'x call"
    by (simp add: fun_eq_iff ebind_lift)
  show "reports C document_error (lit ''POST'') (lit ''/licenses/actions/validate-key'') (validate_by_key C ents key)"
    "reports C document_error (lit ''POST'') (slash ''licenses'' l @ lit ''/actions/validate'')
      (validate_by_id C ents l scope touch)"
    unfolding validate_by_key_def validate_by_id_def validation_of_response_def [abs_def] hs ks Let_def lifted
    by ((intro reports_client emits_intros throws_intros raises_intros; simp)+)
  show "reports_raw C (slash ''licenses'' l @ lit ''/actions/check-out'') (license_check_out C l encrypt ttl True)"
    unfolding license_check_out_def Let_def if_True hs lifted by (rule reports_raw_client)
  show "reports C document_error (lit ''GET'') (slash ''licenses'' l @ lit ''/actions/validate'') (quick_validate C l)"
    "reports C document_error (lit ''GET'') (slash ''licenses'' l) (licenses_get C ents l)"
    "reports C document_error (lit ''GET'') (slash ''licenses'' l @ lit ''/policy'') (get_policy C l)"
    "reports C document_error (lit ''POST'') (slash ''licenses'' l @ lit ''/actions/check-in'') (check_in C ents l)"
    unfolding quick_validate_def licenses_get_def get_policy_def check_in_def
    by ((intro reports_send assms emits_intros throws_intros raises_intros; simp)+)
  show "reports C decode_error (lit ''POST'') (slash ''licenses'' l @ lit ''/actions/check-out'')
      (license_check_out C l encrypt ttl False)"
    unfolding license_check_out_def Let_def if_False
    by (intro reports_send assms emits_intros throws_intros raises_intros; simp)
qed

section \<open>Machines\<close>

lemma document_parts [raises_intros]:
  "raises_only document_error (proof_parse raw a m f d)"
  "raises_only (\<lambda>e. document_error e \<or> e = OverflowError) (parse_page_meta meta)"
  unfolding proof_parse_def parse_page_meta_def by ((intro raises_intros; simp)+)

lemma document_or_overflow [raises_intros]:
  "raises_only (\<lambda>e. document_error e \<or> e = OverflowError) (resource_items (parse_machine_resource R) data)"
  by (rule raises_only_mono [OF document_readers(3)]) simp

lemma machines_fail [failures]:
  assumes "client_ready C"
  shows "reports C document_error (lit ''POST'') (lit ''/machines'') (machines_create C l fp a)"
    and "reports C decode_error (lit ''DELETE'') (slash ''machines'' m) (machines_delete C m)"
    and "reports C document_error (lit ''GET'') (slash ''machines'' m) (machines_get C m)"
    and "reports C document_error (lit ''PATCH'') (slash ''machines'' m) (machines_update C m a)"
    and "reports C document_error (lit ''POST'') (slash ''machines'' m @ lit ''/actions/ping-heartbeat'') (ping_heartbeat C m)"
    and "reports C document_error (lit ''POST'') (slash ''machines'' m @ lit ''/actions/reset-heartbeat'') (reset_heartbeat C m)"
    and "reports C (\<lambda>e. document_error e \<or> e = OverflowError) (lit ''GET'') (lit ''/machines'')
      (machines_list C page page_size query l' platform)"
  unfolding machines_create_def machines_delete_def machines_get_def machines_update_def ping_heartbeat_def
    reset_heartbeat_def machines_list_def machine_call_def
  by ((intro reports_send reports_send_meta assms emits_intros throws_intros raises_intros; simp)+)

lemma machine_files_fail [failures]:
  assumes "client_ready C"
    and "case ttl of None \<Rightarrow> True | Some t \<Rightarrow> 0 < t \<and> t \<le> max_checkout_ttl_seconds"
  shows "reports C decode_error (lit ''POST'') (slash ''machines'' m @ lit ''/actions/check-out'')
      (machine_check_out C m encrypt ttl False)"
    and "reports_raw C (slash ''machines'' m @ lit ''/actions/check-out'') (machine_check_out C m encrypt ttl True)"
proof -
  have ttl: "\<not> (case ttl of None \<Rightarrow> False | Some t \<Rightarrow> \<not> (0 < t \<and> t \<le> max_checkout_ttl_seconds))"
    using assms(2) by (simp split: option.splits)
  obtain hs ps where hs: "octet_headers C (check_out_params encrypt ttl) = Inr (hs, ps)"
    using ready_headers(4) [OF assms(1)] by blast
  have lifted: "ebind (lift (Inr x)) f = f x" for x and f :: "headers \<times> pydict \<Rightarrow> 'x call"
    by (simp add: fun_eq_iff ebind_lift)
  show "reports_raw C (slash ''machines'' m @ lit ''/actions/check-out'') (machine_check_out C m encrypt ttl True)"
    using reports_raw_client by (simp add: machine_check_out_def Let_def ttl hs lifted)
  have "reports C decode_error (lit ''POST'') (slash ''machines'' m @ lit ''/actions/check-out'')
      (ebind (send_request C (lit ''POST'') (slash ''machines'' m @ lit ''/actions/check-out'')
          (Some (check_out_body encrypt ttl)) [] None False)
        (\<lambda>data. lift (rbind (parse_file_resource data) (\<lambda>f. Inr (FileResource f)))))"
    by (intro reports_send assms emits_intros throws_intros raises_intros; simp)
  then show "reports C decode_error (lit ''POST'') (slash ''machines'' m @ lit ''/actions/check-out'')
      (machine_check_out C m encrypt ttl False)"
    by (simp add: machine_check_out_def Let_def ttl)
qed

lemma offline_proof_fails [failures]:
  assumes "client_ready C"
  shows "reports C document_error (lit ''POST'') (slash ''machines'' m @ lit ''/actions/generate-offline-proof'')
    (generate_offline_proof C m dataset)"
proof -
  obtain hs where hs: "machine_json_headers C = Inr hs" using ready_headers(3) [OF assms] by blast
  have lifted: "ebind (lift (Inr x)) f = f x" for x and f :: "headers \<Rightarrow> 'x call"
    by (simp add: fun_eq_iff ebind_lift)
  show ?thesis
    unfolding generate_offline_proof_def Let_def hs lifted
    by (intro reports_client emits_intros throws_intros raises_intros; simp)
qed

section \<open>The other sub-clients\<close>

lemma text_is_kept: "(if \<not> is_str (JStr s) then x else y) = y"
  by simp

lemma listings_fail [failures]:
  assumes "client_ready C"
  shows "reports C document_error (lit ''POST'') (lit ''/components'') (components_create C m fp name metadata)"
    and "reports C document_error (lit ''GET'') (slash ''machines'' m @ lit ''/components'') (components_list C m limit cursor)"
    and "reports C document_error (lit ''POST'') (lit ''/processes'') (processes_create C m (JStr pid) metadata)"
    and "reports C document_error (lit ''POST'') (slash ''processes'' p @ lit ''/actions/ping'') (processes_ping C p)"
    and "reports C decode_error (lit ''DELETE'') (slash ''processes'' p) (processes_delete C p)"
    and "reports C document_error (lit ''GET'') (slash ''machines'' m @ lit ''/processes'') (processes_list C m limit cursor)"
    and "reports C document_error (lit ''GET'') (slash ''releases'' r @ lit ''/artifacts'') (artifacts_list C r limit cursor)"
    and "reports C document_error (lit ''GET'') (slash ''artifacts'' i) (artifacts_get C i)"
  unfolding components_create_def components_list_def processes_create_def processes_ping_def processes_delete_def
    processes_list_def artifacts_list_def artifacts_get_def Let_def text_is_kept
  by ((intro reports_send reports_send_raw assms emits_intros throws_intros raises_intros; simp)+)

lemma document_signing_keys [raises_intros]:
  "raises_only document_error (resource_items (parse_signing_key_resource R) data)"
  unfolding resource_items_def by (intro raises_intros) simp_all

lemma accounts_fail [failures]:
  assumes "client_ready C"
  shows "reports C document_error (lit ''GET'') (lit ''/signing-keys'') (list_signing_keys C)"
    and "reports C document_error (lit ''GET'') (lit ''/signing-keys'') (signing_key_set C)"
    and "reports C document_error (lit ''GET'') (slash ''policies'' p) (policies_get C p)"
    and "reports C document_error (lit ''GET'') (lit ''/releases/actions/upgrade'')
      (check_for_upgrade C product platform filetype version channel con)"
  unfolding signing_key_set_def list_signing_keys_def policies_get_def check_for_upgrade_def Let_def ebind_assoc_fun
  by ((intro reports_send reports_send_raw assms emits_intros throws_intros raises_intros; simp)+)

lemma health_fails [failures]:
  assumes "client_ready C"
  shows "reports C (\<lambda>e. document_error e \<or> e = OverflowError) (lit ''GET'')
    (build_root_url (cf_host (cl_config C)) @ lit ''/v1/health'') (health C)"
proof -
  have read: "raises_only (\<lambda>e. document_error e \<or> e = OverflowError)
      (rbind (if rs_content r = [] then Inr (JObj []) else json_loads R (rs_content r)) (\<lambda>body.
       rbind (as_dict body) (\<lambda>m.
       rbind (py_int (dict_get m (lit ''uptime_secs'') (JInt 0))) (\<lambda>uptime. Inr (f m uptime)))))"
    for r :: http_response and R and f :: "pydict \<Rightarrow> int \<Rightarrow> health_status"
    by (intro raises_intros) simp_all
  show ?thesis
    unfolding reports_def health_def
    by (rule exchanged_raw [OF assms])
      (use read in \<open>auto simp: reported_def raise_envelope_def envelope_error_def lift_apply rbind_def
        split: sum.split\<close>)
qed

text \<open>The presign call refuses a redirect as well, with an error of its own.\<close>

definition redirected :: "http_response \<Rightarrow> exc option" where
  "redirected r = (if 300 \<le> rs_status r \<and> rs_status r < 400
     then Some (artifact_download_error (rs_status r)) else None)"

lemma presign_fails [failures]:
  assumes "client_ready C"
    and "case ttl of None \<Rightarrow> True | Some t \<Rightarrow> min_presign_ttl_seconds \<le> t \<and> t \<le> max_presign_ttl_seconds"
  shows "exchanged C (lit ''GET'') (download_path i) (reported C document_error parse_retry_after redirected)
      (get_download_url C i ttl)"
proof -
  have ttl: "\<not> (case ttl of None \<Rightarrow> False
      | Some t \<Rightarrow> \<not> (min_presign_ttl_seconds \<le> t \<and> t \<le> max_presign_ttl_seconds))"
    using assms(2) by (simp split: option.splits)
  let ?parse = "\<lambda>r. ebind (lift (parse_response (cl_runtime C) r False))
      (\<lambda>parsed. lift (parse_artifact_resource (cl_runtime C) (tr_data parsed)))"
  have "reported C document_error parse_retry_after redirected r h
      ((if 300 \<le> rs_status r \<and> rs_status r < 400 then lift (Inl (artifact_download_error (rs_status r)))
        else ?parse r) h)" for r h
  proof (cases "300 \<le> rs_status r \<and> rs_status r < 400")
    case True
    then show ?thesis by (simp add: reported_def redirected_def lift_apply)
  next
    case False
    then have none: "redirected r = None" by (simp add: redirected_def)
    have "reported C document_error parse_retry_after redirected r h (?parse r h)"
      by (rule reported_parse) (intro emits_intros throws_intros raises_intros | simp add: none)+
    with False show ?thesis by auto
  qed
  then show ?thesis
    unfolding get_download_url_def if_not_P [OF ttl] by (intro exchanged_raw [OF assms(1)])
qed

section \<open>Operations of several requests\<close>

lemma stops_at_refusal_raw:
  assumes "client_ready C" "\<And>r h. 400 \<le> rs_status r \<Longrightarrow> k r h = (Inl (g (envelope_error C parse_retry_after r)), h)"
  shows "stops_at_refusal C g verb path (ebind (send_raw_response C verb path body ps None quick) k)"
  unfolding stops_at_refusal_def by (rule exchanged_raw [OF assms(1)]) (simp add: assms(2))

lemma search_fails [failures]:
  assumes "client_ready C" "strip py_isspace fp \<noteq> []" "1 \<le> pages"
  shows "stops_at_refusal C id (lit ''GET'') (lit ''/machines'') (find_by_fingerprint C fp l pages)"
proof -
  have "find_by_fingerprint C fp l pages = find_in_pages C fp l (1 # [2..pages])"
    using assms(2,3) upto_rec1 [of 1 pages] by (simp add: find_by_fingerprint_def)
  then show ?thesis
    unfolding find_in_pages.simps machines_list_def request_defs
    by (simp only:) (rule stops_at_refusal_raw [OF assms(1)], simp add: refusal_parse)
qed

lemma download_fails [failures]:
  assumes "client_ready C"
    and "case ttl of None \<Rightarrow> True | Some t \<Rightarrow> min_presign_ttl_seconds \<le> t \<and> t \<le> max_presign_ttl_seconds"
  shows "stops_at_refusal C id (lit ''GET'') (download_path i) (artifacts_download C i ttl)"
proof -
  have ttl: "\<not> (case ttl of None \<Rightarrow> False
      | Some t \<Rightarrow> \<not> (min_presign_ttl_seconds \<le> t \<and> t \<le> max_presign_ttl_seconds))"
    using assms(2) by (simp split: option.splits)
  show ?thesis
    unfolding artifacts_download_def get_download_url_def if_not_P [OF ttl] ebind_assoc_fun
    by (rule stops_at_refusal_raw [OF assms(1)])
      (simp add: refusal_parse ebind_def [of "if _ then _ else _"], simp add: refusal_parse ebind_step)
qed

text \<open>
  The second request of a download, to the storage host: its failure is the download's, and any
  answer outside 200 to 299 is an \<open>ArtifactDownloadError\<close> of that status.
\<close>

lemma storage_fails:
  assumes "get_download_url C i ttl h = (Inr artifact, h1)" "ar_redirect_url artifact = JStr url" "url \<noteq> []"
  shows "artifacts_download C i ttl h =
    (case answer C h1 (storage_request url) of
       Inl e \<Rightarrow> Inl e
     | Inr r \<Rightarrow> if 200 \<le> rs_status r \<and> rs_status r < 300 then Inr (rs_content r)
               else Inl (artifact_download_error (rs_status r)), h1 @ [Sent (storage_request url)])"
  using assms by (auto simp: artifacts_download_def ebind_step(2) py_truthy_def ebind_def http_request_call_def
      lift_apply ret_apply split: sum.split)

text \<open>An activation whose creation is refused ends there, with the limit of the refusal normalised.\<close>

lemma activation_fails [failures]:
  assumes "client_ready C"
  shows "stops_at_refusal C creation_refused (lit ''POST'') (lit ''/machines'') (activate_machine C l fp a)"
  unfolding stops_at_refusal_def exchanged_def
proof
  fix h
  obtain rq where rq: "rq_method rq = lit ''POST''" "rq_url rq = lit ''/machines''"
    and create: "case request_with_retry C rq h of
        (Inl e, h') \<Rightarrow> machines_create C l fp a h = (Inl e, h')
      | (Inr r, h') \<Rightarrow> reported C document_error parse_retry_after (\<lambda>_. None) r h' (machines_create C l fp a h)"
    using spec [OF machines_fail(1) [OF assms, of l fp a, unfolded reports_def exchanged_def], of h]
    by (elim exE conjE)
  have refused: "activate_machine C l fp a h = (Inl (if is_TamgaError e then creation_refused e else e), h1)"
    if "machines_create C l fp a h = (Inl e, h1)" for e h1
    using that by (simp add: activate_machine_def ebind_def try_except_def lift_apply)
  have others: "\<not> is_TamgaError e \<Longrightarrow> creation_refused e = e" for e
    by (cases e) (simp_all add: creation_refused_def)
  have "case request_with_retry C rq h of
      (Inl e, h') \<Rightarrow> activate_machine C l fp a h = (Inl e, h')
    | (Inr r, h') \<Rightarrow> 400 \<le> rs_status r \<longrightarrow> activate_machine C l fp a h =
        (Inl (creation_refused (envelope_error C parse_retry_after r)), h')"
  proof (cases "request_with_retry C rq h")
    case (Pair v h')
    show ?thesis
    proof (cases v)
      case (Inl e)
      then have "\<not> is_TamgaError e"
        using Pair request_loop_raises [of C "is_retryable (rq_method rq) (rq_url rq)" rq 0 h e h']
        by (auto simp: request_with_retry_def)
      with create Pair Inl refused show ?thesis by simp
    next
      case (Inr r)
      with create Pair refused others show ?thesis
        by (cases "machines_create C l fp a h") (auto simp: reported_def)
    qed
  qed
  with rq show "\<exists>rq. rq_method rq = lit ''POST'' \<and> rq_url rq = lit ''/machines'' \<and>
      (case request_with_retry C rq h of
         (Inl e, h') \<Rightarrow> activate_machine C l fp a h = (Inl e, h')
       | (Inr r, h') \<Rightarrow> 400 \<le> rs_status r \<longrightarrow> activate_machine C l fp a h =
           (Inl (creation_refused (envelope_error C parse_retry_after r)), h'))"
    by (intro exI [of _ rq] conjI)
qed

section \<open>An instance\<close>

text \<open>A server that knows of nothing: every request is answered \<open>404\<close>.\<close>

definition missing_doc :: json where
  "missing_doc = JObj [(lit ''errors'', JArr [JObj [(lit ''code'', JStr (lit ''NOT_FOUND''))]])]"

definition missing_client :: client where
  "missing_client = scripted (\<lambda>_. (404, missing_doc))"

lemma missing_ready: "client_ready missing_client"
  using sample_version by (simp add: client_ready_def missing_client_def) (simp add: sample_config_def)

lemma missing_answer: "request_with_retry missing_client rq h = (Inr (reply (404, missing_doc)), h @ [Sent rq])"
  by (simp add: missing_client_def scripted_request)

lemma missing_error:
  "envelope_error missing_client parse_retry_after (reply (404, missing_doc)) =
     TamgaError (tamga_error_of NotFoundError 404 (JStr (lit ''NOT_FOUND'')) (JStr []) JNull None)"
proof -
  have "writable missing_doc" "canon missing_doc = missing_doc"
    by (simp_all add: missing_doc_def) (simp_all add: lit_def encodable_def surrogate_def)
  then have "json_loads sample_runtime (rs_content (reply (404, missing_doc))) = Inr missing_doc"
    using reply_loads(1) [of "(404, missing_doc)"] by simp
  then show ?thesis
    by (simp add: envelope_error_def missing_client_def parse_error_envelope_def first_error_cases)
      (simp add: missing_doc_def py_truthy_def py_index0_def py_or_def hashable_def exception_class_def
        code_to_exception_def)
qed

end
