(* ===== verification/Request_Steps.thy ===== *)
theory Request_Steps
  imports Http_Client
begin

text \<open>
  The retry loop of \<open>src/src/tamga/client.py\<close> step by step, for code that runs beside others: a
  request leaves, its answer arrives, a \<open>429\<close> is waited out. Between two steps anything else may
  happen. The server decides an answer when the request reaches it, which is when the request joins
  the history; the answer is read later.

  Alone, the steps are the loop: \<open>request_steps_iff\<close> relates them to \<open>request_with_retry\<close> as a
  small-step semantics to a big-step one.
\<close>

section \<open>Steps\<close>

datatype request_point =
    Sending nat | Waiting nat "exc + http_response" | Backing nat http_response | Done "exc + http_response"

text \<open>The test the loop leaves by, as the source spells it.\<close>

definition gives_up :: "client \<Rightarrow> http_request \<Rightarrow> nat \<Rightarrow> http_response \<Rightarrow> bool" where
  "gives_up C rq attempt r \<longleftrightarrow>
     rs_status r \<noteq> 429 \<or> \<not> is_retryable (rq_method rq) (rq_url rq) \<or>
     cf_max_retries (cl_config C) \<le> int attempt"

inductive request_step ::
  "client \<Rightarrow> http_request \<Rightarrow> request_point \<times> history \<Rightarrow> request_point \<times> history \<Rightarrow> bool"
  for C :: client and rq :: http_request where
  sent: "request_step C rq (Sending n, h) (Waiting n (answer C h rq), h @ [Sent rq])"
| failed: "request_step C rq (Waiting n (Inl e), h) (Done (Inl e), h)"
| settled: "gives_up C rq n r \<Longrightarrow> request_step C rq (Waiting n (Inr r), h) (Done (Inr r), h)"
| throttled: "\<not> gives_up C rq n r \<Longrightarrow> request_step C rq (Waiting n (Inr r), h) (Backing n r, h)"
| backed_off: "ebind (retry_delay C n (parse_retry_after r)) sleep h = (Inr u, h') \<Longrightarrow>
    request_step C rq (Backing n r, h) (Sending (Suc n), h')"
| back_off_raised: "ebind (retry_delay C n (parse_retry_after r)) sleep h = (Inl e, h') \<Longrightarrow>
    request_step C rq (Backing n r, h) (Done (Inl e), h')"

section \<open>What is left of a request\<close>

text \<open>The requests and the steps still ahead of a point, and the rest of the loop from it.\<close>

definition retries :: "client \<Rightarrow> nat" where
  "retries C = nat (cf_max_retries (cl_config C))"

fun requests_left :: "client \<Rightarrow> request_point \<Rightarrow> nat" where
  "requests_left C (Sending n) = Suc (retries C - n)"
| "requests_left C (Waiting n v) = retries C - n"
| "requests_left C (Backing n r) = Suc (retries C - Suc n)"
| "requests_left C (Done v) = 0"

fun request_steps_left :: "client \<Rightarrow> request_point \<Rightarrow> nat" where
  "request_steps_left C (Sending n) = 3 * (retries C - n) + 2"
| "request_steps_left C (Waiting n v) = 3 * (retries C - n) + 1"
| "request_steps_left C (Backing n r) = 3 * (retries C - Suc n) + 3"
| "request_steps_left C (Done v) = 0"

definition backing_rest :: "client \<Rightarrow> http_request \<Rightarrow> nat \<Rightarrow> http_response \<Rightarrow> http_response call" where
  "backing_rest C rq n r =
     ebind (ebind (retry_delay C n (parse_retry_after r)) sleep)
       (\<lambda>_. request_loop C (is_retryable (rq_method rq) (rq_url rq)) rq (Suc n))"

fun request_rest :: "client \<Rightarrow> http_request \<Rightarrow> request_point \<Rightarrow> http_response call" where
  "request_rest C rq (Sending n) h = request_loop C (is_retryable (rq_method rq) (rq_url rq)) rq n h"
| "request_rest C rq (Waiting n v) h =
     (case v of
        Inl e \<Rightarrow> (Inl e, h)
      | Inr r \<Rightarrow> if gives_up C rq n r then (Inr r, h) else backing_rest C rq n r h)"
| "request_rest C rq (Backing n r) h = backing_rest C rq n r h"
| "request_rest C rq (Done v) h = (v, h)"

lemma gives_up_budget:
  "gives_up C rq n r \<longleftrightarrow> rs_status r \<noteq> 429 \<or> budget C (is_retryable (rq_method rq) (rq_url rq)) \<le> n"
  by (auto simp: gives_up_def budget_def)

lemma going_on: "\<not> gives_up C rq n r \<Longrightarrow> n < retries C"
  by (auto simp: gives_up_def retries_def)

lemma request_step_rest:
  assumes "request_step C rq (q, h) (q', h')"
  shows "request_rest C rq q' h' = request_rest C rq q h"
  using assms
proof (cases rule: request_step.cases)
  case (sent n)
  then show ?thesis
    by (cases "answer C h rq")
      (simp_all add: request_loop_step [of C _ rq n h] gives_up_budget backing_rest_def)
qed (simp_all add: ebind_step backing_rest_def)

lemma request_step_left:
  "request_step C rq (q, h) (q', h') \<Longrightarrow> request_steps_left C q' < request_steps_left C q"
  by (erule request_step.cases) (auto dest!: going_on)

lemma request_step_progress: "(\<exists>v. q = Done v) \<or> (\<exists>q' h'. request_step C rq (q, h) (q', h'))"
proof (cases q)
  case (Waiting n v)
  then show ?thesis
    by (cases v) (auto intro: request_step.intros, metis request_step.settled request_step.throttled)
next
  case (Backing n r)
  then show ?thesis
    by (cases "ebind (retry_delay C n (parse_retry_after r)) sleep h"; cases "fst (ebind (retry_delay C n (parse_retry_after r)) sleep h)")
      (auto intro: request_step.intros)
qed (auto intro: request_step.sent)

section \<open>The steps are the loop\<close>

lemma request_rest_done: "(request_step C rq)\<^sup>*\<^sup>* s s' \<Longrightarrow>
    request_rest C rq (fst s') (snd s') = request_rest C rq (fst s) (snd s)"
  by (induction rule: rtranclp_induct) (auto dest: request_step_rest)

lemma request_finishes: "\<exists>v h'. (request_step C rq)\<^sup>*\<^sup>* (q, h) (Done v, h')"
proof (induction "request_steps_left C q" arbitrary: q h rule: less_induct)
  case less
  show ?case
  proof (cases "\<exists>v. q = Done v")
    case False
    then obtain q' h' where step: "request_step C rq (q, h) (q', h')" using request_step_progress by blast
    with less.hyps [OF request_step_left [OF step]] show ?thesis
      by (meson converse_rtranclp_into_rtranclp)
  qed blast
qed

theorem request_steps_iff:
  "(request_step C rq)\<^sup>*\<^sup>* (Sending 0, h) (Done v, h') \<longleftrightarrow> request_with_retry C rq h = (v, h')"
proof
  assume "(request_step C rq)\<^sup>*\<^sup>* (Sending 0, h) (Done v, h')"
  from request_rest_done [OF this] show "request_with_retry C rq h = (v, h')"
    by (simp add: request_with_retry_def)
next
  assume r: "request_with_retry C rq h = (v, h')"
  obtain w h2 where w: "(request_step C rq)\<^sup>*\<^sup>* (Sending 0, h) (Done w, h2)" using request_finishes by blast
  from request_rest_done [OF this] r have "w = v" "h2 = h'" by (simp_all add: request_with_retry_def)
  with w show "(request_step C rq)\<^sup>*\<^sup>* (Sending 0, h) (Done v, h')" by simp
qed

section \<open>Events\<close>

lemma request_step_events:
  assumes "request_step C rq (q, h) (q', h')"
  obtains es where "h' = h @ es" "list_all (request_event rq) es"
    "length (sends es) + requests_left C q' \<le> requests_left C q"
  using assms
proof (cases rule: request_step.cases)
  case (sent n)
  then show ?thesis by (intro that [of "[Sent rq]"]) (auto simp: request_event_def)
next
  case (throttled n r)
  then show ?thesis using going_on [of C rq n r] by (intro that [of "[]"]) auto
next
  case (backed_off n r u)
  then show ?thesis
  proof (cases rule: pause_cases [of C n "parse_retry_after r" h])
    case (2 d)
    with backed_off show ?thesis by (intro that [of "[Slept d]"]) (auto simp: request_event_def)
  qed simp
next
  case (back_off_raised n r e)
  then show ?thesis
    by (cases rule: pause_cases [of C n "parse_retry_after r" h]) (auto intro!: that [of "[]"])
qed (intro that [of "[]"]; simp)+

end
