(* ===== verification/Heartbeat.thy ===== *)
theory Heartbeat
  imports Machines_Client Other_Clients Request_Steps
begin

text \<open>
  The heartbeat schedulers of \<open>src/src/tamga/client.py\<close>: the interval a policy implies, the
  guard of the two constructors, the ping loops, and the disposal of a process.

  \<open>run_forever\<close> may never return, and \<open>stop\<close> comes from outside it, so the loop is the step
  relation \<open>heartbeat_step\<close>: the test of the flag, each request of a ping (\<open>request_step\<close>), each
  answer, back-off and sleep is a step of its own, and \<open>stop\<close> can be called between any two. The
  locale \<open>heartbeat_loop\<close> proves the pace of such a loop once for machines and processes.

  A \<open>timedelta\<close> is its number of microseconds. The interval is slept exactly; the double that
  \<open>total_seconds\<close> rounds it to differs from it by less than two microseconds wherever
  \<open>time.sleep\<close> accepts it.
\<close>

section \<open>Intervals\<close>

type_synonym timedelta = int

definition timedelta_seconds :: "int \<Rightarrow> timedelta" where
  "timedelta_seconds n = n * 10 ^ 6"

definition machine_heartbeat_recommended_interval :: timedelta where
  "machine_heartbeat_recommended_interval = timedelta_seconds 200"

definition process_heartbeat_recommended_interval :: timedelta where
  "process_heartbeat_recommended_interval = timedelta_seconds 10"

definition heartbeat_pings_per_window :: int where
  "heartbeat_pings_per_window = 3"

definition min_heartbeat_interval :: timedelta where
  "min_heartbeat_interval = timedelta_seconds 1"

text \<open>\<open>timedelta(seconds=n)\<close>: at most 999999999 days and the seconds of the last one.\<close>

definition make_timedelta :: "int \<Rightarrow> exc + timedelta" where
  "make_timedelta n =
     (if \<bar>n\<bar> \<le> 86399999999999 then Inr (timedelta_seconds n) else Inl OverflowError)"

text \<open>
  \<open>timedelta(seconds=window // 3)\<close>: a bool is an integer; a float is divided by a float floor
  division, which yields NaN for an infinite or NaN window, and is otherwise exact below
  \<open>2 ^ 53\<close>, beyond which the interval overflows whatever the rounding.
\<close>

definition window_share :: "json \<Rightarrow> exc + timedelta" where
  "window_share window =
     (case window of
        JInt n \<Rightarrow> make_timedelta (n div heartbeat_pings_per_window)
      | JBool b \<Rightarrow> make_timedelta (of_bool b div heartbeat_pings_per_window)
      | JFloat f \<Rightarrow> (if float_is_nan f \<or> float_is_inf f then Inl ValueError
                    else make_timedelta (float_trunc f div heartbeat_pings_per_window))
      | _ \<Rightarrow> Inl TypeError)"

definition heartbeat_interval_for_policy :: "policy_resource \<Rightarrow> exc + timedelta" where
  "heartbeat_interval_for_policy policy =
     rbind (effective_heartbeat_window_seconds policy) (\<lambda>window.
     rbind (window_share window) (\<lambda>share. Inr (max min_heartbeat_interval share)))"

definition clamped_heartbeat_interval :: "timedelta \<Rightarrow> timedelta \<Rightarrow> timedelta" where
  "clamped_heartbeat_interval interval d =
     (if interval \<le> 0 then d else max interval min_heartbeat_interval)"

section \<open>Schedulers\<close>

record heartbeat_scheduler =
  hs_machine_id :: uuid
  hs_interval :: timedelta
  hs_stop :: bool

record process_heartbeat_scheduler =
  ps_process_id :: uuid
  ps_interval :: timedelta
  ps_stop :: bool

text \<open>The constructors, with the guard of \<open>__post_init__\<close>.\<close>

definition heartbeat_scheduler_init :: "uuid \<Rightarrow> timedelta \<Rightarrow> heartbeat_scheduler" where
  "heartbeat_scheduler_init machine_id interval =
     \<lparr>hs_machine_id = machine_id,
      hs_interval = clamped_heartbeat_interval interval machine_heartbeat_recommended_interval,
      hs_stop = False\<rparr>"

definition heartbeat_scheduler_for_policy :: "uuid \<Rightarrow> policy_resource \<Rightarrow> exc + heartbeat_scheduler" where
  "heartbeat_scheduler_for_policy machine_id policy =
     rbind (heartbeat_interval_for_policy policy) (\<lambda>interval.
       Inr (heartbeat_scheduler_init machine_id interval))"

definition heartbeat_scheduler_stop :: "heartbeat_scheduler \<Rightarrow> heartbeat_scheduler" where
  "heartbeat_scheduler_stop s = s\<lparr>hs_stop := True\<rparr>"

definition process_scheduler_init :: "uuid \<Rightarrow> timedelta \<Rightarrow> process_heartbeat_scheduler" where
  "process_scheduler_init process_id interval =
     \<lparr>ps_process_id = process_id,
      ps_interval = clamped_heartbeat_interval interval process_heartbeat_recommended_interval,
      ps_stop = False\<rparr>"

definition process_scheduler_stop :: "process_heartbeat_scheduler \<Rightarrow> process_heartbeat_scheduler" where
  "process_scheduler_stop s = s\<lparr>ps_stop := True\<rparr>"

text \<open>\<open>dispose\<close>: the scheduler is stopped first, then the row is deleted.\<close>

definition process_dispose ::
  "client \<Rightarrow> process_heartbeat_scheduler \<Rightarrow> process_heartbeat_scheduler \<times> unit call" where
  "process_dispose C s =
     (let s = process_scheduler_stop s
      in (s, try_except (processes_delete C (ps_process_id s)) (is_tamga NotFoundError) (\<lambda>_. ret ())))"

text \<open>
  A \<open>with\<close> statement over the scheduler: \<open>__exit__\<close> disposes of it however the body ended,
  and the body's outcome stands unless the disposal raises.
\<close>

definition process_with :: "client \<Rightarrow> process_heartbeat_scheduler \<Rightarrow> 'a call \<Rightarrow> 'a call" where
  "process_with C s body h =
     (case body h of (v, h1) \<Rightarrow>
        (case snd (process_dispose C s) h1 of
           (Inl e, h2) \<Rightarrow> (Inl e, h2)
         | (Inr _, h2) \<Rightarrow> (v, h2)))"

section \<open>Pings in two halves\<close>

text \<open>
  A ping prepares its request, exchanges it and reads the answer. \<open>prepared_call\<close> is that shape, and
  the halves of the two pings follow; that they make up \<open>ping_heartbeat\<close> and \<open>processes_ping\<close> is
  \<open>pings_prepared\<close>.
\<close>

definition prepared_call ::
  "client \<Rightarrow> exc + http_request \<Rightarrow> (http_response \<Rightarrow> exc + 'a) \<Rightarrow> 'a call" where
  "prepared_call C prep finish =
     ebind (lift prep) (\<lambda>rq. ebind (request_with_retry C rq) (\<lambda>r. lift (finish r)))"

definition ping_heartbeat_path :: "uuid \<Rightarrow> pystr" where
  "ping_heartbeat_path machine_id = slash ''machines'' machine_id @ lit ''/actions/ping-heartbeat''"

definition ping_process_path :: "uuid \<Rightarrow> pystr" where
  "ping_process_path process_id = slash ''processes'' process_id @ lit ''/actions/ping''"

definition ping_request :: "client \<Rightarrow> pystr \<Rightarrow> exc + http_request" where
  "ping_request C path = prepare_request C (lit ''POST'') path None [] None False"

definition machine_ping_reply :: "client \<Rightarrow> http_response \<Rightarrow> exc + uuid machine_resource" where
  "machine_ping_reply C r =
     rbind (parse_response (cl_runtime C) r False) (\<lambda>t. parse_machine_resource (cl_runtime C) (tr_data t))"

definition process_ping_reply :: "client \<Rightarrow> http_response \<Rightarrow> exc + process_resource" where
  "process_ping_reply C r =
     rbind (parse_response (cl_runtime C) r False) (\<lambda>t. parse_process_resource (cl_runtime C) (tr_data t))"

lemma pings_prepared:
  "ping_heartbeat C i = prepared_call C (ping_request C (ping_heartbeat_path i)) (machine_ping_reply C)"
  "processes_ping C i = prepared_call C (ping_request C (ping_process_path i)) (process_ping_reply C)"
  unfolding ping_heartbeat_def machine_call_def processes_ping_def prepared_call_def ping_request_def
    ping_heartbeat_path_def ping_process_path_def machine_ping_reply_def process_ping_reply_def
    send_request_def send_request_raw_def send_raw_response_def
  by (auto simp: fun_eq_iff ebind_def lift_apply ret_apply split: prod.split sum.split)

lemma ping_request_Inr:
  "ping_request C path = Inr rq \<Longrightarrow> rq_method rq = lit ''POST'' \<and> rq_url rq = path"
  unfolding ping_request_def by (auto dest: prepare_request_Inr(1,2))

section \<open>The loop\<close>

datatype phase = Testing | Pinging request_point | Sleeping | Returned | Raised exc

type_synonym loop_state = "phase \<times> bool \<times> history"

definition total_seconds :: "timedelta \<Rightarrow> rat" where
  "total_seconds d = of_int d / 10 ^ 6"

text \<open>
  The state is the point the loop is at, the stop flag and the history. \<open>stop_called\<close> is a call
  of \<open>stop\<close> by someone else, possible at any time. The flag is read at the test only.
\<close>

inductive heartbeat_step ::
  "client \<Rightarrow> exc + http_request \<Rightarrow> (http_response \<Rightarrow> exc + 'a) \<Rightarrow> timedelta \<Rightarrow> loop_state \<Rightarrow> loop_state \<Rightarrow> bool"
  for C :: client and prep :: "exc + http_request" and finish :: "http_response \<Rightarrow> exc + 'a"
    and interval :: timedelta where
  stop_called: "heartbeat_step C prep finish interval (p, b, h) (p, True, h)"
| stopped: "heartbeat_step C prep finish interval (Testing, True, h) (Returned, True, h)"
| tested: "prep = Inr rq \<Longrightarrow>
    heartbeat_step C prep finish interval (Testing, False, h) (Pinging (Sending 0), False, h)"
| unprepared: "prep = Inl e \<Longrightarrow> heartbeat_step C prep finish interval (Testing, False, h) (Raised e, False, h)"
| requesting: "prep = Inr rq \<Longrightarrow> request_step C rq (q, h) (q', h') \<Longrightarrow>
    heartbeat_step C prep finish interval (Pinging q, b, h) (Pinging q', b, h')"
| pinged: "finish r = Inr x \<Longrightarrow>
    heartbeat_step C prep finish interval (Pinging (Done (Inr r)), b, h) (Sleeping, b, h)"
| refused: "finish r = Inl e \<Longrightarrow>
    heartbeat_step C prep finish interval (Pinging (Done (Inr r)), b, h) (Raised e, b, h)"
| ping_failed: "heartbeat_step C prep finish interval (Pinging (Done (Inl e)), b, h) (Raised e, b, h)"
| slept: "sleep (total_seconds interval) h = (Inr u, h') \<Longrightarrow>
    heartbeat_step C prep finish interval (Sleeping, b, h) (Testing, b, h')"
| sleep_raised: "sleep (total_seconds interval) h = (Inl e, h') \<Longrightarrow>
    heartbeat_step C prep finish interval (Sleeping, b, h) (Raised e, b, h')"

definition machine_step :: "client \<Rightarrow> heartbeat_scheduler \<Rightarrow> loop_state \<Rightarrow> loop_state \<Rightarrow> bool" where
  "machine_step C s =
     heartbeat_step C (ping_request C (ping_heartbeat_path (hs_machine_id s))) (machine_ping_reply C) (hs_interval s)"

definition process_step :: "client \<Rightarrow> process_heartbeat_scheduler \<Rightarrow> loop_state \<Rightarrow> loop_state \<Rightarrow> bool" where
  "process_step C s =
     heartbeat_step C (ping_request C (ping_process_path (ps_process_id s))) (process_ping_reply C) (ps_interval s)"

fun loop_over :: "phase \<Rightarrow> bool" where
  "loop_over Returned = True"
| "loop_over (Raised e) = True"
| "loop_over _ = False"

section \<open>Bounds of the interval\<close>

lemma heartbeat_constants:
  "machine_heartbeat_recommended_interval = 200 * min_heartbeat_interval"
  "process_heartbeat_recommended_interval = 10 * min_heartbeat_interval"
  "min_heartbeat_interval = 10 ^ 6"
  by (simp_all add: machine_heartbeat_recommended_interval_def process_heartbeat_recommended_interval_def
      min_heartbeat_interval_def timedelta_seconds_def)

lemma clamped_floor: "min_heartbeat_interval \<le> d \<Longrightarrow> min_heartbeat_interval \<le> clamped_heartbeat_interval i d"
  by (simp add: clamped_heartbeat_interval_def)

lemma clamped_id: "min_heartbeat_interval \<le> i \<Longrightarrow> clamped_heartbeat_interval i d = i"
  by (simp add: clamped_heartbeat_interval_def heartbeat_constants)

lemma scheduler_floor:
  "min_heartbeat_interval \<le> hs_interval (heartbeat_scheduler_init i interval)"
  "min_heartbeat_interval \<le> ps_interval (process_scheduler_init j interval)"
  by (auto simp: heartbeat_scheduler_init_def process_scheduler_init_def intro!: clamped_floor)
    (simp_all add: heartbeat_constants)

lemma policy_interval_floor: "heartbeat_interval_for_policy p = Inr d \<Longrightarrow> min_heartbeat_interval \<le> d"
  by (auto simp: heartbeat_interval_for_policy_def rbind_Inr_iff)

lemma policy_interval_int:
  assumes "po_heartbeat_duration p = JInt w"
  shows "heartbeat_interval_for_policy p =
    (if w \<le> 0 then Inr (timedelta_seconds 200)
     else if w < 3 * 86400000000000 then Inr (max min_heartbeat_interval (timedelta_seconds (w div 3)))
     else Inl OverflowError)"
  using assms
  by (auto simp: heartbeat_interval_for_policy_def effective_heartbeat_window_seconds_def py_nonpositive_def
      window_share_def make_timedelta_def heartbeat_pings_per_window_def default_heartbeat_duration_seconds_def
      timedelta_seconds_def min_heartbeat_interval_def)

lemma policy_interval_other:
  "po_heartbeat_duration p = JNull \<Longrightarrow> heartbeat_interval_for_policy p = Inr (timedelta_seconds 200)"
  "po_heartbeat_duration p = JBool b \<Longrightarrow>
     heartbeat_interval_for_policy p = Inr (timedelta_seconds (if b then 1 else 200))"
  "po_heartbeat_duration p = JFloat f \<Longrightarrow> \<not> float_is_nan f \<Longrightarrow> float_negative f \<or> float_is_zero f \<Longrightarrow>
     heartbeat_interval_for_policy p = Inr (timedelta_seconds 200)"
  "po_heartbeat_duration p = JFloat f \<Longrightarrow> \<not> float_negative f \<Longrightarrow> \<not> float_is_zero f \<Longrightarrow>
     heartbeat_interval_for_policy p = Inr d \<Longrightarrow>
     \<not> float_is_nan f \<and> \<not> float_is_inf f \<and> d = max min_heartbeat_interval (timedelta_seconds (float_trunc f div 3))"
  by (auto simp: heartbeat_interval_for_policy_def effective_heartbeat_window_seconds_def py_nonpositive_def
      window_share_def make_timedelta_def heartbeat_pings_per_window_def default_heartbeat_duration_seconds_def
      timedelta_seconds_def min_heartbeat_interval_def rbind_Inr_iff split: if_splits)

lemma policy_interval_not_nan:
  "po_heartbeat_duration p = JFloat f \<Longrightarrow> heartbeat_interval_for_policy p = Inr d \<Longrightarrow> \<not> float_is_nan f"
  by (auto simp: heartbeat_interval_for_policy_def effective_heartbeat_window_seconds_def py_nonpositive_def
      window_share_def rbind_Inr_iff)

lemma policy_interval_window:
  assumes "heartbeat_interval_for_policy p = Inr d"
  shows "po_heartbeat_duration p \<in> {JNull} \<union> range JInt \<union> range JBool \<union> range JFloat"
  using assms by (cases "po_heartbeat_duration p")
    (auto simp: heartbeat_interval_for_policy_def effective_heartbeat_window_seconds_def py_nonpositive_def
      rbind_Inr_iff)

text \<open>
  C30: the interval a policy gives. A scheduler built for a policy pings at the interval computed
  from it, untouched by the constructor's guard and never below one second. An unset window gives 200
  seconds, a third of the server's 600; so does one that is not positive. A window of a whole number of
  seconds, three or more, fits three intervals and not a second per interval more; below three seconds
  the floor of one second binds. A window that JSON spells as a float counts in its whole seconds, one
  it spells as \<open>true\<close> is a second, and no other value gives a scheduler.
\<close>

theorem policy_interval_bounds:
  assumes "heartbeat_scheduler_for_policy i p = Inr s"
  shows "heartbeat_interval_for_policy p = Inr (hs_interval s) \<and> 10 ^ 6 \<le> hs_interval s \<and> \<not> hs_stop s \<and>
    hs_machine_id s = i \<and>
    (case po_heartbeat_duration p of
       JNull \<Rightarrow> hs_interval s = 200 * 10 ^ 6
     | JInt w \<Rightarrow>
         (if w \<le> 0 then hs_interval s = 200 * 10 ^ 6
          else if w < 3 then hs_interval s = 10 ^ 6
          else hs_interval s * 3 \<le> w * 10 ^ 6 \<and> w * 10 ^ 6 < (hs_interval s + 10 ^ 6) * 3)
     | JBool b \<Rightarrow> hs_interval s = (if b then 10 ^ 6 else 200 * 10 ^ 6)
     | JFloat f \<Rightarrow>
         \<not> float_is_nan f \<and>
         (if float_negative f \<or> float_is_zero f then hs_interval s = 200 * 10 ^ 6
          else \<not> float_is_inf f \<and> hs_interval s = max (10 ^ 6) (float_trunc f div 3 * 10 ^ 6))
     | _ \<Rightarrow> False)"
proof -
  from assms obtain d where d: "heartbeat_interval_for_policy p = Inr d" "s = heartbeat_scheduler_init i d"
    by (auto simp: heartbeat_scheduler_for_policy_def rbind_Inr_iff)
  have s: "hs_interval s = d" "\<not> hs_stop s" "hs_machine_id s = i" "10 ^ 6 \<le> d"
    using policy_interval_floor [OF d(1)] by (simp_all add: d(2) heartbeat_scheduler_init_def clamped_id
        heartbeat_constants)
  have int: "if w \<le> 0 then d = 200 * 10 ^ 6 else if w < 3 then d = 10 ^ 6
      else d * 3 \<le> w * 10 ^ 6 \<and> w * 10 ^ 6 < (d + 10 ^ 6) * 3" if "po_heartbeat_duration p = JInt w" for w
    using d(1) by (auto simp: policy_interval_int [OF that] timedelta_seconds_def heartbeat_constants
        split: if_splits)
  have float: "\<not> float_is_nan f \<and> (if float_negative f \<or> float_is_zero f then d = 200 * 10 ^ 6
      else \<not> float_is_inf f \<and> d = max (10 ^ 6) (float_trunc f div 3 * 10 ^ 6))"
    if "po_heartbeat_duration p = JFloat f" for f
    using policy_interval_other(3,4) [OF that] policy_interval_not_nan [OF that] d(1)
    by (auto simp: timedelta_seconds_def heartbeat_constants)
  show ?thesis
    using policy_interval_window [OF d(1)] policy_interval_other(1,2) [of p] int float d(1) s
    by (auto simp: timedelta_seconds_def split: json.split)
qed

definition sample_policy :: "json \<Rightarrow> policy_resource" where
  "sample_policy w =
     \<lparr>po_id = 0, po_overage_strategy = NO_OVERAGE, po_heartbeat_cull_strategy = DEACTIVATE_DEAD,
      po_heartbeat_resurrection_strategy = NO_REVIVE, po_check_in_interval = None,
      po_require_check_in = False, po_scheme = None, po_expiration_strategy = JNull,
      po_renewal_basis = JNull, po_authentication_strategy = JNull, po_max_machines = JNull,
      po_max_cores = JNull, po_max_processes = JNull, po_heartbeat_duration = w,
      po_require_heartbeat = False, po_machine_uniqueness_strategy = JNull\<rparr>"

lemma policy_interval_bounds_witness:
  "\<exists>s. heartbeat_scheduler_for_policy 5 (sample_policy (JInt 120)) = Inr s \<and> hs_interval s = 40 * 10 ^ 6 \<and>
     hs_interval s * 3 \<le> 120 * 10 ^ 6"
proof -
  have w: "po_heartbeat_duration (sample_policy (JInt 120)) = JInt 120" by (simp add: sample_policy_def)
  have "heartbeat_interval_for_policy (sample_policy (JInt 120)) = Inr (40 * 10 ^ 6)"
    by (simp add: policy_interval_int [OF w] timedelta_seconds_def heartbeat_constants)
  then have "heartbeat_scheduler_for_policy 5 (sample_policy (JInt 120)) =
      Inr (heartbeat_scheduler_init 5 (40 * 10 ^ 6))"
    by (simp add: heartbeat_scheduler_for_policy_def)
  from this policy_interval_bounds [OF this] w show ?thesis
    by (intro exI [of _ "heartbeat_scheduler_init 5 (40 * 10 ^ 6)"])
      (simp add: heartbeat_scheduler_init_def clamped_heartbeat_interval_def heartbeat_constants)
qed

section \<open>The pace of a loop\<close>

definition slept_seconds :: "event list \<Rightarrow> rat" where
  "slept_seconds es = sum_list (map (\<lambda>ev. case ev of Slept d \<Rightarrow> d | Sent _ \<Rightarrow> 0) es)"

lemma slept_seconds_simps [simp]:
  "slept_seconds [] = 0" "slept_seconds (Slept d # es) = d + slept_seconds es"
  "slept_seconds (Sent rq # es) = slept_seconds es"
  "slept_seconds (es @ fs) = slept_seconds es + slept_seconds fs"
  by (simp_all add: slept_seconds_def)

lemma request_event_slept: "list_all (request_event rq) es \<Longrightarrow> 0 \<le> slept_seconds es"
  by (induction es) (auto simp: request_event_def)

text \<open>
  A loop whose ping is a \<open>POST\<close> to one path and whose interval is at least a second.
  \<open>paced c es\<close>: the requests of \<open>es\<close> are no more than a ping's worth, \<open>max_retries + 1\<close>, for every
  second slept, and \<open>c\<close> pings besides.
\<close>

definition paced :: "client \<Rightarrow> rat \<Rightarrow> event list \<Rightarrow> bool" where
  "paced C c es \<longleftrightarrow>
     of_nat (length (sends es)) \<le> of_nat (Suc (nat (cf_max_retries (cl_config C)))) * (slept_seconds es + c)"

definition heartbeat_event :: "pystr \<Rightarrow> timedelta \<Rightarrow> event \<Rightarrow> bool" where
  "heartbeat_event path interval ev \<longleftrightarrow>
     to_path (lit ''POST'') path ev \<or> ev = Slept (total_seconds interval)"

text \<open>The requests a loop may still send before its next interval has been slept, and once it is stopped.\<close>

fun loop_owes :: "client \<Rightarrow> phase \<Rightarrow> nat" where
  "loop_owes C Testing = Suc (retries C)"
| "loop_owes C (Pinging q) = requests_left C q"
| "loop_owes C _ = 0"

fun stopped_owes :: "client \<Rightarrow> phase \<Rightarrow> nat" where
  "stopped_owes C (Pinging q) = requests_left C q"
| "stopped_owes C _ = 0"

locale heartbeat_loop =
  fixes C :: client and prep :: "exc + http_request" and finish :: "http_response \<Rightarrow> exc + 'a"
    and path :: pystr and interval :: timedelta
  assumes ping_prepared: "prep = Inr rq \<Longrightarrow> rq_method rq = lit ''POST'' \<and> rq_url rq = path"
begin

lemma step_events:
  assumes "heartbeat_step C prep finish interval (p, b, h) (p', b', h')"
  shows "\<exists>es. h' = h @ es \<and> list_all (heartbeat_event path interval) es \<and>
    (p = Sleeping \<and> es = [Slept (total_seconds interval)] \<and> p' = Testing \<or>
     length (sends es) + loop_owes C p' \<le> loop_owes C p \<and> 0 \<le> slept_seconds es) \<and>
    (b \<longrightarrow> b' \<and> length (sends es) + stopped_owes C p' \<le> stopped_owes C p)"
  using assms
proof (cases rule: heartbeat_step.cases)
  case (requesting rq q q')
  obtain es where es: "h' = h @ es" "list_all (request_event rq) es"
    "length (sends es) + requests_left C q' \<le> requests_left C q"
    by (rule request_step_events [OF requesting(5)])
  have "list_all (heartbeat_event path interval) es"
    using es(2) request_event_to_path [of rq] ping_prepared [OF requesting(4)]
    by (auto simp: list_all_iff heartbeat_event_def)
  with es requesting show ?thesis by (intro exI [of _ es]) (auto simp: request_event_slept)
next
  case (slept u)
  then have "h' = h @ [Slept (total_seconds interval)]" by (simp add: sleep_Inr)
  with slept show ?thesis
    by (intro exI [of _ "[Slept (total_seconds interval)]"]) (auto simp: heartbeat_event_def)
next
  case (sleep_raised e)
  then have "h' = h" by (simp add: sleep_def split: if_splits)
  with sleep_raised show ?thesis by (intro exI [of _ "[]"]) auto
qed (intro exI [of _ "[]"]; simp)+

text \<open>Once stopped, a loop has only the requests of the ping under way before it.\<close>

lemma stopped:
  assumes "(heartbeat_step C prep finish interval)\<^sup>*\<^sup>* (p, True, h) (p', b', h')"
  shows "b' \<and> (\<exists>es. h' = h @ es \<and> list_all (heartbeat_event path interval) es \<and>
    length (sends es) + stopped_owes C p' \<le> stopped_owes C p)"
  using assms
proof (induction "(p', b', h')" arbitrary: p' b' h' rule: rtranclp_induct)
  case base
  then show ?case by simp
next
  case (step s)
  obtain p1 b1 h1 where s: "s = (p1, b1, h1)" by (cases s)
  obtain es where es: "b1" "h1 = h @ es" "list_all (heartbeat_event path interval) es"
    "length (sends es) + stopped_owes C p1 \<le> stopped_owes C p"
    using step.hyps(3) [OF s] by blast
  from step.hyps(2) [unfolded s] obtain fs where fs: "h' = h1 @ fs" "list_all (heartbeat_event path interval) fs"
    "b1 \<longrightarrow> b' \<and> length (sends fs) + stopped_owes C p' \<le> stopped_owes C p1"
    using step_events by blast
  with es show ?case by (intro conjI exI [of _ "es @ fs"]) auto
qed

end

text \<open>The pace, for an interval of at least a second.\<close>

locale paced_loop = heartbeat_loop +
  assumes interval_floor: "min_heartbeat_interval \<le> interval"
begin

lemma second: "1 \<le> total_seconds interval"
proof -
  have "(of_int (10 ^ 6) :: rat) \<le> of_int interval"
    using interval_floor unfolding heartbeat_constants by (rule of_int_le_iff [THEN iffD2])
  then show ?thesis by (simp add: total_seconds_def)
qed

text \<open>The invariant: at each point of the loop, what was sent and what is owed is covered by what was slept.\<close>

definition covered :: "phase \<Rightarrow> event list \<Rightarrow> bool" where
  "covered p es \<longleftrightarrow>
     of_nat (length (sends es) + loop_owes C p) \<le> of_nat (Suc (retries C)) * (slept_seconds es + 1)"

lemma covered_step:
  assumes "covered p es" "length (sends fs) + loop_owes C p' \<le> loop_owes C p" "0 \<le> slept_seconds fs"
  shows "covered p' (es @ fs)"
proof -
  let ?k = "of_nat (Suc (retries C)) :: rat"
  have "(of_nat (length (sends es) + length (sends fs) + loop_owes C p') :: rat) \<le>
      of_nat (length (sends es) + loop_owes C p)"
    using assms(2) by (intro of_nat_mono) simp
  also have "\<dots> \<le> ?k * (slept_seconds es + 1)" using assms(1) unfolding covered_def .
  also have "\<dots> \<le> ?k * (slept_seconds es + slept_seconds fs + 1)"
    using assms(3) by (intro mult_left_mono) simp_all
  finally show ?thesis unfolding covered_def by (simp add: add.assoc del: of_nat_Suc)
qed

lemma covered_sleep:
  assumes "covered Sleeping es"
  shows "covered Testing (es @ [Slept (total_seconds interval)])"
proof -
  let ?k = "of_nat (Suc (retries C)) :: rat"
  have "of_nat (length (sends es)) \<le> ?k * (slept_seconds es + 1)"
    using assms unfolding covered_def by simp
  moreover have "?k * 1 \<le> ?k * total_seconds interval" using second by (intro mult_left_mono) simp_all
  ultimately have "of_nat (length (sends es)) + ?k * 1 \<le> ?k * (slept_seconds es + 1) + ?k * total_seconds interval"
    by (rule add_mono)
  then show ?thesis unfolding covered_def by (simp add: algebra_simps del: of_nat_Suc)
qed

lemma reachable:
  assumes "(heartbeat_step C prep finish interval)\<^sup>*\<^sup>* (Testing, b, h) (p, b', h')"
  shows "\<exists>es. h' = h @ es \<and> list_all (heartbeat_event path interval) es \<and> covered p es"
  using assms
proof (induction "(p, b', h')" arbitrary: p b' h' rule: rtranclp_induct)
  case base
  then show ?case by (simp add: covered_def)
next
  case (step s)
  obtain p1 b1 h1 where s: "s = (p1, b1, h1)" by (cases s)
  obtain es where es: "h1 = h @ es" "list_all (heartbeat_event path interval) es" "covered p1 es"
    using step.hyps(3) [OF s] by blast
  from step.hyps(2) [unfolded s] obtain fs where fs: "h' = h1 @ fs" "list_all (heartbeat_event path interval) fs"
    "p1 = Sleeping \<and> fs = [Slept (total_seconds interval)] \<and> p = Testing \<or>
     length (sends fs) + loop_owes C p \<le> loop_owes C p1 \<and> 0 \<le> slept_seconds fs" using step_events by blast
  from fs(3) es(3) have "covered p (es @ fs)" using covered_sleep covered_step by blast
  with es fs show ?case by (intro exI [of _ "es @ fs"]) simp
qed

lemma pace:
  assumes "(heartbeat_step C prep finish interval)\<^sup>*\<^sup>* (Testing, b, h) (p, b', h')"
  shows "\<exists>es. h' = h @ es \<and> list_all (heartbeat_event path interval) es \<and> paced C 1 es"
proof -
  have "paced C 1 es" if "covered p es" for es
    using that unfolding covered_def paced_def retries_def by simp
  with reachable [OF assms] show ?thesis by blast
qed

end

interpretation machine_loop: heartbeat_loop C "ping_request C (ping_heartbeat_path (hs_machine_id s))"
  "machine_ping_reply C" "ping_heartbeat_path (hs_machine_id s)" "hs_interval s" for C s
  by unfold_locales (rule ping_request_Inr)

interpretation process_loop: heartbeat_loop C "ping_request C (ping_process_path (ps_process_id s))"
  "process_ping_reply C" "ping_process_path (ps_process_id s)" "ps_interval s" for C s
  by unfold_locales (rule ping_request_Inr)

interpretation machine_pace: paced_loop C
  "ping_request C (ping_heartbeat_path (hs_machine_id (heartbeat_scheduler_init i interval)))"
  "machine_ping_reply C" "ping_heartbeat_path (hs_machine_id (heartbeat_scheduler_init i interval))"
  "hs_interval (heartbeat_scheduler_init i interval)" for C i interval
  by unfold_locales (rule scheduler_floor)

interpretation process_pace: paced_loop C
  "ping_request C (ping_process_path (ps_process_id (process_scheduler_init i interval)))"
  "process_ping_reply C" "ping_process_path (ps_process_id (process_scheduler_init i interval))"
  "ps_interval (process_scheduler_init i interval)" for C i interval
  by unfold_locales (rule scheduler_floor)

text \<open>
  C5: no busy loop. Whatever interval a scheduler was constructed with, whatever the server answers
  and whenever \<open>stop\<close> is called, a loop only ever pings its own machine or process, and at any
  moment has sent at most \<open>max_retries + 1\<close> requests for each second it has slept, and that many
  more.
\<close>

theorem heartbeat_rate_bounded:
  "{h'. \<exists>p b. (machine_step C (heartbeat_scheduler_init i interval))\<^sup>*\<^sup>* (Testing, halted, h) (p, b, h')} \<subseteq>
     {h @ es | es. list_all (heartbeat_event (ping_heartbeat_path i)
                     (hs_interval (heartbeat_scheduler_init i interval))) es \<and> paced C 1 es} \<and>
   {h'. \<exists>p b. (process_step C (process_scheduler_init i interval))\<^sup>*\<^sup>* (Testing, halted, h) (p, b, h')} \<subseteq>
     {h @ es | es. list_all (heartbeat_event (ping_process_path i)
                     (ps_interval (process_scheduler_init i interval))) es \<and> paced C 1 es}"
proof -
  have "hs_machine_id (heartbeat_scheduler_init i interval) = i"
    "ps_process_id (process_scheduler_init i interval) = i"
    by (simp_all add: heartbeat_scheduler_init_def process_scheduler_init_def)
  then show ?thesis
    unfolding machine_step_def process_step_def
    using machine_pace.pace [of C i interval] process_pace.pace [of C i interval] by fastforce
qed

section \<open>How a loop ends\<close>

text \<open>The loop as the source reads when nobody calls \<open>stop\<close>: a number of whole rounds.\<close>

definition heartbeat_round :: "'a call \<Rightarrow> timedelta \<Rightarrow> unit call" where
  "heartbeat_round ping interval = ebind ping (\<lambda>_. sleep (total_seconds interval))"

primrec heartbeat_rounds :: "'a call \<Rightarrow> timedelta \<Rightarrow> nat \<Rightarrow> unit call" where
  "heartbeat_rounds ping interval 0 = ret ()"
| "heartbeat_rounds ping interval (Suc n) =
     ebind (heartbeat_rounds ping interval n) (\<lambda>_. heartbeat_round ping interval)"

text \<open>What each point of the loop says of the rounds run so far.\<close>

fun rounds_at ::
  "client \<Rightarrow> exc + http_request \<Rightarrow> (http_response \<Rightarrow> exc + 'a) \<Rightarrow> timedelta \<Rightarrow> history \<Rightarrow> loop_state \<Rightarrow> bool"
where
  "rounds_at C prep finish interval h (Testing, b, h') \<longleftrightarrow>
     (\<exists>n. heartbeat_rounds (prepared_call C prep finish) interval n h = (Inr (), h'))"
| "rounds_at C prep finish interval h (Pinging q, b, h') \<longleftrightarrow>
     (\<exists>n h1 rq. heartbeat_rounds (prepared_call C prep finish) interval n h = (Inr (), h1) \<and> prep = Inr rq \<and>
        request_with_retry C rq h1 = request_rest C rq q h')"
| "rounds_at C prep finish interval h (Sleeping, b, h') \<longleftrightarrow>
     (\<exists>n h1 r. heartbeat_rounds (prepared_call C prep finish) interval n h = (Inr (), h1) \<and>
        prepared_call C prep finish h1 = (Inr r, h'))"
| "rounds_at C prep finish interval h (Returned, b, h') \<longleftrightarrow>
     b \<and> (\<exists>n. heartbeat_rounds (prepared_call C prep finish) interval n h = (Inr (), h'))"
| "rounds_at C prep finish interval h (Raised e, b, h') \<longleftrightarrow>
     (\<exists>n. heartbeat_rounds (prepared_call C prep finish) interval n h = (Inl e, h'))"

lemma rounds_Suc:
  assumes "heartbeat_rounds ping interval n h = (Inr (), h1)"
  shows "heartbeat_rounds ping interval (Suc n) h = heartbeat_round ping interval h1"
  using assms by (simp add: ebind_step(2))

lemma round_step:
  "ping h = (Inl e, h') \<Longrightarrow> heartbeat_round ping interval h = (Inl e, h')"
  "ping h = (Inr r, h1) \<Longrightarrow> heartbeat_round ping interval h = sleep (total_seconds interval) h1"
  by (simp_all add: heartbeat_round_def ebind_step)

lemma prepared_call_cases:
  "prep = Inl e \<Longrightarrow> prepared_call C prep finish h = (Inl e, h)"
  "prep = Inr rq \<Longrightarrow> request_with_retry C rq h = (Inl e, h') \<Longrightarrow> prepared_call C prep finish h = (Inl e, h')"
  "prep = Inr rq \<Longrightarrow> request_with_retry C rq h = (Inr r, h') \<Longrightarrow> prepared_call C prep finish h = (finish r, h')"
  by (simp_all add: prepared_call_def ebind_lift ebind_step lift_apply)

lemma round_raised:
  assumes "heartbeat_rounds ping interval n h = (Inr (), h1)" "ping h1 = (Inl e, h')"
  shows "heartbeat_rounds ping interval (Suc n) h = (Inl e, h')"
  by (simp add: rounds_Suc [OF assms(1)] heartbeat_round_def ebind_def assms(2) del: heartbeat_rounds.simps)

lemma round_slept:
  assumes "heartbeat_rounds ping interval n h = (Inr (), h0)" "ping h0 = (Inr r, h1)"
    "sleep (total_seconds interval) h1 = (v, h')"
  shows "heartbeat_rounds ping interval (Suc n) h = (v, h')"
  by (simp add: rounds_Suc [OF assms(1)] heartbeat_round_def ebind_def assms(2,3) del: heartbeat_rounds.simps)

lemma rounds_at_step:
  assumes "heartbeat_step C prep finish interval (p, b, h1) (p', b', h2)"
    and "rounds_at C prep finish interval h (p, b, h1)"
  shows "rounds_at C prep finish interval h (p', b', h2)"
  using assms(1)
proof (cases rule: heartbeat_step.cases)
  case stop_called
  with assms(2) show ?thesis by (cases p) auto
next
  case (tested rq)
  with assms(2) show ?thesis by (auto simp: request_with_retry_def)
next
  case (unprepared e)
  with assms(2) obtain n where "heartbeat_rounds (prepared_call C prep finish) interval n h = (Inr (), h1)" by auto
  moreover have "prepared_call C prep finish h1 = (Inl e, h1)" using unprepared by (simp add: prepared_call_cases)
  ultimately show ?thesis using round_raised [of _ interval _ h h1 e h1] unprepared
    by (auto simp del: heartbeat_rounds.simps)
next
  case (requesting rq q q')
  with assms(2) show ?thesis using request_step_rest [OF requesting(5)] by auto
next
  case (pinged r x)
  with assms(2) obtain n h0 rq where q: "heartbeat_rounds (prepared_call C prep finish) interval n h = (Inr (), h0)"
    "prep = Inr rq" "request_with_retry C rq h0 = (Inr r, h1)" by auto
  then have "prepared_call C prep finish h0 = (Inr x, h2)"
    using prepared_call_cases(3) [OF q(2,3), of finish] pinged by simp
  with q(1) pinged show ?thesis by auto
next
  case (refused r e)
  with assms(2) obtain n h0 rq where q: "heartbeat_rounds (prepared_call C prep finish) interval n h = (Inr (), h0)"
    "prep = Inr rq" "request_with_retry C rq h0 = (Inr r, h1)" by auto
  then have "prepared_call C prep finish h0 = (Inl e, h2)"
    using prepared_call_cases(3) [OF q(2,3), of finish] refused by simp
  from round_raised [OF q(1) this] refused show ?thesis by (auto simp del: heartbeat_rounds.simps)
next
  case (ping_failed e)
  with assms(2) obtain n h0 rq where q: "heartbeat_rounds (prepared_call C prep finish) interval n h = (Inr (), h0)"
    "prep = Inr rq" "request_with_retry C rq h0 = (Inl e, h1)" by auto
  from round_raised [OF q(1) prepared_call_cases(2) [OF q(2,3)]] ping_failed show ?thesis
    by (auto simp del: heartbeat_rounds.simps)
next
  case (slept u)
  with assms(2) obtain n h0 r where "heartbeat_rounds (prepared_call C prep finish) interval n h = (Inr (), h0)"
    "prepared_call C prep finish h0 = (Inr r, h1)" by auto
  from round_slept [OF this slept(4)] slept show ?thesis by (auto simp del: heartbeat_rounds.simps)
next
  case (sleep_raised e)
  with assms(2) obtain n h0 r where "heartbeat_rounds (prepared_call C prep finish) interval n h = (Inr (), h0)"
    "prepared_call C prep finish h0 = (Inr r, h1)" by auto
  from round_slept [OF this sleep_raised(4)] sleep_raised show ?thesis by (auto simp del: heartbeat_rounds.simps)
qed (use assms(2) in auto)

lemma rounds_at_reachable:
  "(heartbeat_step C prep finish interval)\<^sup>*\<^sup>* (Testing, False, h) s \<Longrightarrow> rounds_at C prep finish interval h s"
proof (induction rule: rtranclp_induct)
  case base
  show ?case by (simp add: ret_apply exI [of _ 0])
next
  case (step s s')
  then show ?case by (cases s, cases s') (auto simp del: rounds_at.simps intro: rounds_at_step)
qed

text \<open>Back: the steps of a request are steps of the loop, and a ping is its steps.\<close>

lemma request_steps_lift:
  "(request_step C rq)\<^sup>*\<^sup>* s s' \<Longrightarrow> prep = Inr rq \<Longrightarrow>
     (heartbeat_step C prep finish interval)\<^sup>*\<^sup>* (Pinging (fst s), b, snd s) (Pinging (fst s'), b, snd s')"
proof (induction rule: rtranclp_induct)
  case (step s1 s2)
  then have "heartbeat_step C prep finish interval (Pinging (fst s1), b, snd s1) (Pinging (fst s2), b, snd s2)"
    by (intro heartbeat_step.requesting) simp_all
  with step show ?case by (meson rtranclp.rtrancl_into_rtrancl)
qed simp

lemma ping_steps:
  assumes "prepared_call C prep finish h = (v, h')"
  shows "(heartbeat_step C prep finish interval)\<^sup>*\<^sup>* (Testing, False, h)
    (case v of Inl e \<Rightarrow> Raised e | Inr _ \<Rightarrow> Sleeping, False, h')"
proof (cases prep)
  case (Inl e)
  with assms prepared_call_cases(1) [OF Inl, of C finish h] show ?thesis
    by (auto intro: heartbeat_step.unprepared)
next
  case (Inr rq)
  obtain w h2 where w: "request_with_retry C rq h = (w, h2)" by (cases "request_with_retry C rq h")
  then have "(request_step C rq)\<^sup>*\<^sup>* (Sending 0, h) (Done w, h2)" by (simp add: request_steps_iff)
  from request_steps_lift [OF this Inr, where b = False]
  have "(heartbeat_step C prep finish interval)\<^sup>*\<^sup>* (Pinging (Sending 0), False, h) (Pinging (Done w), False, h2)"
    by simp
  then have steps: "(heartbeat_step C prep finish interval)\<^sup>*\<^sup>* (Testing, False, h) (Pinging (Done w), False, h2)"
    by (rule converse_rtranclp_into_rtranclp [where r = "heartbeat_step C prep finish interval",
          OF heartbeat_step.tested [OF Inr]])
  have "heartbeat_step C prep finish interval (Pinging (Done w), False, h2)
      (case v of Inl e \<Rightarrow> Raised e | Inr _ \<Rightarrow> Sleeping, False, h')"
  proof (cases w)
    case (Inl e)
    with assms prepared_call_cases(2) [OF Inr, of C h e h2 finish] w show ?thesis
      by (auto intro: heartbeat_step.ping_failed)
  next
    case r: (Inr r)
    with assms prepared_call_cases(3) [OF Inr, of C h r h2 finish] w have "v = finish r" "h' = h2" by simp_all
    with r show ?thesis
      by (cases "finish r") (auto intro: heartbeat_step.pinged heartbeat_step.refused)
  qed
  with steps show ?thesis by (rule rtranclp.rtrancl_into_rtrancl)
qed

lemma rounds_reachable:
  "heartbeat_rounds (prepared_call C prep finish) interval n h = (v, h') \<Longrightarrow>
     (heartbeat_step C prep finish interval)\<^sup>*\<^sup>* (Testing, False, h)
       (case v of Inl e \<Rightarrow> Raised e | Inr _ \<Rightarrow> Testing, False, h')"
proof (induction n arbitrary: v h')
  case 0
  then show ?case by (auto simp: ret_apply)
next
  case (Suc n)
  let ?step = "heartbeat_step C prep finish interval" and ?ping = "prepared_call C prep finish"
  obtain w h1 where n: "heartbeat_rounds ?ping interval n h = (w, h1)" by (cases "heartbeat_rounds ?ping interval n h")
  show ?case
  proof (cases w)
    case (Inl e)
    with n Suc show ?thesis by (auto simp: ebind_step(1))
  next
    case (Inr u)
    with n Suc.IH have steps: "?step\<^sup>*\<^sup>* (Testing, False, h) (Testing, False, h1)" by force
    from n Inr Suc.prems have run: "heartbeat_round ?ping interval h1 = (v, h')" by (simp add: ebind_step(2))
    obtain x h2 where ping: "?ping h1 = (x, h2)" by (cases "?ping h1")
    from steps ping_steps [OF ping, of interval]
    have steps: "?step\<^sup>*\<^sup>* (Testing, False, h) (case x of Inl e \<Rightarrow> Raised e | Inr _ \<Rightarrow> Sleeping, False, h2)"
      by (rule rtranclp_trans)
    show ?thesis
    proof (cases x)
      case (Inl e)
      with run ping have "v = Inl e" "h' = h2" by (simp_all add: round_step(1))
      with steps Inl show ?thesis by simp
    next
      case (Inr r)
      with run ping have "sleep (total_seconds interval) h2 = (v, h')" by (simp add: round_step(2))
      with steps Inr show ?thesis
        by (cases v) (auto intro: rtranclp.rtrancl_into_rtrancl heartbeat_step.slept heartbeat_step.sleep_raised)
    qed
  qed
qed

lemma loop_ends:
  "(\<exists>b. (heartbeat_step C prep finish interval)\<^sup>*\<^sup>* (Testing, False, h) (Returned, b, h')) \<longleftrightarrow>
     (\<exists>n. heartbeat_rounds (prepared_call C prep finish) interval n h = (Inr (), h'))"
  "(\<exists>b. (heartbeat_step C prep finish interval)\<^sup>*\<^sup>* (Testing, False, h) (Raised e, b, h')) \<longleftrightarrow>
     (\<exists>n. heartbeat_rounds (prepared_call C prep finish) interval n h = (Inl e, h'))"
proof -
  have "(heartbeat_step C prep finish interval)\<^sup>*\<^sup>* (Testing, False, h) (Returned, True, h')"
    if "heartbeat_rounds (prepared_call C prep finish) interval n h = (Inr (), h')" for n
    using rounds_reachable [OF that]
    by (auto intro: rtranclp.rtrancl_into_rtrancl heartbeat_step.stop_called heartbeat_step.stopped)
  then show "(\<exists>b. (heartbeat_step C prep finish interval)\<^sup>*\<^sup>* (Testing, False, h) (Returned, b, h')) \<longleftrightarrow>
     (\<exists>n. heartbeat_rounds (prepared_call C prep finish) interval n h = (Inr (), h'))"
    by (auto dest: rounds_at_reachable)
  have "(heartbeat_step C prep finish interval)\<^sup>*\<^sup>* (Testing, False, h) (Raised e, False, h')"
    if "heartbeat_rounds (prepared_call C prep finish) interval n h = (Inl e, h')" for n
    using rounds_reachable [OF that] by simp
  then show "(\<exists>b. (heartbeat_step C prep finish interval)\<^sup>*\<^sup>* (Testing, False, h) (Raised e, b, h')) \<longleftrightarrow>
     (\<exists>n. heartbeat_rounds (prepared_call C prep finish) interval n h = (Inl e, h'))"
    by (auto dest: rounds_at_reachable)
qed

text \<open>
  C19: how a loop ends. Started without a stop, the machine loop can return exactly after a whole
  number of successful rounds of a ping and a sleep, and can raise exactly what a ping or sleep of
  such a run raises; a call of \<open>stop\<close> decides only how many rounds there are, and no answer of a
  ping, whatever status it reports, ends the loop. The same holds of the process loop.
\<close>

theorem heartbeat_loop_ends:
  "((\<exists>b. (machine_step C s)\<^sup>*\<^sup>* (Testing, False, h) (Returned, b, h')) \<longleftrightarrow>
     (\<exists>n. heartbeat_rounds (ping_heartbeat C (hs_machine_id s)) (hs_interval s) n h = (Inr (), h'))) \<and>
   ((\<exists>b. (machine_step C s)\<^sup>*\<^sup>* (Testing, False, h) (Raised e, b, h')) \<longleftrightarrow>
     (\<exists>n. heartbeat_rounds (ping_heartbeat C (hs_machine_id s)) (hs_interval s) n h = (Inl e, h'))) \<and>
   ((\<exists>b. (process_step C q)\<^sup>*\<^sup>* (Testing, False, h) (Returned, b, h')) \<longleftrightarrow>
     (\<exists>n. heartbeat_rounds (processes_ping C (ps_process_id q)) (ps_interval q) n h = (Inr (), h'))) \<and>
   ((\<exists>b. (process_step C q)\<^sup>*\<^sup>* (Testing, False, h) (Raised e, b, h')) \<longleftrightarrow>
     (\<exists>n. heartbeat_rounds (processes_ping C (ps_process_id q)) (ps_interval q) n h = (Inl e, h')))"
  unfolding machine_step_def process_step_def pings_prepared by (intro conjI loop_ends)

section \<open>Stopping\<close>

text \<open>
  The steps a loop has left once it is stopped: at most those of the ping under way, its answer, the
  sleep and the return.
\<close>

fun loop_steps_left :: "client \<Rightarrow> phase \<Rightarrow> nat" where
  "loop_steps_left C Testing = 1"
| "loop_steps_left C (Pinging q) = request_steps_left C q + 3"
| "loop_steps_left C Sleeping = 2"
| "loop_steps_left C _ = 0"

lemma stopped_step_left:
  assumes "heartbeat_step C prep finish interval (p, True, h) (p', b', h')" "(p, True, h) \<noteq> (p', b', h')"
  shows "loop_steps_left C p' < loop_steps_left C p"
  using assms by (cases rule: heartbeat_step.cases) (auto dest: request_step_left)

lemma stopped_steps_left:
  "{(p, p'). \<exists>h b' h'. heartbeat_step C prep finish interval (p, True, h) (p', b', h') \<and> (p, True, h) \<noteq> (p', b', h')} \<subseteq>
     {(p, p'). loop_steps_left C p' < loop_steps_left C p}"
  using stopped_step_left by blast

text \<open>A request is under way only if it could be prepared, so no reachable point is stuck.\<close>

definition prepared_at :: "exc + http_request \<Rightarrow> phase \<Rightarrow> bool" where
  "prepared_at prep p \<longleftrightarrow> (case p of Pinging q \<Rightarrow> (case prep of Inl _ \<Rightarrow> False | Inr _ \<Rightarrow> True) | _ \<Rightarrow> True)"

lemma prepared_at_step:
  "heartbeat_step C prep finish interval (p, b, h) (p', b', h') \<Longrightarrow> prepared_at prep p \<Longrightarrow> prepared_at prep p'"
  by (erule heartbeat_step.cases) (auto simp: prepared_at_def)

lemma prepared_at_reachable:
  "(heartbeat_step C prep finish interval)\<^sup>*\<^sup>* s s' \<Longrightarrow> prepared_at prep (fst s) \<Longrightarrow> prepared_at prep (fst s')"
proof (induction rule: rtranclp_induct)
  case (step s1 s2)
  then show ?case using prepared_at_step by (cases s1, cases s2) auto
qed

lemma stopped_progress:
  assumes "\<not> loop_over p" "prepared_at prep p"
  obtains p' h' where "heartbeat_step C prep finish interval (p, True, h) (p', True, h')" "p' \<noteq> p"
proof (cases p)
  case Testing
  then show ?thesis using that heartbeat_step.stopped by blast
next
  case Sleeping
  show ?thesis
  proof (cases "sleep (total_seconds interval) h")
    case (Pair v h')
    then show ?thesis
      using that heartbeat_step.slept [of interval h _ h'] heartbeat_step.sleep_raised [of interval h _ h'] Sleeping
      by (cases v) blast+
  qed
next
  case (Pinging q)
  then obtain rq where rq: "prep = Inr rq" using assms(2) by (auto simp: prepared_at_def split: sum.splits)
  consider v where "q = Done v" | q' h' where "request_step C rq (q, h) (q', h')"
    using request_step_progress by blast
  then show ?thesis
  proof cases
    case (1 v)
    show ?thesis
    proof (cases v)
      case (Inl e)
      with 1 Pinging that heartbeat_step.ping_failed show ?thesis by blast
    next
      case (Inr r)
      with 1 Pinging that heartbeat_step.pinged [of finish r] heartbeat_step.refused [of finish r] show ?thesis
        by (cases "finish r") blast+
    qed
  next
    case (2 q' h')
    have "q' \<noteq> q" using request_step_left [OF 2] by auto
    with 2 that Pinging heartbeat_step.requesting [OF rq 2] show ?thesis by blast
  qed
qed (use assms(1) in simp_all)

lemma stopped_finishes:
  "prepared_at prep p \<Longrightarrow> \<exists>p' h'. (heartbeat_step C prep finish interval)\<^sup>*\<^sup>* (p, True, h) (p', True, h') \<and> loop_over p'"
proof (induction "loop_steps_left C p" arbitrary: p h rule: less_induct)
  case less
  show ?case
  proof (cases "loop_over p")
    case False
    from stopped_progress [OF this less.prems, where C = C and finish = finish and interval = interval and h = h]
    obtain p1 h1 where step: "heartbeat_step C prep finish interval (p, True, h) (p1, True, h1)" "p1 \<noteq> p" .
    from stopped_step_left [OF step(1)] step(2) have "loop_steps_left C p1 < loop_steps_left C p" by simp
    from less.hyps [OF this prepared_at_step [OF step(1) less.prems]] step(1) show ?thesis
      by (meson converse_rtranclp_into_rtranclp)
  qed blast
qed

lemma reachable_stops:
  assumes "(heartbeat_step C prep finish interval)\<^sup>*\<^sup>* (Testing, b, h) s"
  shows "\<exists>p' h'. (heartbeat_step C prep finish interval)\<^sup>*\<^sup>* s (p', True, h') \<and> loop_over p'"
proof -
  obtain p b1 h1 where s: "s = (p, b1, h1)" by (cases s)
  have "prepared_at prep p" using prepared_at_reachable [OF assms] by (simp add: s prepared_at_def)
  then obtain p' h' where "(heartbeat_step C prep finish interval)\<^sup>*\<^sup>* (p, True, h1) (p', True, h')" "loop_over p'"
    using stopped_finishes by blast
  then show ?thesis
    unfolding s using heartbeat_step.stop_called by (meson converse_rtranclp_into_rtranclp)
qed

text \<open>What a stopped loop may still do, from point \<open>p\<close> and history \<open>h\<close>.\<close>

definition stopping ::
  "client \<Rightarrow> pystr \<Rightarrow> timedelta \<Rightarrow> phase \<Rightarrow> history \<Rightarrow> loop_state \<Rightarrow> bool" where
  "stopping C path interval p h s \<longleftrightarrow>
     (case s of (p', b, h') \<Rightarrow> b \<and>
        (\<exists>es. h' = h @ es \<and> list_all (heartbeat_event path interval) es \<and>
           length (sends es) + stopped_owes C p' \<le> stopped_owes C p))"

text \<open>
  C32: what a stop stops. From the call of \<open>stop\<close> on no new ping begins: a loop that is at its test or
  in its sleep sends nothing more, and one with a ping under way (its request about to leave, on its
  way, or waiting out a \<open>429\<close>) sends at most what is left of that ping, never more than
  \<open>max_retries + 1\<close> requests, all to its own path. And it ends: every step of the stopped loop
  decreases a bound, and from every point a loop can be at, stopping leads to its end.
\<close>

theorem stop_is_prompt:
  "{s'. (machine_step C s)\<^sup>*\<^sup>* (p, True, h) s'} \<subseteq>
     {s'. stopping C (ping_heartbeat_path (hs_machine_id s)) (hs_interval s) p h s'} \<and>
   {s'. (process_step C q)\<^sup>*\<^sup>* (p, True, h) s'} \<subseteq>
     {s'. stopping C (ping_process_path (ps_process_id q)) (ps_interval q) p h s'} \<and>
   stopped_owes C p \<le> Suc (nat (cf_max_retries (cl_config C))) \<and>
   {(p, p'). \<exists>h b' h'. machine_step C s (p, True, h) (p', b', h') \<and> (p, True, h) \<noteq> (p', b', h')} \<subseteq>
     {(p, p'). loop_steps_left C p' < loop_steps_left C p} \<and>
   {(p, p'). \<exists>h b' h'. process_step C q (p, True, h) (p', b', h') \<and> (p, True, h) \<noteq> (p', b', h')} \<subseteq>
     {(p, p'). loop_steps_left C p' < loop_steps_left C p} \<and>
   {x. (machine_step C s)\<^sup>*\<^sup>* (Testing, b, h) x} \<subseteq>
     {x. \<exists>p' h'. (machine_step C s)\<^sup>*\<^sup>* x (p', True, h') \<and> loop_over p'} \<and>
   {x. (process_step C q)\<^sup>*\<^sup>* (Testing, b, h) x} \<subseteq>
     {x. \<exists>p' h'. (process_step C q)\<^sup>*\<^sup>* x (p', True, h') \<and> loop_over p'}"
proof -
  have owes: "stopped_owes C p \<le> Suc (nat (cf_max_retries (cl_config C)))"
  proof (cases p)
    case (Pinging r)
    then show ?thesis by (cases r) (auto simp: retries_def)
  qed simp_all
  show ?thesis
    unfolding machine_step_def process_step_def stopping_def
    by (intro conjI stopped_steps_left owes subsetI CollectI; drule CollectD)
      (auto dest!: machine_loop.stopped process_loop.stopped reachable_stops)
qed

section \<open>Disposal\<close>

lemma processes_delete_once:
  "sends_once (lit ''DELETE'') (slash ''processes'' i) (processes_delete C i)"
  unfolding processes_delete_def
  by (intro sends_once_ebind sends_once_request not_retried) (simp add: ret_apply)

lemma process_dispose_call:
  "snd (process_dispose C s) h =
     (case processes_delete C (ps_process_id s) h of
        (Inl e, h') \<Rightarrow> (if is_tamga NotFoundError e then Inr () else Inl e, h')
      | (Inr u, h') \<Rightarrow> (Inr (), h'))"
  by (auto simp: process_dispose_def Let_def process_scheduler_stop_def try_except_def ret_apply
      split: prod.splits sum.splits)

lemma dispose_stops: "ps_stop (fst (process_dispose C s))"
  by (simp add: process_dispose_def process_scheduler_stop_def Let_def)

lemma process_with_call:
  "process_with C s body h =
     (case processes_delete C (ps_process_id s) (snd (body h)) of
        (Inl e, h') \<Rightarrow> (if is_tamga NotFoundError e then fst (body h) else Inl e, h')
      | (Inr u, h') \<Rightarrow> (fst (body h), h'))"
  by (simp add: process_with_def process_dispose_call split: prod.split sum.split)

text \<open>
  C31: disposing of a process. The scheduler is left stopped; the row is asked for deletion once at
  most; the disposal succeeds exactly when the deletion did or the row was already gone, and
  otherwise raises what the deletion raised. At the end of a \<open>with\<close> block the disposal runs after
  the body, whatever the body did; the block then raises what the deletion raised, unless the row was
  gone already, and otherwise ends as its body did, with its value or its exception.
\<close>

theorem dispose_outcome:
  "ps_stop (fst (process_dispose C s)) \<and>
   sends_once (lit ''DELETE'') (slash ''processes'' (ps_process_id s)) (processes_delete C (ps_process_id s)) \<and>
   snd (snd (process_dispose C s) h) = snd (processes_delete C (ps_process_id s) h) \<and>
   fst (snd (process_dispose C s) h) =
     (case fst (processes_delete C (ps_process_id s) h) of
        Inr _ \<Rightarrow> Inr ()
      | Inl e \<Rightarrow> (if is_tamga NotFoundError e then Inr () else Inl e)) \<and>
   snd (process_with C s body h) = snd (processes_delete C (ps_process_id s) (snd (body h))) \<and>
   fst (process_with C s body h) =
     (case fst (processes_delete C (ps_process_id s) (snd (body h))) of
        Inr _ \<Rightarrow> fst (body h)
      | Inl e \<Rightarrow> (if is_tamga NotFoundError e then fst (body h) else Inl e))"
  by (simp add: process_dispose_call processes_delete_once process_with_call dispose_stops split: prod.splits sum.splits)

end
