(* ===== verification/Tamga_Client.thy ===== *)
theory Tamga_Client
  imports Machines_Client Other_Clients Offline_Files
begin

text \<open>
  \<open>TamgaClient\<close> of \<open>src/src/tamga/client.py\<close>: the facade an application constructs and closes, and
  what a program over it does besides calling it.

  A \<open>world\<close> is what the source does not define: the server, reached through an HTTP client whose
  base URL is fixed when it is built (with its timeout and transport), the random numbers, the clock
  and the primitives of \<open>Crypto\<close>. \<open>tamga_client\<close> is the facade: one configuration and one HTTP
  client shared by all nine sub-clients, whose operations are the definitions of the client theories
  (the licenses client holds the entitlements client, which is their argument \<open>True\<close>).

  A program runs in a \<open>session\<close>: the history of requests, whether the HTTP client is open, and the
  lines printed so far.
\<close>

section \<open>The facade\<close>

record world =
  wd_runtime :: runtime
  wd_crypto :: crypto
  wd_send :: "pystr \<Rightarrow> history \<Rightarrow> http_request \<Rightarrow> http_response option"  \<comment> \<open>by base URL\<close>
  wd_random :: "history \<Rightarrow> 53 word"
  wd_now :: "history \<Rightarrow> datetime"

text \<open>\<open>TamgaConfig(account_id=..., host=...)\<close>, with the defaults of the other fields.\<close>

definition tamga_config :: "pystr \<Rightarrow> pystr \<Rightarrow> config" where
  "tamga_config account_id host =
     \<lparr>cf_account_id = account_id, cf_host = host, cf_api_version = lit ''1'', cf_default_auth = None,
      cf_user_agent = None, cf_max_retries = 3\<rparr>"

definition tamga_client :: "world \<Rightarrow> config \<Rightarrow> client" where
  "tamga_client W cf =
     \<lparr>cl_config = cf, cl_runtime = wd_runtime W,
      cl_send = wd_send W (build_base_url (cf_host cf) (cf_account_id cf)),
      cl_random = wd_random W, cl_now = wd_now W\<rparr>"

lemma tamga_client_sel [simp]:
  "cl_config (tamga_client W cf) = cf" "cl_runtime (tamga_client W cf) = wd_runtime W"
  "cl_send (tamga_client W cf) = wd_send W (build_base_url (cf_host cf) (cf_account_id cf))"
  "cl_now (tamga_client W cf) = wd_now W"
  by (simp_all add: tamga_client_def)

section \<open>Sessions\<close>

text \<open>What \<open>print\<close> is given: a line is the list of its pieces, not their text.\<close>

datatype printed =
    Text string
  | Value json
  | Chars pystr
  | Ident uuid
  | Flag bool
  | Code validation_code
  | Status heartbeat_status
  | Microseconds int

record session =
  se_history :: history
  se_open :: bool
  se_output :: "printed list list"

type_synonym 'a program = "(exc, session, 'a) eff"

definition run :: "'a call \<Rightarrow> 'a program" where
  "run m s = (case m (se_history s) of (v, h) \<Rightarrow> (v, s\<lparr>se_history := h\<rparr>))"

definition print_line :: "printed list \<Rightarrow> unit program" where
  "print_line l s = (Inr (), s\<lparr>se_output := se_output s @ [l]\<rparr>)"

definition client_open :: "session \<Rightarrow> session" where
  "client_open s = s\<lparr>se_open := True\<rparr>"

definition client_close :: "session \<Rightarrow> session" where
  "client_close s = s\<lparr>se_open := False\<rparr>"

definition open_client :: "world \<Rightarrow> config \<Rightarrow> client program" where
  "open_client W cf s = (Inr (tamga_client W cf), client_open s)"

text \<open>
  \<open>with TamgaClient(config) as client: body\<close>: \<open>__enter__\<close> returns the client itself, and
  \<open>__exit__\<close> closes it however the body ended and suppresses nothing.
\<close>

definition with_client :: "world \<Rightarrow> config \<Rightarrow> (client \<Rightarrow> 'a program) \<Rightarrow> 'a program" where
  "with_client W cf body s =
     (case body (tamga_client W cf) (client_open s) of (v, s') \<Rightarrow> (v, client_close s'))"

text \<open>\<open>int(datetime.now(timezone.utc).timestamp())\<close>, the time \<open>verify\<close> takes when it is given none.\<close>

definition seconds_of :: "datetime \<Rightarrow> int" where
  "seconds_of t = (if 0 \<le> dt_micros t then dt_micros t div 10 ^ 6 else - (- dt_micros t div 10 ^ 6))"

definition system_seconds :: "client \<Rightarrow> int call" where
  "system_seconds C h = (Inr (seconds_of (cl_now C h)), h)"

section \<open>Running programs\<close>

lemma run_step: "m (se_history s) = (v, h) \<Longrightarrow> run m s = (v, s\<lparr>se_history := h\<rparr>)"
  by (simp add: run_def)

lemma session_sel [simp]:
  "se_history (client_open s) = se_history s" "se_output (client_open s) = se_output s"
  "se_open (client_open s)" "se_history (client_close s) = se_history s"
  "se_output (client_close s) = se_output s" "\<not> se_open (client_close s)"
  by (simp_all add: client_open_def client_close_def)

lemma with_client_fst: "fst (with_client W cf body s) = fst (body (tamga_client W cf) (client_open s))"
  by (simp add: with_client_def split: prod.split)

lemma with_client_snd:
  "snd (with_client W cf body s) = client_close (snd (body (tamga_client W cf) (client_open s)))"
  by (simp add: with_client_def split: prod.split)

text \<open>
  \<open>prints P m\<close>: the program \<open>m\<close> adds lines to the output only, all of which satisfy \<open>P\<close>. The rule
  for sequences hands on what the first part returned, so that \<open>P\<close> may speak of it.
\<close>

named_theorems prints_intros "rules that collect the output of a program"

definition prints :: "(printed list \<Rightarrow> bool) \<Rightarrow> 'a program \<Rightarrow> bool" where
  "prints P m \<longleftrightarrow> (\<forall>s. \<exists>ls. se_output (snd (m s)) = se_output s @ ls \<and> list_all P ls)"

definition returns :: "('e, 's, 'a) eff \<Rightarrow> 'a \<Rightarrow> bool" where
  "returns m x \<longleftrightarrow> (\<exists>s s'. m s = (Inr x, s'))"

lemma returns_lift [simp]: "returns (lift r) x \<longleftrightarrow> r = Inr x"
  by (auto simp: returns_def lift_apply)

lemma returns_run: "returns (run m) x \<Longrightarrow> returns m x"
proof -
  assume "returns (run m) x"
  then obtain s s' where r: "run m s = (Inr x, s')" by (auto simp: returns_def)
  obtain v h where m: "m (se_history s) = (v, h)" by (cases "m (se_history s)")
  with r show "returns m x" by (auto simp: returns_def run_step)
qed

lemma returns_ebind: "returns (ebind m f) y \<Longrightarrow> \<exists>x. returns m x \<and> returns (f x) y"
  unfolding returns_def by (blast dest: ebind_Inr)

lemma printsI: "(\<And>s. \<exists>ls. se_output (snd (m s)) = se_output s @ ls \<and> list_all P ls) \<Longrightarrow> prints P m"
  by (simp add: prints_def)

lemma prints_mono: "prints P m \<Longrightarrow> (\<And>l. P l \<Longrightarrow> Q l) \<Longrightarrow> prints Q m"
  unfolding prints_def by (meson list_all_iff)

lemma prints_silent [prints_intros]: "prints P (ret x)" "prints P (lift r)" "prints P (run c)"
  by (auto intro!: printsI simp: ret_def lift_def run_def split: prod.splits)

lemma prints_line [prints_intros]: "P l \<Longrightarrow> prints P (print_line l)"
  by (auto intro!: printsI simp: print_line_def)

lemma prints_ebind [prints_intros]:
  assumes "prints P m" "\<And>x. returns m x \<Longrightarrow> prints P (f x)"
  shows "prints P (ebind m f)"
proof (rule printsI)
  fix s
  obtain v s1 where m: "m s = (v, s1)" by (cases "m s")
  obtain ls where ls: "se_output s1 = se_output s @ ls" "list_all P ls"
    using assms(1) m unfolding prints_def by (metis snd_conv)
  show "\<exists>ls. se_output (snd (ebind m f s)) = se_output s @ ls \<and> list_all P ls"
  proof (cases v)
    case (Inl e)
    with m ls show ?thesis by (auto simp: ebind_def)
  next
    case (Inr x)
    with m have "returns m x" by (auto simp: returns_def)
    then obtain ls' where "se_output (snd (f x s1)) = se_output s1 @ ls'" "list_all P ls'"
      using assms(2) unfolding prints_def by blast
    with m ls Inr show ?thesis by (auto simp: ebind_def)
  qed
qed

lemma prints_try_except [prints_intros]:
  assumes "prints P m" "\<And>e. prints P (f e)"
  shows "prints P (try_except m X f)"
proof (rule printsI)
  fix s
  obtain v s1 where m: "m s = (v, s1)" by (cases "m s")
  obtain ls where ls: "se_output s1 = se_output s @ ls" "list_all P ls"
    using assms(1) m unfolding prints_def by (metis snd_conv)
  show "\<exists>ls. se_output (snd (try_except m X f s)) = se_output s @ ls \<and> list_all P ls"
  proof (cases v)
    case (Inl e)
    obtain ls' where "se_output (snd (f e s1)) = se_output s1 @ ls'" "list_all P ls'"
      using assms(2) [of e] unfolding prints_def by blast
    with m ls Inl show ?thesis by (auto simp: try_except_def)
  next
    case (Inr x)
    with m ls show ?thesis by (auto simp: try_except_def)
  qed
qed

lemma prints_with_client [prints_intros]: "prints P (body (tamga_client W cf)) \<Longrightarrow> prints P (with_client W cf body)"
  by (rule printsI) (simp add: with_client_snd, metis prints_def session_sel(2))

lemma prints_cases [prints_intros]:
  "(b \<Longrightarrow> prints P m) \<Longrightarrow> (\<not> b \<Longrightarrow> prints P n) \<Longrightarrow> prints P (if b then m else n)"
  "(x = None \<Longrightarrow> prints P m) \<Longrightarrow> (\<And>y. x = Some y \<Longrightarrow> prints P (f y)) \<Longrightarrow>
     prints P (case x of None \<Rightarrow> m | Some y \<Rightarrow> f y)"
  by (auto split: option.split)

text \<open>
  \<open>closes m\<close>: whatever happens, \<open>m\<close> leaves either everything as it was (it ended before it opened
  a client) or the HTTP client closed.
\<close>

definition closes :: "'a program \<Rightarrow> bool" where
  "closes m \<longleftrightarrow> (\<forall>s. snd (m s) \<in> insert s {s'. \<not> se_open s'})"

lemma closes_with_client: "closes (with_client W cf body)"
  by (simp add: closes_def with_client_snd)

lemma closes_ebind_lift: "(\<And>x. closes (f x)) \<Longrightarrow> closes (ebind (lift r) f)"
  by (cases r) (simp_all add: closes_def ebind_lift)

lemmas closes_intros = closes_ebind_lift closes_with_client

section \<open>Answered requests\<close>

text \<open>A response that carries the JSON:API resource \<open>v\<close>.\<close>

definition answers_with :: "runtime \<Rightarrow> http_response \<Rightarrow> json \<Rightarrow> bool" where
  "answers_with R r v \<longleftrightarrow> rs_status r = 200 \<and> rs_content r \<noteq> [] \<and>
     (\<exists>d. json_loads R (rs_content r) = Inr (JObj d) \<and> map_of d (lit ''data'') = Some v)"

lemma prepare_default:
  assumes "cl_config C = tamga_config account_id host"
  shows "\<exists>rq. prepare_request C verb path body params None False = Inr rq \<and>
    rq_method rq = verb \<and> rq_url rq = path \<and> rq_json rq = body"
proof -
  have "sanitize_tamga_version (cl_runtime C) (lit ''1'') = Inr (lit ''1'')"
    by (rule sanitize_id) (simp_all add: version_char_ok_def py_isalnum_def ascii_isalnum_def lit_def)
  then obtain rq where rq: "prepare_request C verb path body params None False = Inr rq"
    by (simp add: prepare_request_def assms tamga_config_def)
  from rq prepare_request_Inr [OF rq] show ?thesis by blast
qed

lemma send_request_answered:
  assumes "prepare_request C verb path body params None False = Inr rq"
    and "answer C h rq = Inr r" "answers_with (cl_runtime C) r v"
  shows "send_request C verb path body params None False h = (Inr v, h @ [Sent rq])"
proof -
  from assms(3) obtain d where d: "rs_status r = 200" "rs_content r \<noteq> []"
    "json_loads (cl_runtime C) (rs_content r) = Inr (JObj d)" "map_of d (lit ''data'') = Some v"
    unfolding answers_with_def by blast
  then obtain t where "parse_response (cl_runtime C) r False = Inr t" "tr_data t = v"
    using parse_response_data(1) [of r "cl_runtime C" d] by (auto simp: dict_get_def)
  moreover have "request_with_retry C rq h = (Inr r, h @ [Sent rq])"
    using assms(2) d(1) by (simp add: request_with_retry_def request_loop_step [of _ _ _ 0])
  ultimately show ?thesis
    using assms(1) by (simp add: send_request_def send_request_raw_def send_raw_response_def ebind_lift
        ebind_step(2) lift_apply ret_apply)
qed

end
