(* ===== verification/Example_Programs.thy ===== *)
theory Example_Programs
  imports Tamga_Client Machine_Activation
begin

text \<open>
  The programs of \<open>src/examples\<close>, which put the components together: \<open>validate_license.py\<close>,
  \<open>checkout_and_verify.py\<close>, \<open>offline_proof.py\<close> and \<open>machine_activation_flow.py\<close>, each \<open>main\<close> a
  definition over a \<open>world\<close> and the \<open>machine\<close> it runs on (its environment variables and what
  \<open>platform\<close> and \<open>os\<close> tell of it). \<open>Example_Heartbeat\<close> has the fifth, with its two threads.

  The theorems compose what the component theories show, over any server: what a program prints is
  what was verified, proved or decided.
\<close>

section \<open>The machine a program runs on\<close>

record machine =
  ho_environ :: "pystr \<Rightarrow> pystr option"
  ho_node :: pystr
  ho_system :: pystr
  ho_cpu_count :: "int option"

definition environ_item :: "machine \<Rightarrow> string \<Rightarrow> exc + pystr" where
  "environ_item H name = of_option KeyError (ho_environ H (lit name))"

definition environ_get :: "machine \<Rightarrow> string \<Rightarrow> pystr \<Rightarrow> pystr" where
  "environ_get H name d = (case ho_environ H (lit name) of None \<Rightarrow> d | Some v \<Rightarrow> v)"

definition environ_uuid :: "machine \<Rightarrow> string \<Rightarrow> exc + uuid" where
  "environ_uuid H name = rbind (environ_item H name) (\<lambda>v. of_option ValueError (uuid_of_str v))"

text \<open>\<open>base64.b64decode\<close> of a variable: not ASCII is a \<open>ValueError\<close>, wrong padding a \<open>binascii.Error\<close>.\<close>

definition environ_b64 :: "machine \<Rightarrow> string \<Rightarrow> exc + bytes" where
  "environ_b64 H name =
     rbind (environ_item H name) (\<lambda>v.
     rbind (ensure (list_all (\<lambda>c. c < 128) v) ValueError) (\<lambda>_. of_option BinasciiError (a2b_lax 0 0 0 v)))"

definition default_host :: pystr where
  "default_host = lit ''api.tamga.sh''"

section \<open>validate_license.py\<close>

definition product_scope :: "machine \<Rightarrow> exc + license_scope option" where
  "product_scope H =
     (case ho_environ H (lit ''TAMGA_PRODUCT_ID'') of
        None \<Rightarrow> Inr None
      | Some p \<Rightarrow>
          (if p = [] then Inr None
           else rbind (of_option ValueError (uuid_of_str p)) (\<lambda>u.
             Inr (Some \<lparr>ls_product = Some u, ls_policy = None, ls_user = None, ls_environment = None,
               ls_entitlements = None, ls_fingerprint = None, ls_version = None, ls_checksum = None\<rparr>))))"

definition print_verdict :: "string \<Rightarrow> validation_result \<Rightarrow> unit program" where
  "print_verdict label result =
     print_line [Text label, Code (vm_code (vr_meta result)), Value (vm_detail (vr_meta result))]"

definition validate_session :: "machine \<Rightarrow> pystr \<Rightarrow> client \<Rightarrow> unit program" where
  "validate_session H license_key client =
     ebind (run (validate_by_key client True license_key)) (\<lambda>result.
     ebind (print_verdict ''validate_by_key:'' result) (\<lambda>_.
     case vr_license result of
       None \<Rightarrow> ret ()
     | Some license \<Rightarrow>
         ebind (lift (product_scope H)) (\<lambda>scope.
         ebind (run (validate_by_id client True (li_id license) scope True)) (\<lambda>scoped_result.
         ebind (print_verdict ''validate_by_id:'' scoped_result) (\<lambda>_.
         ebind (run (quick_validate client (li_id license))) (\<lambda>quick_result.
           print_line [Text ''quick_validate:'', Code (vm_code (vr_meta quick_result)),
                       Flag (vm_valid (vr_meta quick_result))]))))))"

definition validate_license_main :: "world \<Rightarrow> machine \<Rightarrow> unit program" where
  "validate_license_main W H =
     ebind (lift (environ_item H ''TAMGA_ACCOUNT_ID'')) (\<lambda>account_id.
     ebind (lift (environ_item H ''TAMGA_LICENSE_KEY'')) (\<lambda>license_key.
       with_client W (tamga_config account_id (environ_get H ''TAMGA_HOST'' default_host))
         (validate_session H license_key)))"

section \<open>checkout_and_verify.py\<close>

text \<open>\<open>LicenseFile.parse\<close> calls \<open>strip\<close> on the certificate, whatever the resource holds.\<close>

definition parse_certificate :: "runtime \<Rightarrow> json \<Rightarrow> exc + license_file" where
  "parse_certificate R certificate =
     (case certificate of JStr c \<Rightarrow> license_file_parse R c | _ \<Rightarrow> Inl AttributeError)"

definition assert_resource :: "checked_out \<Rightarrow> exc + file_resource" where
  "assert_resource r = (case r of RawFile _ \<Rightarrow> Inl AssertionError | FileResource f \<Rightarrow> Inr f)"

text \<open>A check-out, the parsing of its certificate and its verification at the time of the clock.\<close>

definition check_out_verified ::
  "crypto \<Rightarrow> client \<Rightarrow> uuid \<Rightarrow> bool \<Rightarrow> bytes \<Rightarrow> pystr option
    \<Rightarrow> (file_resource \<times> json license_resource) call" where
  "check_out_verified P client license_id encrypt public_key license_key =
     ebind (license_check_out client license_id encrypt None False) (\<lambda>result.
     ebind (lift (assert_resource result)) (\<lambda>file.
     ebind (lift (parse_certificate (cl_runtime client) (fr_certificate file))) (\<lambda>license_file.
     ebind (system_seconds client) (\<lambda>clock.
     ebind (lift (license_file_verify P (cl_runtime client) license_file public_key license_key None clock))
       (\<lambda>license. ret (file, license))))))"

definition checkout_session :: "crypto \<Rightarrow> machine \<Rightarrow> uuid \<Rightarrow> bytes \<Rightarrow> client \<Rightarrow> unit program" where
  "checkout_session P H license_id public_key client =
     ebind (run (check_out_verified P client license_id False public_key None)) (\<lambda>(_, plain_license).
     ebind (print_line [Text ''Plain checkout verified. License id:'', Value (lr_id plain_license)]) (\<lambda>_.
     ebind (lift (environ_item H ''TAMGA_LICENSE_KEY_STRING'')) (\<lambda>license_key_string.
     ebind (run (check_out_verified P client license_id True public_key (Some license_key_string)))
       (\<lambda>(encrypted_result, encrypted_license).
     ebind (print_line [Text ''Encrypted checkout verified. License id:'', Value (lr_id encrypted_license)]) (\<lambda>_.
       if py_truthy (fr_expiry encrypted_result)
       then print_line [Text ''Checkout expiry metadata (advisory only):'', Value (fr_expiry encrypted_result)]
       else ret ())))))"

definition checkout_and_verify_main :: "world \<Rightarrow> machine \<Rightarrow> unit program" where
  "checkout_and_verify_main W H =
     ebind (lift (environ_item H ''TAMGA_ACCOUNT_ID'')) (\<lambda>account_id.
     ebind (lift (environ_uuid H ''TAMGA_LICENSE_ID'')) (\<lambda>license_id.
     ebind (lift (environ_b64 H ''TAMGA_ED25519_PUBLIC_KEY_B64'')) (\<lambda>public_key.
       with_client W (tamga_config account_id (environ_get H ''TAMGA_HOST'' default_host))
         (checkout_session (wd_crypto W) H license_id public_key))))"

section \<open>offline_proof.py\<close>

definition proof_dataset :: "machine \<Rightarrow> pydict" where
  "proof_dataset H =
     [(lit ''cores'', case ho_cpu_count H of None \<Rightarrow> JNull | Some n \<Rightarrow> JInt n),
      (lit ''checked_at'', JStr (lit ''startup''))]"

definition proof_session :: "crypto \<Rightarrow> machine \<Rightarrow> uuid \<Rightarrow> bytes \<Rightarrow> client \<Rightarrow> unit program" where
  "proof_session P H machine_id public_key_der client =
     ebind (run (generate_offline_proof client machine_id (Some (proof_dataset H)))) (\<lambda>proof.
     ebind (print_line [Text ''Generated proof:'', Chars (take 20 (pf_raw proof)), Text ''...'']) (\<lambda>_.
     ebind (lift (proof_verify P (cl_runtime client) public_key_der proof)) (\<lambda>is_valid.
       print_line [Text ''Proof verifies:'', Flag is_valid])))"

definition offline_proof_main :: "world \<Rightarrow> machine \<Rightarrow> unit program" where
  "offline_proof_main W H =
     ebind (lift (environ_item H ''TAMGA_ACCOUNT_ID'')) (\<lambda>account_id.
     ebind (lift (environ_uuid H ''TAMGA_MACHINE_ID'')) (\<lambda>machine_id.
     ebind (lift (environ_b64 H ''TAMGA_RSA_PUBLIC_KEY_DER_B64'')) (\<lambda>public_key_der.
       with_client W (tamga_config account_id (environ_get H ''TAMGA_HOST'' default_host))
         (proof_session (wd_crypto W) H machine_id public_key_der))))"

section \<open>machine_activation_flow.py\<close>

definition reported_attrs :: "machine \<Rightarrow> machine_attrs" where
  "reported_attrs H =
     \<lparr>ma_name = Some (ho_node H), ma_ip = None, ma_hostname = None, ma_platform = Some (ho_system H),
      ma_cores = ho_cpu_count H, ma_memory = None, ma_disk = None, ma_metadata = None\<rparr>"

text \<open>The handler of \<open>MachineOverLimitError\<close>, whose two attributes every such error has.\<close>

definition print_rejection :: "exc \<Rightarrow> unit program" where
  "print_rejection e =
     (case e of
        TamgaError t \<Rightarrow>
          (case (te_validation_code t, te_rolled_back t) of
             (Some code, Some rolled_back) \<Rightarrow>
               ebind (print_line [Text ''Activation rejected:'', Code code]) (\<lambda>_.
                 print_line [Text ''  a machine row was created and rolled back:'', Flag rolled_back])
           | _ \<Rightarrow> lift (Inl AttributeError))
      | _ \<Rightarrow> lift (Inl e))"

definition activation_session :: "machine \<Rightarrow> uuid \<Rightarrow> pystr \<Rightarrow> client \<Rightarrow> unit program" where
  "activation_session H license_id fingerprint client =
     ebind (try_except
              (ebind (run (activate_machine client license_id fingerprint (reported_attrs H)))
                 (\<lambda>machine. ret (Some machine)))
              (is_tamga MachineOverLimitError)
              (\<lambda>e. ebind (print_rejection e) (\<lambda>_. ret None))) (\<lambda>activated.
     case activated of
       None \<Rightarrow> ret ()
     | Some machine \<Rightarrow>
         print_line [Text ''Machine activated:'', Ident (mr_id machine), Status (mr_heartbeat_status machine)])"

definition machine_activation_flow_main :: "world \<Rightarrow> machine \<Rightarrow> unit program" where
  "machine_activation_flow_main W H =
     ebind (lift (environ_item H ''TAMGA_ACCOUNT_ID'')) (\<lambda>account_id.
     ebind (lift (environ_uuid H ''TAMGA_LICENSE_ID'')) (\<lambda>license_id.
     ebind (lift (environ_item H ''TAMGA_MACHINE_FINGERPRINT'')) (\<lambda>fingerprint.
       with_client W (tamga_config account_id (environ_get H ''TAMGA_HOST'' default_host))
         (activation_session H license_id fingerprint))))"

section \<open>What the check-out prints\<close>

text \<open>The license ids a key vouches for: those of the files that verify under it.\<close>

definition verified_id :: "crypto \<Rightarrow> runtime \<Rightarrow> bytes \<Rightarrow> pystr option \<Rightarrow> json \<Rightarrow> bool" where
  "verified_id P R pk lk i \<longleftrightarrow>
     (\<exists>f license claims clock. license_verify P R f pk lk None clock = Inr (license, claims) \<and> i = lr_id license)"

lemma check_out_verified_returns:
  assumes "returns (check_out_verified P C lid encrypt pk lk) (file, license)"
  shows "verified_id P (cl_runtime C) pk lk (lr_id license)"
proof -
  from assms obtain h h' where "check_out_verified P C lid encrypt pk lk h = (Inr (file, license), h')"
    by (auto simp: returns_def)
  then have "\<exists>f claims clock. license_verify P (cl_runtime C) f pk lk None clock = Inr (license, claims)"
    unfolding check_out_verified_def system_seconds_def license_file_verify_def
    by (elim ebind_Inr) (auto simp: lift_apply ret_apply rbind_Inr_iff)
  then show ?thesis unfolding verified_id_def by blast
qed

definition checkout_line :: "crypto \<Rightarrow> runtime \<Rightarrow> machine \<Rightarrow> bytes \<Rightarrow> printed list \<Rightarrow> bool" where
  "checkout_line P R H pk l \<longleftrightarrow>
     l \<in> {[Text ''Plain checkout verified. License id:'', Value i] | i. verified_id P R pk None i} \<union>
         {[Text ''Encrypted checkout verified. License id:'', Value i] | i.
            verified_id P R pk (ho_environ H (lit ''TAMGA_LICENSE_KEY_STRING'')) i} \<union>
         {[Text ''Checkout expiry metadata (advisory only):'', Value e] | e. py_truthy e}"

lemma environ_item_Inr [simp]: "environ_item H name = Inr v \<longleftrightarrow> ho_environ H (lit name) = Some v"
  by (simp add: environ_item_def)

lemma checkout_session_prints [prints_intros]:
  "prints (checkout_line P (cl_runtime C) H pk) (checkout_session P H lid pk C)"
  unfolding checkout_session_def split_def
  by (intro prints_intros) (auto simp: checkout_line_def dest!: returns_run check_out_verified_returns)

text \<open>
  C28: the check-out program prints a license id only if a file holding that license verified: under
  the key its environment names, at the time of the clock, and for the second line with the license
  key of the environment. Whatever the server answers, it prints nothing else but an advisory expiry,
  and the HTTP client is closed when it ends.
\<close>

theorem checkout_prints_only_verified:
  "prints (\<lambda>l. \<exists>pk. environ_b64 H ''TAMGA_ED25519_PUBLIC_KEY_B64'' = Inr pk \<and>
       (l \<in> {[Text ''Plain checkout verified. License id:'', Value i] | i.
               verified_id (wd_crypto W) (wd_runtime W) pk None i} \<union>
           {[Text ''Encrypted checkout verified. License id:'', Value i] | i.
               verified_id (wd_crypto W) (wd_runtime W) pk (ho_environ H (lit ''TAMGA_LICENSE_KEY_STRING'')) i} \<union>
           {[Text ''Checkout expiry metadata (advisory only):'', Value e] | e. py_truthy e}))
     (checkout_and_verify_main W H) \<and>
   closes (checkout_and_verify_main W H)"
proof
  show "closes (checkout_and_verify_main W H)"
    unfolding checkout_and_verify_main_def by (intro closes_intros)
  have session: "prints (\<lambda>l. \<exists>pk. environ_b64 H ''TAMGA_ED25519_PUBLIC_KEY_B64'' = Inr pk \<and>
       checkout_line (wd_crypto W) (wd_runtime W) H pk l)
     (with_client W cf (checkout_session (wd_crypto W) H lid pk))"
    if "environ_b64 H ''TAMGA_ED25519_PUBLIC_KEY_B64'' = Inr pk" for cf lid pk
    using that checkout_session_prints [of "wd_crypto W" "tamga_client W cf" H pk lid]
    by (intro prints_with_client) (auto elim: prints_mono)
  show "prints (\<lambda>l. \<exists>pk. environ_b64 H ''TAMGA_ED25519_PUBLIC_KEY_B64'' = Inr pk \<and>
       (l \<in> {[Text ''Plain checkout verified. License id:'', Value i] | i.
               verified_id (wd_crypto W) (wd_runtime W) pk None i} \<union>
           {[Text ''Encrypted checkout verified. License id:'', Value i] | i.
               verified_id (wd_crypto W) (wd_runtime W) pk (ho_environ H (lit ''TAMGA_LICENSE_KEY_STRING'')) i} \<union>
           {[Text ''Checkout expiry metadata (advisory only):'', Value e] | e. py_truthy e}))
     (checkout_and_verify_main W H)"
    unfolding checkout_and_verify_main_def checkout_line_def [symmetric]
    by (intro prints_ebind prints_silent session) simp
qed

section \<open>From the issuer to the printed line\<close>

text \<open>The resource of a check-out, and the certificates an issuer with key \<open>pk\<close> makes for license \<open>i\<close>.\<close>

definition file_data :: "pystr \<Rightarrow> json \<Rightarrow> json" where
  "file_data certificate expiry =
     JObj [(lit ''attributes'', JObj [(lit ''certificate'', JStr certificate), (lit ''expiry'', expiry)])]"

definition issued_certificate ::
  "crypto \<Rightarrow> runtime \<Rightarrow> bytes \<Rightarrow> pystr option \<Rightarrow> int \<Rightarrow> pystr \<Rightarrow> pystr \<Rightarrow> bool" where
  "issued_certificate P R pk lk clock i certificate \<longleftrightarrow>
     (\<exists>attributes claims alg enc sig.
        writable (license_payload_json i attributes claims) \<and> (alg = alg_plain \<or> alg = alg_encrypted) \<and>
        license_sealed P lk alg enc (json_bytes R (license_payload_json i attributes claims)) \<and>
        ed25519_verify P pk (map word_of_nat enc) sig \<and> unexpired claims None clock \<and>
        certificate = certificate_text R lic_header lic_footer enc sig alg \<and>
        length certificate \<le> max_certificate_length)"

lemma issued_certificate_verifies:
  assumes "issued_certificate P R pk lk clock i certificate"
  shows "\<exists>l. rbind (parse_certificate R (JStr certificate))
      (\<lambda>f. license_file_verify P R f pk lk None clock) = Inr l \<and> lr_id l = JStr i"
proof -
  from assms obtain attributes claims alg enc sig where c:
    "writable (license_payload_json i attributes claims)" "alg = alg_plain \<or> alg = alg_encrypted"
    "license_sealed P lk alg enc (json_bytes R (license_payload_json i attributes claims))"
    "ed25519_verify P pk (map word_of_nat enc) sig" "unexpired claims None clock"
    "certificate = certificate_text R lic_header lic_footer enc sig alg"
    "length certificate \<le> max_certificate_length"
    unfolding issued_certificate_def by blast
  let ?f = "\<lparr>lf_enc = enc, lf_sig = sig, lf_alg = alg, lf_expiry = None\<rparr>"
  have "license_file_parse R certificate = Inr ?f"
    using license_file_parse_text [OF c(2,3)] c(7) unfolding c(6) by blast
  moreover have "license_verify P R ?f pk lk None clock =
      Inr (\<lparr>lr_id = JStr i, lr_type = JStr (lit ''licenses''), lr_attributes = canon_dict attributes,
          lr_relationships = []\<rparr>, claims)"
    using license_verify_sealed [of i attributes claims P lk ?f R pk None clock] c(1,3,4,5)
    by (simp add: unexpired_def)
  ultimately show ?thesis by (simp add: parse_certificate_def license_file_verify_def)
qed

lemma check_out_verified_issued:
  assumes "cl_config C = tamga_config account_id host"
    and "\<And>rq. rq_method rq = lit ''POST'' \<Longrightarrow> rq_url rq = slash ''licenses'' lid @ lit ''/actions/check-out'' \<Longrightarrow>
      rq_json rq = Some (check_out_body encrypt None) \<Longrightarrow>
      \<exists>r. cl_send C h rq = Some r \<and> answers_with (cl_runtime C) r (file_data certificate expiry)"
    and "\<And>h. issued_certificate P (cl_runtime C) pk lk (seconds_of (cl_now C h)) i certificate"
  shows "\<exists>f l h'. check_out_verified P C lid encrypt pk lk h = (Inr (f, l), h') \<and> fr_expiry f = expiry \<and>
    lr_id l = JStr i"
proof -
  let ?path = "slash ''licenses'' lid @ lit ''/actions/check-out''"
  obtain rq where rq: "prepare_request C (lit ''POST'') ?path (Some (check_out_body encrypt None)) [] None False = Inr rq"
    "rq_method rq = lit ''POST''" "rq_url rq = ?path" "rq_json rq = Some (check_out_body encrypt None)"
    using prepare_default [OF assms(1)] by blast
  obtain r where r: "cl_send C h rq = Some r" "answers_with (cl_runtime C) r (file_data certificate expiry)"
    using assms(2) [OF rq(2-4)] by blast
  then have sent: "send_request C (lit ''POST'') ?path (Some (check_out_body encrypt None)) [] None False h =
      (Inr (file_data certificate expiry), h @ [Sent rq])"
    by (intro send_request_answered [OF rq(1)]) (simp_all add: answer_def)
  obtain f where f: "parse_file_resource (file_data certificate expiry) = Inr f"
    "fr_certificate f = JStr certificate" "fr_expiry f = expiry"
    by (simp add: file_data_def parse_file_resource_def as_dict_def dict_get_def lit_def)
  let ?h = "h @ [Sent rq]"
  obtain g l where g: "parse_certificate (cl_runtime C) (JStr certificate) = Inr g"
    "license_file_verify P (cl_runtime C) g pk lk None (seconds_of (cl_now C ?h)) = Inr l" "lr_id l = JStr i"
    using issued_certificate_verifies [OF assms(3) [of ?h]] by (auto simp: rbind_Inr_iff)
  have "license_check_out C lid encrypt None False h = (Inr (FileResource f), ?h)"
    using sent f(1) by (simp add: license_check_out_def Let_def ebind_step(2) lift_apply)
  then have "check_out_verified P C lid encrypt pk lk h = (Inr (f, l), ?h)"
    using f(2) g by (simp add: check_out_verified_def ebind_step(2) ebind_lift assert_resource_def
        system_seconds_def ret_apply)
  with f(3) g(3) show ?thesis by blast
qed

lemma ebind_run:
  "m (se_history s) = (Inr x, h) \<Longrightarrow> ebind (run m) f s = f x (s\<lparr>se_history := h\<rparr>)"
  by (simp add: ebind_step(2) run_step)

lemma ebind_print: "ebind (print_line l) f s = f () (s\<lparr>se_output := se_output s @ [l]\<rparr>)"
  by (simp add: ebind_def print_line_def)

text \<open>
  C9: the way of a license, from its issuer to the program that verifies it. When the server answers
  the check-outs of the license with certificates the issuer made for license \<open>i\<close>, one plain and one
  sealed under the license key, not expired, and the environment holds the issuer's public key and
  that license key, the program reaches its end and prints exactly that license's id for both, and
  the advisory expiry if the second answer has one.
\<close>

theorem checkout_example_succeeds:
  assumes "environ_item H ''TAMGA_ACCOUNT_ID'' = Inr account_id"
    and "environ_uuid H ''TAMGA_LICENSE_ID'' = Inr lid"
    and "environ_b64 H ''TAMGA_ED25519_PUBLIC_KEY_B64'' = Inr pk"
    and "environ_item H ''TAMGA_LICENSE_KEY_STRING'' = Inr lk"
    and "\<And>h rq encrypt. rq_method rq = lit ''POST'' \<Longrightarrow>
      rq_url rq = slash ''licenses'' lid @ lit ''/actions/check-out'' \<Longrightarrow>
      rq_json rq = Some (check_out_body encrypt None) \<Longrightarrow>
      \<exists>r. wd_send W (build_base_url (environ_get H ''TAMGA_HOST'' default_host) account_id) h rq = Some r \<and>
          answers_with (wd_runtime W) r (file_data (certificate encrypt) (expiry encrypt))"
    and "\<And>h encrypt. issued_certificate (wd_crypto W) (wd_runtime W) pk (if encrypt then Some lk else None)
      (seconds_of (wd_now W h)) i (certificate encrypt)"
  shows "fst (checkout_and_verify_main W H s) = Inr () \<and>
    se_output (snd (checkout_and_verify_main W H s)) = se_output s @
      [[Text ''Plain checkout verified. License id:'', Value (JStr i)],
       [Text ''Encrypted checkout verified. License id:'', Value (JStr i)]] @
      (if py_truthy (expiry True)
       then [[Text ''Checkout expiry metadata (advisory only):'', Value (expiry True)]] else [])"
proof -
  let ?cf = "tamga_config account_id (environ_get H ''TAMGA_HOST'' default_host)"
  let ?C = "tamga_client W ?cf" and ?P = "wd_crypto W"
  have sel: "cf_host ?cf = environ_get H ''TAMGA_HOST'' default_host" "cf_account_id ?cf = account_id"
    by (simp_all add: tamga_config_def)
  have step: "\<exists>f l h'. check_out_verified ?P ?C lid encrypt pk (if encrypt then Some lk else None) h
      = (Inr (f, l), h') \<and> fr_expiry f = expiry encrypt \<and> lr_id l = JStr i" for encrypt h
    using assms(5,6) sel
    by (intro check_out_verified_issued [where account_id = account_id
          and host = "environ_get H ''TAMGA_HOST'' default_host" and certificate = "certificate encrypt"]) simp_all
  let ?s = "client_open s"
  obtain f1 l1 h1 where p1: "check_out_verified ?P ?C lid False pk None (se_history ?s) = (Inr (f1, l1), h1)"
    "lr_id l1 = JStr i" using step [of False "se_history ?s"] by auto
  obtain f2 l2 h2 where p2: "check_out_verified ?P ?C lid True pk (Some lk) h1 = (Inr (f2, l2), h2)"
    "fr_expiry f2 = expiry True" "lr_id l2 = JStr i" using step [of True h1] by auto
  have "fst (checkout_session ?P H lid pk ?C ?s) = Inr () \<and>
    se_output (snd (checkout_session ?P H lid pk ?C ?s)) = se_output s @
      [[Text ''Plain checkout verified. License id:'', Value (JStr i)],
       [Text ''Encrypted checkout verified. License id:'', Value (JStr i)]] @
      (if py_truthy (expiry True)
       then [[Text ''Checkout expiry metadata (advisory only):'', Value (expiry True)]] else [])"
    using p1 p2
    by (simp add: checkout_session_def ebind_run ebind_print ebind_lift assms(4) ret_apply) (simp add: print_line_def)
  then show ?thesis
    by (simp add: checkout_and_verify_main_def ebind_lift assms(1-3) with_client_fst with_client_snd)
qed

section \<open>What the proof program prints\<close>

lemma generate_offline_proof_returns:
  assumes "returns (generate_offline_proof C i dataset) p"
  shows "uuid_of_str (cf_account_id (cl_config C)) = Some (pf_account_id p) \<and>
    pf_dataset p = JObj (case dataset of None \<Rightarrow> [] | Some d \<Rightarrow> d)"
proof -
  from assms obtain h h' where "generate_offline_proof C i dataset h = (Inr p, h')" by (auto simp: returns_def)
  then show ?thesis
    unfolding generate_offline_proof_def Let_def
    by (elim ebind_Inr)
      (auto simp: lift_apply proof_parse_def rbind_Inr_iff split: json.splits if_splits)
qed

text \<open>
  C27: the verdict the proof program prints. It is that of the RSA check, under the key of the
  environment, of the payload that names the account of the environment and holds the dataset of this
  very host: its number of processors and the time of the check. Whatever the server answers, the
  program prints no other verdict, and the HTTP client is closed when it ends.
\<close>

theorem proof_verdict_is_of_this_host:
  "prints (\<lambda>l. l \<in> {[Text ''Generated proof:'', Chars (take 20 raw), Text ''...''] | raw. True} \<union>
       {[Text ''Proof verifies:'', Flag v] | v.
          \<exists>pk account_id account machine fingerprint payload sig.
            environ_b64 H ''TAMGA_RSA_PUBLIC_KEY_DER_B64'' = Inr pk \<and>
            environ_item H ''TAMGA_ACCOUNT_ID'' = Inr account_id \<and> uuid_of_str account_id = Some account \<and>
            build_proof_payload (wd_runtime W) account machine fingerprint
              (JObj [(lit ''cores'', case ho_cpu_count H of None \<Rightarrow> JNull | Some n \<Rightarrow> JInt n),
                     (lit ''checked_at'', JStr (lit ''startup''))]) = Inr payload \<and>
            verify_pkcs1v15 (wd_crypto W) pk payload sig = Inr v})
     (offline_proof_main W H) \<and>
   closes (offline_proof_main W H)"
proof
  show "closes (offline_proof_main W H)"
    unfolding offline_proof_main_def by (intro closes_intros)
  let ?lines = "\<lambda>l. l \<in> {[Text ''Generated proof:'', Chars (take 20 raw), Text ''...''] | raw. True} \<union>
       {[Text ''Proof verifies:'', Flag v] | v.
          \<exists>pk account_id account machine fingerprint payload sig.
            environ_b64 H ''TAMGA_RSA_PUBLIC_KEY_DER_B64'' = Inr pk \<and>
            environ_item H ''TAMGA_ACCOUNT_ID'' = Inr account_id \<and> uuid_of_str account_id = Some account \<and>
            build_proof_payload (wd_runtime W) account machine fingerprint (JObj (proof_dataset H)) = Inr payload \<and>
            verify_pkcs1v15 (wd_crypto W) pk payload sig = Inr v}"
  have verdict: "?lines [Text ''Proof verifies:'', Flag v]"
    if "environ_b64 H ''TAMGA_RSA_PUBLIC_KEY_DER_B64'' = Inr pk" "environ_item H ''TAMGA_ACCOUNT_ID'' = Inr account_id"
      "returns (generate_offline_proof (tamga_client W (tamga_config account_id host)) i (Some (proof_dataset H))) p"
      "proof_verify (wd_crypto W) (wd_runtime W) pk p = Inr v" for pk account_id host i p v
  proof -
    have "uuid_of_str account_id = Some (pf_account_id p)" "pf_dataset p = JObj (proof_dataset H)"
      using generate_offline_proof_returns [OF that(3)] by (simp_all add: tamga_config_def)
    with that(1,2,4) show ?thesis by (auto simp: proof_verify_def rbind_Inr_iff)
  qed
  show "prints (\<lambda>l. l \<in> {[Text ''Generated proof:'', Chars (take 20 raw), Text ''...''] | raw. True} \<union>
       {[Text ''Proof verifies:'', Flag v] | v.
          \<exists>pk account_id account machine fingerprint payload sig.
            environ_b64 H ''TAMGA_RSA_PUBLIC_KEY_DER_B64'' = Inr pk \<and>
            environ_item H ''TAMGA_ACCOUNT_ID'' = Inr account_id \<and> uuid_of_str account_id = Some account \<and>
            build_proof_payload (wd_runtime W) account machine fingerprint
              (JObj [(lit ''cores'', case ho_cpu_count H of None \<Rightarrow> JNull | Some n \<Rightarrow> JInt n),
                     (lit ''checked_at'', JStr (lit ''startup''))]) = Inr payload \<and>
            verify_pkcs1v15 (wd_crypto W) pk payload sig = Inr v})
     (offline_proof_main W H)"
    unfolding offline_proof_main_def proof_session_def proof_dataset_def [symmetric]
    by (intro prints_intros)
      (blast, rule verdict, simp_all only: returns_lift tamga_client_sel, erule returns_run)
qed

section \<open>What the activation program prints\<close>

lemma call_error_not_over_limit: "call_error e \<Longrightarrow> \<not> is_tamga MachineOverLimitError e"
  by (cases e) (simp_all add: is_tamga_def)

text \<open>The three ways an activation is told of: its result, a refused creation, a rollback.\<close>

lemma activate_machine_ends:
  obtains
    (active) m h' es where "activate_machine C lid fp a h = (Inr m, h')" "h' = h @ es"
      "urls (lit ''DELETE'') es = []" "fst (machines_create C lid fp a h) = Inr m"
  | (refused) t code h' es where "activate_machine C lid fp a h = (Inl (TamgaError t), h')" "h' = h @ es"
      "te_class t = MachineOverLimitError" "te_validation_code t = Some code" "te_rolled_back t = Some False"
      "urls (lit ''DELETE'') es = []" "\<exists>e. fst (machines_create C lid fp a h) = Inl e"
  | (rolled_back) t code m h' es where "activate_machine C lid fp a h = (Inl (TamgaError t), h')" "h' = h @ es"
      "te_class t = MachineOverLimitError" "te_validation_code t = Some code" "te_rolled_back t = Some True"
      "code \<in> set over_limit_codes" "urls (lit ''DELETE'') es = [slash ''machines'' (mr_id m)]"
      "fst (machines_create C lid fp a h) = Inr m"
  | (failed) e h' es where "activate_machine C lid fp a h = (Inl e, h')" "h' = h @ es"
      "\<not> is_tamga MachineOverLimitError e"
proof (rule activation_cases [of C lid fp a h])
  fix e h1
  assume c: "machines_create C lid fp a h = (Inl e, h1)"
    and run: "activate_machine C lid fp a h = (Inl (if is_TamgaError e then creation_refused e else e), h1)"
  obtain es where es: "h1 = h @ es" "urls (lit ''DELETE'') es = []" using create_events [OF c] by blast
  have "call_error e" by (rule throwsD [OF throws_machines_create c])
  then have "\<not> is_tamga MachineOverLimitError (if is_TamgaError e then creation_refused e else e) \<or>
    (\<exists>t code. (if is_TamgaError e then creation_refused e else e) = TamgaError t \<and>
       te_class t = MachineOverLimitError \<and> te_validation_code t = Some code \<and> te_rolled_back t = Some False)"
    by (cases e) (auto simp: is_tamga_def creation_refused_def machine_over_limit_def split: json.splits option.splits)
  with refused [of _ h1 es] failed [of _ h1 es] run es c show thesis by fastforce
next
  fix m h1 e h2
  assume c: "machines_create C lid fp a h = (Inr m, h1)"
    and v: "validate_by_id C False lid None False h1 = (Inl e, h2)" and run: "activate_machine C lid fp a h = (Inl e, h2)"
  have "call_error e" by (rule throwsD [OF throws_validate_by_id v])
  then have "\<not> is_tamga MachineOverLimitError e" by (rule call_error_not_over_limit)
  with created_validated_events [OF c v] run failed show thesis by blast
next
  fix m h1 v h2 r h3
  assume c: "machines_create C lid fp a h = (Inr m, h1)" and v: "validate_by_id C False lid None False h1 = (Inr v, h2)"
    and over: "vm_code (vr_meta v) \<in> set over_limit_codes" and d: "machines_delete C (mr_id m) h2 = (r, h3)"
    and run: "activate_machine C lid fp a h =
        (case r of Inl e \<Rightarrow> Inl e
         | Inr _ \<Rightarrow> Inl (machine_over_limit 200 (JStr (validation_code_value (vm_code (vr_meta v))))
             (vm_code (vr_meta v)) True JNull None), h3)"
  show thesis
  proof (cases r)
    case (Inl e)
    with d have "call_error e" using throwsD [OF throws_machines_delete] by blast
    then have "\<not> is_tamga MachineOverLimitError e" by (rule call_error_not_over_limit)
    moreover obtain es1 where "h2 = h @ es1" using created_validated_events [OF c v] by blast
    moreover obtain es2 where "h3 = h2 @ es2" by (rule delete_events [OF d])
    ultimately show thesis using run Inl failed [of e h3 "es1 @ es2"] by simp
  next
    case (Inr u)
    with d obtain es where "h3 = h @ es" "urls (lit ''DELETE'') es = [slash ''machines'' (mr_id m)]"
      using rollback_events [OF c v] by auto
    moreover obtain t where "activate_machine C lid fp a h = (Inl (TamgaError t), h3)" "te_class t = MachineOverLimitError"
      "te_validation_code t = Some (vm_code (vr_meta v))" "te_rolled_back t = Some True"
      using run Inr by (simp add: machine_over_limit_def tamga_error_of_def)
    ultimately show thesis using over c by (intro rolled_back) simp_all
  qed
next
  fix m h1 v h2
  assume c: "machines_create C lid fp a h = (Inr m, h1)" and v: "validate_by_id C False lid None False h1 = (Inr v, h2)"
    and run: "activate_machine C lid fp a h = (Inr m, h2)"
  obtain es where "h2 = h @ es" "urls (lit ''DELETE'') es = []" using created_validated_events [OF c v] by blast
  with run c show thesis by (intro active [of m h2 es]) simp_all
qed

lemma activation_session_ends:
  assumes "activate_machine C lid fp (reported_attrs H) (se_history s) = (v, h')"
  shows "activation_session H lid fp C s =
    (case v of
       Inr m \<Rightarrow> print_line [Text ''Machine activated:'', Ident (mr_id m), Status (mr_heartbeat_status m)]
     | Inl e \<Rightarrow>
         (if is_tamga MachineOverLimitError e then print_rejection e else lift (Inl e)))
      (s\<lparr>se_history := h'\<rparr>)"
  using assms
  by (cases v) (auto simp: activation_session_def try_except_def ebind_def run_def ret_apply lift_apply
      split: prod.splits sum.splits)

text \<open>
  C20: what the activation program tells its user. It ends normally with one of three reports, and
  each is true: a machine is reported active when the creation returned it and nothing was deleted; a
  rejection without a rollback when the creation was refused and nothing was deleted; a rejection
  with one when the machine was created, is over a limit, and its deletion was sent once. Any other
  error ends it without a word, and it is not the one the program handles.
\<close>

theorem activation_report_truthful:
  "\<exists>es ls. se_history (snd (activation_session H lid fp C s)) = se_history s @ es \<and>
     se_output (snd (activation_session H lid fp C s)) = se_output s @ ls \<and>
     (case fst (activation_session H lid fp C s) of
        Inl e \<Rightarrow> ls = [] \<and> \<not> is_tamga MachineOverLimitError e
      | Inr _ \<Rightarrow>
          (case fst (machines_create C lid fp (reported_attrs H) (se_history s)) of
             Inl e \<Rightarrow> urls (lit ''DELETE'') es = [] \<and>
               (\<exists>code. ls = [[Text ''Activation rejected:'', Code code],
                            [Text ''  a machine row was created and rolled back:'', Flag False]])
           | Inr m \<Rightarrow>
               (urls (lit ''DELETE'') es = [] \<and>
                ls = [[Text ''Machine activated:'', Ident (mr_id m), Status (mr_heartbeat_status m)]]) \<or>
               (urls (lit ''DELETE'') es = [slash ''machines'' (mr_id m)] \<and>
                (\<exists>code \<in> set over_limit_codes.
                   ls = [[Text ''Activation rejected:'', Code code],
                         [Text ''  a machine row was created and rolled back:'', Flag True]]))))"
proof (rule activate_machine_ends [of C lid fp "reported_attrs H" "se_history s"])
  { fix m h' es
    assume a: "activate_machine C lid fp (reported_attrs H) (se_history s) = (Inr m, h')"
      and e: "h' = se_history s @ es" "urls (lit ''DELETE'') es = []"
        "fst (machines_create C lid fp (reported_attrs H) (se_history s)) = Inr m"
    from activation_session_ends [OF a] e show ?thesis
      by (intro exI [of _ es] exI [of _ "[[Text ''Machine activated:'', Ident (mr_id m), Status (mr_heartbeat_status m)]]"])
        (simp add: print_line_def) }
  { fix t code h' es
    assume a: "activate_machine C lid fp (reported_attrs H) (se_history s) = (Inl (TamgaError t), h')"
      and t: "te_class t = MachineOverLimitError" "te_validation_code t = Some code" "te_rolled_back t = Some False"
      and e: "h' = se_history s @ es" "urls (lit ''DELETE'') es = []"
        "\<exists>e. fst (machines_create C lid fp (reported_attrs H) (se_history s)) = Inl e"
    from activation_session_ends [OF a] e t show ?thesis
      by (intro exI [of _ es] exI [of _ "[[Text ''Activation rejected:'', Code code],
            [Text ''  a machine row was created and rolled back:'', Flag False]]"])
        (auto simp: print_rejection_def ebind_print print_line_def) }
  { fix t code m h' es
    assume a: "activate_machine C lid fp (reported_attrs H) (se_history s) = (Inl (TamgaError t), h')"
      and t: "te_class t = MachineOverLimitError" "te_validation_code t = Some code" "te_rolled_back t = Some True"
        "code \<in> set over_limit_codes"
      and e: "h' = se_history s @ es" "urls (lit ''DELETE'') es = [slash ''machines'' (mr_id m)]"
        "fst (machines_create C lid fp (reported_attrs H) (se_history s)) = Inr m"
    from activation_session_ends [OF a] e t show ?thesis
      by (intro exI [of _ es] exI [of _ "[[Text ''Activation rejected:'', Code code],
            [Text ''  a machine row was created and rolled back:'', Flag True]]"])
        (simp add: print_rejection_def ebind_print print_line_def) }
  { fix e h' es
    assume a: "activate_machine C lid fp (reported_attrs H) (se_history s) = (Inl e, h')"
      and e: "h' = se_history s @ es" "\<not> is_tamga MachineOverLimitError e"
    from activation_session_ends [OF a] e show ?thesis
      by (intro exI [of _ es] exI [of _ "[]"]) (simp add: lift_apply) }
qed

section \<open>Instances\<close>

definition scripted_world :: "(http_request \<Rightarrow> int \<times> json) \<Rightarrow> world" where
  "scripted_world script =
     \<lparr>wd_runtime = sample_runtime, wd_crypto = sample_crypto,
      wd_send = (\<lambda>_ _ rq. Some (reply (script rq))), wd_random = (\<lambda>_. 0),
      wd_now = (\<lambda>_. \<lparr>dt_aware = True, dt_micros = 0\<rparr>)\<rparr>"

lemma scripted_world_sel [simp]:
  "wd_runtime (scripted_world script) = sample_runtime" "wd_crypto (scripted_world script) = sample_crypto"
  "wd_send (scripted_world script) base h rq = Some (reply (script rq))"
  "wd_now (scripted_world script) h = \<lparr>dt_aware = True, dt_micros = 0\<rparr>"
  by (simp_all add: scripted_world_def)

text \<open>The environment of the instances, for account, license and machine 1.\<close>

definition sample_machine :: machine where
  "sample_machine =
     \<lparr>ho_environ = map_of
        [(lit ''TAMGA_ACCOUNT_ID'', str_of_uuid 1), (lit ''TAMGA_HOST'', lit ''h''),
         (lit ''TAMGA_LICENSE_ID'', str_of_uuid 1), (lit ''TAMGA_MACHINE_ID'', str_of_uuid 1),
         (lit ''TAMGA_PROCESS_ID'', str_of_uuid 1),
         (lit ''TAMGA_ED25519_PUBLIC_KEY_B64'', b64encode (replicate 32 7)),
         (lit ''TAMGA_LICENSE_KEY_STRING'', lit ''k'')],
      ho_node = lit ''n'', ho_system = lit ''Linux'', ho_cpu_count = Some 4\<rparr>"

definition sample_certificate :: pystr where
  "sample_certificate = certificate_text sample_runtime lic_header lic_footer sample_license_enc
     (7 # map word_of_nat sample_license_enc) alg_plain"

lemma sample_issued: "issued_certificate sample_crypto sample_runtime (replicate 32 7) lk 0 (lit ''l'') sample_certificate"
  unfolding issued_certificate_def
proof (intro exI conjI)
  show "writable (license_payload_json (lit ''l'') [] sample_claims)" by (rule sample_writable)
  show "license_sealed sample_crypto lk alg_plain sample_license_enc
      (json_bytes sample_runtime (license_payload_json (lit ''l'') [] sample_claims))"
    by (rule sample_license_sealed)
  show "unexpired sample_claims None 0" by (simp add: unexpired_def sample_claims_def reference_time_def)
  show "length sample_certificate \<le> max_certificate_length"
    unfolding sample_certificate_def by (rule sample_certificate_length)
qed (simp_all add: sample_certificate_def replicate_32_Cons)

lemma sample_certificate_encodable: "list_all encodable sample_certificate"
proof -
  have "list_all encodable (b64encode bs)" for bs
    using b64encode_ascii [of bs] by (auto simp: list_all_iff ascii_encodable)
  then show ?thesis
    by (simp add: sample_certificate_def certificate_text_def lic_header_def lic_footer_def)
      (simp add: lit_def ascii_encodable)
qed

lemma environ_b64_encode: "ho_environ H (lit name) = Some (b64encode bs) \<Longrightarrow> environ_b64 H name = Inr bs"
  using b64encode_ascii [of bs] by (simp add: environ_b64_def environ_item_def a2b_lax_decode list_all_iff)

lemma checkout_example_succeeds_witness:
  "fst (checkout_and_verify_main
      (scripted_world (\<lambda>_. (200, JObj [(lit ''data'', file_data sample_certificate JNull)])))
      sample_machine \<lparr>se_history = [], se_open = False, se_output = []\<rparr>) = Inr ()"
proof -
  let ?v = "JObj [(lit ''data'', file_data sample_certificate JNull)]"
  let ?W = "scripted_world (\<lambda>_. (200, ?v))"
  have w: "writable ?v"
    using sample_certificate_encodable by (simp add: file_data_def) (simp add: lit_def encodable_def surrogate_def)
  have c: "canon ?v = ?v" by (simp add: file_data_def lit_def)
  have "answers_with sample_runtime (reply (200, ?v)) (file_data sample_certificate JNull)"
    using reply_loads [of "(200, ?v)"] w c by (simp add: answers_with_def)
  then show ?thesis
    using checkout_example_succeeds [of sample_machine "str_of_uuid 1" 1 "replicate 32 7" "lit ''k''" ?W
        "\<lambda>_. sample_certificate" "\<lambda>_. JNull" "lit ''l''"] sample_issued environ_b64_encode
    by (simp add: sample_machine_def environ_item_def environ_uuid_def uuid_of_str_of_uuid seconds_of_def)
qed

end
