(* ===== verification/Example_Heartbeat.thy ===== *)
theory Example_Heartbeat
  imports Example_Programs Heartbeat
begin

text \<open>
  \<open>src/examples/heartbeat_scheduler.py\<close>: a machine and a process pinged side by side. The setup is a
  program like the others; from there on the main thread and the two daemon threads interleave, as the
  step relation \<open>example_step\<close> over their points and the one session they share. A step of a daemon
  thread is one of its loop (\<open>heartbeat_step\<close>): the test, a request leaving, its answer, a back-off, a
  sleep. The deletion leaves in one step of the main thread and returns in another, and the client is
  closed in a third; the daemon threads go on in between, and after the main thread has ended.

  \<open>KeyboardInterrupt\<close> can reach the main thread at any of its points; the source catches it in the joins
  only. Starting a thread can raise \<open>RuntimeError\<close>. What a request does on a client that was closed is
  up to httpx: none leaves any more, and the thread that asks for one, or has one under way, may get any
  exception.
\<close>

section \<open>Setup\<close>

definition print_window :: "policy_resource \<Rightarrow> unit program" where
  "print_window policy =
     ebind (lift (effective_heartbeat_window_seconds policy)) (\<lambda>window.
     ebind (print_line [Text ''Policy heartbeat window: '', Value window, Text ''s'']) (\<lambda>_.
       if po_heartbeat_duration policy = JNull
       then print_line [Chars (lit ''  (the policy sets none '' @ [8212] @ lit '' this is the server's 600s fallback)'')] else ret ()))"

definition heartbeat_setup ::
  "world \<Rightarrow> machine \<Rightarrow> (client \<times> heartbeat_scheduler \<times> process_heartbeat_scheduler) program" where
  "heartbeat_setup W H =
     ebind (lift (environ_item H ''TAMGA_ACCOUNT_ID'')) (\<lambda>account_id.
     ebind (lift (environ_uuid H ''TAMGA_LICENSE_ID'')) (\<lambda>license_id.
     ebind (lift (environ_uuid H ''TAMGA_MACHINE_ID'')) (\<lambda>machine_id.
     ebind (lift (environ_uuid H ''TAMGA_PROCESS_ID'')) (\<lambda>process_id.
     ebind (open_client W (tamga_config account_id (environ_get H ''TAMGA_HOST'' default_host))) (\<lambda>client.
     ebind (run (get_policy client license_id)) (\<lambda>policy.
     ebind (print_window policy) (\<lambda>_.
     ebind (lift (heartbeat_scheduler_for_policy machine_id policy)) (\<lambda>machine_scheduler.
     let process_scheduler = process_scheduler_init process_id process_heartbeat_recommended_interval in
     ebind (print_line [Text ''Machine heartbeat interval:'', Microseconds (hs_interval machine_scheduler)]) (\<lambda>_.
     ebind (print_line [Text ''Process heartbeat interval:'', Microseconds (ps_interval process_scheduler)]) (\<lambda>_.
       ret (client, machine_scheduler, process_scheduler)))))))))))"

section \<open>Three threads\<close>

text \<open>
  What can leave the \<open>with\<close> block, and where the main thread is: inside the block before the first
  start, before the second, joining; about to leave it, in \<open>dispose\<close> after its \<open>stop\<close>, waiting for the
  answer to the deletion, about to close the client. It has ended, or failed with what left the block,
  or with what the disposal raised, or by an interrupt of the disposal or the closing.
\<close>

datatype cause = Interrupt | Exception exc

datatype main_point =
    Entering | Half_started | Joining | Leaving "cause option" | Disposing "cause option"
  | Deleting "cause option" "exc + unit" | Closing | Ended | Failed cause | Undisposed exc | Aborted

record threads =
  th_main :: main_point
  th_machine :: "phase option"
  th_machine_stop :: bool
  th_process :: "phase option"
  th_process_stop :: bool
  th_session :: session

definition threads_start :: "session \<Rightarrow> threads" where
  "threads_start s =
     \<lparr>th_main = Entering, th_machine = None, th_machine_stop = False, th_process = None,
      th_process_stop = False, th_session = s\<rparr>"

fun main_runs :: "main_point \<Rightarrow> bool" where
  "main_runs Ended = False"
| "main_runs (Failed c) = False"
| "main_runs (Undisposed e) = False"
| "main_runs Aborted = False"
| "main_runs _ = True"

definition thread_over :: "phase option \<Rightarrow> bool" where
  "thread_over p \<longleftrightarrow> (case p of None \<Rightarrow> False | Some p \<Rightarrow> loop_over p)"

definition th_history :: "threads \<Rightarrow> history" where
  "th_history s = se_history (th_session s)"

definition set_history :: "history \<Rightarrow> threads \<Rightarrow> threads" where
  "set_history h s = s\<lparr>th_session := (th_session s)\<lparr>se_history := h\<rparr>\<rparr>"

definition close_session :: "threads \<Rightarrow> threads" where
  "close_session s = s\<lparr>th_session := client_close (th_session s)\<rparr>"

text \<open>A request leaves only through an open client.\<close>

definition may_move :: "threads \<Rightarrow> phase \<Rightarrow> bool" where
  "may_move s p \<longleftrightarrow> se_open (th_session s) \<or> (\<forall>n. p \<noteq> Pinging (Sending n))"

inductive example_step ::
  "client \<Rightarrow> heartbeat_scheduler \<Rightarrow> process_heartbeat_scheduler \<Rightarrow> threads \<Rightarrow> threads \<Rightarrow> bool"
  for C :: client and ms :: heartbeat_scheduler and ps :: process_heartbeat_scheduler where
  machine_moves: "th_machine s = Some p \<Longrightarrow> may_move s p \<Longrightarrow>
    machine_step C ms (p, th_machine_stop s, th_history s) (p', th_machine_stop s, h) \<Longrightarrow>
    example_step C ms ps s (set_history h s\<lparr>th_machine := Some p'\<rparr>)"
| process_moves: "th_process s = Some p \<Longrightarrow> may_move s p \<Longrightarrow>
    process_step C ps (p, th_process_stop s, th_history s) (p', th_process_stop s, h) \<Longrightarrow>
    example_step C ms ps s (set_history h s\<lparr>th_process := Some p'\<rparr>)"
| machine_cut: "\<not> se_open (th_session s) \<Longrightarrow> th_machine s = Some (Pinging q) \<Longrightarrow>
    example_step C ms ps s (s\<lparr>th_machine := Some (Raised e)\<rparr>)"
| process_cut: "\<not> se_open (th_session s) \<Longrightarrow> th_process s = Some (Pinging q) \<Longrightarrow>
    example_step C ms ps s (s\<lparr>th_process := Some (Raised e)\<rparr>)"
| machine_started: "th_main s = Entering \<Longrightarrow>
    example_step C ms ps s (s\<lparr>th_main := Half_started, th_machine := Some Testing\<rparr>)"
| process_started: "th_main s = Half_started \<Longrightarrow>
    example_step C ms ps s (s\<lparr>th_main := Joining, th_process := Some Testing\<rparr>)"
| start_failed: "th_main s = Entering \<or> th_main s = Half_started \<Longrightarrow>
    example_step C ms ps s (s\<lparr>th_main := Leaving (Some (Exception RuntimeError))\<rparr>)"
| joined: "th_main s = Joining \<Longrightarrow> thread_over (th_machine s) \<Longrightarrow> thread_over (th_process s) \<Longrightarrow>
    example_step C ms ps s (s\<lparr>th_main := Leaving None\<rparr>)"
| interrupted: "th_main s = Joining \<Longrightarrow>
    example_step C ms ps s (s\<lparr>th_main := Leaving None, th_machine_stop := hs_stop (heartbeat_scheduler_stop ms)\<rparr>)"
| block_interrupted: "th_main s = Entering \<or> th_main s = Half_started \<or> th_main s = Leaving x \<Longrightarrow>
    example_step C ms ps s (s\<lparr>th_main := Leaving (Some Interrupt)\<rparr>)"
| leaves: "th_main s = Leaving x \<Longrightarrow>
    example_step C ms ps s (s\<lparr>th_main := Disposing x, th_process_stop := ps_stop (fst (process_dispose C ps))\<rparr>)"
| deletes: "th_main s = Disposing x \<Longrightarrow> snd (process_dispose C ps) (th_history s) = (v, h) \<Longrightarrow>
    example_step C ms ps s (set_history h s\<lparr>th_main := Deleting x v\<rparr>)"
| dispose_raised: "th_main s = Deleting x (Inl e) \<Longrightarrow> example_step C ms ps s (s\<lparr>th_main := Undisposed e\<rparr>)"
| disposed: "th_main s = Deleting x (Inr u) \<Longrightarrow>
    example_step C ms ps s (s\<lparr>th_main := (case x of None \<Rightarrow> Closing | Some c \<Rightarrow> Failed c)\<rparr>)"
| closes: "th_main s = Closing \<Longrightarrow> example_step C ms ps s (close_session s\<lparr>th_main := Ended\<rparr>)"
| disposal_interrupted: "th_main s = Disposing x \<or> th_main s = Deleting x v \<or> th_main s = Closing \<Longrightarrow>
    example_step C ms ps s (s\<lparr>th_main := Aborted\<rparr>)"

section \<open>The process slot is freed\<close>

definition example_event :: "heartbeat_scheduler \<Rightarrow> process_heartbeat_scheduler \<Rightarrow> event \<Rightarrow> bool" where
  "example_event ms ps ev \<longleftrightarrow>
     heartbeat_event (ping_heartbeat_path (hs_machine_id ms)) (hs_interval ms) ev \<or>
     heartbeat_event (ping_process_path (ps_process_id ps)) (ps_interval ps) ev"

definition deletion_request :: "process_heartbeat_scheduler \<Rightarrow> http_request \<Rightarrow> bool" where
  "deletion_request ps rq \<longleftrightarrow> rq_method rq = lit ''DELETE'' \<and> rq_url rq = slash ''processes'' (ps_process_id ps)"

definition process_pings :: "process_heartbeat_scheduler \<Rightarrow> event list \<Rightarrow> nat" where
  "process_pings ps es = length (filter (\<lambda>rq. rq_url rq = ping_process_path (ps_process_id ps)) (sends es))"

lemma process_pings_append [simp]: "process_pings ps (es @ fs) = process_pings ps es + process_pings ps fs"
  by (simp add: process_pings_def)

lemma process_pings_Nil [simp]: "process_pings ps [] = 0"
  by (simp add: process_pings_def)

lemma process_pings_le: "process_pings ps es \<le> length (sends es)"
  by (simp add: process_pings_def)

text \<open>The events since the start: pings and sleeps, and one deletion after at most so many pings of the process.\<close>

definition pings_only :: "heartbeat_scheduler \<Rightarrow> process_heartbeat_scheduler \<Rightarrow> event list \<Rightarrow> bool" where
  "pings_only ms ps es \<longleftrightarrow> list_all (example_event ms ps) es"

definition slot_freed ::
  "client \<Rightarrow> heartbeat_scheduler \<Rightarrow> process_heartbeat_scheduler \<Rightarrow> event list \<Rightarrow> bool" where
  "slot_freed C ms ps es \<longleftrightarrow>
     (\<exists>before rq after. es = before @ [Sent rq] @ after \<and> deletion_request ps rq \<and>
        pings_only ms ps (before @ after) \<and>
        process_pings ps after \<le> Suc (nat (cf_max_retries (cl_config C))))"

definition process_owes :: "client \<Rightarrow> threads \<Rightarrow> nat" where
  "process_owes C s = (case th_process s of None \<Rightarrow> 0 | Some p \<Rightarrow> stopped_owes C p)"

fun before_stop :: "main_point \<Rightarrow> bool" where
  "before_stop Entering = True"
| "before_stop Half_started = True"
| "before_stop Joining = True"
| "before_stop (Leaving x) = True"
| "before_stop _ = False"

text \<open>
  The invariant splits the events at the stop of the process loop and at the deletion. From the stop on,
  the process pings sent and still owed are those of one ping.
\<close>

definition stopped_events ::
  "client \<Rightarrow> heartbeat_scheduler \<Rightarrow> process_heartbeat_scheduler \<Rightarrow> threads \<Rightarrow> event list \<Rightarrow> event list \<Rightarrow>
     event list \<Rightarrow> event list \<Rightarrow> bool" where
  "stopped_events C ms ps s es0 es1 ds es2 \<longleftrightarrow>
     pings_only ms ps (es0 @ es1 @ es2) \<and>
     (ds = [] \<and> es2 = [] \<or> (\<exists>rq. ds = [Sent rq] \<and> deletion_request ps rq)) \<and>
     (if before_stop (th_main s) then es1 = [] \<and> ds = []
      else th_process_stop s \<and>
        process_pings ps (es1 @ es2) + process_owes C s \<le> Suc (nat (cf_max_retries (cl_config C))))"

definition main_says :: "threads \<Rightarrow> event list \<Rightarrow> bool" where
  "main_says s ds \<longleftrightarrow>
     (case th_main s of
        Disposing x \<Rightarrow> ds = []
      | Deleting x v \<Rightarrow> (case v of Inl e \<Rightarrow> \<not> is_tamga NotFoundError e | Inr u \<Rightarrow> ds \<noteq> [])
      | Closing \<Rightarrow> ds \<noteq> []
      | Ended \<Rightarrow> ds \<noteq> [] \<and> \<not> se_open (th_session s)
      | Failed c \<Rightarrow> ds \<noteq> []
      | Undisposed e \<Rightarrow> \<not> is_tamga NotFoundError e
      | _ \<Rightarrow> True)"

definition example_inv ::
  "client \<Rightarrow> heartbeat_scheduler \<Rightarrow> process_heartbeat_scheduler \<Rightarrow> history \<Rightarrow> threads \<Rightarrow> bool" where
  "example_inv C ms ps h s \<longleftrightarrow>
     (\<exists>es0 es1 ds es2. th_history s = h @ es0 @ es1 @ ds @ es2 \<and> stopped_events C ms ps s es0 es1 ds es2 \<and>
        main_says s ds)"

lemma threads_sel [simp]:
  "th_history (set_history h s) = h" "th_main (set_history h s) = th_main s"
  "th_process_stop (set_history h s) = th_process_stop s" "th_process (set_history h s) = th_process s"
  "se_open (th_session (set_history h s)) = se_open (th_session s)"
  "th_history (s\<lparr>th_machine := p\<rparr>) = th_history s" "th_history (s\<lparr>th_process := p\<rparr>) = th_history s"
  "th_history (s\<lparr>th_main := m\<rparr>) = th_history s" "th_history (s\<lparr>th_machine_stop := b\<rparr>) = th_history s"
  "th_history (s\<lparr>th_process_stop := b\<rparr>) = th_history s"
  "th_history (close_session s) = th_history s" "th_process_stop (close_session s) = th_process_stop s"
  "th_process (close_session s) = th_process s" "\<not> se_open (th_session (close_session s))"
  by (simp_all add: th_history_def set_history_def close_session_def client_close_def)

lemma pings_only_append [simp]: "pings_only ms ps (es @ fs) \<longleftrightarrow> pings_only ms ps es \<and> pings_only ms ps fs"
  by (simp add: pings_only_def)

lemma pings_only_Nil [simp]: "pings_only ms ps []"
  by (simp add: pings_only_def)

lemma paths_differ: "ping_heartbeat_path i \<noteq> ping_process_path j"
  by (simp add: ping_heartbeat_path_def ping_process_path_def slash_def lit_def)

lemma no_process_pings:
  "list_all (heartbeat_event (ping_heartbeat_path i) d) es \<Longrightarrow> process_pings ps es = 0"
  by (induction es)
    (auto simp: process_pings_def heartbeat_event_def to_path_def paths_differ split: event.splits)

lemma machine_thread:
  assumes "machine_step C ms (p, b, h) (p', b', h')"
  shows "\<exists>es. h' = h @ es \<and> pings_only ms ps es \<and> process_pings ps es = 0"
proof -
  obtain es where es: "h' = h @ es"
    "list_all (heartbeat_event (ping_heartbeat_path (hs_machine_id ms)) (hs_interval ms)) es"
    using machine_loop.step_events [OF assms [unfolded machine_step_def]] by blast
  then show ?thesis
    using no_process_pings [OF es(2), of ps]
    by (intro exI [of _ es]) (auto simp: pings_only_def example_event_def list_all_iff)
qed

lemma process_thread:
  assumes "process_step C ps (p, b, h) (p', b', h')"
  shows "\<exists>es. h' = h @ es \<and> pings_only ms ps es \<and>
    (b \<longrightarrow> process_pings ps es + stopped_owes C p' \<le> stopped_owes C p)"
proof -
  obtain es where es: "h' = h @ es" "list_all (heartbeat_event (ping_process_path (ps_process_id ps)) (ps_interval ps)) es"
    "b \<longrightarrow> length (sends es) + stopped_owes C p' \<le> stopped_owes C p"
    using process_loop.step_events [OF assms [unfolded process_step_def]] by blast
  then show ?thesis
    using process_pings_le [of ps es]
    by (intro exI [of _ es]) (auto simp: pings_only_def example_event_def list_all_iff)
qed

lemma stopped_owes_le: "stopped_owes C p \<le> Suc (nat (cf_max_retries (cl_config C)))"
proof (cases p)
  case (Pinging r)
  then show ?thesis by (cases r) (auto simp: retries_def)
qed simp_all

text \<open>A deletion that was not sent did not fail for want of the row.\<close>

lemma deletion_unsent:
  assumes "prepare_request C (lit ''DELETE'') (slash ''processes'' i) None [] None False = Inl e"
  shows "processes_delete C i h = (Inl e, h)" and "\<not> is_tamga NotFoundError e"
proof -
  show "processes_delete C i h = (Inl e, h)"
    using assms by (simp add: processes_delete_def send_request_def send_request_raw_def send_raw_response_def
        ebind_def lift_apply)
  have "raises_only (\<lambda>e. e = ValueError \<or> e = UnicodeEncodeError)
      (prepare_request C (lit ''DELETE'') (slash ''processes'' i) None [] None False)"
    by (intro raises_intros) simp_all
  with assms show "\<not> is_tamga NotFoundError e" by (auto simp: raises_only_def is_tamga_def)
qed

lemma deletion_sent:
  assumes "prepare_request C (lit ''DELETE'') (slash ''processes'' i) None [] None False = Inr rq"
  shows "snd (processes_delete C i h) = h @ [Sent rq]"
    and "rq_method rq = lit ''DELETE''" "rq_url rq = slash ''processes'' i"
proof -
  show sel: "rq_method rq = lit ''DELETE''" "rq_url rq = slash ''processes'' i"
    using prepare_request_Inr(1,2) [OF assms] by simp_all
  then have "request_with_retry C rq h = (answer C h rq, h @ [Sent rq])"
    using request_sent_once [of rq C h] not_retried(1) by simp
  then show "snd (processes_delete C i h) = h @ [Sent rq]"
    by (cases "answer C h rq")
      (auto simp: processes_delete_def send_request_def send_request_raw_def send_raw_response_def assms
        ebind_def lift_apply ret_apply split: sum.splits)
qed

lemma disposal_ends:
  assumes "snd (process_dispose C ps) h = (v, h')"
  shows "\<exists>ds. h' = h @ ds \<and> (ds = [] \<or> (\<exists>rq. ds = [Sent rq] \<and> deletion_request ps rq)) \<and>
    (case v of Inl e \<Rightarrow> \<not> is_tamga NotFoundError e | Inr u \<Rightarrow> ds \<noteq> [])"
proof (cases "prepare_request C (lit ''DELETE'') (slash ''processes'' (ps_process_id ps)) None [] None False")
  case (Inl e)
  with assms deletion_unsent(1) [OF Inl, of h] deletion_unsent(2) [OF Inl] show ?thesis
    by (auto simp: process_dispose_call)
next
  case (Inr rq)
  from deletion_sent(1) [OF Inr, of h] deletion_sent(2,3) [OF Inr] assms show ?thesis
    by (intro exI [of _ "[Sent rq]"])
      (auto simp: process_dispose_call deletion_request_def split: prod.splits sum.splits if_splits)
qed

text \<open>A daemon thread moves: the invariant takes its events.\<close>

lemma inv_thread:
  assumes "example_inv C ms ps h s" "pings_only ms ps es" "th_history s' = th_history s @ es"
    and "th_main s' = th_main s" "th_process_stop s' = th_process_stop s"
    and "se_open (th_session s') = se_open (th_session s)"
    and "th_process_stop s \<Longrightarrow> process_pings ps es + process_owes C s' \<le> process_owes C s"
  shows "example_inv C ms ps h s'"
proof -
  from assms(1) obtain es0 es1 ds es2 where inv: "th_history s = h @ es0 @ es1 @ ds @ es2"
    "stopped_events C ms ps s es0 es1 ds es2" "main_says s ds"
    unfolding example_inv_def by blast
  have says: "main_says s' ds" using inv(3) assms(4,6) by (auto simp: main_says_def split: main_point.splits)
  have owes: "process_pings ps es + process_owes C s' \<le> process_owes C s" if "\<not> before_stop (th_main s)"
    using assms(7) inv(2) that by (simp add: stopped_events_def)
  obtain fs0 fs1 fs2 where "es0 @ es1 @ ds @ es2 @ es = fs0 @ fs1 @ ds @ fs2"
    "stopped_events C ms ps s' fs0 fs1 ds fs2"
  proof (cases "before_stop (th_main s)")
    case True
    with inv(2) have none: "es1 = []" "ds = []" "es2 = []" by (auto simp: stopped_events_def)
    with True inv(2) assms(2,4) that [of "es0 @ es" "[]" "[]"] show thesis by (simp add: stopped_events_def)
  next
    case late: False
    show thesis
    proof (cases "ds = []")
      case True
      with inv(2) assms(2,4,5) late owes that [of es0 "es1 @ es" "[]"] show thesis
        by (simp add: stopped_events_def)
    next
      case False
      with inv(2) assms(2,4,5) late owes that [of es0 es1 "es2 @ es"] show thesis
        by (simp add: stopped_events_def)
    qed
  qed
  with inv(1) assms(3) says show ?thesis
    unfolding example_inv_def by (metis append.assoc)
qed

lemma inv_main:
  assumes "example_inv C ms ps h s" "th_history s' = th_history s" "th_process_stop s' = th_process_stop s"
    and "process_owes C s' = process_owes C s \<or> before_stop (th_main s')"
    and "before_stop (th_main s') = before_stop (th_main s)" "\<And>ds. main_says s ds \<Longrightarrow> main_says s' ds"
  shows "example_inv C ms ps h s'"
  using assms unfolding example_inv_def stopped_events_def by metis

lemma example_inv_step:
  assumes "example_step C ms ps s s'" "example_inv C ms ps h s"
  shows "example_inv C ms ps h s'"
  using assms(1)
proof (cases rule: example_step.cases)
  case (machine_moves p p' h')
  obtain es where "h' = th_history s @ es" "pings_only ms ps es" "process_pings ps es = 0"
    using machine_thread [OF machine_moves(4)] by blast
  with machine_moves show ?thesis by (intro inv_thread [OF assms(2)]) (simp_all add: process_owes_def)
next
  case (process_moves p p' h')
  obtain es where "h' = th_history s @ es" "pings_only ms ps es"
    "th_process_stop s \<longrightarrow> process_pings ps es + stopped_owes C p' \<le> stopped_owes C p"
    using process_thread [OF process_moves(4)] by blast
  with process_moves show ?thesis by (intro inv_thread [OF assms(2)]) (simp_all add: process_owes_def)
next
  case (machine_cut q e)
  then show ?thesis by (intro inv_thread [OF assms(2), of "[]"]) (simp_all add: process_owes_def)
next
  case (process_cut q e)
  then show ?thesis by (intro inv_thread [OF assms(2), of "[]"]) (simp_all add: process_owes_def)
next
  case (leaves x)
  have "process_owes C s \<le> Suc (nat (cf_max_retries (cl_config C)))"
    using stopped_owes_le by (simp add: process_owes_def split: option.split)
  moreover obtain es0 where "th_history s = h @ es0" "pings_only ms ps es0"
    using assms(2) leaves by (auto simp: example_inv_def stopped_events_def)
  ultimately show ?thesis
    using leaves unfolding example_inv_def
    by (intro exI [of _ es0] exI [of _ "[]"])
      (simp add: stopped_events_def main_says_def dispose_stops process_owes_def)
next
  case (deletes x v h')
  from assms(2) deletes(2) obtain es0 es1 where inv: "th_history s = h @ es0 @ es1"
    "pings_only ms ps es0" "pings_only ms ps es1" "th_process_stop s"
    "process_pings ps es1 + process_owes C s \<le> Suc (nat (cf_max_retries (cl_config C)))"
    by (auto simp: example_inv_def stopped_events_def main_says_def)
  obtain ds where ds: "h' = th_history s @ ds" "ds = [] \<or> (\<exists>rq. ds = [Sent rq] \<and> deletion_request ps rq)"
    "case v of Inl e \<Rightarrow> \<not> is_tamga NotFoundError e | Inr u \<Rightarrow> ds \<noteq> []"
    using disposal_ends [OF deletes(3)] by blast
  have "stopped_events C ms ps s' es0 es1 ds []"
    using inv ds(2) deletes(1) by (auto simp: stopped_events_def process_owes_def)
  moreover have "main_says s' ds" using ds(3) deletes(1) by (simp add: main_says_def)
  ultimately show ?thesis
    using inv(1) ds(1) deletes(1) unfolding example_inv_def
    by (intro exI [of _ es0] exI [of _ es1] exI [of _ ds] exI [of _ "[]"]) simp
next
  case (disposed x u)
  then show ?thesis
    by (cases x; intro inv_main [OF assms(2)]) (simp_all add: main_says_def process_owes_def)
qed (intro inv_main [OF assms(2)]; auto simp: main_says_def process_owes_def)+

lemma example_reachable:
  "(example_step C ms ps)\<^sup>*\<^sup>* (threads_start t) s \<Longrightarrow> example_inv C ms ps (se_history t) s"
proof (induction rule: rtranclp_induct)
  case base
  show ?case
    by (simp add: example_inv_def stopped_events_def main_says_def threads_start_def th_history_def)
qed (rule example_inv_step)

lemma stopped_freed:
  assumes "stopped_events C ms ps s es0 es1 ds es2" "ds \<noteq> []" "\<not> before_stop (th_main s)"
  shows "slot_freed C ms ps (es0 @ es1 @ ds @ es2)"
proof -
  from assms obtain rq where rq: "ds = [Sent rq]" "deletion_request ps rq"
    by (auto simp: stopped_events_def)
  have "pings_only ms ps ((es0 @ es1) @ es2)" "process_pings ps es2 \<le> Suc (nat (cf_max_retries (cl_config C)))"
    using assms by (simp_all add: stopped_events_def)
  with rq show ?thesis unfolding slot_freed_def
    by (intro exI [of _ "es0 @ es1"] exI [of _ rq] exI [of _ es2]) simp
qed

text \<open>From anywhere the main thread can end, by an interrupt if the threads do not.\<close>

lemma main_can_end:
  assumes "main_runs (th_main s)"
  shows "\<exists>s'. (example_step C ms ps)\<^sup>*\<^sup>* s s' \<and> (th_main s' = Ended \<or> (\<exists>c. th_main s' = Failed c) \<or> (\<exists>e. th_main s' = Undisposed e))"
proof -
  let ?ends = "\<lambda>s. \<exists>s'. (example_step C ms ps)\<^sup>*\<^sup>* s s' \<and>
    (th_main s' = Ended \<or> (\<exists>c. th_main s' = Failed c) \<or> (\<exists>e. th_main s' = Undisposed e))"
  have step: "?ends s" if "example_step C ms ps s s'" "?ends s'" for s s'
    using that by (meson converse_rtranclp_into_rtranclp)
  have over: "?ends s" if "th_main s = Ended \<or> (\<exists>c. th_main s = Failed c) \<or> (\<exists>e. th_main s = Undisposed e)" for s
    using that by blast
  have closing: "?ends s" if "th_main s = Closing" for s
    by (rule step [OF example_step.closes [OF that] over]) simp
  have deleting: "?ends s" if "th_main s = Deleting x v" for s x v
  proof (cases v)
    case (Inl e)
    show ?thesis by (rule step [OF example_step.dispose_raised over]) (use that Inl in simp_all)
  next
    case (Inr u)
    have "?ends (s\<lparr>th_main := (case x of None \<Rightarrow> Closing | Some c \<Rightarrow> Failed c)\<rparr>)"
    proof (cases x)
      case None
      then show ?thesis using closing [of "s\<lparr>th_main := Closing\<rparr>"] by simp
    next
      case (Some c)
      then show ?thesis using over [of "s\<lparr>th_main := Failed c\<rparr>"] by simp
    qed
    with that Inr show ?thesis by (blast intro: step example_step.disposed)
  qed
  have disposing: "?ends s" if "th_main s = Disposing x" for s x
    by (cases "snd (process_dispose C ps) (th_history s)")
      (rule step [OF example_step.deletes [OF that] deleting], assumption, simp)
  have leaving: "?ends s" if "th_main s = Leaving x" for s x
    by (rule step [OF example_step.leaves [OF that] disposing]) simp
  have early: "?ends s" if "th_main s = Entering \<or> th_main s = Half_started" for s
    by (rule step [OF example_step.start_failed [OF that] leaving]) simp
  have joining: "?ends s" if "th_main s = Joining" for s
    by (rule step [OF example_step.interrupted [OF that] leaving]) simp
  show ?thesis
    using assms closing deleting disposing leaving early joining by (cases "th_main s") auto
qed

text \<open>
  C13: the process slot is freed. Take any state the three threads can reach, whatever the server
  answers, however their requests, answers, back-offs and sleeps interleave with each other and with
  the disposal, and wherever an interrupt strikes. Until the disposal has begun nothing but pings of
  this machine and process and sleeps has happened. When the program has ended, or failed with what
  left its block, the process loop was stopped and exactly one deletion of the process was sent; all
  else that happened is pings and sleeps, and after the deletion the process was pinged no more than
  one ping's \<open>max_retries + 1\<close> requests, those of the ping then under way. If it ended normally the
  client is closed. The ways out without that are an error of the deletion other than the row being
  gone, and an interrupt of the disposal itself. And the main thread can always be brought to an end.
\<close>

theorem heartbeat_example_frees_slot:
  "{s. (example_step C ms ps)\<^sup>*\<^sup>* (threads_start t) s} \<subseteq>
     {s. (\<exists>es. th_history s = se_history t @ es \<and>
            (case th_main s of
               Ended \<Rightarrow> th_process_stop s \<and> slot_freed C ms ps es \<and> \<not> se_open (th_session s)
             | Failed c \<Rightarrow> th_process_stop s \<and> slot_freed C ms ps es
             | Closing \<Rightarrow> th_process_stop s \<and> slot_freed C ms ps es
             | Undisposed e \<Rightarrow> th_process_stop s \<and> \<not> is_tamga NotFoundError e \<and>
                 (slot_freed C ms ps es \<or> pings_only ms ps es)
             | Aborted \<Rightarrow> th_process_stop s \<and> (slot_freed C ms ps es \<or> pings_only ms ps es)
             | Deleting x v \<Rightarrow> th_process_stop s \<and> (slot_freed C ms ps es \<or> pings_only ms ps es)
             | Disposing x \<Rightarrow> th_process_stop s \<and> pings_only ms ps es
             | _ \<Rightarrow> pings_only ms ps es)) \<and>
         (\<exists>s'. (example_step C ms ps)\<^sup>*\<^sup>* s s' \<and> \<not> main_runs (th_main s'))}"
proof (intro subsetI CollectI conjI; drule CollectD)
  fix s assume r: "(example_step C ms ps)\<^sup>*\<^sup>* (threads_start t) s"
  obtain es0 es1 ds es2 where inv: "th_history s = se_history t @ es0 @ es1 @ ds @ es2"
    "stopped_events C ms ps s es0 es1 ds es2" "main_says s ds"
    using example_reachable [OF r] unfolding example_inv_def by blast
  let ?es = "es0 @ es1 @ ds @ es2"
  have freed: "slot_freed C ms ps ?es" if "ds \<noteq> []" "\<not> before_stop (th_main s)"
    using inv(2) that by (rule stopped_freed)
  have pings: "pings_only ms ps ?es" if "ds = []" using inv(2) that by (simp add: stopped_events_def)
  have stop: "\<not> before_stop (th_main s) \<Longrightarrow> th_process_stop s" "before_stop (th_main s) \<Longrightarrow> ds = []"
    using inv(2) by (simp_all add: stopped_events_def)
  show "\<exists>es. th_history s = se_history t @ es \<and>
            (case th_main s of
               Ended \<Rightarrow> th_process_stop s \<and> slot_freed C ms ps es \<and> \<not> se_open (th_session s)
             | Failed c \<Rightarrow> th_process_stop s \<and> slot_freed C ms ps es
             | Closing \<Rightarrow> th_process_stop s \<and> slot_freed C ms ps es
             | Undisposed e \<Rightarrow> th_process_stop s \<and> \<not> is_tamga NotFoundError e \<and>
                 (slot_freed C ms ps es \<or> pings_only ms ps es)
             | Aborted \<Rightarrow> th_process_stop s \<and> (slot_freed C ms ps es \<or> pings_only ms ps es)
             | Deleting x v \<Rightarrow> th_process_stop s \<and> (slot_freed C ms ps es \<or> pings_only ms ps es)
             | Disposing x \<Rightarrow> th_process_stop s \<and> pings_only ms ps es
             | _ \<Rightarrow> pings_only ms ps es)"
    using inv(1,3) freed pings stop
    by (intro exI [of _ ?es]) (cases "th_main s"; cases "ds = []"; simp add: main_says_def)
  show "\<exists>s'. (example_step C ms ps)\<^sup>*\<^sup>* s s' \<and> \<not> main_runs (th_main s')"
  proof (cases "main_runs (th_main s)")
    case True
    from main_can_end [OF this, of C ms ps] show ?thesis by (metis main_runs.simps(1-3))
  qed blast
qed

end
