(* ===== verification/Spec2Isabelle.thy ===== *)
theory Spec2Isabelle
  imports Fingerprint Error_Parsing Offline_Files Api_Errors Heartbeat Tamga_Client Example_Programs
    Example_Heartbeat
begin

text \<open>
  A verification library for the \<open>tamga\<close> Python SDK, \<open>src/src/tamga\<close>: a client of a
  licensing server, and the offline verification of the license files, machine files and proofs
  that server signs.

  \<^bold>\<open>The program.\<close> An application either asks the server (\<open>client.py\<close>: nine sub-clients over one
  HTTP helper that authenticates, retries throttled requests and turns error envelopes into
  exceptions) or verifies a file it was given earlier (\<open>checkout/\<close> and \<open>proof.py\<close>, over the
  wrappers of \<open>crypto/\<close>). \<open>fingerprint.py\<close> derives the machine identity both sides compare,
  \<open>models/\<close> holds the data, \<open>errors.py\<close> the exceptions and \<open>transport.py\<close> the wire helpers. The
  five programs of \<open>src/examples\<close> put these together.

  \<^bold>\<open>Theories and what they model.\<close>
  \<^item> \<open>Prelude\<close>, \<open>Py_Text\<close>, \<open>Values\<close>, \<open>Json\<close>: the language. Strings are code point lists,
    bytes are \<open>8 word list\<close>, exceptions are \<open>exc + 'a\<close>, effects pass a state; UTF-8, base64, hex,
    UUID texts, IEEE doubles as \<open>64 word\<close>, and \<open>json.loads\<close>/\<open>json.dumps\<close> themselves.
    \<open>Json_Round_Trip\<close> proves that reading inverts writing.
  \<^item> \<open>Sha256\<close>: FIPS 180-4 over \<open>32 word\<close>, executable, with the documented digests computed.
  \<^item> \<open>Enums\<close>, \<open>Errors\<close>, \<open>Error_Parsing\<close>: the wire enumerations with their lenient readers
    (locales \<open>closed_enum\<close> and \<open>lenient_enum\<close>), the exception hierarchy and \<open>parse_error_envelope\<close>.
  \<^item> \<open>Fingerprint\<close>: \<open>fingerprint.py\<close> whole.
  \<^item> \<open>Crypto\<close>: the five modules of \<open>crypto/\<close> over a record \<open>crypto\<close> of the primitives of the
    \<open>cryptography\<close> package.
  \<^item> \<open>Envelope\<close> (\<open>checkout/_envelope.py\<close>, locale \<open>certificate_format\<close>), \<open>Signing_Keys\<close>
    (\<open>models/signing_key.py\<close>, \<open>checkout/key_set.py\<close>, locale \<open>key_set_file\<close> for what the two
    file kinds share), \<open>License_File\<close> and \<open>Machine_File\<close> (\<open>checkout/license_file.py\<close>,
    \<open>checkout/machine_file.py\<close>), \<open>Offline_Files\<close> (the entry points of both, and what a signature is
    for), \<open>Proof_Token\<close> (\<open>proof.py\<close>).
  \<^item> \<open>Transport\<close> (\<open>transport.py\<close>), \<open>Http_Client\<close> (the helpers of \<open>client.py\<close> and its retry
  \<^item> \<open>Transport\<close> (\<open>transport.py\<close>), \<open>Http_Client\<close> (the helpers of \<open>client.py\<close> and its retry
    loop), \<open>Request_Steps\<close> (the same loop one request, answer and back-off at a time), \<open>Policy\<close> \<open>Resources\<close> (the resource readers, locale \<open>resource_parser\<close>).
  \<^item> \<open>Entitlements_Client\<close>, \<open>Licenses_Client\<close>, \<open>Machines_Client\<close>, \<open>Other_Clients\<close>: the
    operations of the sub-clients, one definition each, composed as the source composes them
    (locale \<open>keyset_listing\<close> for the three cursor listings).
  \<^item> \<open>Heartbeat\<close>: the two schedulers, their loops as step relations in which \<open>stop\<close> can come between
    any two events of a ping (locales \<open>heartbeat_loop\<close> and \<open>paced_loop\<close>).
  \<^item> \<open>Machine_Activation\<close>, \<open>Api_Contract\<close>, \<open>Api_Errors\<close>: results about the operations: activation
    and the search, the route of each, how each fails. \<open>Scripted_Server\<close>: a server for the instances.
  \<^item> \<open>Tamga_Client\<close>: the facade \<open>TamgaClient\<close>, its construction and closing, and the sessions in
    which programs over it run. \<open>Example_Programs\<close> and \<open>Example_Heartbeat\<close>: \<open>src/examples\<close>, whose
    theorems compose those of the components, from the issuer of a license to the line a program prints.

  \<^bold>\<open>The world.\<close> A \<open>client\<close> holds the configuration and, as functions of the history of requests
  and sleeps so far, the server's answers, the random numbers and the clock. Every call extends that
  history, so claims on what is sent, in which order and how often are claims on the events a call
  appends (\<open>emits\<close>, \<open>sends_once\<close>, \<open>urls\<close>), and claims on its exceptions are \<open>throws\<close>.
  Of the server a theorem assumes only what its own hypotheses name; the others hold for any answers.

  \<^bold>\<open>What is shown.\<close> Files: exactly which are accepted, under one key or a key set, and what every
  other raises; that files in the documented format verify back to their content. Fingerprints: their
  canonical form identifies the components. Requests: the retry loop terminates, refines the retry
  protocol and has bounded cost; each operation talks to its own routes and fails exactly as the answer
  it got says. Activation: what is sent, what is rolled back and what the error says. Heartbeats: no busy
  loop, what a stop stops, and how a loop ends. Programs: that what they print was verified or happened,
  and that every interleaving of the heartbeat threads frees the process slot.

  \<^bold>\<open>Bounds and fuel.\<close> The JSON reader takes fuel, \<open>2 * length + 2\<close> of its input: every step of it
  consumes a character or closes a container, and \<open>Json_Round_Trip\<close> shows it enough for all that is
  written. The retry loop is a total function (its attempts are bounded by \<open>max_retries\<close>), its
  steps decrease \<open>request_steps_left\<close>, and the search by fingerprint recurses over its page numbers.

  \<^bold>\<open>Parameters.\<close> The record \<open>crypto\<close> (signature checks, key loading, HKDF, AES-GCM), the record
  \<open>runtime\<close> (tables of the Unicode database, decimal conversion of floats, the ISO 8601 reader) and the
  functions of a \<open>client\<close> stand for what is not source. Round trips of files assume that the
  primitives invert the writer's, and authenticity (C10) that the signing keys and the cipher accept
  nothing but what the issuer made; each theorem that does has an instance.

  \<^bold>\<open>Not modelled.\<close> Texts of exceptions, warnings and printed lines (a line is the list of its pieces);
  the recursion limit of the JSON reader; the merge of the base URL into a path and the encoding of a
  request, which httpx does; the merging of parameters into a URL; \<open>__repr__\<close> and hashing; what httpx
  answers once it is closed (the heartbeat threads may then get any exception); interrupts of the
  programs other than the heartbeat one; the re-exports of the package's \<open>__init__.py\<close> files, which have no operation; tests.
\<close>

section \<open>Properties across the sub-clients\<close>

text \<open>
  C21: every operation of the sub-clients talks to its own routes only. Whatever the server answers,
  the requests an operation sends all have the one method and path the table gives it, with the
  identifiers it was called with, and the pauses between them last at most a minute. Three operations
  have more than one route: a download, its own and then the bare request to the storage host; an
  activation, those of the creation, of the validation of its license and of a machine's deletion; the
  idempotent activation, those and the reading and listing of machines.
\<close>

theorem operation_routes:
  "emits (to_path (lit ''POST'') (lit ''/licenses/actions/validate-key'')) (validate_by_key C ents key) \<and>
   emits (to_path (lit ''POST'') (slash ''licenses'' l @ lit ''/actions/validate''))
     (validate_by_id C ents l scope touch) \<and>
   emits (to_path (lit ''GET'') (slash ''licenses'' l @ lit ''/actions/validate'')) (quick_validate C l) \<and>
   emits (to_path (lit ''GET'') (slash ''licenses'' l)) (licenses_get C ents l) \<and>
   emits (to_path (lit ''GET'') (slash ''licenses'' l @ lit ''/policy'')) (get_policy C l) \<and>
   emits (to_path (lit ''POST'') (slash ''licenses'' l @ lit ''/actions/check-in'')) (check_in C ents l) \<and>
   emits (to_path (if raw then lit ''GET'' else lit ''POST'') (slash ''licenses'' l @ lit ''/actions/check-out''))
     (license_check_out C l encrypt ttl raw) \<and>
   emits (to_path (lit ''GET'') (slash ''licenses'' l @ lit ''/entitlements'')) (entitlements_list C l limit cursor) \<and>
   emits (to_path (lit ''GET'') (slash ''licenses'' l @ lit ''/entitlements'')) (entitlements_list_all C l) \<and>
   emits (to_path (lit ''GET'') (slash ''licenses'' l @ lit ''/entitlements''))
     (refresh_entitlements C (x\<lparr>li_entitlements_fetcher := Some l\<rparr>)) \<and>
   emits (to_path (lit ''GET'') (slash ''licenses'' l @ lit ''/entitlements''))
     (has_entitlement C (x\<lparr>li_entitlements_fetcher := Some l\<rparr>) code) \<and>
   emits (to_path (lit ''GET'') (entitlement_path l e)) (entitlements_get C l e) \<and>
   emits (to_path (lit ''POST'') (entitlement_path l e @ lit ''/actions/increment''))
     (increment_entitlement_usage C l e n) \<and>
   emits (to_path (lit ''POST'') (entitlement_path l e @ lit ''/actions/decrement''))
     (decrement_entitlement_usage C l e n) \<and>
   emits (to_path (lit ''POST'') (entitlement_path l e @ lit ''/actions/reset'')) (reset_entitlement_usage C l e) \<and>
   emits (to_path (lit ''POST'') (lit ''/machines'')) (machines_create C l fp a) \<and>
   emits (to_path (lit ''DELETE'') (slash ''machines'' m)) (machines_delete C m) \<and>
   emits (to_path (lit ''GET'') (slash ''machines'' m)) (machines_get C m) \<and>
   emits (to_path (lit ''PATCH'') (slash ''machines'' m)) (machines_update C m a) \<and>
   emits (to_path (lit ''POST'') (slash ''machines'' m @ lit ''/actions/ping-heartbeat'')) (ping_heartbeat C m) \<and>
   emits (to_path (lit ''POST'') (slash ''machines'' m @ lit ''/actions/reset-heartbeat'')) (reset_heartbeat C m) \<and>
   emits (to_path (lit ''GET'') (lit ''/machines'')) (machines_list C page page_size query l' platform) \<and>
   emits (to_path (lit ''GET'') (lit ''/machines'')) (find_by_fingerprint C fp l pages) \<and>
   emits (to_path (if raw then lit ''GET'' else lit ''POST'') (slash ''machines'' m @ lit ''/actions/check-out''))
     (machine_check_out C m encrypt ttl raw) \<and>
   emits (to_path (lit ''POST'') (slash ''machines'' m @ lit ''/actions/generate-offline-proof''))
     (generate_offline_proof C m dataset) \<and>
   emits (to_path (lit ''POST'') (lit ''/components'')) (components_create C m fp name metadata) \<and>
   emits (to_path (lit ''GET'') (slash ''machines'' m @ lit ''/components'')) (components_list C m limit cursor) \<and>
   emits (to_path (lit ''POST'') (lit ''/processes'')) (processes_create C m pid metadata) \<and>
   emits (to_path (lit ''POST'') (slash ''processes'' p @ lit ''/actions/ping'')) (processes_ping C p) \<and>
   emits (to_path (lit ''DELETE'') (slash ''processes'' p)) (processes_delete C p) \<and>
   emits (to_path (lit ''GET'') (slash ''machines'' m @ lit ''/processes'')) (processes_list C m limit cursor) \<and>
   emits (to_path (lit ''GET'') (lit ''/signing-keys'')) (list_signing_keys C) \<and>
   emits (to_path (lit ''GET'') (lit ''/signing-keys'')) (signing_key_set C) \<and>
   emits (to_path (lit ''GET'') (slash ''policies'' p)) (policies_get C p) \<and>
   emits (to_path (lit ''GET'') (lit ''/releases/actions/upgrade''))
     (check_for_upgrade C product os_name filetype version channel con) \<and>
   emits (to_path (lit ''GET'') (slash ''releases'' r @ lit ''/artifacts'')) (artifacts_list C r limit cursor) \<and>
   emits (to_path (lit ''GET'') (slash ''artifacts'' i)) (artifacts_get C i) \<and>
   emits (to_path (lit ''GET'') (slash ''artifacts'' i @ lit ''/actions/download'')) (get_download_url C i ttl) \<and>
   emits (to_path (lit ''GET'') (build_root_url (cf_host (cl_config C)) @ lit ''/v1/health'')) (health C) \<and>
   emits (\<lambda>ev. to_path (lit ''GET'') (slash ''artifacts'' i @ lit ''/actions/download'') ev \<or>
       (\<exists>url. ev = Sent (storage_request url))) (artifacts_download C i ttl) \<and>
   emits (activation_event l) (activate_machine C l fp a) \<and>
   emits (\<lambda>ev. activation_event l ev \<or> recovery_event ev) (activate_machine_idempotent C l fp a)"
  by (intro conjI contracts)

text \<open>
  C22: how an operation fails. With a usable configuration, every operation of one request sends it
  through the retry loop, to its own route, and nothing else. What the loop raises it raises; an answer
  of status 400 or more it raises exactly as \<open>parse_error_envelope\<close> reads it, with the delay of the
  answer (a raw check-out without); any other answer makes it raise, if anything, the error of a
  document it cannot decode or that has not the expected shape, never an error of the SDK or of httpx
  (the presign call also refuses a redirect). The operations that may send more requests do so with
  the refusal of their first: a search, a download, and an activation, whose error is normalised.
\<close>

theorem operation_errors:
  assumes "client_ready C" and "strip py_isspace fp \<noteq> []" and "1 \<le> pages"
    and "case ttl of None \<Rightarrow> True | Some t \<Rightarrow> 0 < t \<and> t \<le> max_checkout_ttl_seconds"
    and "case wait of None \<Rightarrow> True | Some t \<Rightarrow> min_presign_ttl_seconds \<le> t \<and> t \<le> max_presign_ttl_seconds"
  shows
  "reports C document_error (lit ''POST'') (lit ''/licenses/actions/validate-key'') (validate_by_key C ents key) \<and>
   reports C document_error (lit ''POST'') (slash ''licenses'' l @ lit ''/actions/validate'')
     (validate_by_id C ents l scope touch) \<and>
   reports C document_error (lit ''GET'') (slash ''licenses'' l @ lit ''/actions/validate'') (quick_validate C l) \<and>
   reports C document_error (lit ''GET'') (slash ''licenses'' l) (licenses_get C ents l) \<and>
   reports C document_error (lit ''GET'') (slash ''licenses'' l @ lit ''/policy'') (get_policy C l) \<and>
   reports C document_error (lit ''POST'') (slash ''licenses'' l @ lit ''/actions/check-in'') (check_in C ents l) \<and>
   reports C decode_error (lit ''POST'') (slash ''licenses'' l @ lit ''/actions/check-out'')
     (license_check_out C l encrypt t False) \<and>
   reports_raw C (slash ''licenses'' l @ lit ''/actions/check-out'') (license_check_out C l encrypt t True) \<and>
   reports C document_error (lit ''GET'') (slash ''licenses'' l @ lit ''/entitlements'')
     (entitlements_list C l limit cursor) \<and>
   reports C document_error (lit ''GET'') (slash ''licenses'' l @ lit ''/entitlements'') (entitlements_list_all C l) \<and>
   reports C document_error (lit ''GET'') (slash ''licenses'' l @ lit ''/entitlements'')
     (refresh_entitlements C (x\<lparr>li_entitlements_fetcher := Some l\<rparr>)) \<and>
   reports C document_error (lit ''GET'') (slash ''licenses'' l @ lit ''/entitlements'')
     (has_entitlement C (x\<lparr>li_entitlements_fetcher := Some l, li_entitlements_cache := None\<rparr>) code) \<and>
   reports C document_error (lit ''GET'') (entitlement_path l e) (entitlements_get C l e) \<and>
   reports C document_error (lit ''POST'') (entitlement_path l e @ lit ''/actions/increment'')
     (increment_entitlement_usage C l e n) \<and>
   reports C document_error (lit ''POST'') (entitlement_path l e @ lit ''/actions/decrement'')
     (decrement_entitlement_usage C l e n) \<and>
   reports C document_error (lit ''POST'') (entitlement_path l e @ lit ''/actions/reset'')
     (reset_entitlement_usage C l e) \<and>
   reports C document_error (lit ''POST'') (lit ''/machines'') (machines_create C l fp a) \<and>
   reports C decode_error (lit ''DELETE'') (slash ''machines'' m) (machines_delete C m) \<and>
   reports C document_error (lit ''GET'') (slash ''machines'' m) (machines_get C m) \<and>
   reports C document_error (lit ''PATCH'') (slash ''machines'' m) (machines_update C m a) \<and>
   reports C document_error (lit ''POST'') (slash ''machines'' m @ lit ''/actions/ping-heartbeat'') (ping_heartbeat C m) \<and>
   reports C document_error (lit ''POST'') (slash ''machines'' m @ lit ''/actions/reset-heartbeat'') (reset_heartbeat C m) \<and>
   reports C (\<lambda>e. document_error e \<or> e = OverflowError) (lit ''GET'') (lit ''/machines'')
     (machines_list C page page_size query l' platform) \<and>
   reports C decode_error (lit ''POST'') (slash ''machines'' m @ lit ''/actions/check-out'')
     (machine_check_out C m encrypt ttl False) \<and>
   reports_raw C (slash ''machines'' m @ lit ''/actions/check-out'') (machine_check_out C m encrypt ttl True) \<and>
   reports C document_error (lit ''POST'') (slash ''machines'' m @ lit ''/actions/generate-offline-proof'')
     (generate_offline_proof C m dataset) \<and>
   reports C document_error (lit ''POST'') (lit ''/components'') (components_create C m fp name metadata) \<and>
   reports C document_error (lit ''GET'') (slash ''machines'' m @ lit ''/components'') (components_list C m limit cursor) \<and>
   reports C document_error (lit ''POST'') (lit ''/processes'') (processes_create C m (JStr pid) metadata) \<and>
   reports C document_error (lit ''POST'') (slash ''processes'' p @ lit ''/actions/ping'') (processes_ping C p) \<and>
   reports C decode_error (lit ''DELETE'') (slash ''processes'' p) (processes_delete C p) \<and>
   reports C document_error (lit ''GET'') (slash ''machines'' m @ lit ''/processes'') (processes_list C m limit cursor) \<and>
   reports C document_error (lit ''GET'') (lit ''/signing-keys'') (list_signing_keys C) \<and>
   reports C document_error (lit ''GET'') (lit ''/signing-keys'') (signing_key_set C) \<and>
   reports C document_error (lit ''GET'') (slash ''policies'' p) (policies_get C p) \<and>
   reports C document_error (lit ''GET'') (lit ''/releases/actions/upgrade'')
     (check_for_upgrade C product os_name filetype version channel con) \<and>
   reports C document_error (lit ''GET'') (slash ''releases'' r @ lit ''/artifacts'') (artifacts_list C r limit cursor) \<and>
   reports C document_error (lit ''GET'') (slash ''artifacts'' i) (artifacts_get C i) \<and>
   reports C (\<lambda>e. document_error e \<or> e = OverflowError) (lit ''GET'')
     (build_root_url (cf_host (cl_config C)) @ lit ''/v1/health'') (health C) \<and>
   exchanged C (lit ''GET'') (download_path i) (reported C document_error parse_retry_after redirected)
     (get_download_url C i wait) \<and>
   stops_at_refusal C id (lit ''GET'') (lit ''/machines'') (find_by_fingerprint C fp l pages) \<and>
   stops_at_refusal C id (lit ''GET'') (download_path i) (artifacts_download C i wait) \<and>
   stops_at_refusal C creation_refused (lit ''POST'') (lit ''/machines'') (activate_machine C l fp a)"
  by (intro conjI failures assms)

text \<open>An instance: of a server that answers every request \<open>404\<close>, two operations raise that, and no other.\<close>

lemma operation_errors_witness:
  "fst (machines_get missing_client 5 []) =
     Inl (TamgaError (tamga_error_of NotFoundError 404 (JStr (lit ''NOT_FOUND'')) (JStr []) JNull None)) \<and>
   fst (artifacts_download missing_client 5 (Some 60) []) =
     Inl (TamgaError (tamga_error_of NotFoundError 404 (JStr (lit ''NOT_FOUND'')) (JStr []) JNull None))"
proof
  have hyps: "strip py_isspace (lit ''f'') \<noteq> []" "(1 :: int) \<le> 1"
    "case None :: int option of None \<Rightarrow> True | Some t \<Rightarrow> 0 < t \<and> t \<le> max_checkout_ttl_seconds"
    "case Some 60 of None \<Rightarrow> True | Some t \<Rightarrow> min_presign_ttl_seconds \<le> t \<and> t \<le> max_presign_ttl_seconds"
    by (simp_all add: strip_def rstrip_def lstrip_def lit_def py_isspace_def min_presign_ttl_seconds_def
        max_presign_ttl_seconds_def)
  have get: "reports missing_client document_error (lit ''GET'') (slash ''machines'' 5) (machines_get missing_client 5)"
    and download: "stops_at_refusal missing_client id (lit ''GET'') (download_path 5)
      (artifacts_download missing_client 5 (Some 60))"
    by (simp_all only: operation_errors [OF missing_ready hyps])
  show "fst (machines_get missing_client 5 []) =
      Inl (TamgaError (tamga_error_of NotFoundError 404 (JStr (lit ''NOT_FOUND'')) (JStr []) JNull None))"
    using get by (auto simp: reports_def exchanged_def missing_answer reported_def missing_error)
  show "fst (artifacts_download missing_client 5 (Some 60) []) =
      Inl (TamgaError (tamga_error_of NotFoundError 404 (JStr (lit ''NOT_FOUND'')) (JStr []) JNull None))"
    using download by (auto simp: stops_at_refusal_def exchanged_def missing_answer missing_error dest!: spec [of _ "[]"])
qed

end
